(* ===== verification/Rust_Prelude.thy ===== *)
theory Rust_Prelude
  imports
    Complex_Main
    "HOL-Library.Word"
    "HOL-Library.FSet"
    "HOL-Library.Finite_Map"
    "HOL-Library.List_Lexorder"
    "HOL-Library.Char_ord"
begin

text \<open>
  What the Rust sources use of the language and of its standard library, and the generic
  lemmas every component shares: results and the \<open>?\<close> operator, fixed-size arrays,
  64-bit signed time arithmetic, UTF-8 strings as byte strings, \<open>str::split\<close>,
  \<open>str::split_whitespace\<close>, decimal formatting and ordered sets.
\<close>

section \<open>Results\<close>

text \<open>
  \<open>Result<T, E>\<close> is a sum with the error on the left. \<open>try_bind\<close> is the \<open>?\<close>
  operator followed by the rest of the function, \<open>map_err\<close> and \<open>ok_or\<close> are the methods
  of the same names.
\<close>

type_synonym ('a, 'e) result = "'e + 'a"

abbreviation Ok :: "'a \<Rightarrow> ('a, 'e) result" where
  "Ok \<equiv> Inr"

abbreviation Err :: "'e \<Rightarrow> ('a, 'e) result" where
  "Err \<equiv> Inl"

definition try_bind :: "('a, 'e) result \<Rightarrow> ('a \<Rightarrow> ('b, 'e) result) \<Rightarrow> ('b, 'e) result" where
  "try_bind r f = (case r of Err e \<Rightarrow> Err e | Ok a \<Rightarrow> f a)"

definition map_err :: "('e \<Rightarrow> 'f) \<Rightarrow> ('a, 'e) result \<Rightarrow> ('a, 'f) result" where
  "map_err g r = (case r of Err e \<Rightarrow> Err (g e) | Ok a \<Rightarrow> Ok a)"

definition ok_or :: "'e \<Rightarrow> 'a option \<Rightarrow> ('a, 'e) result" where
  "ok_or e x = (case x of None \<Rightarrow> Err e | Some a \<Rightarrow> Ok a)"

definition is_ok :: "('a, 'e) result \<Rightarrow> bool" where
  "is_ok r = (case r of Err e \<Rightarrow> False | Ok a \<Rightarrow> True)"

text \<open>\<open>?\<close> on a computation that also returns its next state, which an early return keeps.\<close>

definition and_then :: "('a, 'e) result \<times> 's \<Rightarrow> ('a \<Rightarrow> 's \<Rightarrow> ('b, 'e) result \<times> 's) \<Rightarrow> ('b, 'e) result \<times> 's" where
  "and_then m f = (case m of (Err e, s) \<Rightarrow> (Err e, s) | (Ok a, s) \<Rightarrow> f a s)"

lemma and_then_simps [simp]:
  "and_then (Ok a, s) f = f a s"
  "and_then (Err e, s) f = (Err e, s)"
  by (simp_all add: and_then_def)

lemma try_bind_simps [simp]:
  "try_bind (Ok a) f = f a"
  "try_bind (Err e) f = Err e"
  by (simp_all add: try_bind_def)

lemma try_bind_eq_Ok [simp]:
  "try_bind r f = Ok b \<longleftrightarrow> (\<exists>a. r = Ok a \<and> f a = Ok b)"
  by (cases r) auto

lemma try_bind_eq_Err:
  "try_bind r f = Err e \<longleftrightarrow> r = Err e \<or> (\<exists>a. r = Ok a \<and> f a = Err e)"
  by (cases r) auto

lemma map_err_simps [simp]:
  "map_err g (Ok a) = Ok a"
  "map_err g (Err e) = Err (g e)"
  by (simp_all add: map_err_def)

lemma map_err_eq_Ok [simp]: "map_err g r = Ok a \<longleftrightarrow> r = Ok a"
  by (cases r) auto

lemma map_err_eq_Err: "map_err g r = Err e \<longleftrightarrow> (\<exists>e'. r = Err e' \<and> e = g e')"
  by (cases r) auto

lemma ok_or_simps [simp]:
  "ok_or e None = Err e"
  "ok_or e (Some a) = Ok a"
  by (simp_all add: ok_or_def)

lemma ok_or_eq_Ok [simp]: "ok_or e x = Ok a \<longleftrightarrow> x = Some a"
  by (cases x) auto

lemma ok_or_eq_Err: "ok_or e x = Err e' \<longleftrightarrow> x = None \<and> e' = e"
  by (cases x) auto

lemma is_ok_simps [simp]:
  "is_ok (Ok a)"
  "\<not> is_ok (Err e)"
  by (simp_all add: is_ok_def)

lemma is_ok_iff: "is_ok r \<longleftrightarrow> (\<exists>a. r = Ok a)"
  by (cases r) auto

text \<open>\<open>Option::is_none_or\<close> and \<open>Option::is_some_and\<close>.\<close>

definition is_none_or :: "('a \<Rightarrow> bool) \<Rightarrow> 'a option \<Rightarrow> bool" where
  "is_none_or P x = (case x of None \<Rightarrow> True | Some a \<Rightarrow> P a)"

definition is_some_and :: "('a \<Rightarrow> bool) \<Rightarrow> 'a option \<Rightarrow> bool" where
  "is_some_and P x = (case x of None \<Rightarrow> False | Some a \<Rightarrow> P a)"

lemma is_none_or_simps [simp]:
  "is_none_or P None"
  "is_none_or P (Some a) \<longleftrightarrow> P a"
  by (simp_all add: is_none_or_def)

lemma is_some_and_simps [simp]:
  "\<not> is_some_and P None"
  "is_some_and P (Some a) \<longleftrightarrow> P a"
  by (simp_all add: is_some_and_def)

lemma is_some_and_iff: "is_some_and P x \<longleftrightarrow> (\<exists>a. x = Some a \<and> P a)"
  by (cases x) auto

text \<open>\<open>Option::unwrap_or_default\<close> on an optional string.\<close>

definition unwrap_or_empty :: "string option \<Rightarrow> string" where
  "unwrap_or_empty x = (case x of None \<Rightarrow> '''' | Some s \<Rightarrow> s)"

section \<open>Bytes and fixed-size arrays\<close>

type_synonym byte = "8 word"
type_synonym bytes = "byte list"
type_synonym u32 = "32 word"
type_synonym u64 = "64 word"
type_synonym i64 = "64 word"

text \<open>
  An array \<open>[u8; N]\<close> is a byte list; \<open>slice.try_into()\<close> succeeds exactly on a slice of
  length \<open>N\<close>, and the failing call sites turn its error into one that names the length.
\<close>

definition try_into_array :: "nat \<Rightarrow> bytes \<Rightarrow> (bytes, unit) result" where
  "try_into_array n bs = (if length bs = n then Ok bs else Err ())"

lemma try_into_array_eq_Ok [simp]:
  "try_into_array n bs = Ok a \<longleftrightarrow> a = bs \<and> length bs = n"
  by (auto simp: try_into_array_def)

lemma try_into_array_length [simp]:
  "length bs = n \<Longrightarrow> try_into_array n bs = Ok bs"
  "length bs \<noteq> n \<Longrightarrow> try_into_array n bs = Err ()"
  by (simp_all add: try_into_array_def)

section \<open>Strings\<close>

text \<open>
  A Rust string is the list of its UTF-8 bytes: one \<open>char\<close> of HOL is one byte.
  \<open>as_bytes\<close> reads them as numbers.
\<close>

definition as_bytes :: "string \<Rightarrow> bytes" where
  "as_bytes s = map of_char s"

lemma as_bytes_append [simp]: "as_bytes (s @ t) = as_bytes s @ as_bytes t"
  by (simp add: as_bytes_def)

lemma as_bytes_Nil [simp]: "as_bytes [] = []"
  by (simp add: as_bytes_def)

lemma length_as_bytes [simp]: "length (as_bytes s) = length s"
  by (simp add: as_bytes_def)

lemma of_char_byte_inj: "(of_char c :: byte) = of_char d \<longleftrightarrow> c = d"
proof
  assume eq: "(of_char c :: byte) = of_char d"
  have "(of_nat (of_char c) :: byte) = of_nat (of_char d)"
    using eq by (simp add: of_nat_of_char)
  then have "(of_char c :: nat) mod 2 ^ LENGTH(8) = of_char d mod 2 ^ LENGTH(8)"
    by (simp only: word_of_nat_eq_iff take_bit_eq_mod)
  then show "c = d"
    by simp
qed simp

lemma as_bytes_inj [simp]: "as_bytes s = as_bytes t \<longleftrightarrow> s = t"
  unfolding as_bytes_def by (rule inj_map_eq_map) (simp add: inj_def of_char_byte_inj)

text \<open>\<open>str::strip_prefix\<close> and \<open>slice::strip_prefix\<close>.\<close>

fun strip_prefix :: "'a list \<Rightarrow> 'a list \<Rightarrow> 'a list option" where
  "strip_prefix [] ys = Some ys"
| "strip_prefix (x # xs) [] = None"
| "strip_prefix (x # xs) (y # ys) = (if x = y then strip_prefix xs ys else None)"

lemma strip_prefix_eq_Some [simp]: "strip_prefix xs ys = Some zs \<longleftrightarrow> ys = xs @ zs"
  by (induction xs ys rule: strip_prefix.induct) auto

lemma strip_prefix_eq_None: "strip_prefix xs ys = None \<longleftrightarrow> (\<forall>zs. ys \<noteq> xs @ zs)"
  by (metis not_None_eq option.distinct(1) strip_prefix_eq_Some)

lemma strip_prefix_append [simp]: "strip_prefix xs (xs @ zs) = Some zs"
  by simp

subsection \<open>Splitting at a separator\<close>

text \<open>
  \<open>s.split(c)\<close> for an ASCII separator: always at least one piece, empty pieces kept.
  \<open>join_char\<close> is \<open>join\<close> with the separator.
\<close>

fun split_char :: "char \<Rightarrow> string \<Rightarrow> string list" where
  "split_char c [] = [[]]"
| "split_char c (x # xs) =
     (if x = c then [] # split_char c xs
      else (case split_char c xs of [] \<Rightarrow> [[x]] | w # ws \<Rightarrow> (x # w) # ws))"

fun join_char :: "char \<Rightarrow> string list \<Rightarrow> string" where
  "join_char c [] = []"
| "join_char c [w] = w"
| "join_char c (w # ws) = w @ c # join_char c ws"

lemma split_char_nonempty [simp]: "split_char c s \<noteq> []"
  by (induction s) (auto split: list.splits)

lemma split_char_free: "c \<notin> set w \<Longrightarrow> split_char c w = [w]"
  by (induction w) auto

lemma split_char_append:
  "c \<notin> set w \<Longrightarrow> split_char c (w @ c # s) = w # split_char c s"
  by (induction w) auto

lemma join_split_char: "join_char c (split_char c s) = s"
proof (induction s)
  case Nil
  then show ?case by simp
next
  case (Cons x xs)
  obtain w ws where "split_char c xs = w # ws"
    by (cases "split_char c xs") auto
  with Cons.IH show ?case
    by (cases ws) auto
qed

lemma split_char_pieces: "w \<in> set (split_char c s) \<Longrightarrow> c \<notin> set w"
proof (induction s arbitrary: w)
  case Nil
  then show ?case by simp
next
  case (Cons x xs)
  obtain v vs where "split_char c xs = v # vs"
    by (cases "split_char c xs") auto
  with Cons show ?case
    by (auto split: if_splits)
qed

lemma split_char_three_iff:
  "split_char c s = [h, p, q] \<longleftrightarrow>
     s = h @ c # p @ c # q \<and> c \<notin> set h \<and> c \<notin> set p \<and> c \<notin> set q"
proof
  assume split: "split_char c s = [h, p, q]"
  have "join_char c [h, p, q] = s"
    using join_split_char [of c s] split by simp
  moreover have "\<forall>w \<in> {h, p, q}. c \<notin> set w"
    using split_char_pieces [of _ c s] split by simp
  ultimately show "s = h @ c # p @ c # q \<and> c \<notin> set h \<and> c \<notin> set p \<and> c \<notin> set q"
    by auto
next
  assume "s = h @ c # p @ c # q \<and> c \<notin> set h \<and> c \<notin> set p \<and> c \<notin> set q"
  then show "split_char c s = [h, p, q]"
    by (simp add: split_char_append split_char_free)
qed

subsection \<open>Whitespace\<close>

text \<open>
  \<open>split_whitespace\<close> and \<open>trim\<close> use the Unicode property White_Space. On UTF-8 bytes
  these are the ASCII characters 9 to 13 and 32, the two-byte sequences of U+0085 and
  U+00A0, and the three-byte sequences of U+1680, U+2000 to U+200A, U+2028, U+2029, U+202F,
  U+205F and U+3000. \<open>ws_width s\<close> is the number of bytes of the white-space character
  \<open>s\<close> starts with, 0 when it starts with none. In valid UTF-8 a lead byte never occurs
  inside another character, so testing at every byte finds exactly the characters.
\<close>

definition ascii_ws :: "char \<Rightarrow> bool" where
  "ascii_ws c \<longleftrightarrow> c = CHR 0x20 \<or> (CHR 0x09 \<le> c \<and> c \<le> CHR 0x0D)"

definition ws_pair :: "char \<Rightarrow> char \<Rightarrow> bool" where
  "ws_pair a b \<longleftrightarrow> a = CHR 0xC2 \<and> (b = CHR 0x85 \<or> b = CHR 0xA0)"

definition ws_triple :: "char \<Rightarrow> char \<Rightarrow> char \<Rightarrow> bool" where
  "ws_triple a b c \<longleftrightarrow>
     a = CHR 0xE1 \<and> b = CHR 0x9A \<and> c = CHR 0x80
   \<or> a = CHR 0xE2 \<and> b = CHR 0x80 \<and>
       (CHR 0x80 \<le> c \<and> c \<le> CHR 0x8A \<or> c = CHR 0xA8 \<or> c = CHR 0xA9 \<or> c = CHR 0xAF)
   \<or> a = CHR 0xE2 \<and> b = CHR 0x81 \<and> c = CHR 0x9F
   \<or> a = CHR 0xE3 \<and> b = CHR 0x80 \<and> c = CHR 0x80"

definition ws_width :: "string \<Rightarrow> nat" where
  "ws_width s =
     (case s of
        [] \<Rightarrow> 0
      | a # r \<Rightarrow>
          if ascii_ws a then 1
          else (case r of
                  [] \<Rightarrow> 0
                | b # r' \<Rightarrow>
                    if ws_pair a b then 2
                    else (case r' of
                            [] \<Rightarrow> 0
                          | c # _ \<Rightarrow> if ws_triple a b c then 3 else 0)))"

text \<open>
  The scan keeps the word read so far (reversed); a white-space character ends it, and
  empty words are dropped.
\<close>

definition emit_word :: "string \<Rightarrow> string list" where
  "emit_word acc = (if acc = [] then [] else [rev acc])"

function split_ws_from :: "string \<Rightarrow> string \<Rightarrow> string list" where
  "split_ws_from acc [] = emit_word acc"
| "split_ws_from acc (x # xs) =
     (if ws_width (x # xs) = 0 then split_ws_from (x # acc) xs
      else emit_word acc @ split_ws_from [] (drop (ws_width (x # xs)) (x # xs)))"
  by pat_completeness auto
termination
  by (relation "measure (\<lambda>(acc, s). length s)") auto

definition split_whitespace :: "string \<Rightarrow> string list" where
  "split_whitespace s = split_ws_from [] s"

definition is_blank :: "string \<Rightarrow> bool" where
  \<comment> \<open>\<open>s.trim().is_empty()\<close>\<close>
  "is_blank s \<longleftrightarrow> split_whitespace s = []"

text \<open>Words without white space anywhere: every suffix starts with none.\<close>

fun ws_free :: "string \<Rightarrow> bool" where
  "ws_free [] \<longleftrightarrow> True"
| "ws_free (x # xs) \<longleftrightarrow> ws_width (x # xs) = 0 \<and> ws_free xs"

lemma split_ws_nonempty: "w \<in> set (split_ws_from acc s) \<Longrightarrow> w \<noteq> []"
  by (induction acc s rule: split_ws_from.induct) (auto simp: emit_word_def split: if_splits)

lemma split_whitespace_nonempty: "w \<in> set (split_whitespace s) \<Longrightarrow> w \<noteq> []"
  by (auto simp: split_whitespace_def dest: split_ws_nonempty)

lemma ws_width_space_append: "ws_width (w @ CHR 0x20 # s) = 0 \<longleftrightarrow> w \<noteq> [] \<and> ws_width w = 0"
  by (auto simp: ws_width_def ascii_ws_def ws_pair_def ws_triple_def less_eq_char_def
      split: list.splits if_splits)

lemma split_ws_from_word:
  "ws_free w \<Longrightarrow> split_ws_from acc (w @ CHR 0x20 # s) = emit_word (rev w @ acc) @ split_ws_from [] s"
proof (induction w arbitrary: acc)
  case Nil
  then show ?case
    by (simp add: ws_width_def ascii_ws_def)
next
  case (Cons x w)
  then have "ws_width ((x # w) @ CHR 0x20 # s) = 0"
    by (subst ws_width_space_append) simp
  with Cons show ?case by simp
qed

lemma split_ws_from_last: "ws_free w \<Longrightarrow> split_ws_from acc w = emit_word (rev w @ acc)"
  by (induction w arbitrary: acc) auto

text \<open>Words joined by single spaces, as a \<open>scope\<close> claim lists them, split into the words.\<close>

lemma split_whitespace_join:
  assumes "\<forall>w \<in> set ws. ws_free w \<and> w \<noteq> []"
  shows "split_whitespace (join_char CHR 0x20 ws) = ws"
  using assms
proof (induction ws)
  case Nil
  then show ?case by (simp add: split_whitespace_def emit_word_def)
next
  case (Cons w ws)
  then show ?case
    by (cases ws)
      (simp_all add: split_whitespace_def split_ws_from_word split_ws_from_last emit_word_def)
qed

section \<open>First match in a list\<close>

text \<open>\<open>iter().find(p)\<close> is \<open>List.find\<close>: the first element with the property.\<close>

lemma find_Some_split:
  "List.find P xs = Some x \<longleftrightarrow> (\<exists>ys zs. xs = ys @ x # zs \<and> P x \<and> list_all (\<lambda>y. \<not> P y) ys)"
proof
  show "List.find P xs = Some x \<Longrightarrow> \<exists>ys zs. xs = ys @ x # zs \<and> P x \<and> list_all (\<lambda>y. \<not> P y) ys"
  proof (induction xs)
    case (Cons a xs)
    show ?case
    proof (cases "P a")
      case True
      with Cons.prems have "a # xs = [] @ x # xs \<and> P x \<and> list_all (\<lambda>y. \<not> P y) []" by simp
      then show ?thesis by blast
    next
      case False
      with Cons obtain ys zs where "xs = ys @ x # zs" "P x" "list_all (\<lambda>y. \<not> P y) ys" by auto
      with False have "a # xs = (a # ys) @ x # zs \<and> P x \<and> list_all (\<lambda>y. \<not> P y) (a # ys)" by simp
      then show ?thesis by blast
    qed
  qed simp
next
  have "list_all (\<lambda>y. \<not> P y) ys \<Longrightarrow> P x \<Longrightarrow> List.find P (ys @ x # zs) = Some x" for ys zs
    by (induction ys) auto
  then show "\<exists>ys zs. xs = ys @ x # zs \<and> P x \<and> list_all (\<lambda>y. \<not> P y) ys \<Longrightarrow> List.find P xs = Some x"
    by blast
qed

lemma find_Some_holds: "List.find P xs = Some x \<Longrightarrow> P x"
  by (auto simp: find_Some_split)

lemma find_None_all: "List.find P xs = None \<longleftrightarrow> list_all (\<lambda>y. \<not> P y) xs"
  by (auto simp: find_None_iff list_all_iff)

section \<open>Decimal formatting\<close>

text \<open>\<open>Display\<close> of unsigned and signed integers.\<close>

definition digit_char :: "nat \<Rightarrow> char" where
  "digit_char d = char_of (48 + d)"

fun show_nat :: "nat \<Rightarrow> string" where
  "show_nat n = (if n < 10 then [digit_char n] else show_nat (n div 10) @ [digit_char (n mod 10)])"

declare show_nat.simps [simp del]

definition show_int :: "int \<Rightarrow> string" where
  "show_int i = (if i < 0 then CHR ''-'' # show_nat (nat (- i)) else show_nat (nat i))"

lemma show_nat_nonempty [simp]: "show_nat n \<noteq> []"
  by (subst show_nat.simps) simp

section \<open>64-bit signed time arithmetic\<close>

text \<open>
  \<open>i64\<close> values are 64-bit words read as two's complement: \<open>sint\<close> is their value, and
  \<open><s\<close>, \<open><=s\<close> are the signed comparisons. The workspace's release profile leaves
  overflow checks off, so \<open>+\<close> and \<open>-\<close> wrap around, as the word operations do; a debug
  build panics instead exactly where \<open>i64_fits\<close> fails for the exact result.
\<close>

definition i64_fits :: "int \<Rightarrow> bool" where
  "i64_fits i \<longleftrightarrow> - (2 ^ 63) \<le> i \<and> i < 2 ^ 63"

definition add_fits :: "i64 \<Rightarrow> i64 \<Rightarrow> bool" where
  "add_fits a b \<longleftrightarrow> i64_fits (sint a + sint b)"

definition sub_fits :: "i64 \<Rightarrow> i64 \<Rightarrow> bool" where
  "sub_fits a b \<longleftrightarrow> i64_fits (sint a - sint b)"

lemma sint_i64_fits [simp]: "i64_fits (sint (a :: i64))"
  using sint_ge [of a] sint_lt [of a] by (simp add: i64_fits_def)

lemma signed_take_bit_fits: "i64_fits i \<Longrightarrow> signed_take_bit 63 i = i"
  by (rule signed_take_bit_int_eq_self) (simp_all add: i64_fits_def)

lemma sint_add_fits: "add_fits a b \<Longrightarrow> sint (a + b) = sint a + sint b"
  unfolding add_fits_def by (subst sint_word_add) (simp add: signed_take_bit_fits)

lemma sint_sub_fits: "sub_fits a b \<Longrightarrow> sint (a - b) = sint a - sint b"
  unfolding sub_fits_def by (subst sint_word_diff) (simp add: signed_take_bit_fits)

lemma sint_of_fits: "i64_fits i \<Longrightarrow> sint (word_of_int i :: i64) = i"
  by (simp add: sint_sbintrunc' signed_take_bit_fits)

lemma sless_add_iff: "add_fits a b \<Longrightarrow> a + b <s c \<longleftrightarrow> sint a + sint b < sint c"
  by (simp add: word_sless_alt sint_add_fits)

lemma sle_add_iff: "add_fits a b \<Longrightarrow> c <=s a + b \<longleftrightarrow> sint c \<le> sint a + sint b"
  by (simp add: word_sle_eq sint_add_fits)

lemma sless_sub_iff: "sub_fits a b \<Longrightarrow> a - b <s c \<longleftrightarrow> sint a - sint b < sint c"
  by (simp add: word_sless_alt sint_sub_fits)

text \<open>Unsigned words: \<open>unat\<close> is their value; a natural number below the bound is kept.\<close>

lemma unat_u32 [simp]: "n < 2 ^ 32 \<Longrightarrow> unat (word_of_nat n :: u32) = n"
  by (simp add: unsigned_of_nat take_bit_nat_eq_self)

lemma unat_u64 [simp]: "n < 2 ^ 64 \<Longrightarrow> unat (word_of_nat n :: u64) = n"
  by (simp add: unsigned_of_nat take_bit_nat_eq_self)

lemma unat_u32_less [simp]: "unat (a :: u32) < 2 ^ 32"
  using unsigned_less [of a, where 'a = nat] by simp

lemma unat_u64_less [simp]: "unat (a :: u64) < 2 ^ 64"
  using unsigned_less [of a, where 'a = nat] by simp

section \<open>Ordered sets\<close>

text \<open>
  \<open>BTreeSet<String>\<close> is a finite set of strings; iterating over it gives its elements in
  increasing byte-wise order, which is the order of \<open>List_Lexorder\<close> and \<open>Char_ord\<close>.
\<close>

definition iter_set :: "string fset \<Rightarrow> string list" where
  "iter_set A = sorted_list_of_fset A"

lemma set_iter_set [simp]: "set (iter_set A) = fset A"
  by (simp add: iter_set_def)

lemma sorted_iter_set: "sorted (iter_set A)"
  by (simp add: iter_set_def sorted_list_of_fset.rep_eq)

lemma distinct_iter_set: "distinct (iter_set A)"
  by (simp add: iter_set_def sorted_list_of_fset.rep_eq)

lemma fset_of_list_iter_set [simp]: "fset_of_list (iter_set A) = A"
  by (simp add: iter_set_def)

lemma iter_set_of_list: "iter_set (fset_of_list xs) = sort (remdups xs)"
  by (simp add: iter_set_def sorted_list_of_fset.rep_eq fset_of_list.rep_eq
      sorted_list_of_set_sort_remdups)

end
