(* ===== verification/Verify_Error.thy ===== *)
theory Verify_Error
  imports Rust_Prelude
begin

text \<open>
  The hard failures of \<open>edgeauth-types/src/error.rs\<close>: the constructors of
  \<open>VerifyError\<close> in their order, the two length constants, and the messages the
  \<open>#[error(...)]\<close> attributes give them. Lengths (\<open>usize\<close>) are natural numbers.
\<close>

section \<open>Error values\<close>

definition PUBLIC_KEY_LEN :: nat where
  "PUBLIC_KEY_LEN = 32"

definition SIGNATURE_LEN :: nat where
  "SIGNATURE_LEN = 64"

datatype verify_error =
    MalformedJwt string
  | UnsupportedAlgorithm string
  | UnknownKeyId string
  | InvalidKey string
  | SignatureInvalid
  | Base64 string
  | Json string
  | MalformedDid string
  | UnsupportedKeyType
  | InvalidKeyLength nat nat
  | InvalidSignatureLength nat
  | MissingProof
  | IssuerMismatch

section \<open>Messages\<close>

fun verify_error_display :: "verify_error \<Rightarrow> string" where
  "verify_error_display (MalformedJwt s) = ''malformed JWT: '' @ s"
| "verify_error_display (UnsupportedAlgorithm s) =
     ''unsupported JWS algorithm: expected EdDSA, got '' @ s"
| "verify_error_display (UnknownKeyId s) = ''unknown key id: '' @ s"
| "verify_error_display (InvalidKey s) = ''invalid verifying key: '' @ s"
| "verify_error_display SignatureInvalid = ''signature verification failed''"
| "verify_error_display (Base64 s) = ''base64 decode error: '' @ s"
| "verify_error_display (Json s) = ''json decode error: '' @ s"
| "verify_error_display (MalformedDid s) = ''malformed did:key: '' @ s"
| "verify_error_display UnsupportedKeyType =
     ''unsupported DID key type (only Ed25519 is supported)''"
| "verify_error_display (InvalidKeyLength expected got) =
     ''invalid key length: expected '' @ show_nat expected @ '', got '' @ show_nat got"
| "verify_error_display (InvalidSignatureLength n) =
     ''invalid signature length: '' @ show_nat n @ '' (expected 64)''"
| "verify_error_display MissingProof = ''credential has no proof''"
| "verify_error_display IssuerMismatch =
     ''proof verification method does not match issuer''"

lemma verify_error_display_nonempty [simp]: "verify_error_display e \<noteq> []"
  by (cases e) simp_all

end
