(* ===== verification/Crypto_Interface.thy ===== *)
theory Crypto_Interface
  imports Verify_Error
begin

text \<open>
  The third-party crates the core calls, as parameters of the model: \<open>base64\<close>
  (URL_SAFE_NO_PAD), \<open>bs58\<close>, \<open>hex\<close> and \<open>ed25519-dalek\<close>. Nothing here defines what
  they compute. A record holds their functions; a failing decoder returns the text of its
  error. The components extend the record with the JSON functions \<open>serde_json\<close> derives for
  their own types, so one value \<open>E\<close> of the record carries everything outside the sources.
  Verifying keys and signing keys are abstract types \<open>'vk\<close> and \<open>'sk\<close>; arrays
  \<open>[u8; 32]\<close> and \<open>[u8; 64]\<close> are byte lists.
\<close>

section \<open>The primitives\<close>

record ('vk, 'sk) primitives =
  ext_b64_encode :: "bytes \<Rightarrow> string"
  ext_b64_decode :: "bytes \<Rightarrow> (bytes, string) result"
  ext_b58_encode :: "bytes \<Rightarrow> string"
  ext_b58_decode :: "string \<Rightarrow> (bytes, string) result"
  ext_hex_encode :: "bytes \<Rightarrow> string"
  ext_hex_decode :: "string \<Rightarrow> (bytes, string) result"
  ext_vk_from_bytes :: "bytes \<Rightarrow> ('vk, string) result"
  ext_vk_as_bytes :: "'vk \<Rightarrow> bytes"
  ext_vk_verify :: "'vk \<Rightarrow> bytes \<Rightarrow> bytes \<Rightarrow> bool"
  ext_sk_from_bytes :: "bytes \<Rightarrow> 'sk"
  ext_sk_verifying_key :: "'sk \<Rightarrow> 'vk"
  ext_sk_sign :: "'sk \<Rightarrow> bytes \<Rightarrow> bytes"

section \<open>Documented behaviour\<close>

text \<open>
  The hypotheses theorems may name: decoding undoes encoding; the \<open>base64url\<close> alphabet has
  no dot; a verifying key is 32 bytes and is recovered from them; a signature is 64 bytes and
  is accepted by the key of its signer.
\<close>

definition base64_roundtrip :: "('vk, 'sk, 'z) primitives_scheme \<Rightarrow> bool" where
  "base64_roundtrip E \<longleftrightarrow> (\<forall>bs. ext_b64_decode E (as_bytes (ext_b64_encode E bs)) = Ok bs)"

definition base64_dotfree :: "('vk, 'sk, 'z) primitives_scheme \<Rightarrow> bool" where
  "base64_dotfree E \<longleftrightarrow> (\<forall>bs. CHR ''.'' \<notin> set (ext_b64_encode E bs))"

definition base58_roundtrip :: "('vk, 'sk, 'z) primitives_scheme \<Rightarrow> bool" where
  "base58_roundtrip E \<longleftrightarrow> (\<forall>bs. ext_b58_decode E (ext_b58_encode E bs) = Ok bs)"

definition hex_roundtrip :: "('vk, 'sk, 'z) primitives_scheme \<Rightarrow> bool" where
  "hex_roundtrip E \<longleftrightarrow> (\<forall>bs. ext_hex_decode E (ext_hex_encode E bs) = Ok bs)"

definition key_roundtrip :: "('vk, 'sk, 'z) primitives_scheme \<Rightarrow> bool" where
  "key_roundtrip E \<longleftrightarrow>
     (\<forall>k. length (ext_vk_as_bytes E k) = PUBLIC_KEY_LEN
        \<and> ext_vk_from_bytes E (ext_vk_as_bytes E k) = Ok k)"

definition signatures_verify :: "('vk, 'sk, 'z) primitives_scheme \<Rightarrow> bool" where
  "signatures_verify E \<longleftrightarrow>
     (\<forall>sk m. length (ext_sk_sign E sk m) = SIGNATURE_LEN
        \<and> ext_vk_verify E (ext_sk_verifying_key E sk) m (ext_sk_sign E sk m))"

named_theorems ext_laws \<open>what the third-party crates document\<close>

lemma base64_roundtripD [ext_laws]:
  "base64_roundtrip E \<Longrightarrow> ext_b64_decode E (as_bytes (ext_b64_encode E bs)) = Ok bs"
  by (simp add: base64_roundtrip_def)

lemma base64_dotfreeD [ext_laws]: "base64_dotfree E \<Longrightarrow> CHR ''.'' \<notin> set (ext_b64_encode E bs)"
  by (simp add: base64_dotfree_def)

lemma base58_roundtripD [ext_laws]:
  "base58_roundtrip E \<Longrightarrow> ext_b58_decode E (ext_b58_encode E bs) = Ok bs"
  by (simp add: base58_roundtrip_def)

lemma hex_roundtripD [ext_laws]:
  "hex_roundtrip E \<Longrightarrow> ext_hex_decode E (ext_hex_encode E bs) = Ok bs"
  by (simp add: hex_roundtrip_def)

lemma key_roundtripD [ext_laws]:
  "key_roundtrip E \<Longrightarrow> length (ext_vk_as_bytes E k) = PUBLIC_KEY_LEN"
  "key_roundtrip E \<Longrightarrow> ext_vk_from_bytes E (ext_vk_as_bytes E k) = Ok k"
  by (simp_all add: key_roundtrip_def)

lemma signatures_verifyD [ext_laws]:
  "signatures_verify E \<Longrightarrow> length (ext_sk_sign E sk m) = SIGNATURE_LEN"
  "signatures_verify E \<Longrightarrow> ext_vk_verify E (ext_sk_verifying_key E sk) m (ext_sk_sign E sk m)"
  by (simp_all add: signatures_verify_def)

end
