(* ===== verification/Sample_Primitives.thy ===== *)
theory Sample_Primitives
  imports Crypto_Interface
begin

text \<open>
  A concrete instance of the third-party parameters with every documented property, on which
  the witnesses evaluate the model. It says nothing about the real crates: the codecs spell a
  byte as two letters, keys are single bytes whose 32-byte form repeats them, a signing key is
  its own verifying key, and a signature is the key, a checksum of the message and 62 zeros.
\<close>

section \<open>Letter codec\<close>

definition nibble_char :: "nat \<Rightarrow> char" where
  "nibble_char n = char_of (97 + n mod 16)"

definition nibble_of :: "char \<Rightarrow> nat" where
  "nibble_of c = of_char c - 97"

fun letters :: "bytes \<Rightarrow> string" where
  "letters [] = []"
| "letters (b # bs) = nibble_char (unat b div 16) # nibble_char (unat b) # letters bs"

fun unletters :: "string \<Rightarrow> (bytes, string) result" where
  "unletters [] = Ok []"
| "unletters [c] = Err ''odd length''"
| "unletters (c # d # s) =
     (if of_char c < (97 :: nat) \<or> of_char d < (97 :: nat) \<or> 16 \<le> nibble_of c \<or> 16 \<le> nibble_of d
      then Err ''invalid letter''
      else try_bind (unletters s) (\<lambda>bs. Ok (of_nat (16 * nibble_of c + nibble_of d) # bs)))"

definition bytes_as_string :: "bytes \<Rightarrow> string" where
  "bytes_as_string bs = map (\<lambda>b. char_of (unat b)) bs"

lemma of_char_nibble_char: "(of_char (nibble_char n) :: nat) = 97 + n mod 16"
proof -
  have "97 + n mod 16 < 256"
    using mod_less_divisor [of 16 n] by linarith
  then show ?thesis
    by (simp add: nibble_char_def)
qed

lemma nibble_of_char [simp]: "nibble_of (nibble_char n) = n mod 16"
  by (simp add: nibble_of_def of_char_nibble_char)

lemma byte_of_nibbles: "(of_nat (16 * (unat b div 16 mod 16) + unat b mod 16) :: byte) = b"
proof -
  have "unat b < 256"
    using unsigned_less [of b, where ?'a = nat] by simp
  then have "unat b div 16 mod 16 = unat b div 16"
    by simp
  then show ?thesis by simp
qed

lemma unletters_letters [simp]: "unletters (letters bs) = Ok bs"
proof (induction bs)
  case Nil
  then show ?case by simp
next
  case (Cons b bs)
  then show ?case
    using byte_of_nibbles [of b] by (simp add: of_char_nibble_char not_le)
qed

lemma letters_dotfree: "CHR ''.'' \<notin> set (letters bs)"
proof -
  have "CHR ''.'' \<noteq> nibble_char n" for n
  proof
    assume "CHR ''.'' = nibble_char n"
    then have "(of_char (CHR ''.'') :: nat) = 97 + n mod 16"
      by (simp add: of_char_nibble_char)
    then show False by simp
  qed
  then show ?thesis by (induction bs) auto
qed

lemma unat_of_char_byte: "unat (of_char c :: byte) = of_char c"
proof -
  have "of_char c < (256 :: nat)" by simp
  then have "unat (of_nat (of_char c) :: byte) = of_char c"
    by (simp add: unat_of_nat)
  then show ?thesis by (simp add: of_nat_of_char)
qed

lemma bytes_as_string_as_bytes [simp]: "bytes_as_string (as_bytes s) = s"
  by (simp add: bytes_as_string_def as_bytes_def comp_def unat_of_char_byte map_idI)

section \<open>Keys and signatures\<close>

definition checksum :: "bytes \<Rightarrow> byte" where
  "checksum m = foldl (\<lambda>h b. h * 31 + b) 7 m"

definition sample_sign :: "byte \<Rightarrow> bytes \<Rightarrow> bytes" where
  "sample_sign k m = k # checksum m # replicate 62 0"

definition sample_key :: "bytes \<Rightarrow> (byte, string) result" where
  "sample_key bs = (case bs of [] \<Rightarrow> Err ''empty'' | k # _ \<Rightarrow>
     if bs = replicate 32 k then Ok k else Err ''not a point'')"

definition sample_primitives :: "'z \<Rightarrow> (byte, byte, 'z) primitives_scheme" where
  "sample_primitives z = \<lparr>
     ext_b64_encode = letters,
     ext_b64_decode = (\<lambda>bs. unletters (bytes_as_string bs)),
     ext_b58_encode = letters,
     ext_b58_decode = unletters,
     ext_hex_encode = letters,
     ext_hex_decode = unletters,
     ext_vk_from_bytes = sample_key,
     ext_vk_as_bytes = replicate 32,
     ext_vk_verify = (\<lambda>k m s. s = sample_sign k m),
     ext_sk_from_bytes = (\<lambda>bs. case bs of [] \<Rightarrow> 0 | k # _ \<Rightarrow> k),
     ext_sk_verifying_key = id,
     ext_sk_sign = sample_sign,
     \<dots> = z \<rparr>"

lemma sample_primitives_simps [simp]:
  "ext_b64_encode (sample_primitives z) = letters"
  "ext_b64_decode (sample_primitives z) = (\<lambda>bs. unletters (bytes_as_string bs))"
  "ext_b58_encode (sample_primitives z) = letters"
  "ext_b58_decode (sample_primitives z) = unletters"
  "ext_hex_encode (sample_primitives z) = letters"
  "ext_hex_decode (sample_primitives z) = unletters"
  "ext_vk_from_bytes (sample_primitives z) = sample_key"
  "ext_vk_as_bytes (sample_primitives z) = replicate 32"
  "ext_vk_verify (sample_primitives z) = (\<lambda>k m s. s = sample_sign k m)"
  "ext_sk_verifying_key (sample_primitives z) = id"
  "ext_sk_sign (sample_primitives z) = sample_sign"
  by (simp_all add: sample_primitives_def)

lemma sample_key_replicate [simp]: "sample_key (replicate 32 k) = Ok k"
  by (simp add: sample_key_def numeral_eq_Suc)

lemma length_sample_sign [simp]: "length (sample_sign k m) = 64"
  by (simp add: sample_sign_def)

lemma sample_laws [simp]:
  "base64_roundtrip (sample_primitives z)"
  "base64_dotfree (sample_primitives z)"
  "base58_roundtrip (sample_primitives z)"
  "hex_roundtrip (sample_primitives z)"
  "key_roundtrip (sample_primitives z)"
  "signatures_verify (sample_primitives z)"
  by (simp_all add: base64_roundtrip_def base64_dotfree_def base58_roundtrip_def hex_roundtrip_def
      key_roundtrip_def signatures_verify_def PUBLIC_KEY_LEN_def SIGNATURE_LEN_def letters_dotfree)

section \<open>Table codecs\<close>

text \<open>
  A codec for the values of a given list: a value is written as its position. It stands for
  the JSON functions in witnesses.
\<close>

definition table_to_vec :: "'a list \<Rightarrow> 'a \<Rightarrow> (bytes, string) result" where
  "table_to_vec xs x =
     (if x \<in> set xs then Ok [of_nat (length (takeWhile (\<lambda>y. y \<noteq> x) xs))] else Err ''not in the table'')"

definition table_from_slice :: "'a list \<Rightarrow> bytes \<Rightarrow> ('a, string) result" where
  "table_from_slice xs bs =
     (case bs of
        [b] \<Rightarrow> if unat b < length xs then Ok (xs ! unat b) else Err ''out of range''
      | _ \<Rightarrow> Err ''not one byte'')"

definition table_to_string :: "'a list \<Rightarrow> 'a \<Rightarrow> (string, string) result" where
  "table_to_string xs x = try_bind (table_to_vec xs x) (\<lambda>bs. Ok (letters bs))"

definition table_from_str :: "'a list \<Rightarrow> string \<Rightarrow> ('a, string) result" where
  "table_from_str xs s = try_bind (unletters s) (table_from_slice xs)"

lemma table_roundtrip:
  assumes "x \<in> set xs" and "length xs \<le> 256"
  shows "\<exists>bs. table_to_vec xs x = Ok bs \<and> table_from_slice xs bs = Ok x"
proof -
  let ?i = "length (takeWhile (\<lambda>y. y \<noteq> x) xs)"
  have i: "?i < length xs"
    using assms(1) by (induction xs) auto
  then have "xs ! ?i = x"
    using nth_length_takeWhile by fastforce
  moreover have "unat (of_nat ?i :: byte) = ?i"
    using i assms(2) by (simp add: unat_of_nat)
  ultimately show ?thesis
    using assms(1) i by (simp add: table_to_vec_def table_from_slice_def)
qed

lemma table_string_roundtrip:
  assumes "x \<in> set xs" and "length xs \<le> 256"
  shows "\<exists>s. table_to_string xs x = Ok s \<and> table_from_str xs s = Ok x"
  using table_roundtrip [OF assms] by (auto simp: table_to_string_def table_from_str_def)

end
