(* ===== verification/Did_Key.thy ===== *)
theory Did_Key
  imports Sample_Primitives
begin

text \<open>
  \<open>edgeauth-types/src/did.rs\<close>: \<open>did:key\<close> identifiers. The identifier is the string
  \<open>did:key:z\<close> followed by the base58 text of the multicodec-tagged key, so the key is
  recovered from the identifier alone. The lemmas characterise exactly which strings carry a
  key, give the error of every other string, and prove the round trip.
\<close>

section \<open>Constants and the newtype\<close>

definition ED25519_MULTICODEC :: bytes where
  "ED25519_MULTICODEC = [0xed, 0x01]"

definition BASE58BTC :: char where
  "BASE58BTC = CHR ''z''"

definition DID_KEY_PREFIX :: string where
  "DID_KEY_PREFIX = ''did:key:''"

datatype did = Did string

section \<open>Operations\<close>

definition did_from_verifying_key :: "('vk, 'sk, 'z) primitives_scheme \<Rightarrow> 'vk \<Rightarrow> did" where
  "did_from_verifying_key E key =
     (let tagged = ED25519_MULTICODEC @ ext_vk_as_bytes E key
      in Did (DID_KEY_PREFIX @ [BASE58BTC] @ ext_b58_encode E tagged))"

fun did_as_str :: "did \<Rightarrow> string" where
  "did_as_str (Did s) = s"

definition did_verifying_key ::
  "('vk, 'sk, 'z) primitives_scheme \<Rightarrow> did \<Rightarrow> ('vk, verify_error) result" where
  "did_verifying_key E d =
     (let s = did_as_str d in
      try_bind (ok_or (MalformedDid s) (strip_prefix DID_KEY_PREFIX s)) (\<lambda>rest.
      case rest of
        [] \<Rightarrow> Err (MalformedDid s)
      | c # chars \<Rightarrow>
          if c \<noteq> BASE58BTC then Err (MalformedDid s)
          else
            try_bind (map_err MalformedDid (ext_b58_decode E chars)) (\<lambda>decoded.
            try_bind (ok_or UnsupportedKeyType (strip_prefix ED25519_MULTICODEC decoded)) (\<lambda>key_bytes.
            try_bind (map_err (\<lambda>_. InvalidKeyLength PUBLIC_KEY_LEN (length key_bytes))
                       (try_into_array PUBLIC_KEY_LEN key_bytes)) (\<lambda>arr.
            map_err (\<lambda>_. UnsupportedKeyType) (ext_vk_from_bytes E arr))))))"

definition did_parse ::
  "('vk, 'sk, 'z) primitives_scheme \<Rightarrow> string \<Rightarrow> (did, verify_error) result" where
  "did_parse E s =
     (let d = Did s in try_bind (did_verifying_key E d) (\<lambda>_. Ok d))"

definition sign_payload ::
  "('vk, 'sk, 'z) primitives_scheme \<Rightarrow> 'sk \<Rightarrow> bytes \<Rightarrow> bytes" where
  "sign_payload E signing_key payload = ext_sk_sign E signing_key payload"

definition verify_payload ::
  "('vk, 'sk, 'z) primitives_scheme \<Rightarrow> 'vk \<Rightarrow> bytes \<Rightarrow> bytes \<Rightarrow> (unit, verify_error) result" where
  "verify_payload E key payload signature =
     (if ext_vk_verify E key payload signature then Ok () else Err SignatureInvalid)"

section \<open>Which identifiers carry a key\<close>

lemma verify_payload_eq_Ok [simp]:
  "verify_payload E key payload sig = Ok u \<longleftrightarrow> ext_vk_verify E key payload sig"
  by (simp add: verify_payload_def)

lemma did_key_collect [simp]: "did_as_str (did_from_verifying_key E k)
    = DID_KEY_PREFIX @ BASE58BTC # ext_b58_encode E (ED25519_MULTICODEC @ ext_vk_as_bytes E k)"
  by (simp add: did_from_verifying_key_def)

text \<open>
  The stages one by one: a string without the prefix, and the decoding of the text after it.
\<close>

lemma did_without_prefix:
  "(\<forall>text. s \<noteq> DID_KEY_PREFIX @ BASE58BTC # text) \<Longrightarrow> did_verifying_key E (Did s) = Err (MalformedDid s)"
  by (cases "strip_prefix DID_KEY_PREFIX s")
    (auto simp: did_verifying_key_def Let_def split: list.split)

lemma did_with_prefix:
  "did_verifying_key E (Did (DID_KEY_PREFIX @ BASE58BTC # text)) =
     try_bind (map_err MalformedDid (ext_b58_decode E text)) (\<lambda>decoded.
     try_bind (ok_or UnsupportedKeyType (strip_prefix ED25519_MULTICODEC decoded)) (\<lambda>key_bytes.
     try_bind (map_err (\<lambda>_. InvalidKeyLength PUBLIC_KEY_LEN (length key_bytes))
                (try_into_array PUBLIC_KEY_LEN key_bytes)) (\<lambda>arr.
     map_err (\<lambda>_. UnsupportedKeyType) (ext_vk_from_bytes E arr))))"
  by (simp add: did_verifying_key_def)

lemma did_prefix_cases:
  obtains (without) "\<forall>text. s \<noteq> DID_KEY_PREFIX @ BASE58BTC # text"
  | (prefixed) t where "s = DID_KEY_PREFIX @ BASE58BTC # t"
  by blast

lemma did_verifying_key_Ok_iff:
  "did_verifying_key E (Did s) = Ok k \<longleftrightarrow>
     (\<exists>text key_bytes.
        s = DID_KEY_PREFIX @ BASE58BTC # text
      \<and> ext_b58_decode E text = Ok (ED25519_MULTICODEC @ key_bytes)
      \<and> length key_bytes = PUBLIC_KEY_LEN
      \<and> ext_vk_from_bytes E key_bytes = Ok k)"
  by (cases s rule: did_prefix_cases) (auto simp: did_without_prefix did_with_prefix)

lemma did_verifying_key_from_key [simp]:
  assumes "base58_roundtrip E" and "key_roundtrip E"
  shows "did_verifying_key E (did_from_verifying_key E k) = Ok k"
  using assms
  by (simp add: did_from_verifying_key_def did_verifying_key_Ok_iff ext_laws)

text \<open>
  C37: every verifying key has an identifier that starts with \<open>did:key:z\<close>, from which
  exactly that key is recovered, and which the validating constructor accepts unchanged.
\<close>

theorem did_key_roundtrip:
  assumes "base58_roundtrip E" and "key_roundtrip E"
  shows "did_verifying_key E (did_from_verifying_key E k) = Ok k
       \<and> did_parse E (did_as_str (did_from_verifying_key E k)) = Ok (did_from_verifying_key E k)
       \<and> strip_prefix ''did:key:z'' (did_as_str (did_from_verifying_key E k)) \<noteq> None"
proof (intro conjI)
  show key: "did_verifying_key E (did_from_verifying_key E k) = Ok k"
    using assms by simp
  then show "did_parse E (did_as_str (did_from_verifying_key E k)) = Ok (did_from_verifying_key E k)"
    by (cases "did_from_verifying_key E k") (simp add: did_parse_def)
  show "strip_prefix ''did:key:z'' (did_as_str (did_from_verifying_key E k)) \<noteq> None"
    by (simp add: DID_KEY_PREFIX_def BASE58BTC_def)
qed

theorem did_key_roundtrip_witness:
  "did_verifying_key (sample_primitives ()) (did_from_verifying_key (sample_primitives ()) 7) = Ok 7"
  using did_key_roundtrip [of "sample_primitives ()" 7] by simp

text \<open>Distinct keys have distinct identifiers.\<close>

lemma did_from_verifying_key_inj:
  assumes "base58_roundtrip E" and "key_roundtrip E"
    and "did_from_verifying_key E k = did_from_verifying_key E k'"
  shows "k = k'"
  by (metis assms did_verifying_key_from_key sum.inject(2))

lemma did_parse_Ok_iff:
  "did_parse E s = Ok d \<longleftrightarrow> d = Did s \<and> is_ok (did_verifying_key E (Did s))"
  by (auto simp: did_parse_def is_ok_iff Let_def)

text \<open>
  C38: \<open>Did::parse\<close> accepts exactly the strings \<open>did:key:z\<close> followed by the base58 text
  of a tagged, 32-byte, valid key. Every other string is rejected with the error of the first
  stage that fails: a string without the prefix or without base58 text is malformed, a tagged
  key of another length is reported with both lengths, and any other tag, as well as 32 bytes
  that are no curve point, is an unsupported key type.
\<close>

theorem did_parse_classification:
  fixes E :: "('vk, 'sk, 'z) primitives_scheme"
  defines "text s t \<equiv> s = DID_KEY_PREFIX @ BASE58BTC # t"
  shows
    "(did_parse E s = Ok d \<longleftrightarrow>
        d = Did s \<and> (\<exists>t kb. text s t \<and> ext_b58_decode E t = Ok (ED25519_MULTICODEC @ kb)
                        \<and> length kb = PUBLIC_KEY_LEN \<and> is_ok (ext_vk_from_bytes E kb)))
   \<and> ((\<exists>m. did_parse E s = Err (MalformedDid m)) \<longleftrightarrow>
        \<not> (\<exists>t. text s t \<and> is_ok (ext_b58_decode E t)))
   \<and> (did_parse E s = Err (InvalidKeyLength want got) \<longleftrightarrow>
        (\<exists>t kb. text s t \<and> ext_b58_decode E t = Ok (ED25519_MULTICODEC @ kb)
              \<and> got = length kb \<and> got \<noteq> PUBLIC_KEY_LEN \<and> want = PUBLIC_KEY_LEN))
   \<and> (did_parse E s = Err UnsupportedKeyType \<longleftrightarrow>
        (\<exists>t bs. text s t \<and> ext_b58_decode E t = Ok bs
              \<and> (strip_prefix ED25519_MULTICODEC bs = None
               \<or> (\<exists>kb. bs = ED25519_MULTICODEC @ kb \<and> length kb = PUBLIC_KEY_LEN
                      \<and> \<not> is_ok (ext_vk_from_bytes E kb)))))"
proof (cases s rule: did_prefix_cases)
  case without
  then show ?thesis
    by (auto simp: text_def did_parse_def did_without_prefix)
next
  case (prefixed t)
  have only: "text s t' \<longleftrightarrow> t' = t" for t'
    by (auto simp: text_def prefixed)
  have parse: "did_parse E s = try_bind (did_verifying_key E (Did (DID_KEY_PREFIX @ BASE58BTC # t))) (\<lambda>_. Ok (Did s))"
    by (simp add: did_parse_def prefixed Let_def)
  show ?thesis
  proof (cases "ext_b58_decode E t")
    case (Inl msg)
    then show ?thesis by (simp add: only parse did_with_prefix)
  next
    case decoded: (Inr bs)
    show ?thesis
    proof (cases "strip_prefix ED25519_MULTICODEC bs")
      case None
      then have "bs \<noteq> ED25519_MULTICODEC @ kb" for kb
        by (auto simp: strip_prefix_eq_None)
      with None decoded show ?thesis
        by (simp add: only parse did_with_prefix)
    next
      case (Some kb)
      then have bs: "bs = ED25519_MULTICODEC @ kb" by simp
      show ?thesis
        by (cases "length kb = PUBLIC_KEY_LEN"; cases "ext_vk_from_bytes E kb")
          (auto simp: only parse did_with_prefix decoded bs)
    qed
  qed
qed

end
