(* ===== verification/Jwt.thy ===== *)
theory Jwt
  imports Did_Key
begin

text \<open>
  \<open>edgeauth-types/src/jwt.rs\<close>: compact EdDSA JSON Web Tokens and key sets. The data types
  keep the source's fields (prefixed by their struct); JSON texts are read and written by the
  functions \<open>serde_json\<close> derives, which are fields of the environment.
\<close>

section \<open>Data\<close>

definition JWT_ALG :: string where
  "JWT_ALG = ''EdDSA''"

definition JWK_KTY :: string where
  "JWK_KTY = ''OKP''"

definition JWK_CRV :: string where
  "JWK_CRV = ''Ed25519''"

definition JWK_USE_SIG :: string where
  "JWK_USE_SIG = ''sig''"

record jwt_header =
  hdr_alg :: string
  hdr_typ :: "string option"
  hdr_kid :: "string option"

datatype audience = Single string | Multiple "string list"

record jwt_claims =
  claim_iss :: "string option"
  claim_sub :: "string option"
  claim_aud :: "audience option"
  claim_exp :: "i64 option"
  claim_nbf :: "i64 option"
  claim_iat :: "i64 option"
  claim_jti :: "string option"
  claim_scope :: "string option"
  claim_roles :: "string list"

record jwk =
  jwk_kty :: string
  jwk_crv :: string
  jwk_x :: string
  jwk_kid :: "string option"
  jwk_use :: "string option"
  jwk_alg :: "string option"

record jwks =
  jwks_keys :: "jwk list"

record signed_jwt =
  sj_header :: jwt_header
  sj_claims :: jwt_claims
  sj_signing_input :: string
  sj_signature :: bytes

text \<open>The environment of this component: the primitives and the JSON functions it calls.\<close>

record ('vk, 'sk) jwt_env = "('vk, 'sk) primitives" +
  ext_header_from_slice :: "bytes \<Rightarrow> (jwt_header, string) result"
  ext_claims_from_slice :: "bytes \<Rightarrow> (jwt_claims, string) result"
  ext_jwks_from_str :: "string \<Rightarrow> (jwks, string) result"
  ext_header_to_vec :: "jwt_header \<Rightarrow> (bytes, string) result"
  ext_claims_to_vec :: "jwt_claims \<Rightarrow> (bytes, string) result"

text \<open>
  \<open>serde_json\<close> reads back what it wrote, for one header and one claim set.
\<close>

definition json_header :: "('vk, 'sk, 'z) jwt_env_scheme \<Rightarrow> jwt_header \<Rightarrow> bool" where
  "json_header E h \<longleftrightarrow>
     (\<exists>bs. ext_header_to_vec E h = Ok bs \<and> ext_header_from_slice E bs = Ok h)"

definition json_claims :: "('vk, 'sk, 'z) jwt_env_scheme \<Rightarrow> jwt_claims \<Rightarrow> bool" where
  "json_claims E c \<longleftrightarrow>
     (\<exists>bs. ext_claims_to_vec E c = Ok bs \<and> ext_claims_from_slice E bs = Ok c)"

section \<open>Operations\<close>

definition b64url_decode ::
  "('vk, 'sk, 'z) primitives_scheme \<Rightarrow> string \<Rightarrow> (bytes, verify_error) result" where
  "b64url_decode E segment = map_err Base64 (ext_b64_decode E (as_bytes segment))"

definition b64url_encode :: "('vk, 'sk, 'z) primitives_scheme \<Rightarrow> bytes \<Rightarrow> string" where
  "b64url_encode E bs = ext_b64_encode E bs"

fun audience_contains :: "audience \<Rightarrow> string \<Rightarrow> bool" where
  "audience_contains (Single a) candidate \<longleftrightarrow> a = candidate"
| "audience_contains (Multiple xs) candidate \<longleftrightarrow> list_ex (\<lambda>a. a = candidate) xs"

fun audience_primary :: "audience \<Rightarrow> string option" where
  "audience_primary (Single a) = Some a"
| "audience_primary (Multiple xs) = (case xs of [] \<Rightarrow> None | a # _ \<Rightarrow> Some a)"

definition claims_scopes :: "jwt_claims \<Rightarrow> string fset" where
  "claims_scopes c =
     (case claim_scope c of None \<Rightarrow> {||} | Some s \<Rightarrow> fset_of_list (split_whitespace s))"

definition jwk_from_verifying_key ::
  "('vk, 'sk, 'z) primitives_scheme \<Rightarrow> 'vk \<Rightarrow> string \<Rightarrow> jwk" where
  "jwk_from_verifying_key E key kid =
     \<lparr> jwk_kty = JWK_KTY, jwk_crv = JWK_CRV,
       jwk_x = b64url_encode E (ext_vk_as_bytes E key),
       jwk_kid = Some kid, jwk_use = Some JWK_USE_SIG, jwk_alg = Some JWT_ALG \<rparr>"

definition jwk_verifying_key ::
  "('vk, 'sk, 'z) primitives_scheme \<Rightarrow> jwk \<Rightarrow> ('vk, verify_error) result" where
  "jwk_verifying_key E k =
     (if jwk_kty k \<noteq> JWK_KTY then Err (InvalidKey (''kty='' @ jwk_kty k))
      else if jwk_crv k \<noteq> JWK_CRV then Err (InvalidKey (''crv='' @ jwk_crv k))
      else
        try_bind (b64url_decode E (jwk_x k)) (\<lambda>raw.
        try_bind (map_err (\<lambda>_. InvalidKeyLength PUBLIC_KEY_LEN (length raw))
                   (try_into_array PUBLIC_KEY_LEN raw)) (\<lambda>arr.
        map_err InvalidKey (ext_vk_from_bytes E arr))))"

definition jwks_from_keys :: "jwk list \<Rightarrow> jwks" where
  "jwks_from_keys ks = \<lparr> jwks_keys = ks \<rparr>"

definition jwks_find :: "jwks \<Rightarrow> string option \<Rightarrow> jwk option" where
  "jwks_find ks kid =
     (case kid of
        Some kid' \<Rightarrow> List.find (\<lambda>k. jwk_kid k = Some kid') (jwks_keys ks)
      | None \<Rightarrow>
          (if length (jwks_keys ks) = 1
           then (case jwks_keys ks of [] \<Rightarrow> None | k # _ \<Rightarrow> Some k)
           else None))"

definition jwks_from_json ::
  "('vk, 'sk, 'z) jwt_env_scheme \<Rightarrow> string \<Rightarrow> (jwks, verify_error) result" where
  "jwks_from_json E json = map_err Json (ext_jwks_from_str E json)"

definition signed_jwt_parse ::
  "('vk, 'sk, 'z) jwt_env_scheme \<Rightarrow> string \<Rightarrow> (signed_jwt, verify_error) result" where
  "signed_jwt_parse E token =
     (case split_char CHR ''.'' token of
        [h, p, s] \<Rightarrow>
          try_bind (b64url_decode E h) (\<lambda>h_bytes.
          try_bind (map_err Json (ext_header_from_slice E h_bytes)) (\<lambda>header.
          try_bind (b64url_decode E p) (\<lambda>p_bytes.
          try_bind (map_err Json (ext_claims_from_slice E p_bytes)) (\<lambda>claims.
          try_bind (b64url_decode E s) (\<lambda>sig_bytes.
          try_bind (map_err (\<lambda>_. InvalidSignatureLength (length sig_bytes))
                     (try_into_array SIGNATURE_LEN sig_bytes)) (\<lambda>signature.
          Ok \<lparr> sj_header = header, sj_claims = claims,
               sj_signing_input = h @ ''.'' @ p, sj_signature = signature \<rparr>))))))
      | _ \<Rightarrow> Err (MalformedJwt ''expected exactly three dot-separated segments''))"

definition signed_jwt_verify_with ::
  "('vk, 'sk, 'z) jwt_env_scheme \<Rightarrow> signed_jwt \<Rightarrow> jwks \<Rightarrow> (unit, verify_error) result" where
  "signed_jwt_verify_with E j ks =
     (if hdr_alg (sj_header j) \<noteq> JWT_ALG
      then Err (UnsupportedAlgorithm (hdr_alg (sj_header j)))
      else
        try_bind (ok_or (UnknownKeyId (unwrap_or_empty (hdr_kid (sj_header j))))
                   (jwks_find ks (hdr_kid (sj_header j)))) (\<lambda>k.
        try_bind (jwk_verifying_key E k) (\<lambda>key.
        if ext_vk_verify E key (as_bytes (sj_signing_input j)) (sj_signature j)
        then Ok () else Err SignatureInvalid)))"

definition encode_jwt ::
  "('vk, 'sk, 'z) jwt_env_scheme \<Rightarrow> jwt_header \<Rightarrow> jwt_claims \<Rightarrow> 'sk \<Rightarrow> (string, verify_error) result" where
  "encode_jwt E header claims signing_key =
     try_bind (map_err Json (ext_header_to_vec E header)) (\<lambda>h_bytes.
     try_bind (map_err Json (ext_claims_to_vec E claims)) (\<lambda>p_bytes.
     let h = b64url_encode E h_bytes;
         p = b64url_encode E p_bytes;
         signing_input = h @ ''.'' @ p;
         signature = ext_sk_sign E signing_key (as_bytes signing_input)
     in Ok (signing_input @ ''.'' @ b64url_encode E signature)))"

section \<open>Audience, scopes and key lookup\<close>

lemma audience_contains_iff:
  "audience_contains a c \<longleftrightarrow> (case a of Single x \<Rightarrow> x = c | Multiple xs \<Rightarrow> c \<in> set xs)"
  by (cases a) (auto simp: list_ex_iff)

lemma fset_claims_scopes:
  "x |\<in>| claims_scopes c \<longleftrightarrow> (\<exists>s. claim_scope c = Some s \<and> x \<in> set (split_whitespace s))"
  by (cases "claim_scope c") (simp_all add: claims_scopes_def fset_of_list_elem)

lemma jwks_find_kid_Some:
  "jwks_find ks (Some kid) = Some k \<longleftrightarrow>
     (\<exists>before after. jwks_keys ks = before @ k # after \<and> jwk_kid k = Some kid
        \<and> list_all (\<lambda>k'. jwk_kid k' \<noteq> Some kid) before)"
  by (simp add: jwks_find_def find_Some_split)

lemma jwks_find_kid_None:
  "jwks_find ks (Some kid) = None \<longleftrightarrow> list_all (\<lambda>k'. jwk_kid k' \<noteq> Some kid) (jwks_keys ks)"
  by (simp add: jwks_find_def find_None_all)

lemma jwks_find_no_kid: "jwks_find ks None = Some k \<longleftrightarrow> jwks_keys ks = [k]"
  by (auto simp: jwks_find_def length_Suc_conv split: list.splits)

text \<open>
  Key lookup. With a \<open>kid\<close> it is the first key of the set that carries it; without one
  it is the only key of a one-key set, and no key of any other set.
\<close>

theorem jwks_find_spec:
  "(jwks_find ks (Some kid) = Some k \<longleftrightarrow>
      (\<exists>before after. jwks_keys ks = before @ k # after \<and> jwk_kid k = Some kid
         \<and> list_all (\<lambda>k'. jwk_kid k' \<noteq> Some kid) before))
   \<and> (jwks_find ks (Some kid) = None \<longleftrightarrow> list_all (\<lambda>k'. jwk_kid k' \<noteq> Some kid) (jwks_keys ks))
   \<and> (jwks_find ks None = Some k \<longleftrightarrow> jwks_keys ks = [k])"
  by (intro conjI jwks_find_kid_Some jwks_find_kid_None jwks_find_no_kid)

lemma jwks_find_member: "jwks_find ks kid = Some k \<Longrightarrow> k \<in> set (jwks_keys ks)"
  by (cases kid) (auto simp: jwks_find_kid_Some jwks_find_no_kid)

lemma jwks_find_kid: "jwks_find ks (Some kid) = Some k \<Longrightarrow> jwk_kid k = Some kid"
  by (auto simp: jwks_find_kid_Some)

section \<open>Keys\<close>

lemma b64url_decode_encode [simp]:
  "base64_roundtrip E \<Longrightarrow> b64url_decode E (b64url_encode E bs) = Ok bs"
  by (simp add: b64url_decode_def b64url_encode_def ext_laws)

lemma b64url_encode_dotfree [simp]:
  "base64_dotfree E \<Longrightarrow> CHR ''.'' \<notin> set (b64url_encode E bs)"
  by (simp add: b64url_encode_def ext_laws)

lemma jwk_verifying_key_Ok_iff:
  "jwk_verifying_key E k = Ok key \<longleftrightarrow>
     jwk_kty k = JWK_KTY \<and> jwk_crv k = JWK_CRV
   \<and> (\<exists>raw. b64url_decode E (jwk_x k) = Ok raw \<and> length raw = PUBLIC_KEY_LEN
          \<and> ext_vk_from_bytes E raw = Ok key)"
  by (auto simp: jwk_verifying_key_def)

lemma jwk_from_verifying_key_recovers [simp]:
  assumes "base64_roundtrip E" and "key_roundtrip E"
  shows "jwk_verifying_key E (jwk_from_verifying_key E key kid) = Ok key"
  using assms by (simp add: jwk_verifying_key_Ok_iff jwk_from_verifying_key_def ext_laws)

section \<open>Parsing and verifying\<close>

lemma signed_jwt_parse_Ok_iff:
  "signed_jwt_parse E token = Ok j \<longleftrightarrow>
     (\<exists>h p s h_bytes p_bytes.
        split_char CHR ''.'' token = [h, p, s]
      \<and> b64url_decode E h = Ok h_bytes \<and> ext_header_from_slice E h_bytes = Ok (sj_header j)
      \<and> b64url_decode E p = Ok p_bytes \<and> ext_claims_from_slice E p_bytes = Ok (sj_claims j)
      \<and> b64url_decode E s = Ok (sj_signature j) \<and> length (sj_signature j) = SIGNATURE_LEN
      \<and> sj_signing_input j = h @ ''.'' @ p)"
proof (cases "\<exists>h p s. split_char CHR ''.'' token = [h, p, s]")
  case True
  then obtain h p s where "split_char CHR ''.'' token = [h, p, s]" by blast
  then show ?thesis
    by (cases j) (auto simp: signed_jwt_parse_def)
next
  case False
  then show ?thesis
    by (auto simp: signed_jwt_parse_def split: list.split)
qed

lemma signed_jwt_verify_with_Ok_iff:
  "signed_jwt_verify_with E j ks = Ok u \<longleftrightarrow>
     hdr_alg (sj_header j) = JWT_ALG
   \<and> (\<exists>k key. jwks_find ks (hdr_kid (sj_header j)) = Some k
          \<and> jwk_verifying_key E k = Ok key
          \<and> ext_vk_verify E key (as_bytes (sj_signing_input j)) (sj_signature j))"
  by (auto simp: signed_jwt_verify_with_def)

section \<open>Sample environment\<close>

text \<open>
  The witnesses' environment: tables of headers, claim sets and key sets stand for the JSON
  functions.
\<close>

definition sample_jwt_env ::
  "jwt_header list \<Rightarrow> jwt_claims list \<Rightarrow> jwks list \<Rightarrow> 'z \<Rightarrow> (byte, byte, 'z) jwt_env_scheme" where
  "sample_jwt_env hs cs js z = sample_primitives
     (jwt_env_ext (table_from_slice hs) (table_from_slice cs) (table_from_str js)
        (table_to_vec hs) (table_to_vec cs) z)"

lemma sample_jwt_env_laws [simp]:
  "base64_roundtrip (sample_jwt_env hs cs js z)"
  "base64_dotfree (sample_jwt_env hs cs js z)"
  "base58_roundtrip (sample_jwt_env hs cs js z)"
  "hex_roundtrip (sample_jwt_env hs cs js z)"
  "key_roundtrip (sample_jwt_env hs cs js z)"
  "signatures_verify (sample_jwt_env hs cs js z)"
  by (simp_all add: sample_jwt_env_def)

lemma sample_json_header:
  "h \<in> set hs \<Longrightarrow> length hs \<le> 256 \<Longrightarrow> json_header (sample_jwt_env hs cs js z) h"
  unfolding json_header_def sample_jwt_env_def
  using table_roundtrip [of h hs] by (simp add: sample_primitives_def)

lemma sample_json_claims:
  "c \<in> set cs \<Longrightarrow> length cs \<le> 256 \<Longrightarrow> json_claims (sample_jwt_env hs cs js z) c"
  unfolding json_claims_def sample_jwt_env_def
  using table_roundtrip [of c cs] by (simp add: sample_primitives_def)

definition sample_header :: jwt_header where
  "sample_header = \<lparr> hdr_alg = ''EdDSA'', hdr_typ = Some ''JWT'', hdr_kid = Some ''k1'' \<rparr>"

definition sample_claims :: jwt_claims where
  "sample_claims = \<lparr> claim_iss = Some ''https://issuer.example'', claim_sub = Some ''user-1'',
     claim_aud = Some (Single ''edge-api''), claim_exp = Some 2000, claim_nbf = Some 1000,
     claim_iat = Some 1000, claim_jti = Some ''tok-1'', claim_scope = Some ''openid documents:read'',
     claim_roles = [''editor''] \<rparr>"

section \<open>Minting and verifying\<close>

lemma encode_then_parse:
  assumes "base64_roundtrip E" "base64_dotfree E" "signatures_verify E"
    and "json_header E header" "json_claims E claims"
  obtains token j where
    "encode_jwt E header claims sk = Ok token" "signed_jwt_parse E token = Ok j"
    "sj_header j = header" "sj_claims j = claims"
    "sj_signature j = ext_sk_sign E sk (as_bytes (sj_signing_input j))"
proof -
  obtain hb where hb: "ext_header_to_vec E header = Ok hb" "ext_header_from_slice E hb = Ok header"
    using assms(4) by (auto simp: json_header_def)
  obtain cb where cb: "ext_claims_to_vec E claims = Ok cb" "ext_claims_from_slice E cb = Ok claims"
    using assms(5) by (auto simp: json_claims_def)
  define h p where "h = b64url_encode E hb" and "p = b64url_encode E cb"
  define sig where "sig = ext_sk_sign E sk (as_bytes (h @ ''.'' @ p))"
  have "encode_jwt E header claims sk = Ok (h @ ''.'' @ p @ ''.'' @ b64url_encode E sig)"
    using hb cb by (simp add: encode_jwt_def Let_def h_def p_def sig_def)
  moreover have "split_char CHR ''.'' (h @ ''.'' @ p @ ''.'' @ b64url_encode E sig)
      = [h, p, b64url_encode E sig]"
    using assms(2) by (simp add: split_char_three_iff h_def p_def)
  moreover have "length sig = SIGNATURE_LEN"
    using assms(3) by (simp add: sig_def ext_laws)
  ultimately show ?thesis
    using that [of _ "\<lparr> sj_header = header, sj_claims = claims,
        sj_signing_input = h @ ''.'' @ p, sj_signature = sig \<rparr>"] assms(1) hb cb
    by (simp add: signed_jwt_parse_def h_def p_def sig_def)
qed

lemma minted_verifies:
  assumes "base64_roundtrip E" "base64_dotfree E" "signatures_verify E" "key_roundtrip E"
    and "json_header E header" "json_claims E claims" "hdr_alg header = JWT_ALG"
    and "jwks_find ks (hdr_kid header) = Some (jwk_from_verifying_key E (ext_sk_verifying_key E sk) kid)"
  obtains token j where
    "encode_jwt E header claims sk = Ok token" "signed_jwt_parse E token = Ok j"
    "sj_header j = header" "sj_claims j = claims" "signed_jwt_verify_with E j ks = Ok ()"
proof -
  obtain token j where *: "encode_jwt E header claims sk = Ok token" "signed_jwt_parse E token = Ok j"
    "sj_header j = header" "sj_claims j = claims"
    "sj_signature j = ext_sk_sign E sk (as_bytes (sj_signing_input j))"
    using assms by (blast elim: encode_then_parse)
  then have "signed_jwt_verify_with E j ks = Ok ()"
    using assms by (simp add: signed_jwt_verify_with_def ext_laws)
  with * show ?thesis by (intro that)
qed

lemma jwks_find_singleton [simp]:
  "jwks_find (jwks_from_keys [jwk_from_verifying_key E key kid]) (Some kid)
     = Some (jwk_from_verifying_key E key kid)"
  by (simp add: jwks_find_def jwks_from_keys_def jwk_from_verifying_key_def)

abbreviation sample_jwks :: "('vk, 'sk, 'z) primitives_scheme \<Rightarrow> 'vk \<Rightarrow> jwks" where
  "sample_jwks E key \<equiv> jwks_from_keys [jwk_from_verifying_key E key ''k1'']"

lemma sample_token:
  fixes js z
  defines "E \<equiv> sample_jwt_env [sample_header] [sample_claims] js z"
  obtains token j where
    "encode_jwt E sample_header sample_claims 5 = Ok token" "signed_jwt_parse E token = Ok j"
    "sj_header j = sample_header" "sj_claims j = sample_claims"
    "signed_jwt_verify_with E j (sample_jwks E 5) = Ok ()"
proof (rule minted_verifies [of E sample_header sample_claims "sample_jwks E 5" 5 "''k1''"])
  show "jwks_find (sample_jwks E 5) (hdr_kid sample_header)
      = Some (jwk_from_verifying_key E (ext_sk_verifying_key E 5) ''k1'')"
    by (simp add: sample_header_def) (simp add: E_def sample_jwt_env_def)
qed (simp_all add: E_def sample_json_header sample_json_claims that,
     simp add: sample_header_def JWT_ALG_def)

text \<open>
  A minted token verifies. Encoding a header and claims and parsing the token gives them
  back unchanged, and the token verifies against any key set whose lookup of the header's
  \<open>kid\<close> finds the signer's public key, when the header pins EdDSA.
\<close>

theorem encode_parse_verify_roundtrip:
  assumes "base64_roundtrip E" "base64_dotfree E" "signatures_verify E" "key_roundtrip E"
    and "json_header E header" "json_claims E claims" "hdr_alg header = ''EdDSA''"
    and "jwks_find ks (hdr_kid header) = Some (jwk_from_verifying_key E (ext_sk_verifying_key E sk) kid)"
  shows "\<exists>token j. encode_jwt E header claims sk = Ok token \<and> signed_jwt_parse E token = Ok j
     \<and> sj_header j = header \<and> sj_claims j = claims \<and> signed_jwt_verify_with E j ks = Ok ()"
  using assms by (metis JWT_ALG_def minted_verifies)

theorem encode_parse_verify_roundtrip_witness:
  "let E = sample_jwt_env [sample_header] [sample_claims] [] () in
   \<exists>token j. encode_jwt E sample_header sample_claims 5 = Ok token \<and> signed_jwt_parse E token = Ok j
     \<and> sj_header j = sample_header \<and> sj_claims j = sample_claims
     \<and> signed_jwt_verify_with E j (sample_jwks E 5) = Ok ()"
proof -
  let ?E = "sample_jwt_env [sample_header] [sample_claims] [] ()"
  have "jwks_find (sample_jwks ?E 5) (hdr_kid sample_header)
      = Some (jwk_from_verifying_key ?E (ext_sk_verifying_key ?E 5) ''k1'')"
    by (simp add: sample_header_def) (simp add: sample_jwt_env_def)
  then show ?thesis
    unfolding Let_def
    by (intro encode_parse_verify_roundtrip)
      (simp_all add: sample_json_header sample_json_claims, simp add: sample_header_def)
qed

text \<open>
  C3: what an accepted token is. A token that parses and verifies consists of three segments
  without dots; its header names EdDSA; the key comes from the trusted set, carries the token's
  \<open>kid\<close> if it names one, and is an \<open>OKP\<close>/\<open>Ed25519\<close> key; and that key accepts the 64-byte
  signature over exactly the bytes of the token before its last dot.
\<close>

theorem authenticated_token:
  assumes "signed_jwt_parse E token = Ok j" and "signed_jwt_verify_with E j ks = Ok ()"
  shows "\<exists>h p s k key.
      token = h @ ''.'' @ p @ ''.'' @ s
    \<and> CHR ''.'' \<notin> set h \<union> set p \<union> set s
    \<and> hdr_alg (sj_header j) = ''EdDSA''
    \<and> k \<in> set (jwks_keys ks) \<and> (hdr_kid (sj_header j) = None \<or> jwk_kid k = hdr_kid (sj_header j))
    \<and> jwk_kty k = ''OKP'' \<and> jwk_crv k = ''Ed25519'' \<and> jwk_verifying_key E k = Ok key
    \<and> b64url_decode E s = Ok (sj_signature j) \<and> length (sj_signature j) = 64
    \<and> ext_vk_verify E key (as_bytes (h @ ''.'' @ p)) (sj_signature j)"
proof -
  obtain h p s where parts: "split_char CHR ''.'' token = [h, p, s]"
    and s: "b64url_decode E s = Ok (sj_signature j)" "length (sj_signature j) = SIGNATURE_LEN"
    and input: "sj_signing_input j = h @ ''.'' @ p"
    using assms(1) by (auto simp: signed_jwt_parse_Ok_iff)
  obtain k key where k: "jwks_find ks (hdr_kid (sj_header j)) = Some k"
    and key: "jwk_verifying_key E k = Ok key"
    and sig: "ext_vk_verify E key (as_bytes (sj_signing_input j)) (sj_signature j)"
    and alg: "hdr_alg (sj_header j) = JWT_ALG"
    using assms(2) by (auto simp: signed_jwt_verify_with_Ok_iff)
  have "hdr_kid (sj_header j) = None \<or> jwk_kid k = hdr_kid (sj_header j)"
    using k by (cases "hdr_kid (sj_header j)") (auto dest: jwks_find_kid)
  moreover have "jwk_kty k = JWK_KTY" "jwk_crv k = JWK_CRV"
    using key by (auto simp: jwk_verifying_key_Ok_iff)
  moreover have "k \<in> set (jwks_keys ks)"
    using k by (rule jwks_find_member)
  ultimately have "token = h @ ''.'' @ p @ ''.'' @ s
    \<and> CHR ''.'' \<notin> set h \<union> set p \<union> set s
    \<and> hdr_alg (sj_header j) = ''EdDSA''
    \<and> k \<in> set (jwks_keys ks) \<and> (hdr_kid (sj_header j) = None \<or> jwk_kid k = hdr_kid (sj_header j))
    \<and> jwk_kty k = ''OKP'' \<and> jwk_crv k = ''Ed25519'' \<and> jwk_verifying_key E k = Ok key
    \<and> b64url_decode E s = Ok (sj_signature j) \<and> length (sj_signature j) = 64
    \<and> ext_vk_verify E key (as_bytes (h @ ''.'' @ p)) (sj_signature j)"
    using parts s sig alg key input
    by (simp add: split_char_three_iff JWT_ALG_def JWK_KTY_def JWK_CRV_def SIGNATURE_LEN_def)
  then show ?thesis by blast
qed

theorem authenticated_token_witness:
  "let E = sample_jwt_env [sample_header] [sample_claims] [] () in
   \<exists>token j h p s. signed_jwt_parse E token = Ok j
     \<and> signed_jwt_verify_with E j (sample_jwks E 5) = Ok () \<and> token = h @ ''.'' @ p @ ''.'' @ s"
proof -
  let ?E = "sample_jwt_env [sample_header] [sample_claims] [] ()"
  obtain token j where j: "signed_jwt_parse ?E token = Ok j"
      "signed_jwt_verify_with ?E j (sample_jwks ?E 5) = Ok ()"
    by (rule sample_token)
  obtain h p s where "token = h @ ''.'' @ p @ ''.'' @ s"
    using authenticated_token [OF j] by blast
  with j show ?thesis unfolding Let_def by blast
qed

section \<open>Error values\<close>

lemma split_char_not_three:
  "(\<nexists>h p s. split_char CHR ''.'' token = [h, p, s]) \<longleftrightarrow> length (split_char CHR ''.'' token) \<noteq> 3"
  by (auto simp: length_Suc_conv numeral_3_eq_3)

text \<open>
  How a token fails to parse. It is malformed exactly when it does not have three
  dot-separated segments; the length error carries the decoded length and occurs exactly when
  everything before it is well formed and the signature is not 64 bytes; and no failure is of
  another kind than these two, a bad \<open>base64url\<close> segment or bad JSON.
\<close>

theorem signed_jwt_parse_errors:
  "((\<exists>m. signed_jwt_parse E token = Err (MalformedJwt m))
      \<longleftrightarrow> length (split_char CHR ''.'' token) \<noteq> 3)
   \<and> (signed_jwt_parse E token = Err (InvalidSignatureLength n) \<longleftrightarrow>
       (\<exists>h p s hb pb header claims sb.
          split_char CHR ''.'' token = [h, p, s]
        \<and> b64url_decode E h = Ok hb \<and> ext_header_from_slice E hb = Ok header
        \<and> b64url_decode E p = Ok pb \<and> ext_claims_from_slice E pb = Ok claims
        \<and> b64url_decode E s = Ok sb \<and> length sb = n \<and> n \<noteq> 64))
   \<and> signed_jwt_parse E token \<notin>
       {Err SignatureInvalid, Err MissingProof, Err IssuerMismatch, Err UnsupportedKeyType}
   \<and> (\<nexists>s. signed_jwt_parse E token \<in> {Err (UnsupportedAlgorithm s), Err (UnknownKeyId s),
                                     Err (InvalidKey s), Err (MalformedDid s)})
   \<and> (\<nexists>a b. signed_jwt_parse E token = Err (InvalidKeyLength a b))"
proof (cases "\<exists>h p s. split_char CHR ''.'' token = [h, p, s]")
  case True
  then obtain h p s where parts: "split_char CHR ''.'' token = [h, p, s]" by blast
  show ?thesis
    by (simp add: signed_jwt_parse_def parts try_bind_eq_Err map_err_eq_Err b64url_decode_def
        try_into_array_def SIGNATURE_LEN_def) blast
next
  case False
  then have "signed_jwt_parse E token
      = Err (MalformedJwt ''expected exactly three dot-separated segments'')"
    by (auto simp: signed_jwt_parse_def split: list.split)
  with False show ?thesis
    using split_char_not_three [of token] by auto
qed

text \<open>
  How a parsed token fails to verify, in the order of the checks: another algorithm than
  EdDSA, whatever the keys; then no trusted key for the header's \<open>kid\<close>; then a key that cannot
  be decoded, with its own error; then a signature the key rejects.
\<close>

theorem signed_jwt_verify_errors:
  "(hdr_alg (sj_header j) \<noteq> ''EdDSA'' \<longleftrightarrow>
      signed_jwt_verify_with E j ks = Err (UnsupportedAlgorithm (hdr_alg (sj_header j))))
   \<and> ((\<exists>i. signed_jwt_verify_with E j ks = Err (UnknownKeyId i)) \<longleftrightarrow>
      hdr_alg (sj_header j) = ''EdDSA'' \<and> jwks_find ks (hdr_kid (sj_header j)) = None)
   \<and> (signed_jwt_verify_with E j ks = Err SignatureInvalid \<longleftrightarrow>
      hdr_alg (sj_header j) = ''EdDSA''
    \<and> (\<exists>k key. jwks_find ks (hdr_kid (sj_header j)) = Some k \<and> jwk_verifying_key E k = Ok key
          \<and> \<not> ext_vk_verify E key (as_bytes (sj_signing_input j)) (sj_signature j)))"
proof -
  have "jwk_verifying_key E k \<noteq> Err SignatureInvalid"
       "jwk_verifying_key E k \<noteq> Err (UnknownKeyId i)"
       "jwk_verifying_key E k \<noteq> Err (UnsupportedAlgorithm a)" for k i a
    by (auto simp: jwk_verifying_key_def try_bind_eq_Err map_err_eq_Err b64url_decode_def)
  then show ?thesis
    by (cases "jwks_find ks (hdr_kid (sj_header j))")
      (auto simp: signed_jwt_verify_with_def JWT_ALG_def try_bind_eq_Err)
qed

end
