(* ===== verification/Credential.thy ===== *)
theory Credential
  imports Jwt
begin

text \<open>
  \<open>edgeauth-types/src/credential.rs\<close>: Verifiable Credentials with detached Ed25519 proofs.
  The claims map (\<open>BTreeMap<String, String>\<close>) is a finite map. The canonical payload is the
  JSON text of the proof-free view, produced by \<open>serde_json\<close>, a field of the environment.
\<close>

section \<open>Data\<close>

definition PROOF_TYPE :: string where
  "PROOF_TYPE = ''Ed25519Signature2020''"

record credential_subject =
  subj_id :: did
  subj_claims :: "(string, string) fmap"

record proof_record =
  proof_type :: string
  proof_verification_method :: did
  proof_created :: i64
  proof_signature_hex :: string

record verifiable_credential =
  vc_id :: string
  vc_credential_type :: string
  vc_issuer :: did
  vc_subject :: credential_subject
  vc_issued_at :: i64
  vc_expires_at :: "i64 option"
  vc_proof :: "proof_record option"

record unsigned_view =
  view_id :: string
  view_credential_type :: string
  view_issuer :: did
  view_subject :: credential_subject
  view_issued_at :: i64
  view_expires_at :: "i64 option"

record ('vk, 'sk) vc_env = "('vk, 'sk) jwt_env" +
  ext_view_to_vec :: "unsigned_view \<Rightarrow> (bytes, string) result"
  ext_vc_from_str :: "string \<Rightarrow> (verifiable_credential, string) result"
  ext_vc_to_string :: "verifiable_credential \<Rightarrow> (string, string) result"

text \<open>
  Documented behaviour of \<open>serde_json\<close>, each for the values a theorem names: a struct of
  strings, integers and string maps serializes, two different views have different texts, and a
  credential is read back as it was written.
\<close>

definition view_serializes :: "('vk, 'sk, 'z) vc_env_scheme \<Rightarrow> unsigned_view \<Rightarrow> bool" where
  "view_serializes E v \<longleftrightarrow> is_ok (ext_view_to_vec E v)"

definition views_distinct :: "('vk, 'sk, 'z) vc_env_scheme \<Rightarrow> unsigned_view \<Rightarrow> unsigned_view \<Rightarrow> bool" where
  "views_distinct E v v' \<longleftrightarrow> (ext_view_to_vec E v = ext_view_to_vec E v' \<longrightarrow> v = v')"

definition json_credential :: "('vk, 'sk, 'z) vc_env_scheme \<Rightarrow> verifiable_credential \<Rightarrow> bool" where
  "json_credential E vc \<longleftrightarrow>
     (\<exists>s. ext_vc_to_string E vc = Ok s \<and> ext_vc_from_str E s = Ok vc)"

section \<open>Operations\<close>

definition proof_signature_bytes ::
  "('vk, 'sk, 'z) primitives_scheme \<Rightarrow> proof_record \<Rightarrow> (bytes, verify_error) result" where
  "proof_signature_bytes E pr =
     try_bind (map_err MalformedDid (ext_hex_decode E (proof_signature_hex pr))) (\<lambda>raw.
     map_err (\<lambda>_. InvalidSignatureLength (length raw)) (try_into_array SIGNATURE_LEN raw))"

definition unsigned_view_of :: "verifiable_credential \<Rightarrow> unsigned_view" where
  "unsigned_view_of vc =
     \<lparr> view_id = vc_id vc, view_credential_type = vc_credential_type vc,
       view_issuer = vc_issuer vc, view_subject = vc_subject vc,
       view_issued_at = vc_issued_at vc, view_expires_at = vc_expires_at vc \<rparr>"

definition signing_payload ::
  "('vk, 'sk, 'z) vc_env_scheme \<Rightarrow> verifiable_credential \<Rightarrow> (bytes, verify_error) result" where
  "signing_payload E vc = map_err Json (ext_view_to_vec E (unsigned_view_of vc))"

definition sign_with ::
  "('vk, 'sk, 'z) vc_env_scheme \<Rightarrow> verifiable_credential \<Rightarrow> 'sk \<Rightarrow> i64 \<Rightarrow>
     (verifiable_credential, verify_error) result" where
  \<comment> \<open>the credential after the call; on an error it is left as it was\<close>
  "sign_with E vc signing_key created =
     try_bind (signing_payload E vc) (\<lambda>payload.
     let signature = sign_payload E signing_key payload
     in Ok (vc\<lparr>vc_proof := Some
          \<lparr> proof_type = PROOF_TYPE, proof_verification_method = vc_issuer vc,
            proof_created = created, proof_signature_hex = ext_hex_encode E signature \<rparr>\<rparr>))"

definition verify_signature ::
  "('vk, 'sk, 'z) vc_env_scheme \<Rightarrow> verifiable_credential \<Rightarrow> (unit, verify_error) result" where
  "verify_signature E vc =
     try_bind (ok_or MissingProof (vc_proof vc)) (\<lambda>pr.
     if proof_verification_method pr \<noteq> vc_issuer vc then Err IssuerMismatch
     else
       try_bind (did_verifying_key E (vc_issuer vc)) (\<lambda>key.
       try_bind (proof_signature_bytes E pr) (\<lambda>signature.
       try_bind (signing_payload E vc) (\<lambda>payload.
       verify_payload E key payload signature))))"

definition validity_at :: "verifiable_credential \<Rightarrow> i64 \<Rightarrow> i64 \<Rightarrow> bool \<times> bool" where
  "validity_at vc now leeway =
     (let not_before_ok = vc_issued_at vc <=s now + leeway;
          not_expired_ok = is_none_or (\<lambda>exp. now - leeway <s exp) (vc_expires_at vc)
      in (not_before_ok, not_expired_ok))"

section \<open>Proofs\<close>

lemma verify_signature_Ok_iff:
  "verify_signature E vc = Ok u \<longleftrightarrow>
     (\<exists>pr key sig payload.
        vc_proof vc = Some pr \<and> proof_verification_method pr = vc_issuer vc
      \<and> did_verifying_key E (vc_issuer vc) = Ok key
      \<and> ext_hex_decode E (proof_signature_hex pr) = Ok sig \<and> length sig = SIGNATURE_LEN
      \<and> ext_view_to_vec E (unsigned_view_of vc) = Ok payload
      \<and> ext_vk_verify E key payload sig)"
  by (auto simp: verify_signature_def proof_signature_bytes_def signing_payload_def)

lemma unsigned_view_of_proof [simp]: "unsigned_view_of (vc\<lparr>vc_proof := p\<rparr>) = unsigned_view_of vc"
  by (simp add: unsigned_view_of_def)

lemma unsigned_view_of_inj:
  "unsigned_view_of vc = unsigned_view_of vc' \<longleftrightarrow> vc'\<lparr>vc_proof := vc_proof vc\<rparr> = vc"
  by (cases vc; cases vc') (auto simp: unsigned_view_of_def)

lemma signed_verifies:
  assumes "base58_roundtrip E" "key_roundtrip E" "hex_roundtrip E" "signatures_verify E"
    and "vc_issuer vc = did_from_verifying_key E (ext_sk_verifying_key E sk)"
    and "view_serializes E (unsigned_view_of vc)"
  obtains signed where "sign_with E vc sk created = Ok signed" "verify_signature E signed = Ok ()"
    "unsigned_view_of signed = unsigned_view_of vc" "vc_proof signed \<noteq> None"
proof -
  obtain payload where payload: "ext_view_to_vec E (unsigned_view_of vc) = Ok payload"
    using assms(6) by (auto simp: view_serializes_def is_ok_iff)
  define pr where "pr = \<lparr> proof_type = PROOF_TYPE, proof_verification_method = vc_issuer vc,
    proof_created = created, proof_signature_hex = ext_hex_encode E (ext_sk_sign E sk payload) \<rparr>"
  have "sign_with E vc sk created = Ok (vc\<lparr>vc_proof := Some pr\<rparr>)"
    using payload by (simp add: sign_with_def signing_payload_def sign_payload_def pr_def Let_def)
  moreover have "verify_signature E (vc\<lparr>vc_proof := Some pr\<rparr>) = Ok ()"
    using assms payload by (simp add: verify_signature_Ok_iff pr_def ext_laws)
  ultimately show ?thesis
    using that [of "vc\<lparr>vc_proof := Some pr\<rparr>"] by simp
qed

section \<open>Sample environment\<close>

definition sample_vc_env ::
  "unsigned_view list \<Rightarrow> verifiable_credential list \<Rightarrow> jwt_header list \<Rightarrow> jwt_claims list \<Rightarrow>
     jwks list \<Rightarrow> 'z \<Rightarrow> (byte, byte, 'z) vc_env_scheme" where
  "sample_vc_env vs vcs hs cs js z = sample_jwt_env hs cs js
     (vc_env_ext (table_to_vec vs) (table_from_str vcs) (table_to_string vcs) z)"

lemma sample_vc_env_laws [simp]:
  "base64_roundtrip (sample_vc_env vs vcs hs cs js z)"
  "base64_dotfree (sample_vc_env vs vcs hs cs js z)"
  "base58_roundtrip (sample_vc_env vs vcs hs cs js z)"
  "hex_roundtrip (sample_vc_env vs vcs hs cs js z)"
  "key_roundtrip (sample_vc_env vs vcs hs cs js z)"
  "signatures_verify (sample_vc_env vs vcs hs cs js z)"
  by (simp_all add: sample_vc_env_def)

lemma sample_vc_env_view [simp]:
  "ext_view_to_vec (sample_vc_env vs vcs hs cs js z) = table_to_vec vs"
  by (simp add: sample_vc_env_def sample_jwt_env_def sample_primitives_def)

lemma sample_vc_env_key [simp]: "ext_sk_verifying_key (sample_vc_env vs vcs hs cs js z) = id"
  by (simp add: sample_vc_env_def sample_jwt_env_def)

lemma sample_json_credential:
  "vc \<in> set vcs \<Longrightarrow> length vcs \<le> 256 \<Longrightarrow> json_credential (sample_vc_env vs vcs hs cs js z) vc"
  unfolding json_credential_def sample_vc_env_def sample_jwt_env_def
  using table_string_roundtrip [of vc vcs] by (simp add: sample_primitives_def)

text \<open>A credential of the sample issuer (key 1), not yet signed, and its tampered copy.\<close>

definition sample_vc :: verifiable_credential where
  "sample_vc = \<lparr> vc_id = ''cred-1'', vc_credential_type = ''KycVerified'',
     vc_issuer = did_from_verifying_key (sample_primitives ()) 1,
     vc_subject = \<lparr> subj_id = Did ''did:example:alice'', subj_claims = fmupd ''kyc'' ''verified'' fmempty \<rparr>,
     vc_issued_at = 1000, vc_expires_at = Some 2000, vc_proof = None \<rparr>"

definition sample_forged :: verifiable_credential where
  "sample_forged = sample_vc\<lparr>vc_subject := \<lparr> subj_id = Did ''did:example:alice'',
     subj_claims = fmupd ''kyc'' ''forged'' fmempty \<rparr>\<rparr>"

definition sample_env :: "(byte, byte) vc_env" where
  "sample_env = sample_vc_env [unsigned_view_of sample_vc, unsigned_view_of sample_forged] []
     [sample_header] [sample_claims] [] ()"

lemma sample_env_laws [simp]:
  "base64_roundtrip sample_env" "base64_dotfree sample_env" "base58_roundtrip sample_env"
  "hex_roundtrip sample_env" "key_roundtrip sample_env" "signatures_verify sample_env"
  by (simp_all add: sample_env_def)

lemma sample_env_did [simp]:
  "did_from_verifying_key sample_env k = did_from_verifying_key (sample_primitives ()) k"
  by (simp add: did_from_verifying_key_def sample_env_def sample_vc_env_def sample_jwt_env_def)

lemma sample_env_key [simp]: "ext_sk_verifying_key sample_env = id"
  by (simp add: sample_env_def)

lemma sample_view_serializes [simp]: "view_serializes sample_env (unsigned_view_of sample_vc)"
  by (simp add: view_serializes_def sample_env_def table_to_vec_def)

section \<open>Properties\<close>

text \<open>
  Signing then verifying. A credential whose issuer is the signer's \<open>did:key\<close> verifies after
  \<open>sign_with\<close>, whoever its subject is, and signing changes nothing but the proof.
\<close>

theorem sign_then_verify:
  assumes "base58_roundtrip E" "key_roundtrip E" "hex_roundtrip E" "signatures_verify E"
    and "vc_issuer vc = did_from_verifying_key E (ext_sk_verifying_key E sk)"
    and "view_serializes E (unsigned_view_of vc)"
  shows "\<exists>signed. sign_with E vc sk created = Ok signed \<and> verify_signature E signed = Ok ()
       \<and> signed\<lparr>vc_proof := vc_proof vc\<rparr> = vc"
proof -
  obtain signed where "sign_with E vc sk created = Ok signed" "verify_signature E signed = Ok ()"
    and "unsigned_view_of signed = unsigned_view_of vc"
    using assms by (rule signed_verifies)
  then show ?thesis by (metis unsigned_view_of_inj)
qed

theorem sign_then_verify_witness:
  "\<exists>signed. sign_with sample_env sample_vc 1 1000 = Ok signed
     \<and> verify_signature sample_env signed = Ok () \<and> signed\<lparr>vc_proof := vc_proof sample_vc\<rparr> = sample_vc"
  by (rule sign_then_verify) (simp_all, simp add: sample_vc_def)

lemma forged_payload:
  assumes "verify_signature E vc = Ok ()" "verify_signature E vc' = Ok ()"
    and "vc_proof vc' = vc_proof vc" and "vc' \<noteq> vc"
    and "views_distinct E (unsigned_view_of vc) (unsigned_view_of vc')"
  shows "\<exists>key m m' sig. did_verifying_key E (vc_issuer vc) = Ok key \<and> vc_issuer vc' = vc_issuer vc
       \<and> m \<noteq> m' \<and> ext_vk_verify E key m sig \<and> ext_vk_verify E key m' sig"
proof -
  obtain pr key sig m where 1: "vc_proof vc = Some pr" "proof_verification_method pr = vc_issuer vc"
    "did_verifying_key E (vc_issuer vc) = Ok key" "ext_hex_decode E (proof_signature_hex pr) = Ok sig"
    "ext_view_to_vec E (unsigned_view_of vc) = Ok m" "ext_vk_verify E key m sig"
    using assms(1) by (auto simp: verify_signature_Ok_iff)
  obtain m' where 2: "vc_issuer vc' = vc_issuer vc"
    "ext_view_to_vec E (unsigned_view_of vc') = Ok m'" "ext_vk_verify E key m' sig"
    using assms(2,3) 1 by (auto simp: verify_signature_Ok_iff)
  have "unsigned_view_of vc \<noteq> unsigned_view_of vc'"
    using assms(3,4) by (cases vc; cases vc') (auto simp: unsigned_view_of_def)
  then have "m \<noteq> m'"
    using assms(5) 1(5) 2(2) by (auto simp: views_distinct_def)
  with 1 2 show ?thesis by blast
qed

text \<open>
  C7: tampering. Two credentials that carry the same proof and both verify either agree in every
  signed field, or exhibit a forgery: one key, recovered from their common issuer, that accepts
  one signature for two different payloads.
\<close>

theorem tampered_credential_is_forgery:
  assumes "verify_signature E vc = Ok ()" "verify_signature E vc' = Ok ()"
    and "vc_proof vc' = vc_proof vc" and "vc' \<noteq> vc"
    and "views_distinct E (unsigned_view_of vc) (unsigned_view_of vc')"
  shows "\<exists>key m m' sig. did_verifying_key E (vc_issuer vc) = Ok key \<and> vc_issuer vc' = vc_issuer vc
       \<and> m \<noteq> m' \<and> ext_vk_verify E key m sig \<and> ext_vk_verify E key m' sig"
  using assms by (rule forged_payload)

text \<open>The sample proof, by the sample issuer over the untampered payload.\<close>

definition sample_proof :: proof_record where
  "sample_proof = \<lparr> proof_type = PROOF_TYPE, proof_verification_method = vc_issuer sample_vc,
     proof_created = 1000, proof_signature_hex = letters (sample_sign 1 [0]) \<rparr>"

definition sample_signed :: verifiable_credential where
  "sample_signed = sample_vc\<lparr>vc_proof := Some sample_proof\<rparr>"

definition sample_tampered :: verifiable_credential where
  "sample_tampered = sample_forged\<lparr>vc_proof := Some sample_proof\<rparr>"

definition weak_env :: "(byte, byte) vc_env" where
  \<comment> \<open>an environment whose keys accept everything, so that forgeries exist\<close>
  "weak_env = sample_env\<lparr>ext_vk_verify := (\<lambda>k m s. True)\<rparr>"

lemma sample_views_neq: "unsigned_view_of sample_vc \<noteq> unsigned_view_of sample_forged"
proof -
  have "fmlookup (subj_claims (view_subject (unsigned_view_of sample_vc))) ''kyc''
      \<noteq> fmlookup (subj_claims (view_subject (unsigned_view_of sample_forged))) ''kyc''"
    by (simp add: unsigned_view_of_def sample_vc_def sample_forged_def)
  then show ?thesis by auto
qed

lemma weak_env_simps [simp]:
  "ext_vk_verify weak_env k m s"
  "ext_hex_decode weak_env = unletters"
  "ext_view_to_vec weak_env = table_to_vec [unsigned_view_of sample_vc, unsigned_view_of sample_forged]"
  by (simp_all add: weak_env_def sample_env_def sample_vc_env_def sample_jwt_env_def sample_primitives_def)

lemma sample_views [simp]:
  "unsigned_view_of sample_signed = unsigned_view_of sample_vc"
  "unsigned_view_of sample_tampered = unsigned_view_of sample_forged"
  by (simp_all add: sample_signed_def sample_tampered_def)

lemma sample_proofs [simp]:
  "vc_proof sample_signed = Some sample_proof"
  "vc_proof sample_tampered = Some sample_proof"
  by (simp_all add: sample_signed_def sample_tampered_def)

lemma sample_issuers [simp]:
  "vc_issuer sample_signed = did_from_verifying_key (sample_primitives ()) 1"
  "vc_issuer sample_tampered = did_from_verifying_key (sample_primitives ()) 1"
  by (simp_all add: sample_signed_def sample_tampered_def sample_forged_def sample_vc_def)

lemma weak_env_did:
  "did_verifying_key weak_env (did_from_verifying_key (sample_primitives ()) 1) = Ok 1"
proof -
  have "base58_roundtrip weak_env" "key_roundtrip weak_env"
    by (simp_all add: weak_env_def sample_env_def sample_vc_env_def sample_jwt_env_def
        sample_primitives_def base58_roundtrip_def key_roundtrip_def PUBLIC_KEY_LEN_def)
  then have "did_verifying_key weak_env (did_from_verifying_key weak_env 1) = Ok 1"
    by simp
  moreover have "did_from_verifying_key weak_env 1 = did_from_verifying_key (sample_primitives ()) 1"
    by (simp add: did_from_verifying_key_def weak_env_def sample_env_def sample_vc_env_def
        sample_jwt_env_def sample_primitives_def)
  ultimately show ?thesis by simp
qed

lemma sample_proof_simps [simp]:
  "proof_verification_method sample_proof = did_from_verifying_key (sample_primitives ()) 1"
  "proof_signature_hex sample_proof = letters (sample_sign 1 [0])"
  by (simp_all add: sample_proof_def sample_vc_def)

lemma weak_env_accepts:
  "verify_signature weak_env sample_signed = Ok ()"
  "verify_signature weak_env sample_tampered = Ok ()"
  using weak_env_did by (simp_all add: verify_signature_Ok_iff table_to_vec_def SIGNATURE_LEN_def)

theorem tampered_credential_is_forgery_witness:
  "\<exists>key m m' sig. did_verifying_key weak_env (vc_issuer sample_signed) = Ok key \<and> m \<noteq> m'
     \<and> ext_vk_verify weak_env key m sig \<and> ext_vk_verify weak_env key m' sig"
proof -
  have "views_distinct weak_env (unsigned_view_of sample_signed) (unsigned_view_of sample_tampered)"
    using sample_views_neq by (simp add: views_distinct_def table_to_vec_def)
  moreover have "sample_tampered \<noteq> sample_signed"
    using sample_views_neq by (metis sample_views)
  moreover have "vc_proof sample_tampered = vc_proof sample_signed"
    by simp
  ultimately show ?thesis
    using tampered_credential_is_forgery [OF weak_env_accepts] by blast
qed

text \<open>
  What a proof binds. Verification reads the proof's verification method and signature and
  nothing else of it: its suite identifier and creation time have no influence, so a proof of
  any declared type is accepted.
\<close>

theorem proof_type_not_checked:
  assumes "vc_proof vc = Some pr"
  shows "verify_signature E (vc\<lparr>vc_proof := Some (pr\<lparr>proof_type := t, proof_created := c\<rparr>)\<rparr>)
       = verify_signature E vc"
  using assms
  by (simp add: verify_signature_def proof_signature_bytes_def signing_payload_def)

theorem proof_type_not_checked_witness:
  "verify_signature weak_env
     (sample_signed\<lparr>vc_proof := Some (sample_proof\<lparr>proof_type := ''JsonWebSignature2020'', proof_created := 0\<rparr>)\<rparr>)
   = Ok ()"
  by (subst proof_type_not_checked) (simp_all add: weak_env_accepts)

section \<open>Validity window\<close>

text \<open>
  The window on exact integers: valid from \<open>issued_at - leeway\<close> on, up to but not including
  \<open>expires_at + leeway\<close>; a credential without expiry never expires.
\<close>

definition not_before_spec :: "int \<Rightarrow> int \<Rightarrow> int option \<Rightarrow> bool" where
  "not_before_spec now leeway start = is_none_or (\<lambda>s. s - leeway \<le> now) start"

definition not_expired_spec :: "int \<Rightarrow> int \<Rightarrow> int option \<Rightarrow> bool" where
  "not_expired_spec now leeway expiry = is_none_or (\<lambda>e. now < e + leeway) expiry"

lemma not_expired_word_iff:
  assumes "sub_fits now leeway"
  shows "is_none_or (\<lambda>e. now - leeway <s e) x
       \<longleftrightarrow> not_expired_spec (sint now) (sint leeway) (map_option sint x)"
  using assms by (cases x) (auto simp: not_expired_spec_def sless_sub_iff)

lemma not_before_word_iff:
  assumes "add_fits now leeway"
  shows "is_none_or (\<lambda>s. s <=s now + leeway) x
       \<longleftrightarrow> not_before_spec (sint now) (sint leeway) (map_option sint x)"
  using assms by (cases x) (auto simp: not_before_spec_def sle_add_iff)

lemma validity_at_spec:
  assumes "add_fits now leeway" "sub_fits now leeway"
  shows "validity_at vc now leeway =
     (not_before_spec (sint now) (sint leeway) (Some (sint (vc_issued_at vc))),
      not_expired_spec (sint now) (sint leeway) (map_option sint (vc_expires_at vc)))"
  using not_before_word_iff [OF assms(1), of "Some (vc_issued_at vc)"] not_expired_word_iff [OF assms(2)]
  by (simp add: validity_at_def)

end
