(* ===== verification/Trust_Policy.thy ===== *)
theory Trust_Policy
  imports Rust_Prelude
begin

text \<open>
  \<open>edgeauth-types/src/policy.rs\<close>: the trust policy and its builder. The \<open>BTreeSet\<close> fields are
  finite sets of strings.
\<close>

section \<open>Data and builder\<close>

record trust_policy =
  tp_trusted_issuers :: "string fset"
  tp_expected_audience :: "string option"
  tp_required_scopes :: "string fset"
  tp_revoked_jti :: "string fset"
  tp_leeway_secs :: i64

definition permissive :: trust_policy where
  "permissive = \<lparr> tp_trusted_issuers = {||}, tp_expected_audience = None,
     tp_required_scopes = {||}, tp_revoked_jti = {||}, tp_leeway_secs = 0 \<rparr>"

definition issuer_trusted :: "trust_policy \<Rightarrow> string option \<Rightarrow> bool" where
  "issuer_trusted p issuer =
     (if tp_trusted_issuers p = {||} then True
      else is_some_and (\<lambda>i. i |\<in>| tp_trusted_issuers p) issuer)"

definition with_trusted_issuer :: "trust_policy \<Rightarrow> string \<Rightarrow> trust_policy" where
  "with_trusted_issuer p issuer = p\<lparr>tp_trusted_issuers := finsert issuer (tp_trusted_issuers p)\<rparr>"

definition with_audience :: "trust_policy \<Rightarrow> string \<Rightarrow> trust_policy" where
  "with_audience p audience = p\<lparr>tp_expected_audience := Some audience\<rparr>"

definition requiring_scope :: "trust_policy \<Rightarrow> string \<Rightarrow> trust_policy" where
  "requiring_scope p scope = p\<lparr>tp_required_scopes := finsert scope (tp_required_scopes p)\<rparr>"

definition revoking :: "trust_policy \<Rightarrow> string \<Rightarrow> trust_policy" where
  "revoking p jti = p\<lparr>tp_revoked_jti := finsert jti (tp_revoked_jti p)\<rparr>"

definition with_leeway :: "trust_policy \<Rightarrow> i64 \<Rightarrow> trust_policy" where
  "with_leeway p leeway = p\<lparr>tp_leeway_secs := leeway\<rparr>"

named_theorems policy_defs \<open>the policy builder, unfolded\<close>

lemmas policy_builder [policy_defs] =
  permissive_def with_trusted_issuer_def with_audience_def requiring_scope_def revoking_def
  with_leeway_def

section \<open>Trust in issuers\<close>

lemma issuer_trusted_iff:
  "issuer_trusted p issuer \<longleftrightarrow>
     tp_trusted_issuers p = {||} \<or> (\<exists>i. issuer = Some i \<and> i |\<in>| tp_trusted_issuers p)"
  by (auto simp: issuer_trusted_def is_some_and_iff)

lemma issuer_trusted_permissive [simp]: "issuer_trusted permissive issuer"
  by (simp add: issuer_trusted_def permissive_def)

lemma issuer_trusted_after_adding:
  "issuer_trusted (with_trusted_issuer p i) issuer \<longleftrightarrow>
     issuer = Some i \<or> (\<exists>j. issuer = Some j \<and> j |\<in>| tp_trusted_issuers p)"
  by (auto simp: issuer_trusted_iff with_trusted_issuer_def)

section \<open>Stricter policies\<close>

text \<open>
  \<open>policy_stricter p' p\<close>: every requirement of \<open>p\<close> is also made by \<open>p'\<close>. An empty set
  of issuers trusts everyone, so it is the weakest requirement, not the strongest.
\<close>

definition policy_stricter :: "trust_policy \<Rightarrow> trust_policy \<Rightarrow> bool" where
  "policy_stricter p' p \<longleftrightarrow>
     (tp_trusted_issuers p = {||}
        \<or> tp_trusted_issuers p' \<noteq> {||} \<and> tp_trusted_issuers p' |\<subseteq>| tp_trusted_issuers p)
   \<and> (tp_expected_audience p = None \<or> tp_expected_audience p' = tp_expected_audience p)
   \<and> tp_required_scopes p |\<subseteq>| tp_required_scopes p'
   \<and> tp_revoked_jti p |\<subseteq>| tp_revoked_jti p'
   \<and> sint (tp_leeway_secs p') \<le> sint (tp_leeway_secs p)"

lemma policy_stricter_refl [simp]: "policy_stricter p p"
  by (auto simp: policy_stricter_def)

lemma policy_stricter_trans:
  "policy_stricter a b \<Longrightarrow> policy_stricter b c \<Longrightarrow> policy_stricter a c"
  by (auto simp: policy_stricter_def)

lemma stricter_issuer_trusted:
  "policy_stricter p' p \<Longrightarrow> issuer_trusted p' i \<Longrightarrow> issuer_trusted p i"
  by (auto simp: policy_stricter_def issuer_trusted_iff)

lemma stricter_builders [simp]:
  "policy_stricter (requiring_scope p s) p"
  "policy_stricter (revoking p j) p"
  "tp_expected_audience p = None \<Longrightarrow> policy_stricter (with_audience p a) p"
  "tp_trusted_issuers p = {||} \<Longrightarrow> policy_stricter (with_trusted_issuer p i) p"
  by (auto simp: policy_stricter_def requiring_scope_def revoking_def with_audience_def
      with_trusted_issuer_def)

end
