(* ===== verification/Outcome.thy ===== *)
theory Outcome
  imports Trust_Policy
begin

text \<open>
  \<open>edgeauth-types/src/outcome.rs\<close>: what a verification reports, and the contract every
  decision procedure of the verifier keeps, as a locale.
\<close>

section \<open>Data\<close>

datatype token_kind = Jwt_Kind | Vc_Kind

fun token_kind_as_str :: "token_kind \<Rightarrow> string" where
  "token_kind_as_str Jwt_Kind = ''jwt''"
| "token_kind_as_str Vc_Kind = ''vc''"

record verification_checks =
  chk_signature :: bool
  chk_not_expired :: bool
  chk_not_before :: bool
  chk_issuer_trusted :: bool
  chk_audience :: bool
  chk_scopes :: bool
  chk_not_revoked :: bool

definition all_passing :: verification_checks where
  "all_passing = \<lparr> chk_signature = True, chk_not_expired = True, chk_not_before = True,
     chk_issuer_trusted = True, chk_audience = True, chk_scopes = True, chk_not_revoked = True \<rparr>"

definition hard_failure :: verification_checks where
  "hard_failure = \<lparr> chk_signature = False, chk_not_expired = False, chk_not_before = False,
     chk_issuer_trusted = False, chk_audience = False, chk_scopes = False, chk_not_revoked = False \<rparr>"

definition checks_all :: "verification_checks \<Rightarrow> bool" where
  "checks_all c \<longleftrightarrow>
     chk_signature c \<and> chk_not_expired c \<and> chk_not_before c \<and> chk_issuer_trusted c
   \<and> chk_audience c \<and> chk_scopes c \<and> chk_not_revoked c"

record verification_outcome =
  out_valid :: bool
  out_kind :: token_kind
  out_subject :: "string option"
  out_issuer :: "string option"
  out_scopes :: "string list"
  out_roles :: "string list"
  out_checks :: verification_checks
  out_reason :: "string option"

definition rejected :: "token_kind \<Rightarrow> string \<Rightarrow> verification_outcome" where
  "rejected kind reason = \<lparr> out_valid = False, out_kind = kind, out_subject = None,
     out_issuer = None, out_scopes = [], out_roles = [], out_checks = hard_failure,
     out_reason = Some reason \<rparr>"

lemma checks_all_iff: "checks_all c \<longleftrightarrow> c = all_passing"
  by (cases c) (auto simp: checks_all_def all_passing_def)

lemma hard_failure_simps [simp]:
  "\<not> chk_signature hard_failure" "\<not> chk_not_expired hard_failure" "\<not> chk_not_before hard_failure"
  "\<not> chk_issuer_trusted hard_failure" "\<not> chk_audience hard_failure" "\<not> chk_scopes hard_failure"
  "\<not> chk_not_revoked hard_failure" "\<not> checks_all hard_failure"
  by (simp_all add: hard_failure_def checks_all_def)

lemma rejected_simps [simp]:
  "out_valid (rejected k r) = False" "out_kind (rejected k r) = k"
  "out_subject (rejected k r) = None" "out_issuer (rejected k r) = None"
  "out_scopes (rejected k r) = []" "out_roles (rejected k r) = []"
  "out_checks (rejected k r) = hard_failure" "out_reason (rejected k r) = Some r"
  by (simp_all add: rejected_def)

section \<open>The contract of a decision procedure\<close>

text \<open>
  What a caller may rely on, for any policy and time: the kind is fixed; the outcome is valid
  exactly when all seven checks pass; there is a reason exactly when it is not valid; and when
  the signature check failed, no other check passes and no identity is reported. The service
  and the adapters use decision procedures through these laws only.
\<close>

locale decision_procedure =
  fixes decide :: "trust_policy \<Rightarrow> i64 \<Rightarrow> verification_outcome"
    and kind :: token_kind
  assumes kind_fixed: "out_kind (decide p now) = kind"
    and valid_iff_checks: "out_valid (decide p now) \<longleftrightarrow> checks_all (out_checks (decide p now))"
    and reason_iff_invalid: "out_reason (decide p now) = None \<longleftrightarrow> out_valid (decide p now)"
    and unauthenticated: "\<not> chk_signature (out_checks (decide p now)) \<Longrightarrow>
        \<exists>r. decide p now = rejected kind r"
begin

lemma accepted_passes_all: "out_valid (decide p now) \<Longrightarrow> out_checks (decide p now) = all_passing"
  using valid_iff_checks by (simp add: checks_all_iff)

lemma failed_check_has_reason:
  "out_checks (decide p now) \<noteq> all_passing \<Longrightarrow> \<exists>r. out_reason (decide p now) = Some r"
  using reason_iff_invalid [of p now] valid_iff_checks [of p now] by (auto simp: checks_all_iff)

lemma unauthenticated_reveals_nothing:
  "\<not> chk_signature (out_checks (decide p now)) \<Longrightarrow>
     \<not> out_valid (decide p now) \<and> out_subject (decide p now) = None \<and> out_issuer (decide p now) = None
   \<and> out_scopes (decide p now) = [] \<and> out_roles (decide p now) = []
   \<and> out_checks (decide p now) = hard_failure"
  by (drule unauthenticated) auto

lemma bare_rejection:
  "chk_signature (out_checks (decide p now)) \<or> decide p now = rejected kind (the (out_reason (decide p now)))"
  using unauthenticated [of p now] by fastforce

lemma identity_implies_signature:
  "out_subject (decide p now) \<noteq> None \<or> out_issuer (decide p now) \<noteq> None \<Longrightarrow>
     chk_signature (out_checks (decide p now))"
  using unauthenticated_reveals_nothing [of p now] by (rule_tac ccontr) auto

end

end
