(* ===== verification/Verifier.thy ===== *)
theory Verifier
  imports Credential Outcome
begin

text \<open>
  \<open>edgeauth-verifier/src/lib.rs\<close>: the stateless decision engine. Both procedures keep the
  contract of \<open>decision_procedure\<close>; their acceptance is characterised by specifications on
  exact integers, which hold wherever \<open>now\<close> plus or minus the leeway fits 64 bits.
\<close>

section \<open>Operations\<close>

definition first_failure :: "verification_checks \<Rightarrow> string option" where
  "first_failure c =
     (if \<not> chk_signature c then Some ''signature verification failed''
      else if \<not> chk_issuer_trusted c then Some ''issuer is not trusted''
      else if \<not> chk_not_before c then Some ''artifact is not yet valid (nbf)''
      else if \<not> chk_not_expired c then Some ''artifact has expired (exp)''
      else if \<not> chk_audience c then Some ''audience mismatch (aud)''
      else if \<not> chk_scopes c then Some ''required scope missing''
      else if \<not> chk_not_revoked c then Some ''artifact has been revoked''
      else None)"

definition jwt_checks :: "jwt_claims \<Rightarrow> trust_policy \<Rightarrow> i64 \<Rightarrow> verification_checks" where
  \<comment> \<open>the \<open>checks\<close> of \<open>verify_jwt\<close>, once the signature is accepted\<close>
  "jwt_checks claims policy now =
     (let leeway = tp_leeway_secs policy in
      \<lparr> chk_signature = True,
        chk_not_expired = is_none_or (\<lambda>exp. now - leeway <s exp) (claim_exp claims),
        chk_not_before = is_none_or (\<lambda>nbf. nbf <=s now + leeway) (claim_nbf claims),
        chk_issuer_trusted = issuer_trusted policy (claim_iss claims),
        chk_audience = (case tp_expected_audience policy of
            None \<Rightarrow> True
          | Some expected \<Rightarrow> is_some_and (\<lambda>a. audience_contains a expected) (claim_aud claims)),
        chk_scopes = tp_required_scopes policy |\<subseteq>| claims_scopes claims,
        chk_not_revoked = is_none_or (\<lambda>jti. jti |\<notin>| tp_revoked_jti policy) (claim_jti claims) \<rparr>)"

definition verify_jwt ::
  "('vk, 'sk, 'z) jwt_env_scheme \<Rightarrow> string \<Rightarrow> jwks \<Rightarrow> trust_policy \<Rightarrow> i64 \<Rightarrow> verification_outcome" where
  "verify_jwt E token keys policy now =
     (case signed_jwt_parse E token of
        Err e \<Rightarrow> rejected Jwt_Kind (verify_error_display e)
      | Ok jwt \<Rightarrow>
          (case signed_jwt_verify_with E jwt keys of
             Err e \<Rightarrow> rejected Jwt_Kind (verify_error_display e)
           | Ok _ \<Rightarrow>
               (let claims = sj_claims jwt;
                    scopes = claims_scopes claims;
                    checks = jwt_checks claims policy now
                in \<lparr> out_valid = checks_all checks, out_kind = Jwt_Kind,
                     out_subject = claim_sub claims, out_issuer = claim_iss claims,
                     out_scopes = iter_set scopes, out_roles = claim_roles claims,
                     out_checks = checks, out_reason = first_failure checks \<rparr>)))"

definition credential_checks :: "verifiable_credential \<Rightarrow> trust_policy \<Rightarrow> i64 \<Rightarrow> verification_checks" where
  \<comment> \<open>the \<open>checks\<close> of \<open>verify_credential\<close>, once the proof is accepted\<close>
  "credential_checks vc policy now =
     (let (not_before, not_expired) = validity_at vc now (tp_leeway_secs policy) in
      \<lparr> chk_signature = True, chk_not_expired = not_expired, chk_not_before = not_before,
        chk_issuer_trusted = issuer_trusted policy (Some (did_as_str (vc_issuer vc))),
        chk_audience = True, chk_scopes = True,
        chk_not_revoked = (vc_id vc |\<notin>| tp_revoked_jti policy) \<rparr>)"

definition verify_credential ::
  "('vk, 'sk, 'z) vc_env_scheme \<Rightarrow> verifiable_credential \<Rightarrow> trust_policy \<Rightarrow> i64 \<Rightarrow> verification_outcome" where
  "verify_credential E vc policy now =
     (case verify_signature E vc of
        Err e \<Rightarrow> rejected Vc_Kind (verify_error_display e)
      | Ok _ \<Rightarrow>
          (let checks = credential_checks vc policy now
           in \<lparr> out_valid = checks_all checks, out_kind = Vc_Kind,
                out_subject = Some (did_as_str (subj_id (vc_subject vc))),
                out_issuer = Some (did_as_str (vc_issuer vc)),
                out_scopes = [], out_roles = [],
                out_checks = checks, out_reason = first_failure checks \<rparr>))"

definition verify_credential_json ::
  "('vk, 'sk, 'z) vc_env_scheme \<Rightarrow> string \<Rightarrow> trust_policy \<Rightarrow> i64 \<Rightarrow>
     (verification_outcome, verify_error) result" where
  "verify_credential_json E json policy now =
     try_bind (map_err Json (ext_vc_from_str E json)) (\<lambda>vc.
     Ok (verify_credential E vc policy now))"

section \<open>The contract\<close>

lemma first_failure_None_iff [simp]: "first_failure c = None \<longleftrightarrow> checks_all c"
  by (auto simp: first_failure_def checks_all_def)

lemma jwt_checks_signature [simp]: "chk_signature (jwt_checks claims policy now)"
  by (simp add: jwt_checks_def Let_def)

lemma credential_checks_signature [simp]: "chk_signature (credential_checks vc policy now)"
  by (simp add: credential_checks_def split: prod.split)

text \<open>The outcome once the token is authenticated, or else the rejection.\<close>

lemma verify_jwt_cases:
  obtains (rejected) e where "verify_jwt E token keys policy now = rejected Jwt_Kind (verify_error_display e)"
      "signed_jwt_parse E token = Err e
       \<or> (\<exists>j. signed_jwt_parse E token = Ok j \<and> signed_jwt_verify_with E j keys = Err e)"
  | (authenticated) j where
      "signed_jwt_parse E token = Ok j" "signed_jwt_verify_with E j keys = Ok ()"
      "verify_jwt E token keys policy now =
         \<lparr> out_valid = checks_all (jwt_checks (sj_claims j) policy now), out_kind = Jwt_Kind,
           out_subject = claim_sub (sj_claims j), out_issuer = claim_iss (sj_claims j),
           out_scopes = iter_set (claims_scopes (sj_claims j)), out_roles = claim_roles (sj_claims j),
           out_checks = jwt_checks (sj_claims j) policy now,
           out_reason = first_failure (jwt_checks (sj_claims j) policy now) \<rparr>"
proof (cases "signed_jwt_parse E token")
  case (Inl e)
  then show ?thesis by (intro rejected [of e]) (simp_all add: verify_jwt_def)
next
  case (Inr j)
  show ?thesis
  proof (cases "signed_jwt_verify_with E j keys")
    case (Inl e)
    with \<open>signed_jwt_parse E token = Ok j\<close> show ?thesis
      by (intro rejected [of e]) (simp_all add: verify_jwt_def)
  next
    case (Inr u)
    with \<open>signed_jwt_parse E token = Ok j\<close> show ?thesis
      by (intro authenticated [of j]) (simp_all add: verify_jwt_def Let_def)
  qed
qed

lemma verify_credential_cases:
  obtains (rejected) e where "verify_credential E vc policy now = rejected Vc_Kind (verify_error_display e)"
      "verify_signature E vc = Err e"
  | (authenticated)
      "verify_signature E vc = Ok ()"
      "verify_credential E vc policy now =
         \<lparr> out_valid = checks_all (credential_checks vc policy now), out_kind = Vc_Kind,
           out_subject = Some (did_as_str (subj_id (vc_subject vc))),
           out_issuer = Some (did_as_str (vc_issuer vc)),
           out_scopes = [], out_roles = [],
           out_checks = credential_checks vc policy now,
           out_reason = first_failure (credential_checks vc policy now) \<rparr>"
proof (cases "verify_signature E vc")
  case (Inl e)
  then show ?thesis by (intro rejected [of e]) (simp_all add: verify_credential_def)
next
  case (Inr u)
  then show ?thesis by (intro authenticated) (simp_all add: verify_credential_def Let_def)
qed

interpretation jwt_decision: decision_procedure "verify_jwt E token keys" Jwt_Kind
  for E :: "('vk, 'sk, 'z) jwt_env_scheme" and token keys
proof
  fix p :: trust_policy and now :: i64
  show "out_kind (verify_jwt E token keys p now) = Jwt_Kind"
    by (cases rule: verify_jwt_cases [of E token keys p now]) simp_all
  show "out_valid (verify_jwt E token keys p now) \<longleftrightarrow> checks_all (out_checks (verify_jwt E token keys p now))"
    by (cases rule: verify_jwt_cases [of E token keys p now]) simp_all
  show "out_reason (verify_jwt E token keys p now) = None \<longleftrightarrow> out_valid (verify_jwt E token keys p now)"
    by (cases rule: verify_jwt_cases [of E token keys p now]) simp_all
  show "\<not> chk_signature (out_checks (verify_jwt E token keys p now)) \<Longrightarrow>
      \<exists>r. verify_jwt E token keys p now = rejected Jwt_Kind r"
    by (cases rule: verify_jwt_cases [of E token keys p now]) auto
qed

interpretation vc_decision: decision_procedure "verify_credential E vc" Vc_Kind
  for E :: "('vk, 'sk, 'z) vc_env_scheme" and vc
proof
  fix p :: trust_policy and now :: i64
  show "out_kind (verify_credential E vc p now) = Vc_Kind"
    by (cases rule: verify_credential_cases [of E vc p now]) simp_all
  show "out_valid (verify_credential E vc p now) \<longleftrightarrow> checks_all (out_checks (verify_credential E vc p now))"
    by (cases rule: verify_credential_cases [of E vc p now]) simp_all
  show "out_reason (verify_credential E vc p now) = None \<longleftrightarrow> out_valid (verify_credential E vc p now)"
    by (cases rule: verify_credential_cases [of E vc p now]) simp_all
  show "\<not> chk_signature (out_checks (verify_credential E vc p now)) \<Longrightarrow>
      \<exists>r. verify_credential E vc p now = rejected Vc_Kind r"
    by (cases rule: verify_credential_cases [of E vc p now]) auto
qed

section \<open>Acceptance on exact integers\<close>

text \<open>
  What a policy asks of a set of claims at a time, written without machine integers: the time
  window, and every requirement of the policy as a statement about the claims.
\<close>

definition claims_acceptable :: "trust_policy \<Rightarrow> int \<Rightarrow> jwt_claims \<Rightarrow> bool" where
  "claims_acceptable p now c \<longleftrightarrow>
     not_expired_spec now (sint (tp_leeway_secs p)) (map_option sint (claim_exp c))
   \<and> not_before_spec now (sint (tp_leeway_secs p)) (map_option sint (claim_nbf c))
   \<and> issuer_trusted p (claim_iss c)
   \<and> (\<forall>aud. tp_expected_audience p = Some aud \<longrightarrow>
        (\<exists>a. claim_aud c = Some a \<and> (case a of Single x \<Rightarrow> x = aud | Multiple xs \<Rightarrow> aud \<in> set xs)))
   \<and> (\<forall>s. s |\<in>| tp_required_scopes p \<longrightarrow>
        (\<exists>text. claim_scope c = Some text \<and> s \<in> set (split_whitespace text)))
   \<and> (\<forall>jti. claim_jti c = Some jti \<longrightarrow> jti |\<notin>| tp_revoked_jti p)"

definition credential_acceptable :: "trust_policy \<Rightarrow> int \<Rightarrow> verifiable_credential \<Rightarrow> bool" where
  "credential_acceptable p now vc \<longleftrightarrow>
     not_expired_spec now (sint (tp_leeway_secs p)) (map_option sint (vc_expires_at vc))
   \<and> not_before_spec now (sint (tp_leeway_secs p)) (Some (sint (vc_issued_at vc)))
   \<and> issuer_trusted p (Some (did_as_str (vc_issuer vc)))
   \<and> vc_id vc |\<notin>| tp_revoked_jti p"

definition time_fits :: "trust_policy \<Rightarrow> i64 \<Rightarrow> bool" where
  "time_fits p now \<longleftrightarrow> add_fits now (tp_leeway_secs p) \<and> sub_fits now (tp_leeway_secs p)"

lemma jwt_checks_acceptable:
  assumes "time_fits p now"
  shows "checks_all (jwt_checks c p now) \<longleftrightarrow> claims_acceptable p (sint now) c"
proof -
  have fits: "add_fits now (tp_leeway_secs p)" "sub_fits now (tp_leeway_secs p)"
    using assms by (simp_all add: time_fits_def)
  have aud: "(case tp_expected_audience p of None \<Rightarrow> True
        | Some expected \<Rightarrow> is_some_and (\<lambda>a. audience_contains a expected) (claim_aud c))
      \<longleftrightarrow> (\<forall>aud. tp_expected_audience p = Some aud \<longrightarrow>
        (\<exists>a. claim_aud c = Some a \<and> (case a of Single x \<Rightarrow> x = aud | Multiple xs \<Rightarrow> aud \<in> set xs)))"
    by (cases "tp_expected_audience p") (simp_all add: is_some_and_iff audience_contains_iff)
  have sc: "tp_required_scopes p |\<subseteq>| claims_scopes c \<longleftrightarrow> (\<forall>s. s |\<in>| tp_required_scopes p \<longrightarrow>
        (\<exists>text. claim_scope c = Some text \<and> s \<in> set (split_whitespace text)))"
    by (auto simp: less_eq_fset.rep_eq fset_claims_scopes)
  have jti: "is_none_or (\<lambda>jti. jti |\<notin>| tp_revoked_jti p) (claim_jti c)
      \<longleftrightarrow> (\<forall>jti. claim_jti c = Some jti \<longrightarrow> jti |\<notin>| tp_revoked_jti p)"
    by (cases "claim_jti c") simp_all
  show ?thesis
    unfolding checks_all_def jwt_checks_def claims_acceptable_def Let_def
    by (simp add: aud sc jti not_expired_word_iff [OF fits(2)] not_before_word_iff [OF fits(1)])
qed

lemma credential_checks_acceptable:
  assumes "time_fits p now"
  shows "checks_all (credential_checks vc p now) \<longleftrightarrow> credential_acceptable p (sint now) vc"
  using assms
  by (auto simp: checks_all_def credential_checks_def credential_acceptable_def time_fits_def
      validity_at_spec)

lemma verify_jwt_valid_iff:
  "out_valid (verify_jwt E token keys p now) \<longleftrightarrow>
     (\<exists>j. signed_jwt_parse E token = Ok j \<and> signed_jwt_verify_with E j keys = Ok ()
        \<and> checks_all (jwt_checks (sj_claims j) p now))"
  by (cases rule: verify_jwt_cases [of E token keys p now]) auto

lemma verify_credential_valid_iff:
  "out_valid (verify_credential E vc p now) \<longleftrightarrow>
     verify_signature E vc = Ok () \<and> checks_all (credential_checks vc p now)"
  by (cases rule: verify_credential_cases [of E vc p now]) auto

lemma verify_jwt_valid_spec:
  "time_fits p now \<Longrightarrow> out_valid (verify_jwt E token keys p now) \<longleftrightarrow>
     (\<exists>j. signed_jwt_parse E token = Ok j \<and> signed_jwt_verify_with E j keys = Ok ()
        \<and> claims_acceptable p (sint now) (sj_claims j))"
  by (simp add: verify_jwt_valid_iff jwt_checks_acceptable)

section \<open>Properties of JWT verification\<close>

text \<open>The witnesses' token, key set and policy: those of the source's own tests.\<close>

definition sample_policy :: trust_policy where
  "sample_policy = with_leeway (requiring_scope (with_audience
     (with_trusted_issuer permissive ''https://issuer.example'') ''edge-api'') ''openid'') 30"

definition sample_minted :: string where
  "sample_minted = (case encode_jwt sample_env sample_header sample_claims 5 of Err e \<Rightarrow> [] | Ok t \<Rightarrow> t)"

lemma sample_minted_parses:
  obtains j where "signed_jwt_parse sample_env sample_minted = Ok j" "sj_header j = sample_header"
    "sj_claims j = sample_claims"
    "signed_jwt_verify_with sample_env j (sample_jwks sample_env 5) = Ok ()"
proof -
  have E: "sample_env = sample_jwt_env [sample_header] [sample_claims] []
      (vc_env_ext (table_to_vec [unsigned_view_of sample_vc, unsigned_view_of sample_forged])
         (table_from_str []) (table_to_string []) ())"
    by (simp add: sample_env_def sample_vc_env_def)
  obtain token j where t: "encode_jwt sample_env sample_header sample_claims 5 = Ok token"
    "signed_jwt_parse sample_env token = Ok j" "sj_header j = sample_header"
    "sj_claims j = sample_claims"
    "signed_jwt_verify_with sample_env j (sample_jwks sample_env 5) = Ok ()"
    unfolding E by (rule sample_token)
  then have "token = sample_minted" by (simp add: sample_minted_def)
  with t show ?thesis using that by simp
qed

lemma sample_scopes: "split_whitespace ''openid documents:read'' = [''openid'', ''documents:read'']"
  by code_simp

lemma sample_policy_simps [simp]:
  "tp_leeway_secs sample_policy = 30" "tp_expected_audience sample_policy = Some ''edge-api''"
  "tp_required_scopes sample_policy = {|''openid''|}" "tp_revoked_jti sample_policy = {||}"
  "tp_trusted_issuers sample_policy = {|''https://issuer.example''|}"
  by (simp_all add: sample_policy_def policy_defs)

lemma sample_claims_acceptable: "claims_acceptable sample_policy 1500 sample_claims"
  by (simp add: claims_acceptable_def not_expired_spec_def not_before_spec_def sample_claims_def
      issuer_trusted_def sample_scopes)

lemma sample_time_fits [simp]: "time_fits sample_policy 1500"
  by (simp add: time_fits_def add_fits_def sub_fits_def i64_fits_def)

text \<open>
  C1: what is accepted. Where the time and the leeway add up within 64 bits, a token is accepted
  exactly when it parses, its signature verifies against the key set, and its claims meet the
  policy on exact integers: unexpired until \<open>exp + leeway\<close> (exclusive), valid from
  \<open>nbf - leeway\<close> on, and trusted issuer, audience, scopes and revocation as the policy asks.
\<close>

theorem jwt_accepted_iff:
  assumes "add_fits now (tp_leeway_secs p)" "sub_fits now (tp_leeway_secs p)"
  shows "out_valid (verify_jwt E token keys p now) \<longleftrightarrow>
     (\<exists>j. signed_jwt_parse E token = Ok j \<and> signed_jwt_verify_with E j keys = Ok ()
        \<and> claims_acceptable p (sint now) (sj_claims j))"
  using assms by (simp add: verify_jwt_valid_spec time_fits_def)

theorem jwt_accepted_iff_witness:
  "out_valid (verify_jwt sample_env sample_minted (sample_jwks sample_env 5) sample_policy 1500)"
proof -
  obtain j where "signed_jwt_parse sample_env sample_minted = Ok j" "sj_claims j = sample_claims"
    "signed_jwt_verify_with sample_env j (sample_jwks sample_env 5) = Ok ()"
    by (rule sample_minted_parses)
  then show ?thesis
    using sample_claims_acceptable
    by (subst jwt_accepted_iff) (auto simp: add_fits_def sub_fits_def i64_fits_def)
qed

lemma verify_jwt_Ok:
  "signed_jwt_parse E token = Ok j \<Longrightarrow> signed_jwt_verify_with E j keys = Ok () \<Longrightarrow>
   verify_jwt E token keys p now =
     \<lparr> out_valid = checks_all (jwt_checks (sj_claims j) p now), out_kind = Jwt_Kind,
       out_subject = claim_sub (sj_claims j), out_issuer = claim_iss (sj_claims j),
       out_scopes = iter_set (claims_scopes (sj_claims j)), out_roles = claim_roles (sj_claims j),
       out_checks = jwt_checks (sj_claims j) p now,
       out_reason = first_failure (jwt_checks (sj_claims j) p now) \<rparr>"
  by (simp add: verify_jwt_def Let_def)

text \<open>
  C4: from minting to acceptance. A token minted with an EdDSA header is accepted by every
  verifier whose key set resolves its \<open>kid\<close> to the signer's key and whose policy its claims
  meet, at every time that plus and minus the policy's leeway stays within \<open>i64\<close> (\<open>time_fits\<close>;
  beyond it the word arithmetic wraps and the claim fails, see \<open>leeway_overflow_rejects\<close>). The
  outcome carries exactly the minted identity, the distinct scopes in order, and no reason.
\<close>

theorem minted_token_accepted:
  assumes "base64_roundtrip E" "base64_dotfree E" "signatures_verify E" "key_roundtrip E"
    and "json_header E header" "json_claims E claims" "hdr_alg header = ''EdDSA''"
    and "jwks_find ks (hdr_kid header) = Some (jwk_from_verifying_key E (ext_sk_verifying_key E sk) kid)"
    and "time_fits p now" "claims_acceptable p (sint now) claims"
  shows "\<exists>token. encode_jwt E header claims sk = Ok token
     \<and> verify_jwt E token ks p now =
         \<lparr> out_valid = True, out_kind = Jwt_Kind, out_subject = claim_sub claims,
           out_issuer = claim_iss claims, out_scopes = iter_set (claims_scopes claims),
           out_roles = claim_roles claims, out_checks = all_passing, out_reason = None \<rparr>"
proof -
  obtain token j where t: "encode_jwt E header claims sk = Ok token" "signed_jwt_parse E token = Ok j"
    "sj_claims j = claims" "signed_jwt_verify_with E j ks = Ok ()"
    using assms(1-8) by (metis JWT_ALG_def minted_verifies)
  have "checks_all (jwt_checks claims p now)"
    using assms(9,10) by (simp add: jwt_checks_acceptable)
  then have "jwt_checks claims p now = all_passing" "first_failure (jwt_checks claims p now) = None"
    "checks_all all_passing" "first_failure all_passing = None"
    by (simp_all add: checks_all_iff)
  then have "verify_jwt E token ks p now =
         \<lparr> out_valid = True, out_kind = Jwt_Kind, out_subject = claim_sub claims,
           out_issuer = claim_iss claims, out_scopes = iter_set (claims_scopes claims),
           out_roles = claim_roles claims, out_checks = all_passing, out_reason = None \<rparr>"
    using verify_jwt_Ok [OF t(2,4), of p now] by (simp add: t(3))
  with t(1) show ?thesis by blast
qed

lemma sample_json [simp]: "json_header sample_env sample_header" "json_claims sample_env sample_claims"
  by (simp_all add: sample_env_def sample_vc_env_def sample_json_header sample_json_claims)

lemma sample_header_simps [simp]: "hdr_alg sample_header = ''EdDSA''" "hdr_kid sample_header = Some ''k1''"
  by (simp_all add: sample_header_def)

theorem minted_token_accepted_witness:
  "\<exists>token. encode_jwt sample_env sample_header sample_claims 5 = Ok token
     \<and> out_valid (verify_jwt sample_env token (sample_jwks sample_env 5) sample_policy 1500)"
proof -
  have "claims_acceptable sample_policy (sint (1500 :: i64)) sample_claims"
    using sample_claims_acceptable by simp
  then show ?thesis
    using minted_token_accepted [of sample_env sample_header sample_claims "sample_jwks sample_env 5" 5
        "''k1''" sample_policy 1500] by auto
qed

text \<open>
  The algorithm is pinned. A token that declares any other algorithm than EdDSA is rejected
  outright, whatever its signature, the keys, the policy and the time, and the reason names
  the algorithm.
\<close>

theorem algorithm_confusion_rejected:
  assumes "signed_jwt_parse E token = Ok j" and "hdr_alg (sj_header j) \<noteq> ''EdDSA''"
  shows "verify_jwt E token keys p now
       = rejected Jwt_Kind (''unsupported JWS algorithm: expected EdDSA, got '' @ hdr_alg (sj_header j))"
  using assms by (simp add: verify_jwt_def signed_jwt_verify_with_def JWT_ALG_def)

definition none_header :: jwt_header where
  "none_header = \<lparr> hdr_alg = ''none'', hdr_typ = None, hdr_kid = None \<rparr>"

theorem algorithm_confusion_rejected_witness:
  "\<exists>token j. signed_jwt_parse (sample_jwt_env [none_header] [sample_claims] [] ()) token = Ok j
     \<and> verify_jwt (sample_jwt_env [none_header] [sample_claims] [] ()) token (sample_jwks sample_env 5) permissive 0
         = rejected Jwt_Kind ''unsupported JWS algorithm: expected EdDSA, got none''"
proof -
  let ?E = "sample_jwt_env [none_header] [sample_claims] [] ()"
  obtain token j where t: "signed_jwt_parse ?E token = Ok j" "sj_header j = none_header"
    by (rule encode_then_parse [of ?E none_header sample_claims 5])
      (simp_all add: sample_json_header sample_json_claims)
  then have "verify_jwt ?E token (sample_jwks sample_env 5) permissive 0
         = rejected Jwt_Kind ''unsupported JWS algorithm: expected EdDSA, got none''"
    using algorithm_confusion_rejected [OF t(1), of "sample_jwks sample_env 5" permissive 0] by (simp add: none_header_def)
  with t(1) show ?thesis by blast
qed

text \<open>
  C15: no identity without a signature. Whenever an outcome names a subject, an issuer, a scope or
  a role, even an outcome that rejects the token, those are the claims of a token whose
  signature a key of the trusted set accepts over exactly the bytes it was parsed from.
\<close>

theorem reported_identity_is_authenticated:
  assumes "out_subject (verify_jwt E token keys p now) \<noteq> None \<or> out_issuer (verify_jwt E token keys p now) \<noteq> None
    \<or> out_scopes (verify_jwt E token keys p now) \<noteq> [] \<or> out_roles (verify_jwt E token keys p now) \<noteq> []"
  shows "\<exists>j k key. signed_jwt_parse E token = Ok j
     \<and> k \<in> set (jwks_keys keys) \<and> jwk_verifying_key E k = Ok key
     \<and> ext_vk_verify E key (as_bytes (sj_signing_input j)) (sj_signature j)
     \<and> out_subject (verify_jwt E token keys p now) = claim_sub (sj_claims j)
     \<and> out_issuer (verify_jwt E token keys p now) = claim_iss (sj_claims j)
     \<and> set (out_scopes (verify_jwt E token keys p now)) = fset (claims_scopes (sj_claims j))
     \<and> out_roles (verify_jwt E token keys p now) = claim_roles (sj_claims j)"
proof (cases rule: verify_jwt_cases [of E token keys p now])
  case (rejected e)
  then show ?thesis using assms by simp
next
  case (authenticated j)
  then show ?thesis
    by (auto simp: signed_jwt_verify_with_Ok_iff dest: jwks_find_member)
qed

theorem reported_identity_is_authenticated_witness:
  "\<exists>j k key. signed_jwt_parse sample_env sample_minted = Ok j
     \<and> k \<in> set (jwks_keys (sample_jwks sample_env 5)) \<and> jwk_verifying_key sample_env k = Ok key
     \<and> ext_vk_verify sample_env key (as_bytes (sj_signing_input j)) (sj_signature j)"
proof -
  obtain j where "signed_jwt_parse sample_env sample_minted = Ok j" "sj_claims j = sample_claims"
    "signed_jwt_verify_with sample_env j (sample_jwks sample_env 5) = Ok ()"
    by (rule sample_minted_parses)
  then have "out_subject (verify_jwt sample_env sample_minted (sample_jwks sample_env 5) permissive 0) \<noteq> None"
    by (simp add: verify_jwt_Ok) (simp add: sample_claims_def)
  then show ?thesis
    using reported_identity_is_authenticated [of sample_env sample_minted "sample_jwks sample_env 5" permissive 0]
    by blast
qed

section \<open>Time and policy\<close>

lemma not_expired_antimono:
  "not_expired_spec t l e \<Longrightarrow> t' \<le> t \<Longrightarrow> not_expired_spec t' l e"
  by (cases e) (auto simp: not_expired_spec_def)

lemma not_before_mono:
  "not_before_spec t l s \<Longrightarrow> t \<le> t' \<Longrightarrow> not_before_spec t' l s"
  by (cases s) (auto simp: not_before_spec_def)

lemma claims_acceptable_between:
  "claims_acceptable p t1 c \<Longrightarrow> claims_acceptable p t3 c \<Longrightarrow> t1 \<le> t2 \<Longrightarrow> t2 \<le> t3
     \<Longrightarrow> claims_acceptable p t2 c"
  using not_expired_antimono [of t3 _ _ t2] not_before_mono [of t1 _ _ t2]
  by (simp add: claims_acceptable_def)

lemma time_fits_between:
  "time_fits p t1 \<Longrightarrow> time_fits p t3 \<Longrightarrow> sint t1 \<le> sint t2 \<Longrightarrow> sint t2 \<le> sint t3 \<Longrightarrow> time_fits p t2"
  by (auto simp: time_fits_def add_fits_def sub_fits_def i64_fits_def)

text \<open>
  Acceptance is an interval of time. A token accepted at two times by one policy is accepted
  at every time between: neither wrap-around nor any other check opens a gap.
\<close>

theorem acceptance_interval:
  assumes "out_valid (verify_jwt E token keys p t1)" "out_valid (verify_jwt E token keys p t3)"
    and "sint t1 \<le> sint t2" "sint t2 \<le> sint t3"
    and "time_fits p t1" "time_fits p t3"
  shows "out_valid (verify_jwt E token keys p t2)"
proof -
  have "time_fits p t2"
    using assms(3-6) by (blast intro: time_fits_between)
  with assms show ?thesis
    by (auto simp: verify_jwt_valid_spec intro: claims_acceptable_between)
qed

lemma sample_accepted:
  assumes "claims_acceptable sample_policy (sint now) sample_claims" "time_fits sample_policy now"
  shows "out_valid (verify_jwt sample_env sample_minted (sample_jwks sample_env 5) sample_policy now)"
proof -
  obtain j where "signed_jwt_parse sample_env sample_minted = Ok j" "sj_claims j = sample_claims"
    "signed_jwt_verify_with sample_env j (sample_jwks sample_env 5) = Ok ()"
    by (rule sample_minted_parses)
  then show ?thesis
    using assms by (auto simp: verify_jwt_valid_spec)
qed

lemma sample_accepted_at:
  "970 \<le> sint now \<Longrightarrow> sint now < 2030 \<Longrightarrow>
     out_valid (verify_jwt sample_env sample_minted (sample_jwks sample_env 5) sample_policy now)"
  by (rule sample_accepted)
    (simp_all add: claims_acceptable_def not_expired_spec_def not_before_spec_def sample_claims_def
      issuer_trusted_def sample_scopes time_fits_def add_fits_def sub_fits_def i64_fits_def)

theorem acceptance_interval_witness:
  "out_valid (verify_jwt sample_env sample_minted (sample_jwks sample_env 5) sample_policy 1500)"
  by (rule acceptance_interval [of _ _ _ _ 970 2029])
    (simp_all add: sample_accepted_at, simp_all add: time_fits_def add_fits_def sub_fits_def i64_fits_def)

text \<open>At one leeway the comparisons with the clock are the same, whether their sums wrap or not.\<close>

lemma stricter_accepts_less_same_leeway:
  assumes "policy_stricter p' p" "tp_leeway_secs p' = tp_leeway_secs p"
    and "out_valid (verify_jwt E token keys p' now)"
  shows "out_valid (verify_jwt E token keys p now)"
proof -
  have "checks_all (jwt_checks c p now)" if "checks_all (jwt_checks c p' now)" for c
    using that stricter_issuer_trusted [OF assms(1), of "claim_iss c"] assms(1,2)
    by (cases "claim_jti c"; cases "tp_expected_audience p")
      (auto simp: checks_all_def jwt_checks_def policy_stricter_def Let_def)
  then show ?thesis
    using assms(3) by (auto simp: verify_jwt_valid_iff)
qed

lemma stricter_accepts_less:
  assumes "policy_stricter p' p" "out_valid (verify_jwt E token keys p' now)"
    and "time_fits p' now" "time_fits p now"
  shows "out_valid (verify_jwt E token keys p now)"
proof -
  have "claims_acceptable p (sint now) c" if c: "claims_acceptable p' (sint now) c" for c
  proof -
    have "issuer_trusted p (claim_iss c)"
      using stricter_issuer_trusted [OF assms(1)] c by (simp add: claims_acceptable_def)
    moreover have "not_expired_spec (sint now) (sint (tp_leeway_secs p)) (map_option sint (claim_exp c))"
      "not_before_spec (sint now) (sint (tp_leeway_secs p)) (map_option sint (claim_nbf c))"
      using c assms(1)
      by (cases "claim_exp c"; cases "claim_nbf c";
          simp add: claims_acceptable_def policy_stricter_def not_expired_spec_def not_before_spec_def)+
    ultimately show ?thesis
      using c assms(1) by (auto simp: claims_acceptable_def policy_stricter_def)
  qed
  then show ?thesis
    using assms(2-4) by (auto simp: verify_jwt_valid_spec)
qed

text \<open>
  Stricter policies accept less. Under a policy that makes at least the requirements of
  another, only tokens the other accepts are accepted.
\<close>

theorem stricter_policy_accepts_less:
  assumes "policy_stricter p' p" "out_valid (verify_jwt E token keys p' now)"
    and "time_fits p' now" "time_fits p now"
  shows "out_valid (verify_jwt E token keys p now)"
  using assms by (rule stricter_accepts_less)

theorem stricter_policy_accepts_less_witness:
  "out_valid (verify_jwt sample_env sample_minted (sample_jwks sample_env 5) (with_leeway permissive 30) 1500)"
proof (rule stricter_policy_accepts_less)
  show "policy_stricter sample_policy (with_leeway permissive 30)"
    by (simp add: policy_stricter_def) (simp add: permissive_def with_leeway_def)
  show "out_valid (verify_jwt sample_env sample_minted (sample_jwks sample_env 5) sample_policy 1500)"
    by (simp add: sample_accepted_at)
  show "time_fits (with_leeway permissive 30) 1500"
    by (simp add: time_fits_def add_fits_def sub_fits_def i64_fits_def with_leeway_def)
qed simp

section \<open>The reported reason\<close>

text \<open>The checks with their messages, in the order in which a failure is reported.\<close>

definition check_messages :: "verification_checks \<Rightarrow> (bool \<times> string) list" where
  "check_messages c =
     [(chk_signature c, ''signature verification failed''), (chk_issuer_trusted c, ''issuer is not trusted''),
      (chk_not_before c, ''artifact is not yet valid (nbf)''), (chk_not_expired c, ''artifact has expired (exp)''),
      (chk_audience c, ''audience mismatch (aud)''), (chk_scopes c, ''required scope missing''),
      (chk_not_revoked c, ''artifact has been revoked'')]"

text \<open>
  The reason is the message of the first failing check in the order of \<open>check_messages\<close>: a
  check is named exactly when it fails and every check before it passes, and nothing is named
  exactly when all pass.
\<close>

theorem first_failure_priority:
  "(first_failure c = Some m \<longleftrightarrow>
      (\<exists>before after. check_messages c = before @ (False, m) # after \<and> list_all fst before))
   \<and> (first_failure c = None \<longleftrightarrow> list_all fst (check_messages c))"
proof -
  have find: "first_failure c = map_option snd (List.find (\<lambda>x. \<not> fst x) (check_messages c))"
    by (simp add: first_failure_def check_messages_def)
  have "\<not> fst x" if "List.find (\<lambda>x. \<not> fst x) (check_messages c) = Some x" for x
    using that by (rule find_Some_holds)
  then have "first_failure c = Some m \<longleftrightarrow> List.find (\<lambda>x. \<not> fst x) (check_messages c) = Some (False, m)"
    unfolding find by force
  moreover have "first_failure c = None \<longleftrightarrow> List.find (\<lambda>x. \<not> fst x) (check_messages c) = None"
    unfolding find by simp
  ultimately show ?thesis
    by (simp add: find_Some_split find_None_all)
qed

section \<open>Overflow of the leeway\<close>

lemma sint_add_wraps:
  assumes "2 ^ 63 \<le> sint (a :: i64) + sint b"
  shows "sint (a + b) = sint a + sint b - 2 ^ 64"
proof -
  have "sint a + sint b < 2 ^ 64"
    using sint_lt [of a] sint_lt [of b] by simp
  then have "(sint a + sint b + 2 ^ 63 - 2 ^ 64) mod 2 ^ 64 = sint a + sint b + 2 ^ 63 - 2 ^ 64"
    using assms by (intro mod_pos_pos_trivial) simp_all
  then have "(sint a + sint b + 2 ^ 63) mod 2 ^ 64 = sint a + sint b + 2 ^ 63 - 2 ^ 64"
    by (simp only: minus_mod_self2)
  then have "signed_take_bit 63 (sint a + sint b) = sint a + sint b - 2 ^ 64"
    by (simp add: signed_take_bit_eq_take_bit_shift take_bit_eq_mod)
  then show ?thesis
    by (subst sint_word_add) simp
qed

text \<open>
  C39: an overflowing leeway inverts the check. In a release build, once \<open>now + leeway\<close> passes
  the largest \<open>i64\<close>, the sum is negative, and an authenticated token with any non-negative
  \<open>nbf\<close> is rejected as not yet valid, although on exact integers a larger leeway only admits
  more.
\<close>

theorem leeway_overflow_rejects:
  assumes "signed_jwt_parse E token = Ok j" "signed_jwt_verify_with E j keys = Ok ()"
    and "2 ^ 63 \<le> sint now + sint (tp_leeway_secs p)"
    and "claim_nbf (sj_claims j) = Some nbf" "0 \<le> sint nbf" "sint nbf \<le> sint now"
  shows "\<not> out_valid (verify_jwt E token keys p now)
       \<and> \<not> chk_not_before (out_checks (verify_jwt E token keys p now))
       \<and> not_before_spec (sint now) (sint (tp_leeway_secs p)) (Some (sint nbf))"
proof -
  have bounds: "sint now < 2 ^ 63" "sint (tp_leeway_secs p) < 2 ^ 63"
    using sint_lt [of now] sint_lt [of "tp_leeway_secs p"] by simp_all
  then have "sint (now + tp_leeway_secs p) < 0"
    using assms(3) by (simp add: sint_add_wraps)
  then have "\<not> nbf <=s now + tp_leeway_secs p"
    using assms(5) by (simp add: word_sle_eq)
  then have "\<not> chk_not_before (jwt_checks (sj_claims j) p now)"
    using assms(4) by (simp add: jwt_checks_def Let_def)
  moreover have "not_before_spec (sint now) (sint (tp_leeway_secs p)) (Some (sint nbf))"
    using assms(3,6) bounds by (simp add: not_before_spec_def)
  ultimately show ?thesis
    using assms(1,2) by (simp add: verify_jwt_Ok checks_all_def)
qed

theorem leeway_overflow_rejects_witness:
  "\<not> out_valid (verify_jwt sample_env sample_minted (sample_jwks sample_env 5)
       (with_leeway permissive 9223372036854775807) 1500)"
proof -
  obtain j where "signed_jwt_parse sample_env sample_minted = Ok j" "sj_claims j = sample_claims"
    "signed_jwt_verify_with sample_env j (sample_jwks sample_env 5) = Ok ()"
    by (rule sample_minted_parses)
  then show ?thesis
    using leeway_overflow_rejects [of sample_env sample_minted j "sample_jwks sample_env 5" 1500
        "with_leeway permissive 9223372036854775807" 1000]
    by (simp add: with_leeway_def sample_claims_def)
qed

section \<open>Properties of credential verification\<close>

text \<open>
  C5: what is accepted of credentials. Where the time and the leeway add up within 64 bits, a
  credential is accepted exactly when it carries a proof whose method is its issuer, the key
  recovered from the issuer's \<open>did:key\<close> accepts the proof's 64-byte signature over the
  canonical payload, and issuer, time window and revocation meet the policy.
\<close>

theorem credential_accepted_iff:
  assumes "add_fits now (tp_leeway_secs p)" "sub_fits now (tp_leeway_secs p)"
  shows "out_valid (verify_credential E vc p now) \<longleftrightarrow>
     (\<exists>pr key sig payload.
        vc_proof vc = Some pr \<and> proof_verification_method pr = vc_issuer vc
      \<and> did_verifying_key E (vc_issuer vc) = Ok key
      \<and> ext_hex_decode E (proof_signature_hex pr) = Ok sig \<and> length sig = 64
      \<and> ext_view_to_vec E (unsigned_view_of vc) = Ok payload \<and> ext_vk_verify E key payload sig)
   \<and> credential_acceptable p (sint now) vc"
  using assms
  by (simp add: verify_credential_valid_iff credential_checks_acceptable time_fits_def
      verify_signature_Ok_iff SIGNATURE_LEN_def)

lemma sample_env_verify [simp]: "ext_vk_verify sample_env = ext_vk_verify (sample_primitives ())"
  "ext_hex_decode sample_env = unletters"
  by (simp_all add: sample_env_def sample_vc_env_def sample_jwt_env_def sample_primitives_def)

lemma sample_signed_is_signed: "sign_with sample_env sample_vc 1 1000 = Ok sample_signed"
  by (simp add: sign_with_def signing_payload_def sample_env_def sample_vc_env_def sample_jwt_env_def
      sample_primitives_def table_to_vec_def sample_signed_def sample_proof_def sign_payload_def Let_def)

lemma sample_signed_verifies: "verify_signature sample_env sample_signed = Ok ()"
proof -
  obtain s where "sign_with sample_env sample_vc 1 1000 = Ok s" "verify_signature sample_env s = Ok ()"
    by (rule signed_verifies [of sample_env sample_vc 1 1000]) (simp_all, simp add: sample_vc_def)
  then show ?thesis by (simp add: sample_signed_is_signed)
qed

lemma sample_signed_acceptable: "credential_acceptable permissive 1500 sample_signed"
proof -
  have "tp_leeway_secs permissive = 0" "tp_revoked_jti permissive = {||}"
    by (simp_all add: permissive_def)
  then show ?thesis
    by (simp add: credential_acceptable_def not_expired_spec_def not_before_spec_def sample_signed_def
        sample_vc_def)
qed

lemma permissive_fits [simp]: "add_fits now (tp_leeway_secs permissive)" "sub_fits now (tp_leeway_secs permissive)"
  by (simp_all add: add_fits_def sub_fits_def permissive_def)

theorem credential_accepted_iff_witness:
  "out_valid (verify_credential sample_env sample_signed permissive 1500)"
  using sample_signed_verifies sample_signed_acceptable
  by (subst credential_accepted_iff) (auto simp: verify_signature_Ok_iff SIGNATURE_LEN_def)

lemma verify_credential_Ok:
  "verify_signature E vc = Ok () \<Longrightarrow> verify_credential E vc p now =
     \<lparr> out_valid = checks_all (credential_checks vc p now), out_kind = Vc_Kind,
       out_subject = Some (did_as_str (subj_id (vc_subject vc))),
       out_issuer = Some (did_as_str (vc_issuer vc)), out_scopes = [], out_roles = [],
       out_checks = credential_checks vc p now,
       out_reason = first_failure (credential_checks vc p now) \<rparr>"
  by (simp add: verify_credential_def Let_def)

lemma credential_acceptable_view:
  "unsigned_view_of vc = unsigned_view_of vc' \<Longrightarrow>
     credential_acceptable p now vc \<longleftrightarrow> credential_acceptable p now vc'"
  by (simp add: credential_acceptable_def unsigned_view_of_def)

text \<open>
  C16: from issuing to acceptance. A credential signed by the key of its issuer's \<open>did:key\<close>,
  written as JSON and read back by the verifier, is accepted without any key set whenever its
  issuer, window and id meet the policy, at every time that plus and minus the policy's leeway
  stays within \<open>i64\<close> (\<open>time_fits\<close>; beyond it the sums wrap); the outcome names its subject and
  issuer, and neither scopes nor roles.
\<close>

theorem issued_credential_accepted:
  assumes "base58_roundtrip E" "key_roundtrip E" "hex_roundtrip E" "signatures_verify E"
    and "vc_issuer vc = did_from_verifying_key E (ext_sk_verifying_key E sk)"
    and "sign_with E vc sk created = Ok issued" "json_credential E issued"
    and "time_fits p now" "credential_acceptable p (sint now) vc"
  shows "\<exists>doc. ext_vc_to_string E issued = Ok doc \<and> verify_credential_json E doc p now = Ok
     \<lparr> out_valid = True, out_kind = Vc_Kind,
       out_subject = Some (did_as_str (subj_id (vc_subject vc))),
       out_issuer = Some (did_as_str (did_from_verifying_key E (ext_sk_verifying_key E sk))),
       out_scopes = [], out_roles = [], out_checks = all_passing, out_reason = None \<rparr>"
proof -
  have "view_serializes E (unsigned_view_of vc)"
    using assms(6) by (auto simp: sign_with_def signing_payload_def view_serializes_def is_ok_iff)
  then obtain vc' where "sign_with E vc sk created = Ok vc'" "verify_signature E vc' = Ok ()"
    and same: "unsigned_view_of vc' = unsigned_view_of vc"
    using assms(1-5) by (metis signed_verifies)
  then have ok: "verify_signature E issued = Ok ()" and same: "unsigned_view_of issued = unsigned_view_of vc"
    using assms(6) by simp_all
  have "checks_all (credential_checks issued p now)"
    using assms(8,9) credential_acceptable_view [OF same] by (simp add: credential_checks_acceptable)
  then have "credential_checks issued p now = all_passing"
    by (simp add: checks_all_iff)
  moreover have "vc_subject issued = vc_subject vc" "vc_issuer issued = vc_issuer vc"
    using same by (simp_all add: unsigned_view_of_def)
  moreover have "checks_all all_passing" "first_failure all_passing = None"
    by (simp_all add: checks_all_iff)
  moreover obtain doc where "ext_vc_to_string E issued = Ok doc" "ext_vc_from_str E doc = Ok issued"
    using assms(7) by (auto simp: json_credential_def)
  ultimately show ?thesis
    using verify_credential_Ok [OF ok, of p now] assms(5) by (simp add: verify_credential_json_def)
qed

definition sample_json_env :: "(byte, byte) vc_env" where
  "sample_json_env = sample_vc_env [unsigned_view_of sample_vc] [sample_signed] [] [] [] ()"

lemma sample_json_env_signs: "sign_with sample_json_env sample_vc 1 1000 = Ok sample_signed"
  by (simp add: sign_with_def signing_payload_def sample_json_env_def sample_vc_env_def sample_jwt_env_def
      sample_primitives_def table_to_vec_def sample_signed_def sample_proof_def sign_payload_def Let_def)

lemma sample_json_env_issuer:
  "vc_issuer sample_vc = did_from_verifying_key sample_json_env (ext_sk_verifying_key sample_json_env 1)"
  by (simp add: sample_vc_def did_from_verifying_key_def sample_json_env_def sample_vc_env_def
      sample_jwt_env_def sample_primitives_def)

lemma sample_vc_acceptable: "credential_acceptable permissive (sint (1500 :: i64)) sample_vc"
  using sample_signed_acceptable credential_acceptable_view [OF sample_views(1)] by simp

theorem issued_credential_accepted_witness:
  "\<exists>doc. ext_vc_to_string sample_json_env sample_signed = Ok doc
     \<and> (\<exists>out. verify_credential_json sample_json_env doc permissive 1500 = Ok out \<and> out_valid out)"
proof -
  have "json_credential sample_json_env sample_signed"
    by (simp add: sample_json_env_def sample_json_credential)
  moreover have "time_fits permissive 1500" by (simp add: time_fits_def)
  ultimately show ?thesis
    using issued_credential_accepted [of sample_json_env sample_vc 1 1000 sample_signed permissive 1500]
      sample_json_env_issuer sample_json_env_signs sample_vc_acceptable
    by (auto simp: sample_json_env_def)
qed

text \<open>
  The subject's identifier is not validated. A deserialized \<open>Did\<close> is any string, and
  verification decodes the issuer only: a credential is accepted, with all checks passing,
  whose subject is not a \<open>did:key\<close> at all and which \<open>Did::parse\<close> rejects as malformed.
\<close>

theorem accepted_subject_not_did_key:
  "out_checks (verify_credential sample_env sample_signed permissive 1500) = all_passing
   \<and> out_subject (verify_credential sample_env sample_signed permissive 1500) = Some ''did:example:alice''
   \<and> did_parse sample_env ''did:example:alice'' = Err (MalformedDid ''did:example:alice'')"
proof (intro conjI)
  have "checks_all (credential_checks sample_signed permissive 1500)"
    using sample_signed_acceptable by (subst credential_checks_acceptable) (simp_all add: time_fits_def)
  then show "out_checks (verify_credential sample_env sample_signed permissive 1500) = all_passing"
    by (simp add: verify_credential_Ok [OF sample_signed_verifies] checks_all_iff)
  show "out_subject (verify_credential sample_env sample_signed permissive 1500) = Some ''did:example:alice''"
    by (simp add: verify_credential_Ok [OF sample_signed_verifies]) (simp add: sample_signed_def sample_vc_def)
  show "did_parse sample_env ''did:example:alice'' = Err (MalformedDid ''did:example:alice'')"
    by (simp add: did_parse_def did_without_prefix DID_KEY_PREFIX_def)
qed

section \<open>Well-formed outcomes\<close>

text \<open>
  C19: Every outcome is well formed. An outcome names its kind; it is valid exactly when all its
  checks pass, and gives a reason exactly when it is not; its scopes are strictly ordered, so
  none is repeated; and unless the signature check passed, it is a bare rejection, with no
  identity, scope or role.
\<close>

theorem outcomes_well_formed:
  "(let jwt = verify_jwt E token keys p now; vc = verify_credential E' c p now in
      out_kind jwt = Jwt_Kind \<and> out_kind vc = Vc_Kind
    \<and> (out_valid jwt \<longleftrightarrow> checks_all (out_checks jwt)) \<and> (out_valid vc \<longleftrightarrow> checks_all (out_checks vc))
    \<and> (out_reason jwt = None \<longleftrightarrow> out_valid jwt) \<and> (out_reason vc = None \<longleftrightarrow> out_valid vc)
    \<and> sorted (out_scopes jwt) \<and> distinct (out_scopes jwt) \<and> out_scopes vc = []
    \<and> (chk_signature (out_checks jwt) \<or> jwt = rejected Jwt_Kind (the (out_reason jwt)))
    \<and> (chk_signature (out_checks vc) \<or> vc = rejected Vc_Kind (the (out_reason vc))))"
proof -
  have "sorted (out_scopes (verify_jwt E token keys p now)) \<and> distinct (out_scopes (verify_jwt E token keys p now))"
    by (cases rule: verify_jwt_cases [of E token keys p now]) (simp_all add: sorted_iter_set distinct_iter_set)
  moreover have "out_scopes (verify_credential E' c p now) = []"
    by (cases rule: verify_credential_cases [of E' c p now]) simp_all
  ultimately show ?thesis
    by (simp add: Let_def jwt_decision.kind_fixed vc_decision.kind_fixed jwt_decision.reason_iff_invalid
        vc_decision.reason_iff_invalid jwt_decision.valid_iff_checks vc_decision.valid_iff_checks
        jwt_decision.bare_rejection vc_decision.bare_rejection)
qed

end
