(* ===== verification/Audit_Log.thy ===== *)
theory Audit_Log
  imports Outcome
begin

text \<open>
  \<open>edgeauth-infra/src/audit.rs\<close>: audit events and sinks. The broadcast channel of \<open>tokio\<close> is
  a parameter: a record of its operations on an abstract channel \<open>'ch\<close>, with the receivers
  as numbered handles. Sending to a channel without subscribers is an error the sink ignores,
  so only the channel's next state is kept.
\<close>

record verification_event =
  ev_kind :: token_kind
  ev_valid :: bool
  ev_subject :: "string option"
  ev_issuer :: "string option"
  ev_reason :: "string option"
  ev_at :: i64

definition event_from_outcome :: "verification_outcome \<Rightarrow> i64 \<Rightarrow> verification_event" where
  "event_from_outcome out stamp =
     \<lparr> ev_kind = out_kind out, ev_valid = out_valid out, ev_subject = out_subject out,
       ev_issuer = out_issuer out, ev_reason = out_reason out, ev_at = stamp \<rparr>"

record 'ch broadcast_env =
  ext_channel :: "nat \<Rightarrow> 'ch"
  ext_send_event :: "'ch \<Rightarrow> verification_event \<Rightarrow> 'ch"
  ext_subscribe :: "'ch \<Rightarrow> 'ch \<times> nat"
  ext_receiver_count :: "'ch \<Rightarrow> nat"
  ext_received :: "'ch \<Rightarrow> nat \<Rightarrow> (verification_event, nat) result list"

datatype 'ch audit_sink = Broadcast_Sink 'ch | Noop_Sink

definition broadcast_sink_new :: "('ch, 'z) broadcast_env_scheme \<Rightarrow> nat \<Rightarrow> 'ch audit_sink" where
  "broadcast_sink_new B capacity = Broadcast_Sink (ext_channel B (max capacity 1))"

fun sink_subscribe :: "('ch, 'z) broadcast_env_scheme \<Rightarrow> 'ch audit_sink \<Rightarrow> 'ch audit_sink \<times> nat option" where
  \<comment> \<open>the discarding sink has no channel to subscribe to\<close>
  "sink_subscribe B (Broadcast_Sink ch) = (case ext_subscribe B ch of (ch', rx) \<Rightarrow> (Broadcast_Sink ch', Some rx))"
| "sink_subscribe B Noop_Sink = (Noop_Sink, None)"

fun sink_subscriber_count :: "('ch, 'z) broadcast_env_scheme \<Rightarrow> 'ch audit_sink \<Rightarrow> nat" where
  "sink_subscriber_count B (Broadcast_Sink ch) = ext_receiver_count B ch"
| "sink_subscriber_count B Noop_Sink = 0"

fun audit_record ::
  "('ch, 'z) broadcast_env_scheme \<Rightarrow> verification_event \<Rightarrow> 'ch audit_sink \<Rightarrow> 'ch audit_sink" where
  "audit_record B event (Broadcast_Sink ch) = Broadcast_Sink (ext_send_event B ch event)"
| "audit_record B event Noop_Sink = Noop_Sink"

lemma fold_audit_broadcast:
  "fold (audit_record B) events (Broadcast_Sink ch) = Broadcast_Sink (foldl (ext_send_event B) ch events)"
  by (induction events arbitrary: ch) simp_all

lemma fold_audit_noop: "fold (audit_record B) events Noop_Sink = Noop_Sink"
  by (induction events) simp_all

text \<open>
  Documented behaviour of the channel: a receiver that has not fallen behind by more than the
  capacity gets every event sent after it subscribed, in order. \<open>K\<close> is the capacity of a channel.
\<close>

definition broadcast_delivers :: "('ch, 'z) broadcast_env_scheme \<Rightarrow> ('ch \<Rightarrow> nat) \<Rightarrow> bool" where
  "broadcast_delivers B K \<longleftrightarrow>
     (\<forall>ch ch' rx es. ext_subscribe B ch = (ch', rx) \<longrightarrow> length es \<le> K ch \<longrightarrow>
        ext_received B (foldl (ext_send_event B) ch' es) rx = map Ok es)"

text \<open>A channel that keeps the list of its events, for the witnesses: a receiver is a position.\<close>

definition list_channel :: "verification_event list broadcast_env" where
  "list_channel = \<lparr> ext_channel = (\<lambda>n. []), ext_send_event = (\<lambda>ch e. ch @ [e]),
     ext_subscribe = (\<lambda>ch. (ch, length ch)), ext_receiver_count = (\<lambda>_. 1),
     ext_received = (\<lambda>ch rx. map Ok (drop rx ch)) \<rparr>"

lemma list_channel_send [simp]: "ext_send_event list_channel ch e = ch @ [e]"
  by (simp add: list_channel_def)

lemma list_channel_sends: "foldl (ext_send_event list_channel) ch es = ch @ es"
  by (induction es arbitrary: ch) simp_all

lemma list_channel_delivers: "broadcast_delivers list_channel K"
  unfolding broadcast_delivers_def list_channel_sends by (simp add: list_channel_def)

end
