(* ===== verification/Mono_Clock.thy ===== *)
theory Mono_Clock
  imports Rust_Prelude
begin

text \<open>
  \<open>edgeauth-resilience/src/clock.rs\<close>: monotonic time. \<open>Instant\<close> and \<open>Duration\<close> are
  nanoseconds as natural numbers; \<open>duration_since\<close> saturates at zero, as \<open>std\<close> documents.
  The system clock's reading is an argument.
\<close>

section \<open>Instants and durations\<close>

type_synonym instant = nat
type_synonym duration = nat

definition duration_since :: "instant \<Rightarrow> instant \<Rightarrow> duration" where
  "duration_since later earlier = later - earlier"

definition as_millis :: "duration \<Rightarrow> nat" where
  "as_millis d = d div 1000000"

definition from_millis :: "nat \<Rightarrow> duration" where
  "from_millis ms = ms * 1000000"

definition from_secs :: "nat \<Rightarrow> duration" where
  "from_secs s = s * 1000000000"

lemma as_millis_from_millis [simp]: "as_millis (from_millis ms) = ms"
  by (simp add: as_millis_def from_millis_def)

lemma from_millis_mono: "m \<le> n \<Longrightarrow> from_millis m \<le> from_millis n"
  by (simp add: from_millis_def)

lemma from_millis_as_millis_le: "from_millis (as_millis d) \<le> d"
  by (simp add: from_millis_def as_millis_def)

section \<open>Clocks\<close>

datatype mono_clock = System_Clock | Manual_Clock instant

fun mono_now :: "instant \<Rightarrow> mono_clock \<Rightarrow> instant" where
  \<comment> \<open>the first argument is the reading of the operating system's timer\<close>
  "mono_now os System_Clock = os"
| "mono_now os (Manual_Clock t) = t"

definition manual_clock_new :: "instant \<Rightarrow> mono_clock" where
  "manual_clock_new os = Manual_Clock os"

text \<open>
  \<open>Instant += Duration\<close> panics (\<open>None\<close>) when the sum is no \<open>Instant\<close>; the last one the platform
  can represent is the argument \<open>limit\<close>.
\<close>

definition add_duration :: "instant \<Rightarrow> instant \<Rightarrow> duration \<Rightarrow> instant option" where
  "add_duration limit t delta = (if t + delta \<le> limit then Some (t + delta) else None)"

fun manual_clock_advance :: "instant \<Rightarrow> duration \<Rightarrow> mono_clock \<Rightarrow> mono_clock option" where
  "manual_clock_advance limit delta (Manual_Clock t) = map_option Manual_Clock (add_duration limit t delta)"
| "manual_clock_advance limit delta System_Clock = Some System_Clock"

lemma manual_clock_monotone:
  "manual_clock_advance limit d c = Some c' \<Longrightarrow> mono_now os c \<le> mono_now os c'"
  by (cases c) (auto simp: add_duration_def split: if_splits)

text \<open>Advancing step by step panics exactly when the whole time does not fit.\<close>

primrec advance_all :: "instant \<Rightarrow> duration list \<Rightarrow> mono_clock \<Rightarrow> mono_clock option" where
  "advance_all limit [] c = Some c"
| "advance_all limit (d # ds) c = Option.bind (manual_clock_advance limit d c) (advance_all limit ds)"

lemma manual_clock_elapsed:
  "t \<le> limit \<Longrightarrow> advance_all limit ds (manual_clock_new t)
     = (if t + sum_list ds \<le> limit then Some (manual_clock_new (t + sum_list ds)) else None)"
  unfolding manual_clock_new_def
  by (induction ds arbitrary: t) (auto simp: add_duration_def add.assoc)

end
