(* ===== verification/Transition.thy ===== *)
theory Transition
  imports Main
begin

text \<open>
  Labelled executions and invariants, shared by the components that are state machines: a
  component gives its step relation, and the locale \<open>step_invariant\<close> turns a lemma per step
  into a fact about every execution.
\<close>

inductive steps :: "('s \<Rightarrow> 'l \<Rightarrow> 's \<Rightarrow> bool) \<Rightarrow> 's \<Rightarrow> 'l list \<Rightarrow> 's \<Rightarrow> bool"
  for step :: "'s \<Rightarrow> 'l \<Rightarrow> 's \<Rightarrow> bool" where
  steps_Nil: "steps step s [] s"
| steps_Cons: "step s l s' \<Longrightarrow> steps step s' ls s'' \<Longrightarrow> steps step s (l # ls) s''"

inductive_simps steps_Nil_iff [simp]: "steps step s [] s'"
inductive_simps steps_Cons_iff: "steps step s (l # ls) s'"

lemma steps_append:
  "steps step s ls s' \<Longrightarrow> steps step s' ms s'' \<Longrightarrow> steps step s (ls @ ms) s''"
  by (induction rule: steps.induct) (auto intro: steps_Cons)

lemma steps_snoc: "steps step s ls s' \<Longrightarrow> step s' l s'' \<Longrightarrow> steps step s (ls @ [l]) s''"
  by (rule steps_append) (auto intro: steps.intros)

lemma steps_single: "steps step s [l] s' \<longleftrightarrow> step s l s'"
  by (auto simp: steps_Cons_iff)

locale step_invariant =
  fixes step :: "'s \<Rightarrow> 'l \<Rightarrow> 's \<Rightarrow> bool"
    and init :: "'s \<Rightarrow> bool"
    and inv :: "'s \<Rightarrow> bool"
  assumes inv_init: "init s \<Longrightarrow> inv s"
    and inv_step: "inv s \<Longrightarrow> step s l s' \<Longrightarrow> inv s'"
begin

lemma inv_steps: "steps step s ls s' \<Longrightarrow> inv s \<Longrightarrow> inv s'"
  by (induction rule: steps.induct) (auto intro: inv_step)

lemma inv_reachable: "init s \<Longrightarrow> steps step s ls s' \<Longrightarrow> inv s'"
  by (blast intro: inv_init inv_steps)

end

text \<open>An execution whose every label satisfies a condition, and what such steps keep.\<close>

lemma steps_keep:
  assumes "steps step s ls s'" and "P s" and "list_all L ls"
    and "\<And>s l s'. P s \<Longrightarrow> L l \<Longrightarrow> step s l s' \<Longrightarrow> P s'"
  shows "P s'"
  using assms(1-3) by (induction rule: steps.induct) (auto intro: assms(4))

end
