(* ===== verification/Breaker.thy ===== *)
theory Breaker
  imports Mono_Clock Transition
begin

text \<open>
  \<open>edgeauth-resilience/src/breaker.rs\<close>: the circuit breaker. \<open>Inner\<close> is the state behind
  the mutex; every method holds the lock from its first line to its last, so each is one atomic
  step. The clock reading is an argument of the methods that read it.
\<close>

section \<open>Data\<close>

record breaker_config =
  cfg_failure_threshold :: u32
  cfg_open_duration :: duration

definition default_breaker_config :: breaker_config where
  "default_breaker_config = \<lparr> cfg_failure_threshold = 5, cfg_open_duration = from_secs 30 \<rparr>"

datatype circuit_state = Closed | Open | HalfOpen

datatype circuit_open = CircuitOpen

datatype raw_state = RawClosed | RawOpen instant | RawHalfOpen

record breaker =
  failures :: u32
  raw_state :: raw_state

section \<open>Operations\<close>

definition saturating_add_u32 :: "u32 \<Rightarrow> u32 \<Rightarrow> u32" where
  "saturating_add_u32 a b = word_of_nat (min (unat a + unat b) (2 ^ 32 - 1))"

definition breaker_new :: breaker where
  "breaker_new = \<lparr> failures = 0, raw_state = RawClosed \<rparr>"

definition breaker_state :: "breaker \<Rightarrow> circuit_state" where
  "breaker_state b =
     (case raw_state b of RawClosed \<Rightarrow> Closed | RawOpen _ \<Rightarrow> Open | RawHalfOpen \<Rightarrow> HalfOpen)"

definition breaker_acquire ::
  "breaker_config \<Rightarrow> instant \<Rightarrow> breaker \<Rightarrow> (unit, circuit_open) result \<times> breaker" where
  "breaker_acquire cfg now b =
     (case raw_state b of
        RawClosed \<Rightarrow> (Ok (), b)
      | RawHalfOpen \<Rightarrow> (Ok (), b)
      | RawOpen opened_at \<Rightarrow>
          if cfg_open_duration cfg \<le> duration_since now opened_at
          then (Ok (), b\<lparr>raw_state := RawHalfOpen\<rparr>)
          else (Err CircuitOpen, b))"

definition breaker_record_success :: "breaker \<Rightarrow> breaker" where
  "breaker_record_success b = b\<lparr>failures := 0, raw_state := RawClosed\<rparr>"

definition breaker_record_failure :: "breaker_config \<Rightarrow> instant \<Rightarrow> breaker \<Rightarrow> breaker" where
  "breaker_record_failure cfg now b =
     (case raw_state b of
        RawHalfOpen \<Rightarrow> b\<lparr>raw_state := RawOpen now\<rparr>
      | RawClosed \<Rightarrow>
          (let b' = b\<lparr>failures := saturating_add_u32 (failures b) 1\<rparr>
           in if cfg_failure_threshold cfg \<le> failures b'
              then b'\<lparr>raw_state := RawOpen now\<rparr> else b')
      | RawOpen _ \<Rightarrow> b)"

section \<open>The trip threshold\<close>

text \<open>
  The first failure is counted before the comparison, so a threshold of 0 acts as 1.
\<close>

definition trip_count :: "breaker_config \<Rightarrow> nat" where
  "trip_count cfg = max 1 (unat (cfg_failure_threshold cfg))"

lemma trip_count_pos [simp]: "0 < trip_count cfg"
  by (simp add: trip_count_def)

lemma trip_count_bound: "trip_count cfg < 2 ^ 32"
  unfolding trip_count_def using unat_u32_less [of "cfg_failure_threshold cfg"] by simp

lemma unat_saturating_succ:
  "unat (saturating_add_u32 a 1) = min (unat a + 1) (2 ^ 32 - 1)"
  unfolding saturating_add_u32_def by (subst unat_u32) simp_all

text \<open>
  The invariant: while closed, the count is below the threshold (so the addition never
  saturates); once tripped, it stays at least there; and the breaker was not opened in the
  future.
\<close>

definition breaker_inv :: "breaker_config \<Rightarrow> instant \<Rightarrow> breaker \<Rightarrow> bool" where
  "breaker_inv cfg now b \<longleftrightarrow>
     (case raw_state b of
        RawClosed \<Rightarrow> unat (failures b) < trip_count cfg
      | RawOpen t \<Rightarrow> trip_count cfg \<le> unat (failures b) \<and> t \<le> now
      | RawHalfOpen \<Rightarrow> trip_count cfg \<le> unat (failures b))"

lemma unat_succ_below: "unat a < trip_count cfg \<Longrightarrow> unat (saturating_add_u32 a 1) = unat a + 1"
  using trip_count_bound [of cfg] by (simp add: unat_saturating_succ)

lemma trips_iff:
  "unat (failures b) < trip_count cfg \<Longrightarrow>
     cfg_failure_threshold cfg \<le> saturating_add_u32 (failures b) 1 \<longleftrightarrow> unat (failures b) + 1 = trip_count cfg"
  by (auto simp: word_le_nat_alt unat_succ_below) (auto simp: trip_count_def)

lemma breaker_inv_new [simp]: "breaker_inv cfg now breaker_new"
  by (simp add: breaker_inv_def breaker_new_def)

lemma breaker_inv_acquire: "breaker_inv cfg now b \<Longrightarrow> breaker_inv cfg now (snd (breaker_acquire cfg now b))"
  by (auto simp: breaker_inv_def breaker_acquire_def split: raw_state.splits)

lemma breaker_inv_success: "breaker_inv cfg now (breaker_record_success b)"
  by (simp add: breaker_inv_def breaker_record_success_def)

lemma breaker_inv_failure: "breaker_inv cfg now b \<Longrightarrow> breaker_inv cfg now (breaker_record_failure cfg now b)"
  by (auto simp: breaker_inv_def breaker_record_failure_def Let_def trips_iff unat_succ_below
      split: raw_state.splits)

lemma breaker_inv_later: "breaker_inv cfg now b \<Longrightarrow> now \<le> now' \<Longrightarrow> breaker_inv cfg now' b"
  by (auto simp: breaker_inv_def split: raw_state.splits)

section \<open>Executions\<close>

text \<open>
  An execution of the breaker against a clock that never runs backwards: time passes, a call
  asks for admission and is told the answer, and calls, admitted at any earlier time, report
  success or failure.
\<close>

datatype breaker_event = Elapse duration | Acquire bool | Success | Failure

inductive breaker_step ::
  "breaker_config \<Rightarrow> instant \<times> breaker \<Rightarrow> breaker_event \<Rightarrow> instant \<times> breaker \<Rightarrow> bool"
  for cfg :: breaker_config where
  elapse: "breaker_step cfg (now, b) (Elapse d) (now + d, b)"
| acquire: "breaker_acquire cfg now b = (r, b') \<Longrightarrow>
    breaker_step cfg (now, b) (Acquire (is_ok r)) (now, b')"
| success: "breaker_step cfg (now, b) Success (now, breaker_record_success b)"
| failure: "breaker_step cfg (now, b) Failure (now, breaker_record_failure cfg now b)"

inductive_cases breaker_stepE: "breaker_step cfg (now, b) e s'"

interpretation breaker_machine: step_invariant "breaker_step cfg"
  "\<lambda>s. snd s = breaker_new" "\<lambda>s. breaker_inv cfg (fst s) (snd s)"
  for cfg
proof
  show "breaker_inv cfg (fst s) (snd s)" if "snd s = breaker_new" for s
    using that by simp
  show "breaker_inv cfg (fst s') (snd s')"
    if inv: "breaker_inv cfg (fst s) (snd s)" and step: "breaker_step cfg s e s'" for s e s'
    using step inv
    by (cases rule: breaker_step.cases)
      (auto simp: breaker_inv_success breaker_inv_failure
        dest: breaker_inv_acquire intro: breaker_inv_later)
qed

text \<open>
  C10: in every execution from a new breaker, while it is closed its failure count is below the
  threshold (so counting never saturates), once it has left the closed state the count is at
  the threshold or above, and no opening time lies in the future.
\<close>

theorem breaker_invariant:
  assumes "steps (breaker_step cfg) (start, breaker_new) es (now, b)"
  shows "breaker_inv cfg now b"
  using breaker_machine.inv_reachable [OF _ assms] by simp

theorem breaker_invariant_witness:
  "breaker_inv default_breaker_config 7 (breaker_record_failure default_breaker_config 7 breaker_new)"
proof (rule breaker_invariant)
  show "steps (breaker_step default_breaker_config) (0, breaker_new) [Elapse 7, Failure]
      (7, breaker_record_failure default_breaker_config 7 breaker_new)"
    using elapse [of default_breaker_config 0 breaker_new 7]
      failure [of default_breaker_config 7 breaker_new]
    by (auto simp: steps_Cons_iff)
qed

section \<open>Tripping\<close>

lemma fold_failures_below:
  "length ts < trip_count cfg \<Longrightarrow>
     fold (breaker_record_failure cfg) ts breaker_new
       = \<lparr> failures = word_of_nat (length ts), raw_state = RawClosed \<rparr>"
proof (induction ts rule: rev_induct)
  case Nil
  then show ?case by (simp add: breaker_new_def)
next
  case (snoc t ts)
  have len: "unat (word_of_nat (length ts) :: u32) = length ts"
    using snoc.prems trip_count_bound [of cfg] by (intro unat_u32) simp
  then have "saturating_add_u32 (word_of_nat (length ts)) 1 = word_of_nat (Suc (length ts))"
    using snoc.prems trip_count_bound [of cfg] by (simp add: saturating_add_u32_def)
  moreover have "\<not> cfg_failure_threshold cfg \<le> saturating_add_u32 (word_of_nat (length ts)) 1"
    using trips_iff [of "\<lparr> failures = word_of_nat (length ts), raw_state = RawClosed \<rparr>" cfg] snoc.prems len
    by simp
  ultimately show ?case
    using snoc by (simp add: breaker_record_failure_def Let_def)
qed

lemma fold_failures_open:
  "raw_state b = RawOpen t \<Longrightarrow> fold (breaker_record_failure cfg) ts b = b"
  by (induction ts) (simp_all add: breaker_record_failure_def)

text \<open>
  C25: when the breaker trips. After any run of consecutive failures a new breaker is closed,
  with the exact count, as long as there were fewer than the threshold (a threshold of 0
  counting as 1); from the threshold on it is open since the failure that reached it, and later
  failures change nothing, so they do not extend the cooldown.
\<close>

theorem breaker_trips_exactly:
  "fold (breaker_record_failure cfg) ts breaker_new =
     (if length ts < max 1 (unat (cfg_failure_threshold cfg))
      then \<lparr> failures = word_of_nat (length ts), raw_state = RawClosed \<rparr>
      else \<lparr> failures = word_of_nat (max 1 (unat (cfg_failure_threshold cfg))),
             raw_state = RawOpen (ts ! (max 1 (unat (cfg_failure_threshold cfg)) - 1)) \<rparr>)"
proof (cases "length ts < trip_count cfg")
  case True
  then show ?thesis
    using fold_failures_below [OF True] by (simp add: trip_count_def)
next
  case False
  define n where "n = trip_count cfg - 1"
  have n: "n < length ts" "Suc n = trip_count cfg"
    using False trip_count_pos [of cfg] unfolding n_def by linarith+
  have split: "ts = take n ts @ ts ! n # drop (Suc n) ts"
    using n(1) by (rule id_take_nth_drop)
  let ?c = "\<lparr> failures = word_of_nat n, raw_state = RawClosed \<rparr>"
  have before: "fold (breaker_record_failure cfg) (take n ts) breaker_new = ?c"
    using n fold_failures_below [of "take n ts" cfg] by simp
  have len: "unat (word_of_nat n :: u32) = n"
    using n trip_count_bound [of cfg] by (intro unat_u32) simp
  then have "saturating_add_u32 (word_of_nat n) 1 = word_of_nat (Suc n)"
    using n trip_count_bound [of cfg] by (simp add: saturating_add_u32_def)
  moreover have "cfg_failure_threshold cfg \<le> saturating_add_u32 (word_of_nat n) 1"
    using trips_iff [of ?c cfg] n len by simp
  ultimately have "breaker_record_failure cfg (ts ! n) ?c
      = \<lparr> failures = word_of_nat (Suc n), raw_state = RawOpen (ts ! n) \<rparr>"
    by (simp add: breaker_record_failure_def Let_def)
  then have "fold (breaker_record_failure cfg) ts breaker_new
      = \<lparr> failures = word_of_nat (Suc n), raw_state = RawOpen (ts ! n) \<rparr>"
    by (subst split) (simp add: before fold_failures_open)
  moreover have "max 1 (unat (cfg_failure_threshold cfg)) = Suc n"
    using n(2) by (simp add: trip_count_def)
  ultimately show ?thesis
    using n(1) by simp
qed

section \<open>Cooldown and recovery\<close>

text \<open>
  Admission. A call is refused exactly while the breaker is open and the cooldown has not
  yet elapsed, and a refusal changes nothing; an admitted call leaves the state alone, except
  that the first one after the cooldown makes it half-open.
\<close>

theorem breaker_acquire_spec:
  "(fst (breaker_acquire cfg now b) = Err CircuitOpen \<longleftrightarrow>
      (\<exists>t. raw_state b = RawOpen t \<and> now - t < cfg_open_duration cfg))
   \<and> (snd (breaker_acquire cfg now b) =
       (if breaker_state b = Open \<and> fst (breaker_acquire cfg now b) = Ok ()
        then b\<lparr>raw_state := RawHalfOpen\<rparr> else b))"
  by (auto simp: breaker_acquire_def breaker_state_def duration_since_def split: raw_state.splits)

lemma acquire_open_window:
  "raw_state b = RawOpen t \<Longrightarrow> now - t < cfg_open_duration cfg \<Longrightarrow>
     breaker_acquire cfg now b = (Err CircuitOpen, b)"
  by (simp add: breaker_acquire_def duration_since_def)

lemma open_window_step:
  assumes "breaker_step cfg (now, b) e (now', b')" "raw_state b = RawOpen t"
    and "now' < t + cfg_open_duration cfg" "t \<le> now" "e \<noteq> Success"
  shows "b' = b \<and> now \<le> now' \<and> (\<forall>ok. e = Acquire ok \<longrightarrow> \<not> ok)"
  using assms by (elim breaker_stepE) (auto simp: acquire_open_window breaker_record_failure_def)

lemma step_time: "breaker_step cfg s e s' \<Longrightarrow> fst s \<le> fst s'"
  by (auto elim: breaker_step.cases)

lemma steps_time: "steps (breaker_step cfg) s es s' \<Longrightarrow> fst s \<le> fst s'"
  by (induction rule: steps.induct) (auto dest: step_time)

lemma open_window_steps:
  "steps (breaker_step cfg) s es s' \<Longrightarrow> raw_state (snd s) = RawOpen t \<Longrightarrow> t \<le> fst s \<Longrightarrow>
     fst s' < t + cfg_open_duration cfg \<Longrightarrow> list_all (\<lambda>e. e \<noteq> Success) es \<Longrightarrow>
     snd s' = snd s \<and> Acquire True \<notin> set es"
proof (induction rule: steps.induct)
  case (steps_Cons s e s' es s'')
  obtain now b now' b' where s: "s = (now, b)" "s' = (now', b')"
    by (cases s; cases s')
  have "now' < t + cfg_open_duration cfg"
    using steps_time [OF steps_Cons.hyps(2)] steps_Cons.prems(3) s by simp
  with steps_Cons.hyps(1) steps_Cons.prems s
  have "b' = b \<and> now \<le> now' \<and> (\<forall>ok. e = Acquire ok \<longrightarrow> \<not> ok)"
    by (intro open_window_step [of cfg now b e now' b' t]) simp_all
  with steps_Cons.IH steps_Cons.prems s show ?case by auto
qed simp

text \<open>
  C11: the cooldown holds. From the moment a breaker opens until its cooldown has elapsed, in
  every interleaving of clock ticks, admission requests and failing calls, it stays open and
  admits nobody, unless a call admitted earlier reports success.
\<close>

theorem open_admits_nobody:
  assumes "steps (breaker_step cfg) (t, b) es (now, b')" "raw_state b = RawOpen t"
    and "now < t + cfg_open_duration cfg" "Success \<notin> set es"
  shows "breaker_state b' = Open \<and> Acquire True \<notin> set es"
proof -
  have "list_all (\<lambda>e. e \<noteq> Success) es"
    using assms(4) by (auto simp: list_all_iff)
  then have "b' = b \<and> Acquire True \<notin> set es"
    using open_window_steps [OF assms(1), of t] assms(2,3) by simp
  with assms(2) show ?thesis
    by (simp add: breaker_state_def)
qed

theorem open_admits_nobody_witness:
  "breaker_state \<lparr> failures = 5, raw_state = RawOpen 10 \<rparr> = Open
   \<and> Acquire True \<notin> set [Elapse 3, Acquire False, Failure]"
proof (rule open_admits_nobody)
  let ?b = "\<lparr> failures = 5, raw_state = RawOpen 10 \<rparr> :: breaker"
  have "breaker_acquire default_breaker_config 13 ?b = (Err CircuitOpen, ?b)"
    by (rule acquire_open_window [of _ 10]) (simp_all add: default_breaker_config_def from_secs_def)
  then have "breaker_step default_breaker_config (13, ?b) (Acquire False) (13, ?b)"
    using acquire [of default_breaker_config 13 ?b] by force
  moreover have "breaker_step default_breaker_config (10, ?b) (Elapse 3) (13, ?b)"
    using elapse [of default_breaker_config 10 ?b 3] by simp
  moreover have "breaker_step default_breaker_config (13, ?b) Failure (13, ?b)"
    using failure [of default_breaker_config 13 ?b] by (simp add: breaker_record_failure_def)
  ultimately show "steps (breaker_step default_breaker_config) (10, ?b)
      [Elapse 3, Acquire False, Failure] (13, ?b)"
    by (auto simp: steps_Cons_iff)
qed (simp_all add: default_breaker_config_def from_secs_def)

text \<open>
  Recovery and relapse. Once the cooldown has elapsed a call is admitted; its success closes
  the breaker with a clean count, and its failure opens it again from the time of the failure,
  with the full cooldown ahead.
\<close>

theorem breaker_probe:
  assumes "raw_state b = RawOpen t" "t + cfg_open_duration cfg \<le> now" "t \<le> now"
  shows "fst (breaker_acquire cfg now b) = Ok ()
       \<and> breaker_record_success (snd (breaker_acquire cfg now b)) = breaker_new
       \<and> raw_state (breaker_record_failure cfg later (snd (breaker_acquire cfg now b))) = RawOpen later"
  using assms
  by (simp add: breaker_acquire_def duration_since_def breaker_record_success_def breaker_new_def
      breaker_record_failure_def)

theorem breaker_probe_witness:
  "fst (breaker_acquire default_breaker_config 40000000000 \<lparr> failures = 5, raw_state = RawOpen 10 \<rparr>) = Ok ()"
  using breaker_probe [of "\<lparr> failures = 5, raw_state = RawOpen 10 \<rparr>" 10 default_breaker_config 40000000000 0]
  by (simp add: default_breaker_config_def from_secs_def)

section \<open>Half-open admits every call\<close>

text \<open>
  The half-open state does not count its trial calls. However many calls ask for admission
  before the first of them reports, every one is admitted, although the state is documented as
  permitting a single trial call.
\<close>

theorem half_open_admits_all:
  assumes "raw_state b = RawHalfOpen"
  shows "steps (breaker_step cfg) (now, b) (replicate n (Acquire True)) (now, b)"
proof (induction n)
  case (Suc n)
  have "breaker_acquire cfg now b = (Ok (), b)"
    using assms by (simp add: breaker_acquire_def)
  then have "breaker_step cfg (now, b) (Acquire True) (now, b)"
    using acquire [of cfg now b] by force
  with Suc show ?case by (simp add: steps_Cons)
qed simp

theorem half_open_admits_all_witness:
  "steps (breaker_step default_breaker_config) (0, \<lparr> failures = 5, raw_state = RawHalfOpen \<rparr>)
     (replicate 100 (Acquire True)) (0, \<lparr> failures = 5, raw_state = RawHalfOpen \<rparr>)"
  by (rule half_open_admits_all) simp

section \<open>The interface to guarded calls\<close>

text \<open>
  What a client that guards a dependency with a breaker relies on: a refusal leaves the guard
  as it was, time and every operation keep its invariant, and after a success calls are
  admitted at any time. The client's protocol (ask, call, report the result) then keeps the
  invariant.
\<close>

locale call_guard =
  fixes admit :: "instant \<Rightarrow> 'g \<Rightarrow> bool \<times> 'g"
    and succeed :: "'g \<Rightarrow> 'g"
    and fail :: "instant \<Rightarrow> 'g \<Rightarrow> 'g"
    and inv :: "instant \<Rightarrow> 'g \<Rightarrow> bool"
  assumes refusal_keeps: "admit now g = (False, g') \<Longrightarrow> g' = g"
    and inv_admit: "inv now g \<Longrightarrow> admit now g = (ok, g') \<Longrightarrow> inv now g'"
    and inv_succeed: "inv now g \<Longrightarrow> inv now (succeed g)"
    and inv_fail: "inv now g \<Longrightarrow> inv now (fail now g)"
    and inv_later: "inv now g \<Longrightarrow> now \<le> later \<Longrightarrow> inv later g"
    and admits_after_success: "fst (admit now (succeed g))"
begin

lemma inv_guarded:
  assumes "inv now g" "admit now g = (ok, g')" "now \<le> later"
  shows "inv later (if \<not> ok then g else if success then succeed g' else fail later g')"
  using assms by (auto intro: inv_admit inv_succeed inv_fail inv_later)

lemma success_reopens: "admit now (succeed g) = (True, snd (admit now (succeed g)))"
  using admits_after_success [of now g] by (simp add: prod_eq_iff)

end

definition breaker_admit :: "breaker_config \<Rightarrow> instant \<Rightarrow> breaker \<Rightarrow> bool \<times> breaker" where
  "breaker_admit cfg now b = (case breaker_acquire cfg now b of (r, b') \<Rightarrow> (is_ok r, b'))"

interpretation breaker_guard: call_guard "breaker_admit cfg" breaker_record_success
  "breaker_record_failure cfg" "breaker_inv cfg"
  for cfg
proof
  show "g' = g" if "breaker_admit cfg now g = (False, g')" for now g g'
    using that by (auto simp: breaker_admit_def breaker_acquire_def split: raw_state.splits if_splits)
  show "breaker_inv cfg now g'" if "breaker_inv cfg now g" "breaker_admit cfg now g = (ok, g')" for now g ok g'
    using that breaker_inv_acquire [of cfg now g] by (auto simp: breaker_admit_def split: prod.splits)
  show "fst (breaker_admit cfg now (breaker_record_success g))" for now g
    by (simp add: breaker_admit_def breaker_acquire_def breaker_record_success_def)
qed (simp_all add: breaker_inv_success breaker_inv_failure breaker_inv_later)

lemma acquire_after_cooldown:
  "breaker_inv cfg now b \<Longrightarrow> now + cfg_open_duration cfg \<le> later \<Longrightarrow>
     \<exists>b'. breaker_acquire cfg later b = (Ok (), b')"
  by (auto simp: breaker_inv_def breaker_acquire_def duration_since_def split: raw_state.splits)

lemma steps_failures:
  "steps (breaker_step cfg) (now, b) (replicate n Failure) (now, fold (breaker_record_failure cfg) (replicate n now) b)"
proof (induction n arbitrary: b)
  case (Suc n)
  then show ?case
    by (simp add: steps_Cons_iff) (blast intro: failure)
qed simp

end
