(* ===== verification/Retry.thy ===== *)
theory Retry
  imports Mono_Clock
begin

text \<open>
  \<open>edgeauth-resilience/src/retry.rs\<close>: capped exponential backoff, the retry loop and the
  timeout helper. An operation is a function on the state it acts on; \<open>tokio::time::sleep\<close>
  and \<open>tokio::time::timeout\<close> are parameters. \<open>None\<close> as a result is the panic of the
  loop's final \<open>expect\<close>.
\<close>

section \<open>Data\<close>

record retry_policy =
  rp_max_attempts :: u32
  rp_initial_backoff :: duration
  rp_multiplier :: u32
  rp_max_backoff :: duration

definition default_retry_policy :: retry_policy where
  "default_retry_policy = \<lparr> rp_max_attempts = 3, rp_initial_backoff = from_millis 50,
     rp_multiplier = 2, rp_max_backoff = from_secs 5 \<rparr>"

datatype elapsed = Elapsed duration

section \<open>Operations\<close>

text \<open>\<open>u32::saturating_pow\<close> and \<open>u128::saturating_mul\<close>.\<close>

definition saturating_pow_u32 :: "u32 \<Rightarrow> u32 \<Rightarrow> u32" where
  "saturating_pow_u32 b e = word_of_nat (min (unat b ^ unat e) (2 ^ 32 - 1))"

definition saturating_mul_u128 :: "nat \<Rightarrow> nat \<Rightarrow> nat" where
  "saturating_mul_u128 a b = min (a * b) (2 ^ 128 - 1)"

definition backoff_for :: "retry_policy \<Rightarrow> u32 \<Rightarrow> duration" where
  "backoff_for p attempt =
     (let factor = saturating_pow_u32 (rp_multiplier p) attempt;
          millis = saturating_mul_u128 (as_millis (rp_initial_backoff p)) (unat factor);
          capped = min millis (as_millis (rp_max_backoff p))
      in from_millis (unat (word_of_nat capped :: u64)))"

lemma unat_succ_u32: "(a :: u32) < b \<Longrightarrow> unat (a + 1) = unat a + 1"
proof -
  assume "a < b"
  then have "unat a + 1 < 2 ^ 32"
    using unat_u32_less [of b] by (simp add: word_less_nat_alt)
  then have "unat (word_of_nat (unat a + 1) :: u32) = unat a + 1"
    by (rule unat_u32)
  then show ?thesis by (simp add: add.commute)
qed

text \<open>
  The loop from a given attempt on, with the last error seen; \<open>retry\<close> starts it. The state
  is threaded through the operation and the sleeps.
\<close>

function retry_loop ::
  "retry_policy \<Rightarrow> u32 \<Rightarrow> ('s \<Rightarrow> ('a, 'e) result \<times> 's) \<Rightarrow> (duration \<Rightarrow> 's \<Rightarrow> 's) \<Rightarrow>
     u32 \<Rightarrow> 'e option \<Rightarrow> 's \<Rightarrow> ('a, 'e) result option \<times> 's" where
  "retry_loop p attempts op sleep attempt last_err s =
     (if attempt < attempts then
        (case op s of
           (Ok value, s') \<Rightarrow> (Some (Ok value), s')
         | (Err err, s') \<Rightarrow>
             retry_loop p attempts op sleep (attempt + 1) (Some err)
               (if attempt + 1 < attempts then sleep (backoff_for p attempt) s' else s'))
      else (map_option Err last_err, s))"
  by pat_completeness auto

termination
  by (relation "measure (\<lambda>(p, attempts, op, sleep, attempt, last_err, s). unat attempts - unat attempt)")
    (auto simp: unat_succ_u32 word_less_nat_alt)

declare retry_loop.simps [simp del]

definition retry ::
  "retry_policy \<Rightarrow> ('s \<Rightarrow> ('a, 'e) result \<times> 's) \<Rightarrow> (duration \<Rightarrow> 's \<Rightarrow> 's) \<Rightarrow> 's \<Rightarrow>
     ('a, 'e) result option \<times> 's" where
  "retry p op sleep s = retry_loop p (max (rp_max_attempts p) 1) op sleep 0 None s"

definition with_timeout ::
  "(duration \<Rightarrow> ('s \<Rightarrow> 'a \<times> 's) \<Rightarrow> 's \<Rightarrow> 'a option \<times> 's) \<Rightarrow>
     duration \<Rightarrow> ('s \<Rightarrow> 'a \<times> 's) \<Rightarrow> 's \<Rightarrow> ('a, elapsed) result \<times> 's" where
  \<comment> \<open>the first argument is \<open>tokio::time::timeout\<close>, \<open>None\<close> its \<open>Err\<close>\<close>
  "with_timeout timeout dur fut s =
     (case timeout dur fut s of (r, s') \<Rightarrow> (ok_or (Elapsed dur) r, s'))"

section \<open>Backoff\<close>

lemma unat_saturating_pow: "unat (saturating_pow_u32 b e) = min (unat b ^ unat e) (2 ^ 32 - 1)"
  unfolding saturating_pow_u32_def by (subst unat_u32) simp_all

lemma unat_truncated_le: "unat (word_of_nat n :: u64) \<le> n"
  by (simp add: unsigned_of_nat)

lemma backoff_capped: "backoff_for p attempt \<le> rp_max_backoff p"
proof -
  let ?capped = "min (saturating_mul_u128 (as_millis (rp_initial_backoff p))
      (unat (saturating_pow_u32 (rp_multiplier p) attempt))) (as_millis (rp_max_backoff p))"
  have "unat (word_of_nat ?capped :: u64) \<le> as_millis (rp_max_backoff p)"
    using unat_truncated_le [of ?capped] by linarith
  then have "backoff_for p attempt \<le> from_millis (as_millis (rp_max_backoff p))"
    unfolding backoff_for_def Let_def by (rule from_millis_mono)
  also have "\<dots> \<le> rp_max_backoff p"
    by (rule from_millis_as_millis_le)
  finally show ?thesis .
qed

lemma backoff_millis:
  assumes "as_millis (rp_max_backoff p) < 2 ^ 64"
  shows "backoff_for p attempt = from_millis
     (min (as_millis (rp_initial_backoff p) * min (unat (rp_multiplier p) ^ unat attempt) (2 ^ 32 - 1))
        (as_millis (rp_max_backoff p)))"
proof -
  let ?x = "as_millis (rp_initial_backoff p) * min (unat (rp_multiplier p) ^ unat attempt) (2 ^ 32 - 1)"
  have "min (min ?x (2 ^ 128 - 1)) (as_millis (rp_max_backoff p)) = min ?x (as_millis (rp_max_backoff p))"
    using assms by simp
  moreover have "min ?x (as_millis (rp_max_backoff p)) < 2 ^ 64"
    using assms by simp
  ultimately show ?thesis
    unfolding backoff_for_def Let_def saturating_mul_u128_def unat_saturating_pow
    by (simp only: unat_u64)
qed

text \<open>
  The delays. As long as the cap is below 2^64 milliseconds, the delay after attempt \<open>a\<close> is
  exactly \<open>min (initial * min (multiplier^a) (2^32-1)) cap\<close> in whole milliseconds; it never
  exceeds the cap, and with a positive multiplier it never shrinks from one attempt to a later
  one.
\<close>

theorem backoff_schedule:
  assumes "as_millis (rp_max_backoff p) < 2 ^ 64" "0 < unat (rp_multiplier p)" "a \<le> b"
  shows "backoff_for p a = from_millis
      (min (as_millis (rp_initial_backoff p) * min (unat (rp_multiplier p) ^ unat a) (2 ^ 32 - 1))
         (as_millis (rp_max_backoff p)))
    \<and> backoff_for p a \<le> rp_max_backoff p
    \<and> backoff_for p a \<le> backoff_for p b"
proof (intro conjI backoff_millis [OF assms(1)] backoff_capped)
  have "unat (rp_multiplier p) ^ unat a \<le> unat (rp_multiplier p) ^ unat b"
    using assms(2,3) by (simp add: power_increasing word_le_nat_alt)
  then show "backoff_for p a \<le> backoff_for p b"
    unfolding backoff_millis [OF assms(1)]
    by (intro from_millis_mono min.mono mult_le_mono) simp_all
qed

theorem backoff_schedule_witness:
  "backoff_for default_retry_policy 2 = from_millis 200"
  using backoff_schedule [of default_retry_policy 2 2]
  by (simp add: default_retry_policy_def from_secs_def as_millis_def from_millis_def)

section \<open>The loop\<close>

text \<open>
  The reference: \<open>before_attempt k\<close> is the state in which attempt \<open>k\<close> starts when all earlier
  ones fail; the loop returns the result of the first attempt that succeeds, or else of the
  last one.
\<close>

primrec before_attempt ::
  "retry_policy \<Rightarrow> ('s \<Rightarrow> ('a, 'e) result \<times> 's) \<Rightarrow> (duration \<Rightarrow> 's \<Rightarrow> 's) \<Rightarrow> nat \<Rightarrow> 's \<Rightarrow> 's" where
  "before_attempt p op sleep 0 s = s"
| "before_attempt p op sleep (Suc k) s =
     sleep (backoff_for p (word_of_nat k)) (snd (op (before_attempt p op sleep k s)))"

definition attempt_limit :: "retry_policy \<Rightarrow> nat" where
  "attempt_limit p = max 1 (unat (rp_max_attempts p))"

definition decisive_attempt ::
  "retry_policy \<Rightarrow> ('s \<Rightarrow> ('a, 'e) result \<times> 's) \<Rightarrow> (duration \<Rightarrow> 's \<Rightarrow> 's) \<Rightarrow> 's \<Rightarrow> nat" where
  "decisive_attempt p op sleep s =
     (case List.find (\<lambda>k. is_ok (fst (op (before_attempt p op sleep k s)))) [0..<attempt_limit p] of
        Some k \<Rightarrow> k | None \<Rightarrow> attempt_limit p - 1)"

lemma attempt_limit_pos: "0 < attempt_limit p"
  by (simp add: attempt_limit_def)

lemma attempt_limit_u32: "unat (max (rp_max_attempts p) 1) = attempt_limit p"
  by (auto simp: attempt_limit_def max_def word_le_nat_alt)

lemma attempt_limit_less: "attempt_limit p < 2 ^ 32"
  by (metis attempt_limit_u32 unat_u32_less)

lemma retry_loop_from:
  assumes "k < attempt_limit p"
  shows "retry_loop p (max (rp_max_attempts p) 1) op sleep (word_of_nat k) seen
      (before_attempt p op sleep k s) =
     (let j = (case List.find (\<lambda>k. is_ok (fst (op (before_attempt p op sleep k s)))) [k..<attempt_limit p] of
            Some j \<Rightarrow> j | None \<Rightarrow> attempt_limit p - 1);
          out = op (before_attempt p op sleep j s)
      in (Some (fst out), snd out))"
  using assms
proof (induction "attempt_limit p - k" arbitrary: k seen)
  case (Suc d)
  let ?n = "attempt_limit p" and ?u = "max (rp_max_attempts p) 1"
  let ?here = "before_attempt p op sleep k s"
  have unat_k: "unat (word_of_nat k :: u32) = k"
    using Suc.prems attempt_limit_less [of p] by (intro unat_u32) simp
  have less: "(word_of_nat k :: u32) < ?u"
    using Suc.prems by (simp add: word_less_nat_alt unat_k attempt_limit_u32)
  have next_less: "(word_of_nat k + 1 :: u32) < ?u \<longleftrightarrow> Suc k < ?n"
    using unat_succ_u32 [OF less] by (simp add: word_less_nat_alt unat_k attempt_limit_u32)
  have upt: "[k..<?n] = k # [Suc k..<?n]"
    using Suc.prems by (rule upt_conv_Cons)
  obtain r s' where op: "op ?here = (r, s')" by (cases "op ?here")
  show ?case
  proof (cases r)
    case (Inr v)
    then show ?thesis
      using less by (subst retry_loop.simps) (simp add: op upt)
  next
    case (Inl e)
    have suc: "(word_of_nat k + 1 :: u32) = word_of_nat (Suc k)" by simp
    show ?thesis
    proof (cases "Suc k < ?n")
      case True
      have "retry_loop p ?u op sleep (word_of_nat k) seen ?here
          = retry_loop p ?u op sleep (word_of_nat (Suc k)) (Some e) (before_attempt p op sleep (Suc k) s)"
        using less next_less True Inl by (subst retry_loop.simps) (simp add: op add.commute)
      also have "\<dots> = (let j = (case List.find (\<lambda>k. is_ok (fst (op (before_attempt p op sleep k s)))) [Suc k..<?n] of
            Some j \<Rightarrow> j | None \<Rightarrow> ?n - 1);
          out = op (before_attempt p op sleep j s)
          in (Some (fst out), snd out))"
        using Suc.hyps(2) True by (intro Suc.hyps(1)) simp_all
      finally show ?thesis
        by (simp add: upt op Inl)
    next
      case False
      have stop: "\<not> word_of_nat k + 1 < ?u" using next_less False by simp
      then have "retry_loop p ?u op sleep (word_of_nat k + 1) (Some e) s' = (Some (Err e), s')"
        by (subst retry_loop.simps) simp
      then have "retry_loop p ?u op sleep (word_of_nat k) seen ?here = (Some (Err e), s')"
        using less stop Inl by (subst retry_loop.simps) (simp add: op)
      moreover have "?n - 1 = k" "[Suc k..<?n] = []" using False Suc.prems by simp_all
      ultimately show ?thesis by (simp add: upt op Inl)
    qed
  qed
qed simp

lemma retry_decisive:
  "retry p op sleep s =
     (let out = op (before_attempt p op sleep (decisive_attempt p op sleep s) s)
      in (Some (fst out), snd out))"
  using retry_loop_from [of 0 p op sleep None s] attempt_limit_pos [of p]
  by (simp add: retry_def decisive_attempt_def Let_def)

lemma retry_from_op: "\<exists>k. retry p op sleep s = (Some (fst (op (before_attempt p op sleep k s))), snd (op (before_attempt p op sleep k s)))"
  by (simp add: retry_decisive Let_def) blast

lemma decisive_attempt_succeeds:
  assumes "k < attempt_limit p" "is_ok (fst (op (before_attempt p op sleep k s)))"
  shows "decisive_attempt p op sleep s \<le> k
       \<and> is_ok (fst (op (before_attempt p op sleep (decisive_attempt p op sleep s) s)))"
proof -
  let ?P = "\<lambda>k. is_ok (fst (op (before_attempt p op sleep k s)))"
  have "List.find ?P [0..<attempt_limit p] \<noteq> None"
    using assms by (auto simp: find_None_iff)
  then obtain j where j: "List.find ?P [0..<attempt_limit p] = Some j" by blast
  then have "?P j" by (rule find_Some_holds)
  moreover have "j \<le> k"
  proof (rule ccontr)
    assume "\<not> j \<le> k"
    with j assms(2) show False by (auto simp: find_Some_iff)
  qed
  ultimately show ?thesis using j by (simp add: decisive_attempt_def)
qed

lemma find_upt_bound: "List.find P [i..<n] = Some k \<Longrightarrow> k < n"
  by (auto simp: find_Some_iff)

lemma decisive_attempt_less: "decisive_attempt p op sleep s < attempt_limit p"
  using attempt_limit_pos [of p] find_upt_bound
  by (fastforce simp: decisive_attempt_def split: option.split)

lemma earlier_attempts_fail:
  "list_all (\<lambda>i. \<not> is_ok (fst (op (before_attempt p op sleep i s)))) [0..<decisive_attempt p op sleep s]"
proof -
  let ?P = "\<lambda>i. is_ok (fst (op (before_attempt p op sleep i s)))"
  show ?thesis
  proof (cases "List.find ?P [0..<attempt_limit p]")
    case None
    have "\<forall>i<attempt_limit p. \<not> ?P i"
      using None by (auto simp: find_None_iff)
    with None show ?thesis
      by (simp add: decisive_attempt_def list_all_iff)
  next
    case (Some j)
    have "\<forall>i<j. \<not> ?P i"
      using Some by (auto simp: find_Some_iff)
    with Some show ?thesis
      by (simp add: decisive_attempt_def list_all_iff)
  qed
qed

lemma decisive_or_last:
  "is_ok (fst (op (before_attempt p op sleep (decisive_attempt p op sleep s) s)))
   \<or> decisive_attempt p op sleep s = attempt_limit p - 1"
  by (auto simp: decisive_attempt_def split: option.split dest: find_Some_holds)

text \<open>
  C12: the loop equals its reference. \<open>retry\<close> always returns, never reaches its \<open>expect\<close>, and
  returns the result and the state of the decisive attempt: one within \<open>max 1 max_attempts\<close>,
  after the scheduled sleeps, before which every attempt failed, and which succeeds or is the
  last.
\<close>

theorem retry_returns_decisive_attempt:
  "(let j = decisive_attempt p op sleep s;
        out = op (before_attempt p op sleep j s)
    in retry p op sleep s = (Some (fst out), snd out)
     \<and> j < max 1 (unat (rp_max_attempts p))
     \<and> list_all (\<lambda>i. \<not> is_ok (fst (op (before_attempt p op sleep i s)))) [0..<j]
     \<and> (is_ok (fst out) \<or> j = max 1 (unat (rp_max_attempts p)) - 1))"
  using retry_decisive [of p op sleep s] decisive_attempt_less [of p op sleep s]
    earlier_attempts_fail [of op p sleep s] decisive_or_last [of op p sleep s]
  by (simp add: Let_def attempt_limit_def)

lemma before_attempt_cost:
  assumes "\<And>s. cost (snd (op s)) \<le> cost s + c" and "\<And>d s. cost (sleep d s) \<le> cost s + w d"
    and "\<And>d. d \<le> rp_max_backoff p \<Longrightarrow> w d \<le> m"
  shows "cost (before_attempt p op sleep k s) \<le> cost s + k * c + k * (m :: nat)"
proof (induction k)
  case (Suc k)
  have "cost (before_attempt p op sleep (Suc k) s)
      \<le> cost (snd (op (before_attempt p op sleep k s))) + w (backoff_for p (word_of_nat k))"
    by (simp add: assms(2))
  also have "\<dots> \<le> cost (before_attempt p op sleep k s) + c + m"
    by (intro add_mono assms(1) assms(3) backoff_capped)
  finally show ?case using Suc by simp
qed simp

text \<open>
  The loop is bounded. Whatever the operation does, if one call of it adds at most \<open>c\<close> to a
  cost and sleeping adds the time slept, the loop adds at most \<open>c\<close> per attempt and the cap per
  pause, with one pause fewer than attempts: with \<open>c = 1\<close> and free sleeps this bounds the calls,
  with \<open>c\<close> the timeout of one call it bounds the whole waiting time.
\<close>

theorem retry_cost_bound:
  assumes "\<And>s. cost (snd (op s)) \<le> cost s + c" and "\<And>d s. cost (sleep d s) \<le> cost s + (d :: nat)"
  shows "cost (snd (retry p op sleep s))
     \<le> cost s + max 1 (unat (rp_max_attempts p)) * c
         + (max 1 (unat (rp_max_attempts p)) - 1) * rp_max_backoff p"
proof -
  let ?j = "decisive_attempt p op sleep s"
  let ?b = "before_attempt p op sleep ?j s"
  have j: "?j \<le> attempt_limit p - 1" "Suc ?j \<le> attempt_limit p"
    using decisive_attempt_less [of p op sleep s] by simp_all
  have "cost (snd (retry p op sleep s)) = cost (snd (op ?b))"
    by (simp add: retry_decisive Let_def)
  also have "\<dots> \<le> cost ?b + c" by (rule assms(1))
  also have "\<dots> \<le> cost s + Suc ?j * c + ?j * rp_max_backoff p"
    using before_attempt_cost [of cost op c sleep "\<lambda>d. d" p "rp_max_backoff p" ?j s] assms by simp
  also have "\<dots> \<le> cost s + attempt_limit p * c + (attempt_limit p - 1) * rp_max_backoff p"
    using j by (intro add_mono mult_le_mono) simp_all
  finally show ?thesis
    by (simp add: attempt_limit_def)
qed

text \<open>A scripted operation: the state counts the time spent, and every call takes one second.\<close>

definition always_failing :: "duration \<Rightarrow> (unit, string) result \<times> duration" where
  "always_failing t = (Err ''unreachable'', t + from_secs 1)"

theorem retry_cost_bound_witness:
  "snd (retry default_retry_policy always_failing (\<lambda>d t. t + d) 0) \<le> from_secs 13"
  using retry_cost_bound [of "\<lambda>t. t" always_failing "from_secs 1" "\<lambda>d t. t + d" default_retry_policy 0]
  by (simp add: always_failing_def default_retry_policy_def from_secs_def)

end
