(* ===== verification/Infra_Error.thy ===== *)
theory Infra_Error
  imports Rust_Prelude
begin

text \<open>
  \<open>edgeauth-infra/src/error.rs\<close> and \<open>clock.rs\<close>: the errors of the native adapters with their
  messages, and wall-clock time as Unix seconds. The system clock's distance from the epoch is
  an argument, an error when the clock stands before it.
\<close>

datatype infra_error =
    Http string
  | Decode string
  | Timeout
  | InfraCircuitOpen
  | NotRefreshable

fun infra_error_display :: "infra_error \<Rightarrow> string" where
  "infra_error_display (Http s) = ''jwks http request failed: '' @ s"
| "infra_error_display (Decode s) = ''jwks decode failed: '' @ s"
| "infra_error_display Timeout = ''jwks refresh timed out''"
| "infra_error_display InfraCircuitOpen = ''jwks endpoint circuit is open''"
| "infra_error_display NotRefreshable = ''this jwks provider is static and cannot be refreshed''"

datatype unix_clock = System_Wall_Clock | Fixed_Clock i64

fun now_unix :: "(nat, unit) result \<Rightarrow> unix_clock \<Rightarrow> i64" where
  "now_unix since_epoch System_Wall_Clock =
     (case since_epoch of Ok secs \<Rightarrow> word_of_nat secs | Err _ \<Rightarrow> 0)"
| "now_unix since_epoch (Fixed_Clock t) = t"

text \<open>Until the seconds pass \<open>i64::MAX\<close>, the system clock reads the time as it is.\<close>

lemma now_unix_exact: "secs < 2 ^ 63 \<Longrightarrow> sint (now_unix (Ok secs) System_Wall_Clock) = int secs"
proof -
  assume "secs < 2 ^ 63"
  then have "int secs < int (2 ^ 63)" by (simp only: of_nat_less_iff)
  then have "i64_fits (int secs)"
    by (simp add: i64_fits_def)
  then have "sint (word_of_int (int secs) :: i64) = int secs" by (rule sint_of_fits)
  then show ?thesis by simp
qed

end
