(* ===== verification/Jwks_Provider.thy ===== *)
theory Jwks_Provider
  imports Jwt Breaker Retry Infra_Error
begin

text \<open>
  \<open>edgeauth-infra/src/jwks.rs\<close>: where the trusted keys come from. A refresh of the cached
  provider is one guarded call: ask the breaker, fetch with timeout and retry, then write the
  cache and report to the breaker. The HTTP client, the sleeping and timing functions of
  \<open>tokio\<close> and the monotonic timer are fields of the environment; \<open>'w\<close> is the world they act
  on. The metrics are in \<open>Service_Metrics\<close>; log lines are left out, as nothing reads them.
\<close>

section \<open>Data\<close>

record ('w, 'r) net_env =
  ext_client_build :: "string \<Rightarrow> (unit, string) result"
  ext_http_get :: "string \<Rightarrow> 'w \<Rightarrow> ('r, string) result \<times> 'w"
  ext_status_success :: "'r \<Rightarrow> bool"
  ext_status_text :: "'r \<Rightarrow> string"
  ext_body_text :: "'r \<Rightarrow> 'w \<Rightarrow> (string, string) result \<times> 'w"
  ext_sleep :: "duration \<Rightarrow> 'w \<Rightarrow> 'w"
  ext_timeout :: "duration \<Rightarrow> ('w \<Rightarrow> (jwks, infra_error) result \<times> 'w) \<Rightarrow> 'w \<Rightarrow>
                    (jwks, infra_error) result option \<times> 'w"
  ext_mono_now :: "'w \<Rightarrow> instant"

record cached_provider =
  cp_url :: string
  cp_cache :: jwks
  cp_breaker_config :: breaker_config
  cp_breaker :: breaker
  cp_retry_policy :: retry_policy
  cp_per_attempt_timeout :: duration

datatype jwks_provider = Static_Provider jwks | Cached_Provider cached_provider

section \<open>Operations\<close>

definition static_new :: "jwks \<Rightarrow> jwks_provider" where
  "static_new ks = Static_Provider ks"

definition USER_AGENT :: string where
  \<comment> \<open>\<open>CARGO_PKG_VERSION\<close> is the version of the workspace manifest\<close>
  "USER_AGENT = ''edgeauth/0.1.0''"

definition cached_new ::
  "('w, 'r, 'z) net_env_scheme \<Rightarrow> string \<Rightarrow> jwks \<Rightarrow> (cached_provider, infra_error) result" where
  "cached_new N url initial =
     try_bind (map_err Http (ext_client_build N USER_AGENT)) (\<lambda>_.
     Ok \<lparr> cp_url = url, cp_cache = initial, cp_breaker_config = default_breaker_config,
          cp_breaker = breaker_new, cp_retry_policy = default_retry_policy,
          cp_per_attempt_timeout = from_secs 3 \<rparr>)"

definition cached_with_timeout :: "cached_provider \<Rightarrow> duration \<Rightarrow> cached_provider" where
  "cached_with_timeout p t = p\<lparr>cp_per_attempt_timeout := t\<rparr>"

definition cached_with_retry :: "cached_provider \<Rightarrow> retry_policy \<Rightarrow> cached_provider" where
  "cached_with_retry p rp = p\<lparr>cp_retry_policy := rp\<rparr>"

definition fetch_once ::
  "('vk, 'sk, 'y) jwt_env_scheme \<Rightarrow> ('w, 'r, 'z) net_env_scheme \<Rightarrow> string \<Rightarrow> 'w \<Rightarrow>
     (jwks, infra_error) result \<times> 'w" where
  "fetch_once E N url w =
     (case ext_http_get N url w of
        (Err e, w1) \<Rightarrow> (Err (Http e), w1)
      | (Ok resp, w1) \<Rightarrow>
          if \<not> ext_status_success N resp
          then (Err (Http (''status '' @ ext_status_text N resp)), w1)
          else (case ext_body_text N resp w1 of
                  (Err e, w2) \<Rightarrow> (Err (Http e), w2)
                | (Ok body, w2) \<Rightarrow>
                    (map_err (\<lambda>e. Decode (verify_error_display e)) (jwks_from_json E body), w2)))"

definition fetch_attempt ::
  "('vk, 'sk, 'y) jwt_env_scheme \<Rightarrow> ('w, 'r, 'z) net_env_scheme \<Rightarrow> cached_provider \<Rightarrow> 'w \<Rightarrow>
     (jwks, infra_error) result \<times> 'w" where
  "fetch_attempt E N p w =
     (case with_timeout (ext_timeout N) (cp_per_attempt_timeout p) (fetch_once E N (cp_url p)) w of
        (Ok inner, w') \<Rightarrow> (inner, w')
      | (Err _, w') \<Rightarrow> (Err Timeout, w'))"

text \<open>The three stages of \<open>refresh\<close>; only the middle one awaits.\<close>

definition refresh_begin ::
  "('w, 'r, 'z) net_env_scheme \<Rightarrow> cached_provider \<Rightarrow> 'w \<Rightarrow>
     (unit, infra_error) result \<times> cached_provider" where
  "refresh_begin N p w =
     (case breaker_acquire (cp_breaker_config p) (ext_mono_now N w) (cp_breaker p) of
        (r, b) \<Rightarrow> (map_err (\<lambda>_. InfraCircuitOpen) r, p\<lparr>cp_breaker := b\<rparr>))"

definition refresh_fetch ::
  "('vk, 'sk, 'y) jwt_env_scheme \<Rightarrow> ('w, 'r, 'z) net_env_scheme \<Rightarrow> cached_provider \<Rightarrow> 'w \<Rightarrow>
     (jwks, infra_error) result option \<times> 'w" where
  "refresh_fetch E N p w = retry (cp_retry_policy p) (fetch_attempt E N p) (ext_sleep N) w"

definition write_cache :: "jwks \<Rightarrow> cached_provider \<Rightarrow> cached_provider" where
  "write_cache ks p = p\<lparr>cp_cache := ks\<rparr>"

definition report_success :: "cached_provider \<Rightarrow> cached_provider" where
  "report_success p = p\<lparr>cp_breaker := breaker_record_success (cp_breaker p)\<rparr>"

definition report_failure :: "instant \<Rightarrow> cached_provider \<Rightarrow> cached_provider" where
  "report_failure now p =
     p\<lparr>cp_breaker := breaker_record_failure (cp_breaker_config p) now (cp_breaker p)\<rparr>"

definition refresh_end ::
  "('w, 'r, 'z) net_env_scheme \<Rightarrow> (jwks, infra_error) result \<Rightarrow> cached_provider \<Rightarrow> 'w \<Rightarrow>
     (unit, infra_error) result \<times> cached_provider" where
  "refresh_end N fetched p w =
     (case fetched of
        Ok ks \<Rightarrow> (Ok (), report_success (write_cache ks p))
      | Err e \<Rightarrow> (Err e, report_failure (ext_mono_now N w) p))"

definition cached_refresh ::
  "('vk, 'sk, 'y) jwt_env_scheme \<Rightarrow> ('w, 'r, 'z) net_env_scheme \<Rightarrow> cached_provider \<Rightarrow> 'w \<Rightarrow>
     (unit, infra_error) result option \<times> cached_provider \<times> 'w" where
  \<comment> \<open>\<open>None\<close> would be the panic of \<open>retry\<close>\<close>
  "cached_refresh E N p w =
     (case refresh_begin N p w of
        (Err e, p1) \<Rightarrow> (Some (Err e), p1, w)
      | (Ok _, p1) \<Rightarrow>
          (case refresh_fetch E N p1 w of
             (None, w1) \<Rightarrow> (None, p1, w1)
           | (Some fetched, w1) \<Rightarrow>
               (case refresh_end N fetched p1 w1 of (r, p2) \<Rightarrow> (Some r, p2, w1))))"

fun provider_current :: "jwks_provider \<Rightarrow> jwks" where
  "provider_current (Static_Provider ks) = ks"
| "provider_current (Cached_Provider p) = cp_cache p"

fun provider_refresh ::
  "('vk, 'sk, 'y) jwt_env_scheme \<Rightarrow> ('w, 'r, 'z) net_env_scheme \<Rightarrow> jwks_provider \<Rightarrow> 'w \<Rightarrow>
     (unit, infra_error) result option \<times> jwks_provider \<times> 'w" where
  "provider_refresh E N (Static_Provider ks) w = (Some (Ok ()), Static_Provider ks, w)"
| "provider_refresh E N (Cached_Provider p) w =
     (case cached_refresh E N p w of (r, p', w') \<Rightarrow> (r, Cached_Provider p', w'))"

section \<open>The contract of a key source\<close>

text \<open>
  What the service relies on: a refresh returns, and a failed one leaves the current keys as
  they were. So any series of failing refreshes serves the same keys throughout.
\<close>

primrec refresh_times ::
  "('p \<Rightarrow> 'w \<Rightarrow> (unit, infra_error) result option \<times> 'p \<times> 'w) \<Rightarrow> nat \<Rightarrow> 'p \<Rightarrow> 'w \<Rightarrow>
     (unit, infra_error) result option list \<times> 'p \<times> 'w" where
  "refresh_times refresh 0 p w = ([], p, w)"
| "refresh_times refresh (Suc n) p w =
     (case refresh p w of (r, p1, w1) \<Rightarrow>
      case refresh_times refresh n p1 w1 of (rs, p2, w2) \<Rightarrow> (r # rs, p2, w2))"

locale key_provider =
  fixes current :: "'p \<Rightarrow> jwks"
    and refresh :: "'p \<Rightarrow> 'w \<Rightarrow> (unit, infra_error) result option \<times> 'p \<times> 'w"
  assumes no_panic: "fst (refresh p w) \<noteq> None"
    and failed_keeps: "refresh p w = (Some (Err e), p', w') \<Longrightarrow> current p' = current p"
begin

lemma never_panics: "refresh_times refresh n p w = (rs, p', w') \<Longrightarrow> None \<notin> set rs"
proof (induction n arbitrary: p w rs)
  case (Suc n)
  obtain r p1 w1 where r: "refresh p w = (r, p1, w1)" by (cases "refresh p w")
  obtain rs' where "refresh_times refresh n p1 w1 = (rs', p', w')" "rs = r # rs'"
    using Suc.prems by (auto simp: r split: prod.splits)
  then show ?case
    using Suc.IH no_panic [of p w] by (auto simp: r)
qed simp

lemma failures_keep_keys:
  "refresh_times refresh n p w = (rs, p', w') \<Longrightarrow> Some (Ok ()) \<notin> set rs \<Longrightarrow> current p' = current p"
proof (induction n arbitrary: p w rs)
  case (Suc n)
  obtain r p1 w1 where r: "refresh p w = (r, p1, w1)" by (cases "refresh p w")
  obtain rs' where rs': "refresh_times refresh n p1 w1 = (rs', p', w')" "rs = r # rs'"
    using Suc.prems(1) by (auto simp: r split: prod.splits)
  then obtain e where "r = Some (Err e)"
    using no_panic [of p w] Suc.prems(2) r by (cases r; cases "the r") auto
  then have "current p1 = current p" using failed_keeps r by simp
  then show ?case
    using Suc.IH [OF rs'(1)] Suc.prems(2) rs'(2) by simp
qed simp

end

lemma refresh_begin_cases:
  obtains (refused) t where "raw_state (cp_breaker p) = RawOpen t"
      "ext_mono_now N w - t < cfg_open_duration (cp_breaker_config p)"
      "refresh_begin N p w = (Err InfraCircuitOpen, p)"
  | (admitted) b where "breaker_acquire (cp_breaker_config p) (ext_mono_now N w) (cp_breaker p) = (Ok (), b)"
      "refresh_begin N p w = (Ok (), p\<lparr>cp_breaker := b\<rparr>)"
proof (cases "raw_state (cp_breaker p)")
  case RawClosed
  then show ?thesis using admitted by (simp add: refresh_begin_def breaker_acquire_def)
next
  case (RawOpen t)
  show ?thesis
  proof (cases "ext_mono_now N w - t < cfg_open_duration (cp_breaker_config p)")
    case True
    with RawOpen show ?thesis
      using refused by (simp add: refresh_begin_def acquire_open_window)
  next
    case False
    with RawOpen show ?thesis
      using admitted by (simp add: refresh_begin_def breaker_acquire_def duration_since_def)
  qed
next
  case RawHalfOpen
  then show ?thesis using admitted by (simp add: refresh_begin_def breaker_acquire_def)
qed

lemma refresh_fetch_returns: "\<exists>r w'. refresh_fetch E N p w = (Some r, w')"
  using retry_from_op [of "cp_retry_policy p" "fetch_attempt E N p" "ext_sleep N" w]
  by (auto simp: refresh_fetch_def)

lemma cached_refresh_cases:
  obtains (refused) t where "raw_state (cp_breaker p) = RawOpen t"
      "ext_mono_now N w - t < cfg_open_duration (cp_breaker_config p)"
      "cached_refresh E N p w = (Some (Err InfraCircuitOpen), p, w)"
  | (fetched) b ks w' where
      "breaker_acquire (cp_breaker_config p) (ext_mono_now N w) (cp_breaker p) = (Ok (), b)"
      "refresh_fetch E N (p\<lparr>cp_breaker := b\<rparr>) w = (Some (Ok ks), w')"
      "cached_refresh E N p w = (Some (Ok ()), report_success (write_cache ks (p\<lparr>cp_breaker := b\<rparr>)), w')"
  | (failed) b e w' where
      "breaker_acquire (cp_breaker_config p) (ext_mono_now N w) (cp_breaker p) = (Ok (), b)"
      "refresh_fetch E N (p\<lparr>cp_breaker := b\<rparr>) w = (Some (Err e), w')"
      "cached_refresh E N p w
         = (Some (Err e), report_failure (ext_mono_now N w') (p\<lparr>cp_breaker := b\<rparr>), w')"
proof (cases rule: refresh_begin_cases [of p N w])
  case (refused t)
  then show ?thesis using that(1) by (simp add: cached_refresh_def)
next
  case (admitted b)
  obtain r w' where r: "refresh_fetch E N (p\<lparr>cp_breaker := b\<rparr>) w = (Some r, w')"
    using refresh_fetch_returns [of E N "p\<lparr>cp_breaker := b\<rparr>" w] by blast
  show ?thesis
  proof (cases r)
    case (Inl e)
    with r admitted show ?thesis using that(3) by (simp add: cached_refresh_def refresh_end_def)
  next
    case (Inr ks)
    with r admitted show ?thesis using that(2) by (simp add: cached_refresh_def refresh_end_def)
  qed
qed

lemma cached_refresh_failed_keeps:
  "cached_refresh E N p w = (Some (Err e), p', w') \<Longrightarrow> cp_cache p' = cp_cache p"
  by (cases rule: cached_refresh_cases [of p N w E]) (auto simp: report_failure_def)

interpretation provider: key_provider provider_current "provider_refresh E N"
  for E :: "('vk, 'sk, 'y) jwt_env_scheme" and N :: "('w, 'r, 'z) net_env_scheme"
proof
  fix p :: jwks_provider and w p' w' e
  show "fst (provider_refresh E N p w) \<noteq> None"
  proof (cases p)
    case (Cached_Provider c)
    then show ?thesis
      by (cases rule: cached_refresh_cases [of c N w E]) auto
  qed simp
  show "provider_refresh E N p w = (Some (Err e), p', w') \<Longrightarrow> provider_current p' = provider_current p"
    by (cases p) (auto split: prod.splits dest: cached_refresh_failed_keeps)
qed

section \<open>Properties of a refresh\<close>

text \<open>
  A sample network: the world counts requests; the endpoint is down, and time stands still.
\<close>

definition dead_net :: "(nat, unit) net_env" where
  "dead_net = \<lparr> ext_client_build = (\<lambda>_. Ok ()), ext_http_get = (\<lambda>url w. (Err ''refused'', Suc w)),
     ext_status_success = (\<lambda>_. False), ext_status_text = (\<lambda>_. []),
     ext_body_text = (\<lambda>_ w. (Err [], w)), ext_sleep = (\<lambda>_ w. w),
     ext_timeout = (\<lambda>_ f w. case f w of (r, w') \<Rightarrow> (Some r, w')), ext_mono_now = (\<lambda>_. 0) \<rparr>"

definition sample_cached :: "breaker \<Rightarrow> cached_provider" where
  "sample_cached b = \<lparr> cp_url = ''https://issuer.example/jwks.json'', cp_cache = jwks_from_keys [],
     cp_breaker_config = default_breaker_config, cp_breaker = b,
     cp_retry_policy = default_retry_policy, cp_per_attempt_timeout = from_secs 3 \<rparr>"

text \<open>
  Keys survive an unreachable issuer. After any series of refreshes of which none succeeds,
  the provider, static or cached, serves the keys it served before, and none of the refreshes
  panics.
\<close>

theorem failed_refreshes_keep_keys:
  assumes "refresh_times (provider_refresh E N) n p w = (rs, p', w')" and "Some (Ok ()) \<notin> set rs"
  shows "provider_current p' = provider_current p \<and> None \<notin> set rs"
  using provider.failures_keep_keys [OF assms] provider.never_panics [OF assms(1)] by simp

lemma dead_attempt: "fetch_attempt E dead_net p w = (Err (Http ''refused''), Suc w)"
  by (simp add: fetch_attempt_def with_timeout_def dead_net_def fetch_once_def)

lemma dead_refresh:
  "fst (provider_refresh E dead_net (Cached_Provider p) w) \<noteq> Some (Ok ())"
proof (cases rule: cached_refresh_cases [of p dead_net w E])
  case (fetched b ks w')
  obtain k where "refresh_fetch E dead_net (p\<lparr>cp_breaker := b\<rparr>) w
      = (Some (fst (fetch_attempt E dead_net (p\<lparr>cp_breaker := b\<rparr>) k)),
         snd (fetch_attempt E dead_net (p\<lparr>cp_breaker := b\<rparr>) k))"
    using retry_from_op [of "cp_retry_policy p" "fetch_attempt E dead_net (p\<lparr>cp_breaker := b\<rparr>)"
        "ext_sleep dead_net" w] by (auto simp: refresh_fetch_def)
  with fetched(2) show ?thesis by (simp add: dead_attempt)
qed simp_all

theorem failed_refreshes_keep_keys_witness:
  "provider_current (fst (snd (refresh_times (provider_refresh (sample_jwt_env [] [] [] ()) dead_net) 1
      (Cached_Provider (sample_cached breaker_new)) 0))) = jwks_from_keys []"
proof -
  let ?r = "provider_refresh (sample_jwt_env [] [] [] ()) dead_net"
  let ?p = "Cached_Provider (sample_cached breaker_new)"
  obtain r p' w' where one: "?r ?p 0 = (r, p', w')" by (cases "?r ?p 0")
  then have "refresh_times ?r 1 ?p 0 = ([r], p', w')" by simp
  moreover have "Some (Ok ()) \<notin> set [r]"
    using dead_refresh [of "sample_jwt_env [] [] [] ()" "sample_cached breaker_new" 0] one by auto
  ultimately have "provider_current p' = provider_current ?p"
    by (rule failed_refreshes_keep_keys [THEN conjunct1])
  with one show ?thesis by (simp add: sample_cached_def)
qed

text \<open>
  An open circuit stops the traffic. While the breaker cools down, a refresh returns the
  circuit error at once: no request is sent, the world, the keys and the breaker are untouched.
\<close>

theorem open_circuit_no_traffic:
  assumes "raw_state (cp_breaker p) = RawOpen t"
    and "ext_mono_now N w < t + cfg_open_duration (cp_breaker_config p)" "t \<le> ext_mono_now N w"
  shows "cached_refresh E N p w = (Some (Err InfraCircuitOpen), p, w)"
  using assms by (simp add: cached_refresh_def refresh_begin_def acquire_open_window)

theorem open_circuit_no_traffic_witness:
  "let p = sample_cached \<lparr> failures = 5, raw_state = RawOpen 0 \<rparr> in
   cached_refresh (sample_jwt_env [] [] [] ()) dead_net p 17 = (Some (Err InfraCircuitOpen), p, 17)"
  unfolding Let_def
  by (rule open_circuit_no_traffic [of _ 0])
    (simp_all add: sample_cached_def dead_net_def default_breaker_config_def from_secs_def)

text \<open>
  \<open>tokio::time::timeout\<close> returns, when it returns in time, the output of the future itself.
\<close>

definition timeout_transparent :: "('w, 'r, 'z) net_env_scheme \<Rightarrow> bool" where
  "timeout_transparent N \<longleftrightarrow>
     (\<forall>d f w r w'. ext_timeout N d f w = (Some r, w') \<longrightarrow> r = fst (f w))"

lemma fetch_once_Ok:
  assumes "fst (fetch_once E N url w) = Ok ks"
  obtains resp body w1 w2 where "ext_http_get N url w = (Ok resp, w1)" "ext_status_success N resp"
    "ext_body_text N resp w1 = (Ok body, w2)" "jwks_from_json E body = Ok ks"
  using assms by (auto simp: fetch_once_def split: prod.splits sum.splits if_splits)

lemma timeout_transparentD:
  "timeout_transparent N \<Longrightarrow> ext_timeout N d f w = (Some r, w') \<Longrightarrow> fst (f w) = r"
  by (simp add: timeout_transparent_def) metis

lemma fetch_attempt_Ok:
  "timeout_transparent N \<Longrightarrow> fst (fetch_attempt E N p w) = Ok ks \<Longrightarrow>
     fst (fetch_once E N (cp_url p) w) = Ok ks"
  by (auto simp: fetch_attempt_def with_timeout_def ok_or_def dest: timeout_transparentD
      split: prod.splits sum.splits option.splits)

lemma cached_refresh_success:
  assumes "cached_refresh E N p w = (Some (Ok ()), p', w')"
  obtains q v where "fst (fetch_attempt E N q v) = Ok (cp_cache p')" "cp_url q = cp_url p"
    "cp_breaker p' = breaker_new" "p'\<lparr>cp_cache := cp_cache p, cp_breaker := cp_breaker p\<rparr> = p"
proof (cases rule: cached_refresh_cases [of p N w E])
  case (fetched b ks v')
  let ?q = "p\<lparr>cp_breaker := b\<rparr>"
  obtain k where "refresh_fetch E N ?q w = (Some (fst (fetch_attempt E N ?q k)), snd (fetch_attempt E N ?q k))"
    using retry_from_op [of "cp_retry_policy ?q" "fetch_attempt E N ?q" "ext_sleep N" w]
    unfolding refresh_fetch_def by blast
  with fetched assms show ?thesis
    by (intro that [of ?q k])
      (auto simp: report_success_def write_cache_def breaker_record_success_def breaker_new_def)
qed (use assms in simp_all)

lemma refreshed_keys_from_url:
  assumes "cached_refresh E N p w = (Some (Ok ()), p', w')" and "timeout_transparent N"
  shows "\<exists>w0 resp w1 body w2. ext_http_get N (cp_url p) w0 = (Ok resp, w1)
      \<and> ext_status_success N resp \<and> ext_body_text N resp w1 = (Ok body, w2)
      \<and> jwks_from_json E body = Ok (cp_cache p')"
proof -
  obtain q v where q: "fst (fetch_attempt E N q v) = Ok (cp_cache p')" "cp_url q = cp_url p"
    using assms(1) by (rule cached_refresh_success)
  have "fst (fetch_once E N (cp_url p) v) = Ok (cp_cache p')"
    using fetch_attempt_Ok [OF assms(2) q(1)] q(2) by simp
  then show ?thesis by (elim fetch_once_Ok) blast
qed

text \<open>
  Where refreshed keys come from. After a successful refresh the breaker is closed with no
  failures, nothing but breaker and cache has changed, and the cached keys are the decoding of
  the body of a response with a success status from the configured URL.
\<close>

theorem refreshed_keys_provenance:
  assumes "cached_refresh E N p w = (Some (Ok ()), p', w')" and "timeout_transparent N"
  shows "cp_breaker p' = breaker_new
    \<and> p'\<lparr>cp_cache := cp_cache p, cp_breaker := cp_breaker p\<rparr> = p
    \<and> (\<exists>w0 resp w1 body w2. ext_http_get N (cp_url p) w0 = (Ok resp, w1)
        \<and> ext_status_success N resp \<and> ext_body_text N resp w1 = (Ok body, w2)
        \<and> jwks_from_json E body = Ok (cp_cache p'))"
  using cached_refresh_success [OF assms(1)] refreshed_keys_from_url [OF assms] by blast

text \<open>A sample network whose endpoint answers with the document \<open>body\<close>.\<close>

definition live_net :: "string \<Rightarrow> (nat, unit) net_env" where
  "live_net body = dead_net\<lparr>ext_http_get := (\<lambda>url w. (Ok (), Suc w)), ext_status_success := (\<lambda>_. True),
     ext_body_text := (\<lambda>_ w. (Ok body, w))\<rparr>"

lemma live_attempt:
  "fetch_attempt E (live_net body) p w = (map_err (\<lambda>e. Decode (verify_error_display e)) (jwks_from_json E body), Suc w)"
  by (simp add: fetch_attempt_def with_timeout_def live_net_def dead_net_def fetch_once_def)

lemma live_refresh:
  assumes "jwks_from_json E body = Ok ks"
  shows "\<exists>p' w'. cached_refresh E (live_net body) (sample_cached breaker_new) w = (Some (Ok ()), p', w')
    \<and> cp_cache p' = ks"
proof (cases rule: cached_refresh_cases [of "sample_cached breaker_new" "live_net body" w E])
  case (refused t)
  then show ?thesis by (simp add: sample_cached_def breaker_new_def)
next
  case (fetched b ks' w')
  let ?q = "sample_cached breaker_new\<lparr>cp_breaker := b\<rparr>"
  have "ks' = ks"
    using fetched(2) retry_from_op [of "cp_retry_policy ?q" "fetch_attempt E (live_net body) ?q"
        "ext_sleep (live_net body)" w] assms
    by (auto simp: refresh_fetch_def live_attempt)
  with fetched(3) show ?thesis by (simp add: report_success_def write_cache_def)
next
  case (failed b e w')
  let ?q = "sample_cached breaker_new\<lparr>cp_breaker := b\<rparr>"
  show ?thesis
    using failed(2) retry_from_op [of "cp_retry_policy ?q" "fetch_attempt E (live_net body) ?q"
        "ext_sleep (live_net body)" w] assms
    by (auto simp: refresh_fetch_def live_attempt)
qed

theorem refreshed_keys_provenance_witness:
  "\<exists>body p' w'. cached_refresh (sample_jwt_env [] [] [jwks_from_keys []] ()) (live_net body)
       (sample_cached breaker_new) 0 = (Some (Ok ()), p', w') \<and> cp_breaker p' = breaker_new"
proof -
  let ?E = "sample_jwt_env [] [] [jwks_from_keys []] ()"
  obtain body where "table_from_str [jwks_from_keys []] body = Ok (jwks_from_keys [])"
    using table_string_roundtrip [of "jwks_from_keys []" "[jwks_from_keys []]"] by auto
  then have "jwks_from_json ?E body = Ok (jwks_from_keys [])"
    by (simp add: jwks_from_json_def sample_jwt_env_def sample_primitives_def)
  then obtain p' w' where *: "cached_refresh ?E (live_net body) (sample_cached breaker_new) 0
      = (Some (Ok ()), p', w')"
    using live_refresh by blast
  moreover have "timeout_transparent (live_net body)"
    by (simp add: timeout_transparent_def live_net_def dead_net_def split: prod.splits)
  ultimately show ?thesis
    using refreshed_keys_provenance [OF *] by blast
qed

section \<open>Recovery\<close>

lemma fetch_attempt_breaker [simp]: "fetch_attempt E N (p\<lparr>cp_breaker := b\<rparr>) = fetch_attempt E N p"
  by (rule ext) (simp add: fetch_attempt_def)

definition attempt_world ::
  "('vk, 'sk, 'y) jwt_env_scheme \<Rightarrow> ('w, 'r, 'z) net_env_scheme \<Rightarrow> cached_provider \<Rightarrow> nat \<Rightarrow> 'w \<Rightarrow> 'w" where
  "attempt_world E N p k w = before_attempt (cp_retry_policy p) (fetch_attempt E N p) (ext_sleep N) k w"

text \<open>
  C20: A provider recovers. From any state the breaker's executions can reach, once its cooldown has
  passed, one refresh in which some attempt within the retry limit succeeds puts everything
  right: it succeeds, the keys served are those of the first attempt that did, and the breaker
  is as new.
\<close>

theorem refresh_recovers:
  assumes "steps (breaker_step (cp_breaker_config p)) (start, breaker_new) es (now, cp_breaker p)"
    and "now + cfg_open_duration (cp_breaker_config p) \<le> ext_mono_now N w"
    and "k < max 1 (unat (rp_max_attempts (cp_retry_policy p)))"
    and "fst (fetch_attempt E N p (attempt_world E N p k w)) = Ok ks"
  shows "\<exists>p' w' j. cached_refresh E N p w = (Some (Ok ()), p', w') \<and> j \<le> k
      \<and> fst (fetch_attempt E N p (attempt_world E N p j w)) = Ok (cp_cache p')
      \<and> cp_breaker p' = breaker_new"
proof -
  let ?op = "fetch_attempt E N p" and ?rp = "cp_retry_policy p" and ?sl = "ext_sleep N"
  let ?j = "decisive_attempt ?rp ?op ?sl w"
  have inv: "breaker_inv (cp_breaker_config p) now (cp_breaker p)"
    using breaker_machine.inv_reachable [OF _ assms(1)] by simp
  then obtain b where b: "breaker_acquire (cp_breaker_config p) (ext_mono_now N w) (cp_breaker p) = (Ok (), b)"
    using acquire_after_cooldown [OF _ assms(2)] by blast
  have limit: "k < attempt_limit ?rp"
    using assms(3) by (simp only: attempt_limit_def)
  have "is_ok (fst (?op (attempt_world E N p k w)))"
    using assms(4) by simp
  then have j: "?j \<le> k" "is_ok (fst (?op (attempt_world E N p ?j w)))"
    using decisive_attempt_succeeds [OF limit, of ?op ?sl w] unfolding attempt_world_def by blast+
  then obtain ks' where ks': "fst (?op (attempt_world E N p ?j w)) = Ok ks'"
    by (auto simp: is_ok_iff)
  then have "fst (retry ?rp ?op ?sl w) = Some (Ok ks')"
    by (simp add: retry_decisive Let_def attempt_world_def)
  then obtain w' where "refresh_fetch E N (p\<lparr>cp_breaker := b\<rparr>) w = (Some (Ok ks'), w')"
    by (cases "retry ?rp ?op ?sl w") (simp add: refresh_fetch_def)
  then have "cached_refresh E N p w
      = (Some (Ok ()), report_success (write_cache ks' (p\<lparr>cp_breaker := b\<rparr>)), w')"
    using b by (simp add: cached_refresh_def refresh_begin_def refresh_end_def)
  moreover have "cp_breaker (report_success (write_cache ks' (p\<lparr>cp_breaker := b\<rparr>))) = breaker_new"
    "cp_cache (report_success (write_cache ks' (p\<lparr>cp_breaker := b\<rparr>))) = ks'"
    by (simp_all add: report_success_def write_cache_def breaker_record_success_def breaker_new_def)
  ultimately show ?thesis
    using j(1) ks' by metis
qed

theorem refresh_recovers_witness:
  "\<exists>body p' w'. cached_refresh (sample_jwt_env [] [] [jwks_from_keys []] ())
       ((live_net body)\<lparr>ext_mono_now := (\<lambda>_. 40000000000)\<rparr>)
       (sample_cached (fold (breaker_record_failure default_breaker_config) (replicate 5 0) breaker_new)) 0
         = (Some (Ok ()), p', w') \<and> cp_breaker p' = breaker_new"
proof -
  let ?E = "sample_jwt_env [] [] [jwks_from_keys []] ()"
  let ?p = "sample_cached (fold (breaker_record_failure default_breaker_config) (replicate 5 0) breaker_new)"
  obtain body where "table_from_str [jwks_from_keys []] body = Ok (jwks_from_keys [])"
    using table_string_roundtrip [of "jwks_from_keys []" "[jwks_from_keys []]"] by auto
  then have json: "jwks_from_json ?E body = Ok (jwks_from_keys [])"
    by (simp add: jwks_from_json_def sample_jwt_env_def sample_primitives_def)
  let ?N = "(live_net body)\<lparr>ext_mono_now := (\<lambda>_. 40000000000)\<rparr>"
  have "fetch_attempt ?E ?N ?p (attempt_world ?E ?N ?p 0 0) = fetch_attempt ?E (live_net body) ?p 0"
    by (simp add: attempt_world_def fetch_attempt_def with_timeout_def fetch_once_def live_net_def dead_net_def)
  then have attempt: "fst (fetch_attempt ?E ?N ?p (attempt_world ?E ?N ?p 0 0)) = Ok (jwks_from_keys [])"
    using json by (simp add: live_attempt)
  have "\<exists>p' w' j. cached_refresh ?E ?N ?p 0 = (Some (Ok ()), p', w') \<and> j \<le> (0 :: nat)
      \<and> fst (fetch_attempt ?E ?N ?p (attempt_world ?E ?N ?p j 0)) = Ok (cp_cache p')
      \<and> cp_breaker p' = breaker_new"
  proof (rule refresh_recovers)
    show "steps (breaker_step (cp_breaker_config ?p)) (0, breaker_new) (replicate 5 Failure) (0, cp_breaker ?p)"
      using steps_failures [of default_breaker_config 0 breaker_new 5] by (simp add: sample_cached_def)
    show "fst (fetch_attempt ?E ?N ?p (attempt_world ?E ?N ?p 0 0)) = Ok (jwks_from_keys [])"
      by (rule attempt)
  qed (simp_all add: sample_cached_def default_breaker_config_def from_secs_def)
  then show ?thesis by blast
qed

end
