(* ===== verification/Service.thy ===== *)
theory Service
  imports Verifier Audit_Log Jwks_Provider
begin

text \<open>
  \<open>edgeauth-infra/src/service.rs\<close>: the application service. It holds the ports and the
  counters; every request reads the policy, the current keys and the clock, decides with the
  verifier and records the decision. Counters are 64-bit atomics, so \<open>fetch_add\<close> wraps.
  Handlers return the response with the service's next state.
\<close>

section \<open>Data\<close>

record policy_override =
  ovr_audience :: "string option"
  ovr_required_scopes :: "string fset"

definition override_is_empty :: "policy_override \<Rightarrow> bool" where
  "override_is_empty o' \<longleftrightarrow> ovr_audience o' = None \<and> ovr_required_scopes o' = {||}"

record counters =
  jwt_accepted :: u64
  jwt_rejected :: u64
  vc_accepted :: u64
  vc_rejected :: u64

definition counters_default :: counters where
  "counters_default = \<lparr> jwt_accepted = 0, jwt_rejected = 0, vc_accepted = 0, vc_rejected = 0 \<rparr>"

record stats_snapshot =
  st_jwt_accepted :: u64
  st_jwt_rejected :: u64
  st_vc_accepted :: u64
  st_vc_rejected :: u64

record 'ch edge_verifier =
  sv_jwks :: jwks_provider
  sv_clock :: unix_clock
  sv_audit :: "'ch audit_sink"
  sv_policy :: trust_policy
  sv_counters :: counters

section \<open>Operations\<close>

definition service_new ::
  "jwks_provider \<Rightarrow> unix_clock \<Rightarrow> 'ch audit_sink \<Rightarrow> trust_policy \<Rightarrow> 'ch edge_verifier" where
  "service_new keys clock audit policy =
     \<lparr> sv_jwks = keys, sv_clock = clock, sv_audit = audit, sv_policy = policy,
       sv_counters = counters_default \<rparr>"

definition service_policy :: "'ch edge_verifier \<Rightarrow> trust_policy" where
  "service_policy s = sv_policy s"

definition service_jwks :: "'ch edge_verifier \<Rightarrow> jwks" where
  "service_jwks s = provider_current (sv_jwks s)"

definition service_now :: "(nat, unit) result \<Rightarrow> 'ch edge_verifier \<Rightarrow> i64" where
  "service_now os s = now_unix os (sv_clock s)"

definition service_refresh ::
  "('vk, 'sk, 'y) jwt_env_scheme \<Rightarrow> ('w, 'r, 'z) net_env_scheme \<Rightarrow> 'ch edge_verifier \<Rightarrow> 'w \<Rightarrow>
     (unit, infra_error) result option \<times> 'ch edge_verifier \<times> 'w" where
  "service_refresh E N s w =
     (case provider_refresh E N (sv_jwks s) w of (r, p, w') \<Rightarrow> (r, s\<lparr>sv_jwks := p\<rparr>, w'))"

definition effective_policy :: "'ch edge_verifier \<Rightarrow> policy_override option \<Rightarrow> trust_policy" where
  "effective_policy s over =
     (case over of
        None \<Rightarrow> sv_policy s
      | Some o' \<Rightarrow>
          if override_is_empty o' then sv_policy s
          else
            (let p = sv_policy s;
                 p = (case ovr_audience o' of None \<Rightarrow> p | Some aud \<Rightarrow> p\<lparr>tp_expected_audience := Some aud\<rparr>)
             in p\<lparr>tp_required_scopes := tp_required_scopes p |\<union>| ovr_required_scopes o'\<rparr>))"

definition count_outcome :: "verification_outcome \<Rightarrow> counters \<Rightarrow> counters" where
  "count_outcome out c =
     (case (out_kind out, out_valid out) of
        (Jwt_Kind, True) \<Rightarrow> c\<lparr>jwt_accepted := jwt_accepted c + 1\<rparr>
      | (Jwt_Kind, False) \<Rightarrow> c\<lparr>jwt_rejected := jwt_rejected c + 1\<rparr>
      | (Vc_Kind, True) \<Rightarrow> c\<lparr>vc_accepted := vc_accepted c + 1\<rparr>
      | (Vc_Kind, False) \<Rightarrow> c\<lparr>vc_rejected := vc_rejected c + 1\<rparr>)"

definition service_record ::
  "('ch, 'z) broadcast_env_scheme \<Rightarrow> verification_outcome \<Rightarrow> i64 \<Rightarrow> 'ch edge_verifier \<Rightarrow> 'ch edge_verifier" where
  "service_record B out now s =
     s\<lparr>sv_counters := count_outcome out (sv_counters s),
       sv_audit := audit_record B (event_from_outcome out now) (sv_audit s)\<rparr>"

definition service_verify_jwt ::
  "('vk, 'sk, 'y) jwt_env_scheme \<Rightarrow> ('ch, 'z) broadcast_env_scheme \<Rightarrow> (nat, unit) result \<Rightarrow>
     string \<Rightarrow> policy_override option \<Rightarrow> 'ch edge_verifier \<Rightarrow>
     verification_outcome \<times> 'ch edge_verifier" where
  "service_verify_jwt E B os token over s =
     (let policy = effective_policy s over;
          keys = provider_current (sv_jwks s);
          now = now_unix os (sv_clock s);
          out = verify_jwt E token keys policy now
      in (out, service_record B out now s))"

definition service_verify_credential_json ::
  "('vk, 'sk, 'y) vc_env_scheme \<Rightarrow> ('ch, 'z) broadcast_env_scheme \<Rightarrow> (nat, unit) result \<Rightarrow>
     string \<Rightarrow> policy_override option \<Rightarrow> 'ch edge_verifier \<Rightarrow>
     (verification_outcome, verify_error) result \<times> 'ch edge_verifier" where
  "service_verify_credential_json E B os json over s =
     (let policy = effective_policy s over;
          now = now_unix os (sv_clock s)
      in case verify_credential_json E json policy now of
           Err e \<Rightarrow> (Err e, s)
         | Ok out \<Rightarrow> (Ok out, service_record B out now s))"

definition service_stats :: "'ch edge_verifier \<Rightarrow> stats_snapshot" where
  "service_stats s =
     \<lparr> st_jwt_accepted = jwt_accepted (sv_counters s), st_jwt_rejected = jwt_rejected (sv_counters s),
       st_vc_accepted = vc_accepted (sv_counters s), st_vc_rejected = vc_rejected (sv_counters s) \<rparr>"

section \<open>A run of requests\<close>

text \<open>
  A request with the wall-clock reading at which it is handled. A run collects the decisions
  with the times they are stamped with; a document that is no credential is answered with an
  error and is no decision.
\<close>

datatype request =
    Token_Request "policy_override option" string
  | Credential_Request "policy_override option" string

fun serve ::
  "('vk, 'sk, 'y) vc_env_scheme \<Rightarrow> ('ch, 'z) broadcast_env_scheme \<Rightarrow> (nat, unit) result \<times> request \<Rightarrow>
     'ch edge_verifier \<Rightarrow> (verification_outcome \<times> i64) list \<times> 'ch edge_verifier" where
  "serve E B (os, Token_Request over token) s =
     (case service_verify_jwt E B os token over s of (out, s') \<Rightarrow> ([(out, service_now os s)], s'))"
| "serve E B (os, Credential_Request over json) s =
     (case service_verify_credential_json E B os json over s of
        (Err e, s') \<Rightarrow> ([], s')
      | (Ok out, s') \<Rightarrow> ([(out, service_now os s)], s'))"

primrec serve_all ::
  "('vk, 'sk, 'y) vc_env_scheme \<Rightarrow> ('ch, 'z) broadcast_env_scheme \<Rightarrow>
     ((nat, unit) result \<times> request) list \<Rightarrow> 'ch edge_verifier \<Rightarrow>
     (verification_outcome \<times> i64) list \<times> 'ch edge_verifier" where
  "serve_all E B [] s = ([], s)"
| "serve_all E B (r # rs) s =
     (case serve E B r s of (ds, s1) \<Rightarrow>
      case serve_all E B rs s1 of (ds', s2) \<Rightarrow> (ds @ ds', s2))"

definition records :: "('ch, 'z) broadcast_env_scheme \<Rightarrow> (verification_outcome \<times> i64) list \<Rightarrow>
    'ch edge_verifier \<Rightarrow> 'ch edge_verifier" where
  "records B ds s = fold (\<lambda>(out, now). service_record B out now) ds s"

lemma records_simps [simp]:
  "records B [] s = s"
  "records B ((out, now) # ds) s = records B ds (service_record B out now s)"
  by (simp_all add: records_def)

lemma records_append: "records B (ds @ ds') s = records B ds' (records B ds s)"
  by (simp add: records_def)

lemma serve_records: "serve E B r s = (ds, s') \<Longrightarrow> s' = records B ds s"
  by (cases r rule: prod.exhaust; cases "snd r")
    (auto simp: service_verify_jwt_def service_verify_credential_json_def service_now_def Let_def
      split: sum.splits)

lemma serve_all_records: "serve_all E B rs s = (ds, s') \<Longrightarrow> s' = records B ds s"
proof (induction rs arbitrary: s ds)
  case (Cons r rs)
  obtain ds1 s1 where one: "serve E B r s = (ds1, s1)" by (cases "serve E B r s")
  obtain ds2 where rest: "serve_all E B rs s1 = (ds2, s')" "ds = ds1 @ ds2"
    using Cons.prems one by (auto split: prod.splits)
  show ?case
    using Cons.IH [OF rest(1)] serve_records [OF one] rest(2) by (simp add: records_append)
qed simp

definition decided :: "token_kind \<Rightarrow> bool \<Rightarrow> (verification_outcome \<times> i64) list \<Rightarrow> nat" where
  "decided kind valid ds = length (filter (\<lambda>(out, now). out_kind out = kind \<and> out_valid out = valid) ds)"

lemma records_counters:
  "sv_counters (records B ds s) =
     \<lparr> jwt_accepted = jwt_accepted (sv_counters s) + word_of_nat (decided Jwt_Kind True ds),
       jwt_rejected = jwt_rejected (sv_counters s) + word_of_nat (decided Jwt_Kind False ds),
       vc_accepted = vc_accepted (sv_counters s) + word_of_nat (decided Vc_Kind True ds),
       vc_rejected = vc_rejected (sv_counters s) + word_of_nat (decided Vc_Kind False ds) \<rparr>"
proof (induction ds arbitrary: s)
  case (Cons d ds)
  obtain out now where d: "d = (out, now)" by (cases d)
  show ?case
    using Cons.IH [of "service_record B out now s"]
    by (cases "out_kind out"; cases "out_valid out")
      (simp_all add: d decided_def service_record_def count_outcome_def)
qed (simp add: decided_def)

lemma records_ports:
  "sv_audit (records B ds s) = fold (audit_record B) (map (\<lambda>(out, now). event_from_outcome out now) ds) (sv_audit s)"
  "sv_policy (records B ds s) = sv_policy s" "sv_clock (records B ds s) = sv_clock s"
  "sv_jwks (records B ds s) = sv_jwks s"
proof (induction ds arbitrary: s)
  case (Cons d ds)
  {
    case 1 show ?case using Cons(1) by (cases d) (simp add: service_record_def)
  next
    case 2 show ?case using Cons(2) by (cases d) (simp add: service_record_def)
  next
    case 3 show ?case using Cons(3) by (cases d) (simp add: service_record_def)
  next
    case 4 show ?case using Cons(4) by (cases d) (simp add: service_record_def)
  }
qed simp_all

text \<open>
  C8: the books balance. After any run of requests, each counter of \<open>stats\<close> has grown by
  exactly the number of decisions of its kind and result (modulo 2^64), the audit sink has
  received exactly one event per decision, in order, stamped with the time of the decision, and
  policy, clock and keys are unchanged.
\<close>

theorem run_accounts_for_decisions:
  assumes "serve_all E B rs s = (ds, s')"
  shows "service_stats s' =
      \<lparr> st_jwt_accepted = st_jwt_accepted (service_stats s) + word_of_nat (decided Jwt_Kind True ds),
        st_jwt_rejected = st_jwt_rejected (service_stats s) + word_of_nat (decided Jwt_Kind False ds),
        st_vc_accepted = st_vc_accepted (service_stats s) + word_of_nat (decided Vc_Kind True ds),
        st_vc_rejected = st_vc_rejected (service_stats s) + word_of_nat (decided Vc_Kind False ds) \<rparr>
    \<and> sv_audit s' = fold (audit_record B) (map (\<lambda>(out, now). event_from_outcome out now) ds) (sv_audit s)
    \<and> sv_policy s' = sv_policy s \<and> sv_clock s' = sv_clock s \<and> sv_jwks s' = sv_jwks s"
  unfolding serve_all_records [OF assms] by (simp add: service_stats_def records_counters records_ports)

definition sample_service :: "trust_policy \<Rightarrow> verification_event list edge_verifier" where
  "sample_service p = service_new (static_new (sample_jwks sample_env 5)) (Fixed_Clock 1500)
     (Broadcast_Sink []) p"

lemma sample_service_ports [simp]:
  "sv_policy (sample_service p) = p" "sv_audit (sample_service p) = Broadcast_Sink []"
  "provider_current (sv_jwks (sample_service p)) = sample_jwks sample_env 5"
  "now_unix os (sv_clock (sample_service p)) = 1500"
  "sv_counters (sample_service p) = counters_default"
  by (simp_all add: sample_service_def service_new_def static_new_def)

lemma sample_decision: "out_valid (verify_jwt sample_env sample_minted (sample_jwks sample_env 5) sample_policy 1500)"
  by (simp add: sample_accepted_at)

theorem run_accounts_for_decisions_witness:
  "st_jwt_accepted (service_stats (snd (serve_all sample_env list_channel
     [(Err (), Token_Request None sample_minted), (Err (), Token_Request None sample_minted)]
     (sample_service sample_policy)))) = 2"
proof -
  let ?rs = "[(Err (), Token_Request None sample_minted), (Err (), Token_Request None sample_minted)]"
  let ?out = "verify_jwt sample_env sample_minted (sample_jwks sample_env 5) sample_policy 1500"
  have ports: "sv_policy (service_record B out now s) = sv_policy s" "sv_jwks (service_record B out now s) = sv_jwks s"
    "sv_clock (service_record B out now s) = sv_clock s" for B :: "verification_event list broadcast_env" and out now s
    by (simp_all add: service_record_def)
  obtain s' where run: "serve_all sample_env list_channel ?rs (sample_service sample_policy)
      = ([(?out, 1500), (?out, 1500)], s')"
    by (simp add: service_verify_jwt_def effective_policy_def service_now_def ports Let_def)
  have "decided Jwt_Kind True [(?out, 1500), (?out, 1500)] = 2"
    using sample_decision jwt_decision.kind_fixed by (simp add: decided_def)
  then show ?thesis
    using run_accounts_for_decisions [OF run] run
    by (simp add: service_stats_def counters_default_def)
qed

section \<open>Decisions do not depend on the history\<close>

definition decide_request ::
  "('vk, 'sk, 'y) vc_env_scheme \<Rightarrow> 'ch edge_verifier \<Rightarrow> (nat, unit) result \<times> request \<Rightarrow>
     (verification_outcome \<times> i64) list" where
  "decide_request E s r =
     (let now = now_unix (fst r) (sv_clock s) in
      case snd r of
        Token_Request over token \<Rightarrow>
          [(verify_jwt E token (provider_current (sv_jwks s)) (effective_policy s over) now, now)]
      | Credential_Request over json \<Rightarrow>
          (case ext_vc_from_str E json of
             Err e \<Rightarrow> [] | Ok vc \<Rightarrow> [(verify_credential E vc (effective_policy s over) now, now)]))"

lemma serve_decides: "fst (serve E B r s) = decide_request E s r"
  by (cases r rule: prod.exhaust; cases "snd r"; cases "case snd r of Credential_Request _ json \<Rightarrow> ext_vc_from_str E json | _ \<Rightarrow> Err []")
    (auto simp: decide_request_def service_verify_jwt_def service_verify_credential_json_def
      verify_credential_json_def service_now_def Let_def split: sum.splits)

lemma effective_policy_ports: "sv_policy s' = sv_policy s \<Longrightarrow> effective_policy s' over = effective_policy s over"
  unfolding effective_policy_def by (simp only:)

lemma decide_request_ports:
  "sv_policy s' = sv_policy s \<Longrightarrow> sv_clock s' = sv_clock s \<Longrightarrow> sv_jwks s' = sv_jwks s \<Longrightarrow>
     decide_request E s' r = decide_request E s r"
  unfolding decide_request_def by (simp only: effective_policy_ports [of s' s])

text \<open>
  The service adds nothing to the decision. In any run, each request is decided by the pure
  verifier with the service's policy (as overridden), keys and clock, whatever was served
  before it.
\<close>

theorem run_decides_like_verifier:
  "fst (serve_all E B rs s) = concat (map (decide_request E s) rs)"
proof (induction rs arbitrary: s)
  case (Cons r rs)
  obtain ds s1 where one: "serve E B r s = (ds, s1)" by (cases "serve E B r s")
  have s1: "s1 = records B ds s" using one by (rule serve_records)
  have "decide_request E s1 = decide_request E s"
    by (intro ext decide_request_ports) (simp_all add: s1 records_ports)
  then show ?case
    using Cons.IH [of s1] serve_decides [of E B r s] one by (cases "serve_all E B rs s1") simp
qed simp

section \<open>Policy overrides\<close>

lemma effective_policy_None [simp]: "effective_policy s None = sv_policy s"
  by (simp add: effective_policy_def)

lemma override_issuers [simp]:
  "tp_trusted_issuers (effective_policy s over) = tp_trusted_issuers (sv_policy s)"
  "tp_revoked_jti (effective_policy s over) = tp_revoked_jti (sv_policy s)"
  "tp_leeway_secs (effective_policy s over) = tp_leeway_secs (sv_policy s)"
  by (auto simp: effective_policy_def Let_def split: option.splits)

lemma override_scopes:
  "tp_required_scopes (effective_policy s over) =
     tp_required_scopes (sv_policy s) |\<union>| (case over of None \<Rightarrow> {||} | Some o' \<Rightarrow> ovr_required_scopes o')"
  by (auto simp: effective_policy_def Let_def override_is_empty_def split: option.splits)

lemma override_audience:
  "tp_expected_audience (effective_policy s over) =
     (case over of None \<Rightarrow> tp_expected_audience (sv_policy s)
      | Some o' \<Rightarrow> (case ovr_audience o' of None \<Rightarrow> tp_expected_audience (sv_policy s) | Some a \<Rightarrow> Some a))"
  by (auto simp: effective_policy_def Let_def override_is_empty_def split: option.splits)

lemma override_stricter:
  assumes "\<And>o' a. over = Some o' \<Longrightarrow> ovr_audience o' = Some a \<Longrightarrow>
      tp_expected_audience (sv_policy s) = None \<or> tp_expected_audience (sv_policy s) = Some a"
  shows "policy_stricter (effective_policy s over) (sv_policy s)"
proof -
  have "tp_expected_audience (sv_policy s) = None
      \<or> tp_expected_audience (effective_policy s over) = tp_expected_audience (sv_policy s)"
  proof (cases over)
    case (Some o')
    then show ?thesis
      using assms [of o'] by (cases "ovr_audience o'") (auto simp: override_audience)
  qed (simp add: override_audience)
  then show ?thesis
    by (auto simp: policy_stricter_def override_scopes)
qed

text \<open>
  C28: an override tightens. What is accepted under an override that leaves the configured
  audience as it is (or sets one where none is configured) is also accepted under the base
  policy, at any time and leeway; scopes are only added, and issuers, revocations and leeway are
  those of the base policy in any case.
\<close>

theorem override_tightens:
  assumes "out_valid (fst (service_verify_jwt E B os token (Some o') s))"
    and "tp_expected_audience (sv_policy s) = None \<or> ovr_audience o' = None
       \<or> ovr_audience o' = tp_expected_audience (sv_policy s)"
  shows "out_valid (fst (service_verify_jwt E B os token None s))
       \<and> tp_required_scopes (effective_policy s (Some o')) = tp_required_scopes (sv_policy s) |\<union>| ovr_required_scopes o'
       \<and> tp_trusted_issuers (effective_policy s (Some o')) = tp_trusted_issuers (sv_policy s)
       \<and> tp_revoked_jti (effective_policy s (Some o')) = tp_revoked_jti (sv_policy s)
       \<and> tp_leeway_secs (effective_policy s (Some o')) = tp_leeway_secs (sv_policy s)"
proof -
  have "policy_stricter (effective_policy s (Some o')) (sv_policy s)"
    using assms(2) by (intro override_stricter) auto
  then have "out_valid (verify_jwt E token (provider_current (sv_jwks s)) (sv_policy s) (service_now os s))"
    using assms(1) stricter_accepts_less_same_leeway [of "effective_policy s (Some o')" "sv_policy s"]
    by (simp add: service_verify_jwt_def service_now_def Let_def)
  then show ?thesis
    by (simp add: service_verify_jwt_def service_now_def effective_policy_None override_scopes Let_def)
qed

definition sample_override :: policy_override where
  "sample_override = \<lparr> ovr_audience = Some ''edge-api'', ovr_required_scopes = {||} \<rparr>"

lemma sample_override_policy:
  "effective_policy s (Some sample_override) = (sv_policy s)\<lparr>tp_expected_audience := Some ''edge-api''\<rparr>"
  by (simp add: effective_policy_def sample_override_def override_is_empty_def Let_def)

lemma sample_policy_any_audience:
  "out_valid (verify_jwt sample_env sample_minted (sample_jwks sample_env 5)
     (sample_policy\<lparr>tp_expected_audience := x\<rparr>) 1500) \<longleftrightarrow> x = None \<or> x = Some ''edge-api''"
proof -
  obtain j where j: "signed_jwt_parse sample_env sample_minted = Ok j" "sj_claims j = sample_claims"
    "signed_jwt_verify_with sample_env j (sample_jwks sample_env 5) = Ok ()"
    by (rule sample_minted_parses)
  have "time_fits (sample_policy\<lparr>tp_expected_audience := x\<rparr>) 1500"
    by (simp add: time_fits_def add_fits_def sub_fits_def i64_fits_def)
  moreover have "claims_acceptable (sample_policy\<lparr>tp_expected_audience := x\<rparr>) 1500 sample_claims
      \<longleftrightarrow> x = None \<or> x = Some ''edge-api''"
    using sample_claims_acceptable
    by (cases x) (auto simp: claims_acceptable_def sample_claims_def issuer_trusted_def)
  ultimately show ?thesis
    using j by (auto simp: verify_jwt_valid_spec)
qed

theorem override_tightens_witness:
  "out_valid (fst (service_verify_jwt sample_env list_channel (Err ()) sample_minted None
     (sample_service (sample_policy\<lparr>tp_expected_audience := None\<rparr>))))"
  using override_tightens [of sample_env list_channel "Err ()" sample_minted sample_override
      "sample_service (sample_policy\<lparr>tp_expected_audience := None\<rparr>)"]
    sample_policy_any_audience [of "Some ''edge-api''"]
  by (simp add: service_verify_jwt_def service_now_def sample_override_policy Let_def
      time_fits_def add_fits_def sub_fits_def i64_fits_def)

text \<open>
  An override replaces the configured audience. A node configured for one audience rejects a
  token for another; the same request with an override that names the token's own audience is
  accepted, so a caller can choose the audience the node was configured to insist on.
\<close>

theorem override_replaces_audience:
  "let s = sample_service (sample_policy\<lparr>tp_expected_audience := Some ''admin-api''\<rparr>) in
   \<not> out_valid (fst (service_verify_jwt sample_env list_channel (Err ()) sample_minted None s))
   \<and> out_valid (fst (service_verify_jwt sample_env list_channel (Err ()) sample_minted
        (Some \<lparr> ovr_audience = Some ''edge-api'', ovr_required_scopes = {||} \<rparr>) s))"
  using sample_policy_any_audience [of "Some ''admin-api''"] sample_policy_any_audience [of "Some ''edge-api''"]
  unfolding sample_override_def [symmetric]
  by (simp add: service_verify_jwt_def sample_override_policy Let_def)

lemma verify_credential_ignores:
  assumes "tp_trusted_issuers p' = tp_trusted_issuers p" "tp_revoked_jti p' = tp_revoked_jti p"
    "tp_leeway_secs p' = tp_leeway_secs p"
  shows "verify_credential E vc p' now = verify_credential E vc p now"
proof -
  have "credential_checks vc p' now = credential_checks vc p now"
    using assms by (simp add: credential_checks_def issuer_trusted_def)
  then show ?thesis unfolding verify_credential_def by (simp only:)
qed

text \<open>
  Credentials ignore overrides. Whatever audience or scopes a request demands, the decision
  on a credential and the service's next state are those of the base policy: an override
  neither tightens nor loosens it.
\<close>

theorem override_ignored_for_credentials:
  "service_verify_credential_json E B os json over s = service_verify_credential_json E B os json None s"
proof -
  have "verify_credential_json E json (effective_policy s over) now
      = verify_credential_json E json (sv_policy s) now" for now
    using verify_credential_ignores [of "effective_policy s over" "sv_policy s" E]
    by (cases "ext_vc_from_str E json") (simp_all add: verify_credential_json_def)
  then show ?thesis by (simp add: service_verify_credential_json_def)
qed

section \<open>What is not recorded\<close>

text \<open>
  The two kinds of malformed input are accounted for differently. A string that is no JWT is
  a decision: it is counted as rejected and audited. A document that is no credential is
  answered with an error and leaves no trace: no counter moves and no event is sent.
\<close>

theorem malformed_input_accounting:
  assumes "signed_jwt_parse E token = Err e" and "ext_vc_from_str E json = Err msg"
  shows "service_verify_jwt E B os token over s =
      (rejected Jwt_Kind (verify_error_display e),
       s\<lparr>sv_counters := (sv_counters s)\<lparr>jwt_rejected := jwt_rejected (sv_counters s) + 1\<rparr>,
         sv_audit := audit_record B (event_from_outcome (rejected Jwt_Kind (verify_error_display e))
            (service_now os s)) (sv_audit s)\<rparr>)
    \<and> service_verify_credential_json E B os json over s = (Err (Json msg), s)"
  using assms
  by (simp add: service_verify_jwt_def service_verify_credential_json_def verify_jwt_def
      verify_credential_json_def service_record_def count_outcome_def service_now_def Let_def)

theorem malformed_input_accounting_witness:
  "let s = sample_service permissive in
   jwt_rejected (sv_counters (snd (service_verify_jwt sample_env list_channel (Err ()) ''nonsense'' None s))) = 1
   \<and> snd (service_verify_credential_json sample_env list_channel (Err ()) ''not json'' None s) = s"
proof -
  have "signed_jwt_parse sample_env ''nonsense''
      = Err (MalformedJwt ''expected exactly three dot-separated segments'')"
    by (simp add: signed_jwt_parse_def)
  moreover have "ext_vc_from_str sample_env ''not json'' = Err (case ext_vc_from_str sample_env ''not json'' of Err e \<Rightarrow> e | Ok _ \<Rightarrow> [])"
  proof -
    have "\<nexists>vc. ext_vc_from_str sample_env ''not json'' = Ok vc"
      by (auto simp: sample_env_def sample_vc_env_def sample_jwt_env_def sample_primitives_def
          table_from_str_def table_from_slice_def split: list.splits if_splits)
    then show ?thesis by (cases "ext_vc_from_str sample_env ''not json''") auto
  qed
  ultimately show ?thesis
    using malformed_input_accounting [of sample_env "''nonsense''" _ "''not json''" _
        list_channel "Err ()" None "sample_service permissive"]
    by (auto simp: Let_def counters_default_def)
qed

section \<open>Key outages\<close>

lemma service_refresh_times:
  "refresh_times (service_refresh E N) n s w = (rs, s', w') \<Longrightarrow>
     \<exists>p'. s' = s\<lparr>sv_jwks := p'\<rparr> \<and> refresh_times (provider_refresh E N) n (sv_jwks s) w = (rs, p', w')"
proof (induction n arbitrary: s w rs)
  case 0
  then show ?case by (intro exI [of _ "sv_jwks s"]) simp
next
  case (Suc n)
  obtain r p1 w1 where r: "provider_refresh E N (sv_jwks s) w = (r, p1, w1)"
    by (cases "provider_refresh E N (sv_jwks s) w")
  then have step: "service_refresh E N s w = (r, s\<lparr>sv_jwks := p1\<rparr>, w1)"
    by (simp add: service_refresh_def)
  obtain rs1 where rest: "refresh_times (service_refresh E N) n (s\<lparr>sv_jwks := p1\<rparr>) w1 = (rs1, s', w')"
    "rs = r # rs1"
    using Suc.prems by (auto simp: step split: prod.splits)
  from Suc.IH [OF rest(1)] obtain p' where
    "s' = s\<lparr>sv_jwks := p'\<rparr>" "refresh_times (provider_refresh E N) n p1 w1 = (rs1, p', w')" by auto
  with r rest(2) show ?case by auto
qed

text \<open>
  An outage of the issuer does not change decisions. After any series of refreshes of which
  none succeeds, the service decides every token and every credential as before.
\<close>

theorem outage_keeps_decisions:
  assumes "refresh_times (service_refresh E N) n s w = (rs, s', w')" and "Some (Ok ()) \<notin> set rs"
  shows "fst (service_verify_jwt E B os token over s') = fst (service_verify_jwt E B os token over s)
       \<and> service_stats s' = service_stats s"
proof -
  obtain p' where p': "s' = s\<lparr>sv_jwks := p'\<rparr>"
    "refresh_times (provider_refresh E N) n (sv_jwks s) w = (rs, p', w')"
    using service_refresh_times [OF assms(1)] by blast
  have "provider_current p' = provider_current (sv_jwks s)"
    using provider.failures_keep_keys [OF p'(2) assms(2)] .
  then show ?thesis
    using effective_policy_ports [of s' s over]
    by (simp add: p'(1) service_verify_jwt_def service_stats_def Let_def)
qed

theorem outage_keeps_decisions_witness:
  "\<exists>rs s' w'. refresh_times (service_refresh sample_env dead_net) 1
       (service_new (Cached_Provider (sample_cached breaker_new)) (Fixed_Clock 1500) Noop_Sink permissive
          :: verification_event list edge_verifier) 0 = (rs, s', w')
     \<and> service_stats s' = \<lparr> st_jwt_accepted = 0, st_jwt_rejected = 0, st_vc_accepted = 0, st_vc_rejected = 0 \<rparr>"
proof -
  let ?s = "service_new (Cached_Provider (sample_cached breaker_new)) (Fixed_Clock 1500) Noop_Sink permissive
    :: verification_event list edge_verifier"
  obtain r s' w' where one: "service_refresh sample_env dead_net ?s 0 = (r, s', w')"
    by (cases "service_refresh sample_env dead_net ?s 0")
  then have run: "refresh_times (service_refresh sample_env dead_net) 1 ?s 0 = ([r], s', w')" by simp
  have "r \<noteq> Some (Ok ())"
    using dead_refresh [of sample_env "sample_cached breaker_new" 0] one
    by (auto simp: service_refresh_def service_new_def split: prod.splits)
  then have "service_stats s' = service_stats ?s"
    using outage_keeps_decisions [OF run, of list_channel] by simp
  moreover have "service_stats ?s = \<lparr> st_jwt_accepted = 0, st_jwt_rejected = 0, st_vc_accepted = 0, st_vc_rejected = 0 \<rparr>"
    by (simp add: service_stats_def service_new_def counters_default_def)
  ultimately show ?thesis using run by metis
qed

text \<open>
  The service is itself a key source, whatever happens to the world before each refresh.
\<close>

interpretation service_source: key_provider service_jwks "\<lambda>s w. service_refresh E N s (f w)"
  for E :: "('vk, 'sk, 'y) jwt_env_scheme" and N :: "('w, 'r, 'z) net_env_scheme" and f
proof
  fix p :: "'ch edge_verifier" and w p' w' e
  show "fst (service_refresh E N p (f w)) \<noteq> None"
    using provider.no_panic [of E N "sv_jwks p" "f w"] by (auto simp: service_refresh_def split: prod.splits)
  show "service_refresh E N p (f w) = (Some (Err e), p', w') \<Longrightarrow> service_jwks p' = service_jwks p"
    using provider.failed_keeps [of E N "sv_jwks p" "f w" e]
    by (auto simp: service_refresh_def service_jwks_def split: prod.splits)
qed

lemma service_refresh_ports:
  "service_refresh E N s w = (r, s', w') \<Longrightarrow>
     sv_policy s' = sv_policy s \<and> sv_clock s' = sv_clock s \<and> sv_counters s' = sv_counters s \<and> sv_audit s' = sv_audit s"
  by (auto simp: service_refresh_def split: prod.splits)

end
