(* ===== verification/Key_Source.thy ===== *)
theory Key_Source
  imports Service
begin

text \<open>
  Where the keys of a provider come from, as an interface that extends \<open>key_provider\<close>: the source
  is fixed when the provider is built, and whatever it serves later was decoded from that source.
  It is interpreted on the providers of \<open>edgeauth-infra/src/jwks.rs\<close> and on the service of
  \<open>service.rs\<close> that holds one.
\<close>

section \<open>The interface\<close>

locale sourced_provider = key_provider current refresh
  for current :: "'p \<Rightarrow> jwks"
    and refresh :: "'p \<Rightarrow> 'w \<Rightarrow> (unit, infra_error) result option \<times> 'p \<times> 'w" +
  fixes source :: "'p \<Rightarrow> 's"
    and from_source :: "'s \<Rightarrow> jwks \<Rightarrow> bool"
  assumes source_fixed: "refresh p w = (r, p', w') \<Longrightarrow> source p' = source p"
    and success_from_source: "refresh p w = (Some (Ok ()), p', w') \<Longrightarrow>
      current p' = current p \<or> from_source (source p) (current p')"
begin

lemma refresh_keys:
  assumes "refresh p w = (r, p', w')"
  shows "current p' = current p \<or> from_source (source p) (current p')"
proof (cases "r = Some (Ok ())")
  case True
  then show ?thesis using success_from_source assms by blast
next
  case False
  then obtain e where "r = Some (Err e)"
    using no_panic [of p w] assms by (cases r; cases "the r") auto
  then show ?thesis using failed_keeps assms by simp
qed

lemma keys_from_source:
  "refresh_times refresh n p w = (rs, p', w') \<Longrightarrow>
     source p' = source p \<and> (current p' = current p \<or> from_source (source p) (current p'))"
proof (induction n arbitrary: p w rs)
  case (Suc n)
  obtain r p1 w1 where r: "refresh p w = (r, p1, w1)" by (cases "refresh p w")
  obtain rs' where "refresh_times refresh n p1 w1 = (rs', p', w')" "rs = r # rs'"
    using Suc.prems by (auto simp: r split: prod.splits)
  then show ?case
    using Suc.IH [of p1 w1 rs'] refresh_keys [OF r] source_fixed [OF r] by auto
qed simp

lemma sourceless_keeps_keys:
  "refresh_times refresh n p w = (rs, p', w') \<Longrightarrow> \<forall>ks. \<not> from_source (source p) ks \<Longrightarrow> current p' = current p"
  using keys_from_source by blast

end

section \<open>The sources of the program\<close>

text \<open>
  The key sets an endpoint has served: decoded from the body of a response with a success
  status. A provider's source is its URL, or none.
\<close>

definition served_by ::
  "('vk, 'sk, 'y) jwt_env_scheme \<Rightarrow> ('w, 'r, 'z) net_env_scheme \<Rightarrow> string \<Rightarrow> jwks \<Rightarrow> bool" where
  "served_by E N url ks \<longleftrightarrow>
     (\<exists>w0 resp w1 body w2. ext_http_get N url w0 = (Ok resp, w1) \<and> ext_status_success N resp
        \<and> ext_body_text N resp w1 = (Ok body, w2) \<and> jwks_from_json E body = Ok ks)"

fun provider_source :: "jwks_provider \<Rightarrow> string option" where
  "provider_source (Static_Provider ks) = None"
| "provider_source (Cached_Provider p) = Some (cp_url p)"

definition from_url ::
  "('vk, 'sk, 'y) jwt_env_scheme \<Rightarrow> ('w, 'r, 'z) net_env_scheme \<Rightarrow> string option \<Rightarrow> jwks \<Rightarrow> bool" where
  "from_url E N src ks \<longleftrightarrow> (\<exists>url. src = Some url \<and> (timeout_transparent N \<longrightarrow> served_by E N url ks))"

lemma fetch_once_served: "fst (fetch_once E N url w) = Ok ks \<Longrightarrow> served_by E N url ks"
  unfolding served_by_def by (erule fetch_once_Ok) blast

lemma fetch_attempt_served:
  "timeout_transparent N \<Longrightarrow> fst (fetch_attempt E N p w) = Ok ks \<Longrightarrow> served_by E N (cp_url p) ks"
  by (blast intro: fetch_once_served fetch_attempt_Ok)

lemma cached_refresh_url:
  "cached_refresh E N p w = (r, p', w') \<Longrightarrow> cp_url p' = cp_url p"
  by (cases rule: cached_refresh_cases [of p N w E])
    (auto simp: report_success_def report_failure_def write_cache_def)

interpretation sourced: sourced_provider provider_current "provider_refresh E N" provider_source "from_url E N"
  for E :: "('vk, 'sk, 'y) jwt_env_scheme" and N :: "('w, 'r, 'z) net_env_scheme"
proof
  fix p :: jwks_provider and w r p' w'
  show "provider_refresh E N p w = (r, p', w') \<Longrightarrow> provider_source p' = provider_source p"
    by (cases p) (auto split: prod.splits dest: cached_refresh_url)
  assume ok: "provider_refresh E N p w = (Some (Ok ()), p', w')"
  show "provider_current p' = provider_current p \<or> from_url E N (provider_source p) (provider_current p')"
  proof (cases p)
    case (Cached_Provider c)
    then obtain c' where c': "cached_refresh E N c w = (Some (Ok ()), c', w')" "p' = Cached_Provider c'"
      using ok by (auto split: prod.splits)
    have "timeout_transparent N \<Longrightarrow> served_by E N (cp_url c) (cp_cache c')"
      using refreshed_keys_from_url [OF c'(1)] by (simp add: served_by_def)
    then show ?thesis using Cached_Provider c'(2) by (simp add: from_url_def)
  qed (use ok in simp)
qed

definition service_key_source :: "'ch edge_verifier \<Rightarrow> string option" where
  "service_key_source s = provider_source (sv_jwks s)"

interpretation service_sourced: sourced_provider service_jwks "\<lambda>s w. service_refresh E N s (f w)"
    service_key_source "from_url E N"
  for E :: "('vk, 'sk, 'y) jwt_env_scheme" and N :: "('w, 'r, 'z) net_env_scheme" and f
proof
  fix p :: "'ch edge_verifier" and w r p' w'
  show "service_refresh E N p (f w) = (r, p', w') \<Longrightarrow> service_key_source p' = service_key_source p"
    using sourced.source_fixed [of E N "sv_jwks p" "f w"]
    by (auto simp: service_refresh_def service_key_source_def split: prod.splits)
  show "service_refresh E N p (f w) = (Some (Ok ()), p', w') \<Longrightarrow>
      service_jwks p' = service_jwks p \<or> from_url E N (service_key_source p) (service_jwks p')"
    using sourced.success_from_source [of E N "sv_jwks p" "f w"]
    by (auto simp: service_refresh_def service_key_source_def service_jwks_def split: prod.splits)
qed

section \<open>Keys over any series of refreshes\<close>

text \<open>
  Whatever refreshes succeed or fail, a provider with static keys keeps them, and a cached one
  serves its seed or a key set its own URL has served.
\<close>

theorem provider_keys_origin:
  assumes "refresh_times (provider_refresh E N) n p w = (rs, p', w')" and "timeout_transparent N"
  shows "provider_current p' = provider_current p
    \<or> (\<exists>url. provider_source p = Some url \<and> served_by E N url (provider_current p'))"
  using sourced.keys_from_source [OF assms(1)] assms(2) by (auto simp: from_url_def)

lemma static_keys_fixed:
  "refresh_times (provider_refresh E N) n (Static_Provider ks) w = (rs, p', w') \<Longrightarrow> provider_current p' = ks"
  using sourced.sourceless_keeps_keys by (fastforce simp: from_url_def)

theorem provider_keys_origin_witness:
  "let ks = provider_current (fst (snd (refresh_times (provider_refresh sample_env dead_net) 3
       (Cached_Provider (sample_cached breaker_new)) 0)))
   in ks = jwks_from_keys [] \<or> served_by sample_env dead_net ''https://issuer.example/jwks.json'' ks"
proof -
  let ?p = "Cached_Provider (sample_cached breaker_new)"
  obtain rs p' w' where run: "refresh_times (provider_refresh sample_env dead_net) 3 ?p 0 = (rs, p', w')"
    by (metis prod.exhaust)
  have "timeout_transparent dead_net"
    by (simp add: timeout_transparent_def dead_net_def split: prod.splits)
  from provider_keys_origin [OF run this] show ?thesis
    unfolding run by (auto simp: sample_cached_def)
qed

end
