(* ===== verification/Concurrent_Service.thy ===== *)
theory Concurrent_Service
  imports Service "HOL-Library.Multiset"
begin

text \<open>
  Interleaved requests of \<open>edgeauth-infra/src/service.rs\<close>. The handlers of the API share one
  \<open>EdgeVerifier\<close>, and its methods hold no lock: between two accesses to the shared state (the
  current keys, one counter, the audit channel) any other request or refresh may run. A state is
  the service, the token requests that have read policy and keys, the decisions not yet counted,
  and the counted decisions whose event is not yet sent. \<open>stats\<close> is four separate loads.
\<close>

section \<open>Steps\<close>

type_synonym decision = "verification_outcome \<times> i64"
type_synonym pending_token = "string \<times> trust_policy \<times> jwks"
type_synonym 'ch server_state =
  "'ch edge_verifier \<times> pending_token multiset \<times> decision multiset \<times> decision multiset"

datatype service_event =
    Read_Keys string "policy_override option"
  | Decide_Token "(nat, unit) result" pending_token decision
  | Decide_Credential "(nat, unit) result" string "policy_override option" decision
  | Unreadable string "policy_override option"
  | Count decision
  | Emit decision
  | Load token_kind bool u64
  | Rekey jwks_provider

fun counter_of :: "token_kind \<Rightarrow> bool \<Rightarrow> counters \<Rightarrow> u64" where
  "counter_of Jwt_Kind True c = jwt_accepted c"
| "counter_of Jwt_Kind False c = jwt_rejected c"
| "counter_of Vc_Kind True c = vc_accepted c"
| "counter_of Vc_Kind False c = vc_rejected c"

inductive service_step ::
  "('vk, 'sk, 'y) vc_env_scheme \<Rightarrow> ('ch, 'z) broadcast_env_scheme \<Rightarrow>
     'ch server_state \<Rightarrow> service_event \<Rightarrow> 'ch server_state \<Rightarrow> bool"
  for E :: "('vk, 'sk, 'y) vc_env_scheme" and B :: "('ch, 'z) broadcast_env_scheme" where
  read_keys: "service_step E B (s, I, C, M) (Read_Keys token over)
    (s, add_mset (token, effective_policy s over, service_jwks s) I, C, M)"
| decide_token: "now = service_now os s \<Longrightarrow> out = verify_jwt E token keys policy now \<Longrightarrow>
    service_step E B (s, add_mset (token, policy, keys) I, C, M)
      (Decide_Token os (token, policy, keys) (out, now)) (s, I, add_mset (out, now) C, M)"
| decide_credential: "now = service_now os s \<Longrightarrow>
    verify_credential_json E json (effective_policy s over) now = Ok out \<Longrightarrow>
    service_step E B (s, I, C, M) (Decide_Credential os json over (out, now)) (s, I, add_mset (out, now) C, M)"
| unreadable: "verify_credential_json E json (effective_policy s over) (service_now os s) = Err e \<Longrightarrow>
    service_step E B (s, I, C, M) (Unreadable json over) (s, I, C, M)"
| count: "service_step E B (s, I, add_mset (out, now) C, M) (Count (out, now))
    (s\<lparr>sv_counters := count_outcome out (sv_counters s)\<rparr>, I, C, add_mset (out, now) M)"
| emit: "service_step E B (s, I, C, add_mset (out, now) M) (Emit (out, now))
    (s\<lparr>sv_audit := audit_record B (event_from_outcome out now) (sv_audit s)\<rparr>, I, C, M)"
| load: "v = counter_of kind valid (sv_counters s) \<Longrightarrow>
    service_step E B (s, I, C, M) (Load kind valid v) (s, I, C, M)"
| rekey: "service_step E B (s, I, C, M) (Rekey p) (s\<lparr>sv_jwks := p\<rparr>, I, C, M)"

inductive_cases service_stepE: "service_step E B \<sigma> e \<sigma>'"

section \<open>What an execution did\<close>

fun decisions :: "service_event list \<Rightarrow> decision list" where
  "decisions [] = []"
| "decisions (Decide_Token os q d # es) = d # decisions es"
| "decisions (Decide_Credential os json over d # es) = d # decisions es"
| "decisions (_ # es) = decisions es"

fun counted :: "service_event list \<Rightarrow> decision list" where
  "counted [] = []"
| "counted (Count d # es) = d # counted es"
| "counted (_ # es) = counted es"

fun emitted :: "service_event list \<Rightarrow> decision list" where
  "emitted [] = []"
| "emitted (Emit d # es) = d # emitted es"
| "emitted (_ # es) = emitted es"

fun rekeyed :: "service_event list \<Rightarrow> jwks list" where
  "rekeyed [] = []"
| "rekeyed (Rekey p # es) = provider_current p # rekeyed es"
| "rekeyed (_ # es) = rekeyed es"

lemma event_lists_Cons:
  "decisions (e # es) = decisions [e] @ decisions es" "counted (e # es) = counted [e] @ counted es"
  "emitted (e # es) = emitted [e] @ emitted es" "rekeyed (e # es) = rekeyed [e] @ rekeyed es"
  by (cases e; simp)+

lemma counted_append: "counted (es @ es') = counted es @ counted es'"
proof (induction es)
  case (Cons e es)
  then show ?case using event_lists_Cons(2) [of e "es @ es'"] event_lists_Cons(2) [of e es] by simp
qed simp

definition audited :: "('ch, 'z) broadcast_env_scheme \<Rightarrow> decision list \<Rightarrow> 'ch audit_sink \<Rightarrow> 'ch audit_sink" where
  "audited B ds = fold (audit_record B) (map (\<lambda>(out, now). event_from_outcome out now) ds)"

lemma audited_simps [simp]:
  "audited B [] a = a"
  "audited B ((out, now) # ds) a = audited B ds (audit_record B (event_from_outcome out now) a)"
  "audited B (ds @ ds') a = audited B ds' (audited B ds a)"
  by (simp_all add: audited_def)

definition count_all :: "decision list \<Rightarrow> counters \<Rightarrow> counters" where
  "count_all ds = fold (\<lambda>(out, now). count_outcome out) ds"

lemma count_all_simps [simp]:
  "count_all [] c = c"
  "count_all ((out, now) # ds) c = count_all ds (count_outcome out c)"
  "count_all (ds @ ds') c = count_all ds' (count_all ds c)"
  by (simp_all add: count_all_def)

lemma counter_of_count_outcome:
  "counter_of k v (count_outcome out c) = counter_of k v c + (if out_kind out = k \<and> out_valid out = v then 1 else 0)"
  by (cases k; cases v; cases "out_kind out"; cases "out_valid out") (simp_all add: count_outcome_def)

lemma decided_Cons:
  "decided k v ((out, now) # ds) = (if out_kind out = k \<and> out_valid out = v then 1 else 0) + decided k v ds"
  by (simp add: decided_def)

lemma counter_of_count_all:
  "counter_of k v (count_all ds c) = counter_of k v c + word_of_nat (decided k v ds)"
proof (induction ds arbitrary: c)
  case (Cons d ds)
  then show ?case by (cases d) (simp add: counter_of_count_outcome decided_Cons)
qed (simp add: decided_def)

lemma decided_mset_size:
  "decided k v ds = size (filter_mset (\<lambda>(out, now). out_kind out = k \<and> out_valid out = v) (mset ds))"
  unfolding decided_def mset_filter [symmetric] size_mset ..

lemma decided_mset: "mset ds = mset ds' \<Longrightarrow> decided k v ds = decided k v ds'"
  by (simp add: decided_mset_size)

lemma decided_le: "decided k v ds \<le> length ds"
  by (simp add: decided_def)

section \<open>One step, and every execution\<close>

definition step_effect ::
  "('ch, 'z) broadcast_env_scheme \<Rightarrow> service_event list \<Rightarrow> 'ch server_state \<Rightarrow> 'ch server_state \<Rightarrow> bool" where
  "step_effect B es \<sigma> \<sigma>' = (case (\<sigma>, \<sigma>') of ((s, I, C, M), (s', I', C', M')) \<Rightarrow>
     C + mset (decisions es) = mset (counted es) + C' \<and> M + mset (counted es) = mset (emitted es) + M'
     \<and> sv_counters s' = count_all (counted es) (sv_counters s) \<and> sv_audit s' = audited B (emitted es) (sv_audit s)
     \<and> sv_policy s' = sv_policy s \<and> sv_clock s' = sv_clock s)"

lemma step_effect_refl: "step_effect B [] \<sigma> \<sigma>"
  by (simp add: step_effect_def split: prod.splits)

lemma step_effect_one: "service_step E B \<sigma> e \<sigma>' \<Longrightarrow> step_effect B [e] \<sigma> \<sigma>'"
  by (erule service_stepE) (simp_all add: step_effect_def)

lemma mset_balance_trans:
  fixes C :: "'a multiset"
  assumes "C + D = K + C1" and "C1 + D' = K' + C2"
  shows "C + (D + D') = K + K' + C2"
proof -
  have "C + (D + D') = (C + D) + D'" by (simp only: add.assoc)
  also have "\<dots> = K + (C1 + D')" by (simp only: assms(1) add.assoc)
  finally show ?thesis by (simp only: assms(2) add.assoc)
qed

lemma step_effect_trans:
  assumes "step_effect B [e] \<sigma> \<sigma>1" and "step_effect B es \<sigma>1 \<sigma>2"
  shows "step_effect B (e # es) \<sigma> \<sigma>2"
proof -
  obtain s I C M s1 I1 C1 M1 s2 I2 C2 M2 where
    "\<sigma> = (s, I, C, M)" "\<sigma>1 = (s1, I1, C1, M1)" "\<sigma>2 = (s2, I2, C2, M2)"
    by (metis prod_cases4)
  then show ?thesis
    using assms mset_balance_trans [of C _ _ C1] mset_balance_trans [of M _ _ M1]
    unfolding step_effect_def event_lists_Cons [of e es] by simp
qed

lemma steps_effect: "steps (service_step E B) \<sigma> es \<sigma>' \<Longrightarrow> step_effect B es \<sigma> \<sigma>'"
  by (induction rule: steps.induct) (auto intro: step_effect_refl step_effect_trans step_effect_one)

text \<open>
  C14: The books balance under concurrency. In every interleaving of requests, refreshes and reads of
  the statistics that starts with no request in flight: every decision is counted at most once
  and audited at most once, those not yet counted or audited are in flight, and nothing else is
  counted or audited; each counter has grown by exactly the counted decisions of its kind and
  result (modulo 2^64), so no increment is lost; the sink has received the events in the order
  in which they were sent; and policy and clock never change.
\<close>

theorem concurrent_accounting:
  assumes "steps (service_step E B) (s, {#}, {#}, {#}) es (s', I, C, M)"
  shows "mset (decisions es) = mset (counted es) + C \<and> mset (counted es) = mset (emitted es) + M
    \<and> (\<forall>kind valid. counter_of kind valid (sv_counters s')
          = counter_of kind valid (sv_counters s) + word_of_nat (decided kind valid (counted es)))
    \<and> sv_audit s' = fold (audit_record B) (map (\<lambda>(out, now). event_from_outcome out now) (emitted es)) (sv_audit s)
    \<and> sv_policy s' = sv_policy s \<and> sv_clock s' = sv_clock s"
  using steps_effect [OF assms] by (simp add: step_effect_def counter_of_count_all audited_def)

text \<open>
  Once no request is in flight, the statistics count every decision once, whatever the order in
  which the handlers interleaved.
\<close>

theorem quiescent_stats:
  assumes "steps (service_step E B) (service_new p c a pol, {#}, {#}, {#}) es (s', I, {#}, {#})"
  shows "service_stats s' =
      \<lparr> st_jwt_accepted = word_of_nat (decided Jwt_Kind True (decisions es)),
        st_jwt_rejected = word_of_nat (decided Jwt_Kind False (decisions es)),
        st_vc_accepted = word_of_nat (decided Vc_Kind True (decisions es)),
        st_vc_rejected = word_of_nat (decided Vc_Kind False (decisions es)) \<rparr>
    \<and> mset (emitted es) = mset (decisions es)"
proof -
  have eff: "mset (decisions es) = mset (counted es)" "mset (counted es) = mset (emitted es)"
    "sv_counters s' = count_all (counted es) counters_default"
    using steps_effect [OF assms] by (simp_all add: step_effect_def service_new_def)
  have "counter_of k v (sv_counters s') = word_of_nat (decided k v (decisions es))" for k v
    unfolding eff(3) counter_of_count_all decided_mset [OF eff(1)]
    by (cases k; cases v) (simp_all add: counters_default_def)
  from this [of Jwt_Kind True] this [of Jwt_Kind False] this [of Vc_Kind True] this [of Vc_Kind False]
  show ?thesis using eff(1,2) by (simp add: service_stats_def)
qed

section \<open>Which keys decide\<close>

lemma service_step_ports:
  "service_step E B (s, I, C, M) e (s', I', C', M') \<Longrightarrow>
     sv_policy s' = sv_policy s \<and> sv_clock s' = sv_clock s
     \<and> service_jwks s' \<in> set (service_jwks s # rekeyed [e])"
  by (erule service_stepE) (simp_all add: service_jwks_def)

lemma service_step_pending:
  "service_step E B (s, I, C, M) e (s', I', C', M') \<Longrightarrow> (token, policy, keys) \<in># I' \<Longrightarrow>
     (token, policy, keys) \<in># I
     \<or> (\<exists>over. e = Read_Keys token over \<and> policy = effective_policy s over \<and> keys = service_jwks s)"
  by (erule service_stepE) auto

lemma decided_token_origin:
  assumes "steps (service_step E B) \<sigma> es \<sigma>'" and "\<sigma> = (s, I, C, M)"
    and "Decide_Token os (token, policy, keys) (out, now) \<in> set es"
  shows "out = verify_jwt E token keys policy now \<and> now = service_now os s
    \<and> ((token, policy, keys) \<in># I
       \<or> (\<exists>over. Read_Keys token over \<in> set es \<and> policy = effective_policy s over
             \<and> keys \<in> set (service_jwks s # rekeyed es)))"
  using assms
proof (induction arbitrary: s I C M rule: steps.induct)
  case (steps_Cons \<sigma> e \<sigma>1 es \<sigma>')
  obtain s1 I1 C1 M1 where \<sigma>1: "\<sigma>1 = (s1, I1, C1, M1)" by (rule prod_cases4)
  note one = steps_Cons.hyps(1) [unfolded \<sigma>1 \<open>\<sigma> = (s, I, C, M)\<close>]
  note ports = service_step_ports [OF one]
  have ep: "effective_policy s1 over = effective_policy s over" "service_now os s1 = service_now os s" for over
    using ports by (simp_all add: effective_policy_ports [of s1 s] service_now_def)
  show ?case
  proof (cases "e = Decide_Token os (token, policy, keys) (out, now)")
    case True
    then show ?thesis using one by (auto elim!: service_stepE)
  next
    case False
    with steps_Cons.prems have "Decide_Token os (token, policy, keys) (out, now) \<in> set es" by simp
    note ih = steps_Cons.IH [OF \<sigma>1 this, unfolded ep]
    have later: "x \<in> set (service_jwks s1 # rekeyed es) \<Longrightarrow> x \<in> set (service_jwks s # rekeyed (e # es))" for x
      using ports unfolding event_lists_Cons [of e es] by auto
    show ?thesis
      using ih later service_step_pending [OF one, of token policy keys] by auto
  qed
qed simp

text \<open>
  A refresh never mixes into a decision. In every interleaving, each decided token was requested,
  and the decision is the pure verifier's on one key set that was served at some moment of the
  execution, under the service's policy with the request's override, at the clock's reading.
\<close>

theorem concurrent_decisions:
  assumes "steps (service_step E B) (s, {#}, {#}, {#}) es \<sigma>'"
    and "Decide_Token os (token, policy, keys) (out, now) \<in> set es"
  shows "\<exists>over. Read_Keys token over \<in> set es
    \<and> out = verify_jwt E token keys (effective_policy s over) (service_now os s) \<and> now = service_now os s
    \<and> keys \<in> set (service_jwks s # rekeyed es)"
  using decided_token_origin [OF assms(1) refl assms(2)] by auto

section \<open>The statistics\<close>

lemma unat_add_of_nat:
  "unat (x :: u64) + n < 2 ^ 64 \<Longrightarrow> unat (x + word_of_nat n) = unat x + n"
  by (simp add: unat_word_ariths unat_of_nat)

lemma steps_split:
  "steps step \<sigma> (es @ e # es') \<sigma>' \<Longrightarrow> \<exists>\<sigma>1 \<sigma>2. steps step \<sigma> es \<sigma>1 \<and> step \<sigma>1 e \<sigma>2 \<and> steps step \<sigma>2 es' \<sigma>'"
proof (induction es arbitrary: \<sigma>)
  case (Cons x es)
  then show ?case by (fastforce simp: steps_Cons_iff)
qed (auto simp: steps_Cons_iff)

text \<open>
  What a concurrent \<open>stats\<close> reports. A counter loaded in the middle of an execution is the
  exact number of decisions counted so far, and, unless the counter wraps, lies between its
  values before and after: no load goes backwards or runs ahead.
\<close>

theorem stats_loads_are_current:
  assumes "steps (service_step E B) (s, I, C, M) (es @ Load kind valid v # es') (s', I', C', M')"
    and "unat (counter_of kind valid (sv_counters s)) + length (counted (es @ es')) < 2 ^ 64"
  shows "v = counter_of kind valid (sv_counters s) + word_of_nat (decided kind valid (counted es))
    \<and> counter_of kind valid (sv_counters s) \<le> v \<and> v \<le> counter_of kind valid (sv_counters s')"
proof -
  let ?c = "\<lambda>s. counter_of kind valid (sv_counters s)" and ?n = "\<lambda>es. decided kind valid (counted es)"
  obtain \<sigma>1 \<sigma>2 where run: "steps (service_step E B) (s, I, C, M) es \<sigma>1"
    "service_step E B \<sigma>1 (Load kind valid v) \<sigma>2" "steps (service_step E B) \<sigma>2 es' (s', I', C', M')"
    using steps_split [OF assms(1)] by blast
  obtain s1 I1 C1 M1 where \<sigma>1: "\<sigma>1 = (s1, I1, C1, M1)" by (rule prod_cases4)
  have \<sigma>2: "\<sigma>2 = \<sigma>1" "v = ?c s1" using run(2) \<sigma>1 by (auto elim!: service_stepE)
  have s1: "?c s1 = ?c s + word_of_nat (?n es)"
    using steps_effect [OF run(1)] by (simp add: \<sigma>1 step_effect_def counter_of_count_all)
  have s': "?c s' = ?c s1 + word_of_nat (?n es')"
    using steps_effect [OF run(3)] by (simp add: \<sigma>1 \<sigma>2 step_effect_def counter_of_count_all)
  have fits: "unat (?c s) + ?n es + ?n es' < 2 ^ 64"
    using assms(2) decided_le [of kind valid "counted es"] decided_le [of kind valid "counted es'"]
    by (simp add: counted_append)
  then have u1: "unat (?c s1) = unat (?c s) + ?n es"
    unfolding s1 by (intro unat_add_of_nat) simp
  with fits have "unat (?c s') = unat (?c s1) + ?n es'"
    unfolding s' by (intro unat_add_of_nat) simp
  with u1 s1 \<sigma>2(2) show ?thesis by (simp add: word_le_nat_alt)
qed

section \<open>The sequential service is one of these executions\<close>

lemma record_steps:
  "steps (service_step E B) (s, I, add_mset (out, now) C, M) [Count (out, now), Emit (out, now)]
     (service_record B out now s, I, C, M)"
proof -
  let ?s = "s\<lparr>sv_counters := count_outcome out (sv_counters s)\<rparr>"
  have "service_step E B (s, I, add_mset (out, now) C, M) (Count (out, now)) (?s, I, C, add_mset (out, now) M)"
    by (rule count)
  moreover have "service_step E B (?s, I, C, add_mset (out, now) M) (Emit (out, now)) (service_record B out now s, I, C, M)"
    using emit [of E B ?s I C out now M] by (simp add: service_record_def)
  ultimately show ?thesis by (auto simp: steps_Cons_iff)
qed

lemma token_request_steps:
  fixes s :: "'ch edge_verifier"
  defines "q \<equiv> \<lambda>over token. (token, effective_policy s over, service_jwks s)"
    and "d \<equiv> \<lambda>E os over token. (verify_jwt E token (service_jwks s) (effective_policy s over) (service_now os s), service_now os s)"
  shows "steps (service_step E B) (s, I, C, M)
      [Read_Keys token over, Decide_Token os (q over token) (d E os over token), Count (d E os over token), Emit (d E os over token)]
      (snd (service_verify_jwt E B os token over s), I, C, M)"
proof -
  let ?now = "service_now os s" and ?policy = "effective_policy s over" and ?keys = "service_jwks s"
  let ?out = "verify_jwt E token ?keys ?policy ?now"
  have "steps (service_step E B) (s, I, C, M) [Read_Keys token over, Decide_Token os (q over token) (?out, ?now)]
      (s, I, add_mset (?out, ?now) C, M)"
    using read_keys [of E B s I C M token over] decide_token [of ?now os s ?out E token ?keys ?policy B I C M]
    by (auto simp: steps_Cons_iff q_def)
  from steps_append [OF this record_steps] show ?thesis
    by (simp add: d_def service_verify_jwt_def service_jwks_def service_now_def Let_def)
qed

lemma credential_request_steps:
  assumes "verify_credential_json E json (effective_policy s over) (service_now os s) = Ok out"
  shows "steps (service_step E B) (s, I, C, M)
      [Decide_Credential os json over (out, service_now os s), Count (out, service_now os s), Emit (out, service_now os s)]
      (service_record B out (service_now os s) s, I, C, M)"
proof -
  have "steps (service_step E B) (s, I, C, M) [Decide_Credential os json over (out, service_now os s)]
      (s, I, add_mset (out, service_now os s) C, M)"
    using decide_credential [OF refl assms] by (simp add: steps_single)
  from steps_append [OF this record_steps] show ?thesis by simp
qed

lemma serve_steps:
  assumes "serve E B (os, r) s = (ds, s')"
  shows "\<exists>es. steps (service_step E B) (s, I, C, M) es (s', I, C, M)
    \<and> decisions es = ds \<and> counted es = ds \<and> emitted es = ds"
proof (cases r)
  case (Token_Request over token)
  then have "s' = snd (service_verify_jwt E B os token over s)"
    "ds = [(verify_jwt E token (service_jwks s) (effective_policy s over) (service_now os s), service_now os s)]"
    using assms by (auto simp: service_verify_jwt_def service_jwks_def service_now_def Let_def)
  with token_request_steps [of E B s I C M token over os] show ?thesis by (intro exI conjI) auto
next
  case (Credential_Request over json)
  let ?now = "service_now os s" and ?policy = "effective_policy s over"
  show ?thesis
  proof (cases "verify_credential_json E json ?policy ?now")
    case (Inl e)
    then have "ds = []" "s' = s"
      using assms by (auto simp: Credential_Request service_verify_credential_json_def service_now_def Let_def)
    then show ?thesis by (intro exI [of _ "[]"]) simp
  next
    case (Inr out)
    then have "ds = [(out, ?now)]" "s' = service_record B out ?now s"
      using assms by (auto simp: Credential_Request service_verify_credential_json_def service_now_def Let_def)
    with credential_request_steps [OF Inr] show ?thesis by (intro exI conjI) auto
  qed
qed

text \<open>
  Serving one request at a time is one of these executions: a request taken from start to end
  leaves whatever else is in flight as it is, and its decision is counted and sent.
\<close>

theorem serve_is_execution:
  "\<exists>es. steps (service_step E B) (s, I, C, M) es (snd (serve E B (os, r) s), I, C, M)
    \<and> decisions es = fst (serve E B (os, r) s) \<and> counted es = decisions es \<and> emitted es = decisions es"
  using serve_steps [of E B os r s "fst (serve E B (os, r) s)" "snd (serve E B (os, r) s)" I C M] by auto

section \<open>A torn snapshot, and witnesses\<close>

abbreviation sample_start :: "verification_event list server_state" where
  "sample_start \<equiv> (sample_service sample_policy, {#}, {#}, {#})"

abbreviation sample_step where
  "sample_step \<equiv> service_step sample_env list_channel"

lemma sample_serves:
  "\<exists>es s' out. steps sample_step sample_start es (s', {#}, {#}, {#}) \<and> decisions es = [(out, 1500)]
     \<and> counted es = [(out, 1500)] \<and> emitted es = [(out, 1500)] \<and> out_kind out = Jwt_Kind \<and> out_valid out
     \<and> sv_policy s' = sample_policy \<and> now_unix (Err ()) (sv_clock s') = 1500
     \<and> sv_counters s' = count_outcome out counters_default"
proof -
  let ?s = "sample_service sample_policy"
  let ?out = "verify_jwt sample_env sample_minted (sample_jwks sample_env 5) sample_policy 1500"
  let ?s' = "service_record list_channel ?out 1500 ?s"
  have "serve sample_env list_channel (Err (), Token_Request None sample_minted) ?s = ([(?out, 1500)], ?s')"
    by (simp add: service_verify_jwt_def service_now_def Let_def)
  from serve_steps [OF this, of "{#}" "{#}" "{#}"] obtain es where
    "steps sample_step sample_start es (?s', {#}, {#}, {#})"
    "decisions es = [(?out, 1500)]" "counted es = [(?out, 1500)]" "emitted es = [(?out, 1500)]" by blast
  moreover have "out_kind ?out = Jwt_Kind" by (rule jwt_decision.kind_fixed)
  moreover have "sv_policy ?s' = sample_policy" "now_unix (Err ()) (sv_clock ?s') = 1500"
    "sv_counters ?s' = count_outcome ?out counters_default" by (simp_all add: service_record_def)
  ultimately show ?thesis using sample_decision by blast
qed

lemma sample_rejects:
  assumes "now_unix (Err ()) (sv_clock s) = 1500"
  shows "\<exists>es s' out. steps sample_step (s, I, C, M) es (s', I, C, M) \<and> counted es = [(out, 1500)]
     \<and> out_kind out = Jwt_Kind \<and> \<not> out_valid out \<and> sv_counters s' = count_outcome out (sv_counters s)"
proof -
  let ?out = "verify_jwt sample_env ''nonsense'' (provider_current (sv_jwks s)) (sv_policy s) 1500"
  let ?s' = "service_record list_channel ?out 1500 s"
  have "?out = rejected Jwt_Kind (verify_error_display (MalformedJwt ''expected exactly three dot-separated segments''))"
    by (simp add: verify_jwt_def signed_jwt_parse_def)
  then have out: "out_kind ?out = Jwt_Kind" "\<not> out_valid ?out" by (simp_all add: rejected_def)
  have "serve sample_env list_channel (Err (), Token_Request None ''nonsense'') s = ([(?out, 1500)], ?s')"
    using assms by (simp add: service_verify_jwt_def service_now_def Let_def)
  from serve_steps [OF this, of I C M] obtain es where
    "steps sample_step (s, I, C, M) es (?s', I, C, M)" "counted es = [(?out, 1500)]" by blast
  moreover have "sv_counters ?s' = count_outcome ?out (sv_counters s)" by (simp add: service_record_def)
  ultimately show ?thesis using out by blast
qed

text \<open>
  \<open>stats\<close> is not a snapshot of one moment. A reader can see no accepted token and one rejected
  token although the accepted token was counted before the rejected one, a pair of values that
  the counters never had together.
\<close>

theorem stats_can_be_torn:
  "\<exists>a r t es \<sigma>'. steps sample_step sample_start (Load Jwt_Kind True 0 # es @ [Load Jwt_Kind False 1]) \<sigma>'
     \<and> counted es = [(a, t), (r, t)] \<and> out_kind a = Jwt_Kind \<and> out_valid a \<and> out_kind r = Jwt_Kind \<and> \<not> out_valid r"
proof -
  obtain es1 s1 a where one: "steps sample_step sample_start es1 (s1, {#}, {#}, {#})" "counted es1 = [(a, 1500)]"
    "out_kind a = Jwt_Kind" "out_valid a" "now_unix (Err ()) (sv_clock s1) = 1500"
    "sv_counters s1 = count_outcome a counters_default"
    using sample_serves by blast
  obtain es2 s2 r where two: "steps sample_step (s1, {#}, {#}, {#}) es2 (s2, {#}, {#}, {#})"
    "counted es2 = [(r, 1500)]" "out_kind r = Jwt_Kind" "\<not> out_valid r"
    "sv_counters s2 = count_outcome r (sv_counters s1)"
    using sample_rejects [OF one(5)] by blast
  have "sample_step sample_start (Load Jwt_Kind True 0) sample_start"
    by (rule load) (simp add: counters_default_def)
  moreover have "sample_step (s2, {#}, {#}, {#}) (Load Jwt_Kind False 1) (s2, {#}, {#}, {#})"
    by (rule load) (simp only: two(5) one(6) counter_of_count_outcome, use one two in \<open>simp add: counters_default_def\<close>)
  ultimately have "steps sample_step sample_start (Load Jwt_Kind True 0 # (es1 @ es2) @ [Load Jwt_Kind False 1])
      (s2, {#}, {#}, {#})"
    using steps_snoc [OF steps_append [OF one(1) two(1)]] by (blast intro: steps_Cons)
  moreover have "counted (es1 @ es2) = [(a, 1500), (r, 1500)]"
    by (simp add: counted_append one(2) two(2))
  ultimately show ?thesis using one(3,4) two(3,4) by blast
qed

theorem concurrent_accounting_witness:
  "\<exists>es s' ds. ds \<noteq> [] \<and> steps sample_step sample_start es (s', {#}, {#}, {#}) \<and> mset (decisions es) = mset ds
     \<and> mset (emitted es) = mset ds \<and> (\<exists>a. sv_audit s' = Broadcast_Sink [a])"
proof -
  obtain es s' out where run: "steps sample_step sample_start es (s', {#}, {#}, {#})"
    "decisions es = [(out, 1500)]" "emitted es = [(out, 1500)]"
    using sample_serves by blast
  then show ?thesis
    using concurrent_accounting [OF run(1)]
    by (intro exI [of _ es] exI [of _ s'] exI [of _ "[(out, 1500)]"]) auto
qed

theorem quiescent_stats_witness:
  "\<exists>es s'. steps sample_step sample_start es (s', {#}, {#}, {#}) \<and> st_jwt_accepted (service_stats s') = 1"
proof -
  obtain es s' out where run: "steps sample_step sample_start es (s', {#}, {#}, {#})"
    "decisions es = [(out, 1500)]" "out_kind out = Jwt_Kind" "out_valid out"
    using sample_serves by blast
  then show ?thesis
    using quiescent_stats [OF run(1) [unfolded sample_service_def]]
    by (intro exI [of _ es] exI [of _ s']) (auto simp: decided_def)
qed

theorem stats_loads_are_current_witness:
  "\<exists>es s'. steps sample_step sample_start (es @ [Load Jwt_Kind True 1]) (s', {#}, {#}, {#})
     \<and> 1 \<le> counter_of Jwt_Kind True (sv_counters s')"
proof -
  obtain es s' out where run: "steps sample_step sample_start es (s', {#}, {#}, {#})"
    "counted es = [(out, 1500)]" "out_kind out = Jwt_Kind" "out_valid out"
    "sv_counters s' = count_outcome out counters_default"
    using sample_serves by blast
  have "sample_step (s', {#}, {#}, {#}) (Load Jwt_Kind True 1) (s', {#}, {#}, {#})"
    by (rule load) (simp only: run(5) counter_of_count_outcome, use run in \<open>simp add: counters_default_def\<close>)
  with run(1) have "steps sample_step sample_start (es @ [Load Jwt_Kind True 1]) (s', {#}, {#}, {#})"
    by (rule steps_snoc)
  then show ?thesis
    using stats_loads_are_current [of sample_env list_channel "sample_service sample_policy" "{#}" "{#}" "{#}"
        es Jwt_Kind True 1 "[]" s' "{#}" "{#}" "{#}"] run(2)
    by (intro exI [of _ es] exI [of _ s']) (auto simp: counters_default_def)
qed

theorem concurrent_decisions_witness:
  "\<exists>os over. Read_Keys sample_minted over \<in> set [Read_Keys sample_minted None, Rekey (static_new (jwks_from_keys [])),
        Decide_Token os (sample_minted, sample_policy, sample_jwks sample_env 5)
          (verify_jwt sample_env sample_minted (sample_jwks sample_env 5) sample_policy 1500, 1500)]
     \<and> out_valid (verify_jwt sample_env sample_minted (sample_jwks sample_env 5)
          (effective_policy (sample_service sample_policy) over) 1500)"
proof -
  let ?q = "(sample_minted, sample_policy, sample_jwks sample_env 5)"
  let ?out = "verify_jwt sample_env sample_minted (sample_jwks sample_env 5) sample_policy 1500"
  let ?s1 = "(sample_service sample_policy)\<lparr>sv_jwks := static_new (jwks_from_keys [])\<rparr>"
  let ?es = "[Read_Keys sample_minted None, Rekey (static_new (jwks_from_keys [])), Decide_Token (Err ()) ?q (?out, 1500)]"
  have "sample_step sample_start (Read_Keys sample_minted None) (sample_service sample_policy, {#?q#}, {#}, {#})"
    using read_keys [of sample_env list_channel "sample_service sample_policy" "{#}" "{#}" "{#}" sample_minted None]
    by (simp add: service_jwks_def)
  moreover have "sample_step (?s1, {#?q#}, {#}, {#}) (Decide_Token (Err ()) ?q (?out, 1500)) (?s1, {#}, {#(?out, 1500)#}, {#})"
    by (rule decide_token) (simp_all add: service_now_def)
  ultimately have run: "steps sample_step sample_start ?es (?s1, {#}, {#(?out, 1500)#}, {#})"
    by (blast intro: steps.intros rekey)
  have "Decide_Token (Err ()) ?q (?out, 1500) \<in> set ?es" by simp
  from concurrent_decisions [OF run this] obtain over where
    "Read_Keys sample_minted over \<in> set ?es"
    "?out = verify_jwt sample_env sample_minted (sample_jwks sample_env 5)
        (effective_policy (sample_service sample_policy) over) 1500"
    by (auto simp: service_now_def)
  with sample_decision show ?thesis by (intro exI [of _ "Err ()"] exI [of _ over] conjI) simp_all
qed

end
