(* ===== verification/Concurrent_Refresh.thy ===== *)
theory Concurrent_Refresh
  imports Jwks_Provider
begin

text \<open>
  Interleaved refreshes of \<open>edgeauth-infra/src/jwks.rs\<close>. The service shares one provider
  between the background refresher and every request handler, and \<open>refresh\<close> awaits between
  its critical sections, so any number of refreshes overlap. A state is the monotonic time, the
  provider, the number of refreshes that are fetching and the number that have written the
  cache but not yet reported. The steps are the critical sections; a fetch may end with any
  key set or any error at any time.
\<close>

section \<open>Steps\<close>

datatype refresh_event =
    Pass duration
  | Begin
  | Refused
  | Written jwks
  | ReportedOk
  | ReportedErr

type_synonym refresher_state = "instant \<times> cached_provider \<times> nat \<times> nat"

inductive refresh_step :: "refresher_state \<Rightarrow> refresh_event \<Rightarrow> refresher_state \<Rightarrow> bool" where
  pass: "refresh_step (now, p, f, g) (Pass d) (now + d, p, f, g)"
| begin_fetch: "breaker_acquire (cp_breaker_config p) now (cp_breaker p) = (Ok (), b) \<Longrightarrow>
    refresh_step (now, p, f, g) Begin (now, p\<lparr>cp_breaker := b\<rparr>, Suc f, g)"
| refuse: "breaker_acquire (cp_breaker_config p) now (cp_breaker p) = (Err e, b) \<Longrightarrow>
    refresh_step (now, p, f, g) Refused (now, p\<lparr>cp_breaker := b\<rparr>, f, g)"
| written: "refresh_step (now, p, Suc f, g) (Written ks) (now, write_cache ks p, f, Suc g)"
| reported_ok: "refresh_step (now, p, f, Suc g) ReportedOk (now, report_success p, f, g)"
| reported_err: "refresh_step (now, p, Suc f, g) ReportedErr (now, report_failure now p, f, g)"

inductive_cases refresh_stepE: "refresh_step s e s'"

section \<open>Refinement of the breaker\<close>

text \<open>Every step is a step of the breaker, or none; configuration and time agree.\<close>

fun breaker_events :: "refresh_event \<Rightarrow> breaker_event list" where
  "breaker_events (Pass d) = [Elapse d]"
| "breaker_events Begin = [Acquire True]"
| "breaker_events Refused = [Acquire False]"
| "breaker_events (Written ks) = []"
| "breaker_events ReportedOk = [Success]"
| "breaker_events ReportedErr = [Failure]"

definition breaker_view :: "refresher_state \<Rightarrow> instant \<times> breaker" where
  "breaker_view s = (case s of (now, p, f, g) \<Rightarrow> (now, cp_breaker p))"

definition view_config :: "refresher_state \<Rightarrow> breaker_config" where
  "view_config s = (case s of (now, p, f, g) \<Rightarrow> cp_breaker_config p)"

lemma refresh_step_refines:
  assumes "refresh_step s e s'"
  shows "view_config s' = view_config s
    \<and> steps (breaker_step (view_config s)) (breaker_view s) (breaker_events e) (breaker_view s')"
  using assms
proof (cases rule: refresh_step.cases)
  case (pass now p f g d)
  then show ?thesis by (auto simp: view_config_def breaker_view_def steps_single intro: elapse)
next
  case (begin_fetch p now b f g)
  then show ?thesis
    using acquire [OF begin_fetch(4)] by (simp add: view_config_def breaker_view_def steps_single)
next
  case (refuse p now e' b f g)
  then show ?thesis
    using acquire [OF refuse(4)] by (simp add: view_config_def breaker_view_def steps_single)
next
  case (written now p f g ks)
  then show ?thesis by (simp add: view_config_def breaker_view_def write_cache_def)
next
  case (reported_ok now p f g)
  then show ?thesis
    by (auto simp: view_config_def breaker_view_def report_success_def steps_single intro: success)
next
  case (reported_err now p f g)
  then show ?thesis
    by (auto simp: view_config_def breaker_view_def report_failure_def steps_single intro: failure)
qed

lemma refresh_steps_refine:
  "steps refresh_step s es s' \<Longrightarrow> view_config s' = view_config s
    \<and> steps (breaker_step (view_config s)) (breaker_view s) (concat (map breaker_events es)) (breaker_view s')"
proof (induction rule: steps.induct)
  case (steps_Cons s e s' es s'')
  then show ?case
    using refresh_step_refines [OF steps_Cons.hyps(1)] by (auto intro: steps_append)
qed simp

section \<open>The cache and the reports\<close>

fun cached_after :: "jwks \<Rightarrow> refresh_event list \<Rightarrow> jwks" where
  \<comment> \<open>the key set written last, or the first argument when none was\<close>
  "cached_after ks [] = ks"
| "cached_after ks (Written ks' # es) = cached_after ks' es"
| "cached_after ks (_ # es) = cached_after ks es"

lemma refresh_step_cache:
  "refresh_step s e s' \<Longrightarrow> cp_cache (fst (snd s')) = cached_after (cp_cache (fst (snd s))) [e]"
  by (auto elim!: refresh_stepE simp: write_cache_def report_success_def report_failure_def)

lemma cached_after_Cons: "cached_after ks (e # es) = cached_after (cached_after ks [e]) es"
  by (cases e) simp_all

lemma refresh_steps_cache:
  "steps refresh_step s es s' \<Longrightarrow> cp_cache (fst (snd s')) = cached_after (cp_cache (fst (snd s))) es"
proof (induction rule: steps.induct)
  case (steps_Cons s e s' es s'')
  then show ?case
    using refresh_step_cache [OF steps_Cons.hyps(1)] by (subst cached_after_Cons) simp
qed simp

definition reports :: "refresh_event list \<Rightarrow> nat" where
  "reports es = length (filter (\<lambda>e. e = ReportedOk \<or> e = ReportedErr) es)"

definition admissions :: "refresh_event list \<Rightarrow> nat" where
  "admissions es = length (filter (\<lambda>e. e = Begin) es)"

definition in_flight :: "refresher_state \<Rightarrow> nat" where
  "in_flight s = (case s of (now, p, f, g) \<Rightarrow> f + g)"

lemma refresh_steps_balance:
  "steps refresh_step s es s' \<Longrightarrow> in_flight s + admissions es = in_flight s' + reports es"
proof (induction rule: steps.induct)
  case (steps_Cons s e s' es s'')
  have "in_flight s + admissions [e] = in_flight s' + reports [e]"
    using steps_Cons.hyps(1)
    by (auto elim!: refresh_stepE simp: in_flight_def admissions_def reports_def)
  then show ?case using steps_Cons.IH by (auto simp: admissions_def reports_def)
qed (simp add: admissions_def reports_def)

text \<open>
  C13: overlapping refreshes. In every interleaving that starts idle with a new breaker, the
  served keys are those written last, or the seed when none was; every report to the breaker
  belongs to one admitted refresh, and those not yet reported are in flight; and the breaker
  keeps its invariant.
\<close>

theorem concurrent_refreshes:
  assumes "steps refresh_step (start, p, 0, 0) es (now, p', f, g)" and "cp_breaker p = breaker_new"
  shows "cp_cache p' = cached_after (cp_cache p) es
       \<and> admissions es = reports es + f + g
       \<and> breaker_inv (cp_breaker_config p) now (cp_breaker p')"
proof -
  have "steps (breaker_step (cp_breaker_config p)) (start, breaker_new)
      (concat (map breaker_events es)) (now, cp_breaker p')"
    using refresh_steps_refine [OF assms(1)] assms(2) by (simp add: view_config_def breaker_view_def)
  then have "breaker_inv (cp_breaker_config p) now (cp_breaker p')"
    using breaker_machine.inv_reachable by fastforce
  then show ?thesis
    using refresh_steps_cache [OF assms(1)] refresh_steps_balance [OF assms(1)]
    by (simp add: in_flight_def)
qed

text \<open>
  C22: nobody fetches while the circuit cools down. From the moment the breaker opens until its
  cooldown has elapsed, no interleaving admits a refresh, unless one admitted earlier reports
  success in between.
\<close>

theorem open_circuit_admits_no_refresh:
  assumes "steps refresh_step (t, p, f, g) es (now, p', f', g')"
    and "raw_state (cp_breaker p) = RawOpen t"
    and "now < t + cfg_open_duration (cp_breaker_config p)" and "ReportedOk \<notin> set es"
  shows "Begin \<notin> set es \<and> cp_breaker p' = cp_breaker p"
proof -
  let ?bs = "concat (map breaker_events es)"
  have "Success \<notin> set (breaker_events e)" if "e \<in> set es" for e
    using assms(4) that by (cases e) auto
  then have "list_all (\<lambda>e. e \<noteq> Success) ?bs"
    by (auto simp: list_all_iff)
  moreover have "steps (breaker_step (cp_breaker_config p)) (t, cp_breaker p) ?bs (now, cp_breaker p')"
    using refresh_steps_refine [OF assms(1)] by (simp add: view_config_def breaker_view_def)
  ultimately have "cp_breaker p' = cp_breaker p" "Acquire True \<notin> set ?bs"
    using open_window_steps [of "cp_breaker_config p" "(t, cp_breaker p)" ?bs "(now, cp_breaker p')" t] assms(2,3)
    by simp_all
  then show ?thesis by force
qed

text \<open>
  A call of \<open>refresh\<close> as an execution: its first event asks the breaker, and the key set it writes
  is what one of its attempts returned.
\<close>

fun asks_breaker :: "refresh_event \<Rightarrow> bool" where
  "asks_breaker Begin = True"
| "asks_breaker Refused = True"
| "asks_breaker _ = False"

fun fetched ::
  "('vk, 'sk, 'y) jwt_env_scheme \<Rightarrow> ('w, 'r, 'z) net_env_scheme \<Rightarrow> cached_provider \<Rightarrow> refresh_event \<Rightarrow> bool" where
  "fetched E N p (Written ks) \<longleftrightarrow> (\<exists>w. fst (fetch_attempt E N p w) = Ok ks)"
| "fetched E N p _ \<longleftrightarrow> True"

lemma refresh_fetch_attempt:
  "refresh_fetch E N p w = (Some r, w') \<Longrightarrow> \<exists>v. fst (fetch_attempt E N p v) = r"
  using retry_from_op [of "cp_retry_policy p" "fetch_attempt E N p" "ext_sleep N" w]
  by (auto simp: refresh_fetch_def)

lemma refresh_execution:
  assumes "cached_refresh E N p w = (r, p', w')" and "ext_mono_now N w \<le> ext_mono_now N w'"
  obtains e es where "steps refresh_step (ext_mono_now N w, p, f, g) (e # es) (ext_mono_now N w', p', f, g)"
    "asks_breaker e" "list_all (\<lambda>e. \<not> asks_breaker e) es" "list_all (fetched E N p) (e # es)"
proof (cases rule: cached_refresh_cases [of p N w E])
  case (refused t)
  have "breaker_acquire (cp_breaker_config p) (ext_mono_now N w) (cp_breaker p) = (Err CircuitOpen, cp_breaker p)"
    using refused(1,2) by (rule acquire_open_window)
  from refuse [OF this, of f g] have "refresh_step (ext_mono_now N w, p, f, g) Refused (ext_mono_now N w, p, f, g)"
    by simp
  then show ?thesis
    using refused assms(1) by (intro that [of Refused "[]"]) (simp_all add: steps_single)
next
  case (fetched b ks v)
  let ?q = "p\<lparr>cp_breaker := b\<rparr>" and ?t = "ext_mono_now N w" and ?t' = "ext_mono_now N w'"
  have "refresh_step (?t, p, f, g) Begin (?t, ?q, Suc f, g)"
    using fetched(1) by (rule begin_fetch)
  moreover have "refresh_step (?t, ?q, Suc f, g) (Pass (?t' - ?t)) (?t', ?q, Suc f, g)"
    using pass [of ?t ?q "Suc f" g "?t' - ?t"] assms(2) by simp
  moreover have "p' = report_success (write_cache ks ?q)"
    using fetched(3) assms(1) by simp
  ultimately have "steps refresh_step (?t, p, f, g) [Begin, Pass (?t' - ?t), Written ks, ReportedOk] (?t', p', f, g)"
    by (auto simp: steps_Cons_iff intro!: exI written reported_ok)
  then show ?thesis
    using refresh_fetch_attempt [OF fetched(2)]
    by (intro that [of Begin "[Pass (?t' - ?t), Written ks, ReportedOk]"]) auto
next
  case (failed b e v)
  let ?q = "p\<lparr>cp_breaker := b\<rparr>" and ?t = "ext_mono_now N w" and ?t' = "ext_mono_now N w'"
  have "refresh_step (?t, p, f, g) Begin (?t, ?q, Suc f, g)"
    using failed(1) by (rule begin_fetch)
  moreover have "refresh_step (?t, ?q, Suc f, g) (Pass (?t' - ?t)) (?t', ?q, Suc f, g)"
    using pass [of ?t ?q "Suc f" g "?t' - ?t"] assms(2) by simp
  moreover have "p' = report_failure ?t' ?q"
    using failed(3) assms(1) by simp
  ultimately have "steps refresh_step (?t, p, f, g) [Begin, Pass (?t' - ?t), ReportedErr] (?t', p', f, g)"
    by (auto simp: steps_Cons_iff intro!: exI reported_err)
  then show ?thesis by (intro that [of Begin "[Pass (?t' - ?t), ReportedErr]"]) simp_all
qed

text \<open>
  The sequential \<open>refresh\<close> is one of these executions: with a timer that does not run
  backwards, a call takes the state from its start to its end by the steps above, leaving the
  other refreshes in flight as they are.
\<close>

theorem refresh_is_execution:
  assumes "cached_refresh E N p w = (r, p', w')" and "ext_mono_now N w \<le> ext_mono_now N w'"
  shows "\<exists>es. steps refresh_step (ext_mono_now N w, p, f, g) es (ext_mono_now N w', p', f, g)"
  using refresh_execution [OF assms, of f g] by blast

section \<open>Witnesses\<close>

theorem concurrent_refreshes_witness:
  "cp_cache (report_success (write_cache (jwks_from_keys []) (sample_cached breaker_new))) = jwks_from_keys []"
proof -
  let ?p = "sample_cached breaker_new"
  have "breaker_acquire (cp_breaker_config ?p) 0 (cp_breaker ?p) = (Ok (), breaker_new)"
    by (simp add: sample_cached_def breaker_acquire_def breaker_new_def)
  from begin_fetch [OF this] have b: "refresh_step (0, ?p, f, 0) Begin (0, ?p, Suc f, 0)" for f
    by (simp add: sample_cached_def)
  have "steps refresh_step (0, ?p, 0, 0) [Begin, Begin, Written (jwks_from_keys []), ReportedOk]
      (0, report_success (write_cache (jwks_from_keys []) ?p), 1, 0)"
    using b [of 0] b [of 1] by (auto simp: steps_Cons_iff intro!: exI written reported_ok)
  then show ?thesis
    using concurrent_refreshes [of 0 ?p] by (fastforce simp: sample_cached_def)
qed

theorem open_circuit_admits_no_refresh_witness:
  "Begin \<notin> set [Pass 3, Refused]"
proof -
  let ?b = "\<lparr> failures = 5, raw_state = RawOpen 0 \<rparr> :: breaker"
  let ?p = "sample_cached ?b"
  have "breaker_acquire (cp_breaker_config ?p) 3 (cp_breaker ?p) = (Err CircuitOpen, ?b)"
    using acquire_open_window [of ?b 0 3 default_breaker_config]
    by (simp add: sample_cached_def default_breaker_config_def from_secs_def)
  from refuse [OF this] have "refresh_step (3, ?p, 0, 0) Refused (3, ?p, 0, 0)"
    by (simp add: sample_cached_def)
  moreover have "refresh_step (0, ?p, 0, 0) (Pass 3) (3, ?p, 0, 0)"
    using pass [of 0 ?p 0 0 3] by simp
  ultimately have run: "steps refresh_step (0, ?p, 0, 0) [Pass 3, Refused] (3, ?p, 0, 0)"
    by (auto simp: steps_Cons_iff)
  then show ?thesis
    using open_circuit_admits_no_refresh [OF run]
    by (simp add: sample_cached_def default_breaker_config_def from_secs_def)
qed

theorem refresh_is_execution_witness:
  "\<exists>es p'. steps refresh_step (0, sample_cached breaker_new, 2, 0) es (0, p', 2, 0)"
proof -
  obtain r p' w' where "cached_refresh (sample_jwt_env [] [] [] ()) dead_net (sample_cached breaker_new) 0 = (r, p', w')"
    by (cases "cached_refresh (sample_jwt_env [] [] [] ()) dead_net (sample_cached breaker_new) 0")
  from refresh_is_execution [OF this, of 2 0]
  have "\<exists>es. steps refresh_step (0, sample_cached breaker_new, 2, 0) es (0, p', 2, 0)"
    by (simp add: dead_net_def)
  then show ?thesis by blast
qed

end
