(* ===== verification/Rate_Limit.thy ===== *)
theory Rate_Limit
  imports Mono_Clock
begin

text \<open>
  \<open>edgeauth-resilience/src/rate_limit.rs\<close>: the rate limiter over \<open>governor\<close>. The crate is a
  parameter: a record of its constructor for a quota per second and of its check, which takes
  the time and answers with the bucket's next state.
\<close>

datatype rate_limited = RateLimited

record ('g, 'n) governor =
  ext_direct_per_second :: "u32 \<Rightarrow> 'g"
  ext_check :: "'g \<Rightarrow> instant \<Rightarrow> (unit, 'n) result \<times> 'g"

definition rate_limiter_per_second :: "('g, 'n, 'z) governor_scheme \<Rightarrow> u32 \<Rightarrow> 'g option" where
  \<comment> \<open>\<open>None\<close> is the panic of \<open>expect\<close> on a zero rate\<close>
  "rate_limiter_per_second G per_second =
     (if per_second = 0 then None else Some (ext_direct_per_second G per_second))"

definition rate_limiter_try_acquire ::
  "('g, 'n, 'z) governor_scheme \<Rightarrow> instant \<Rightarrow> 'g \<Rightarrow> (unit, rate_limited) result \<times> 'g" where
  "rate_limiter_try_acquire G now g =
     (case ext_check G g now of (r, g') \<Rightarrow> (map_err (\<lambda>_. RateLimited) r, g'))"

text \<open>
  The documented burst behaviour, for one rate: of any number of checks at one instant on a new
  bucket, exactly the first \<open>rate\<close> are admitted.
\<close>

primrec checks_at :: "('g, 'n, 'z) governor_scheme \<Rightarrow> instant \<Rightarrow> nat \<Rightarrow> 'g \<Rightarrow> bool list" where
  "checks_at G now 0 g = []"
| "checks_at G now (Suc n) g =
     (case ext_check G g now of (r, g') \<Rightarrow> is_ok r # checks_at G now n g')"

definition burst_equals_rate :: "('g, 'n, 'z) governor_scheme \<Rightarrow> u32 \<Rightarrow> bool" where
  "burst_equals_rate G rate \<longleftrightarrow>
     (\<forall>now n. checks_at G now n (ext_direct_per_second G rate)
        = map (\<lambda>i. i < unat rate) [0..<n])"

primrec acquire_results ::
  "('g, 'n, 'z) governor_scheme \<Rightarrow> instant \<Rightarrow> nat \<Rightarrow> 'g \<Rightarrow> (unit, rate_limited) result list" where
  "acquire_results G now 0 g = []"
| "acquire_results G now (Suc n) g =
     (case rate_limiter_try_acquire G now g of (r, g') \<Rightarrow> r # acquire_results G now n g')"

lemma acquire_results_checks:
  "acquire_results G now n g
     = map (\<lambda>ok. if ok then Ok () else Err RateLimited) (checks_at G now n g)"
proof (induction n arbitrary: g)
  case (Suc n)
  obtain r g' where "ext_check G g now = (r, g')" by (cases "ext_check G g now")
  with Suc show ?case by (cases r) (simp_all add: rate_limiter_try_acquire_def)
qed simp

text \<open>A limiter of a positive rate admits exactly its rate out of a burst; rate 0 panics.\<close>

lemma limiter_burst:
  assumes "burst_equals_rate G rate" "rate \<noteq> 0"
  shows "\<exists>g. rate_limiter_per_second G rate = Some g
     \<and> acquire_results G now n g
         = map (\<lambda>i. if i < unat rate then Ok () else Err RateLimited) [0..<n]"
  using assms
  by (simp add: rate_limiter_per_second_def acquire_results_checks burst_equals_rate_def comp_def)

lemma limiter_zero_panics: "rate_limiter_per_second G rate = None \<longleftrightarrow> rate = 0"
  by (simp add: rate_limiter_per_second_def)

text \<open>A counting bucket that keeps the burst law.\<close>

definition counting_governor :: "(nat, unit) governor" where
  "counting_governor = \<lparr> ext_direct_per_second = unat,
     ext_check = (\<lambda>g now. if 0 < g then (Ok (), g - 1) else (Err (), g)) \<rparr>"

lemma counting_checks: "checks_at counting_governor now n g = map (\<lambda>i. i < g) [0..<n]"
proof (induction n arbitrary: g)
  case (Suc n)
  have shift: "map (\<lambda>i. i < g) [0..<Suc n] = (0 < g) # map (\<lambda>i. Suc i < g) [0..<n]"
    by (simp only: map_upt_Suc)
  show ?case
  proof (cases g)
    case 0
    then show ?thesis using Suc shift by (simp add: counting_governor_def)
  next
    case (Suc g')
    with Suc.IH [of g'] shift show ?thesis by (simp add: counting_governor_def del: upt_Suc)
  qed
qed simp

lemma counting_burst: "burst_equals_rate counting_governor rate"
  by (simp add: burst_equals_rate_def counting_checks) (simp add: counting_governor_def)

end
