(* ===== verification/Graphql_Api.thy ===== *)
theory Graphql_Api
  imports Service Rate_Limit
begin

text \<open>
  \<open>edgeauth-api/src/schema.rs\<close> and \<open>state.rs\<close>: the GraphQL types, their projections from the
  domain, and the resolvers as functions on the shared state. The schema injects the state into
  every context, so resolvers take it as an argument. The state's audit sink is a clone of the
  sender the verifier writes to, one shared channel, which is represented once, in the verifier.
\<close>

section \<open>Projections\<close>

datatype gql_token_kind = Gql_Jwt | Gql_VerifiableCredential

fun gql_kind :: "token_kind \<Rightarrow> gql_token_kind" where
  "gql_kind Jwt_Kind = Gql_Jwt"
| "gql_kind Vc_Kind = Gql_VerifiableCredential"

record gql_checks =
  gc_signature :: bool
  gc_not_expired :: bool
  gc_not_before :: bool
  gc_issuer_trusted :: bool
  gc_audience :: bool
  gc_scopes :: bool
  gc_not_revoked :: bool

definition gql_checks_of :: "verification_checks \<Rightarrow> gql_checks" where
  "gql_checks_of c =
     \<lparr> gc_signature = chk_signature c, gc_not_expired = chk_not_expired c,
       gc_not_before = chk_not_before c, gc_issuer_trusted = chk_issuer_trusted c,
       gc_audience = chk_audience c, gc_scopes = chk_scopes c, gc_not_revoked = chk_not_revoked c \<rparr>"

record gql_outcome =
  go_valid :: bool
  go_kind :: gql_token_kind
  go_subject :: "string option"
  go_issuer :: "string option"
  go_scopes :: "string list"
  go_roles :: "string list"
  go_checks :: gql_checks
  go_reason :: "string option"

definition gql_outcome_of :: "verification_outcome \<Rightarrow> gql_outcome" where
  "gql_outcome_of out =
     \<lparr> go_valid = out_valid out, go_kind = gql_kind (out_kind out), go_subject = out_subject out,
       go_issuer = out_issuer out, go_scopes = out_scopes out, go_roles = out_roles out,
       go_checks = gql_checks_of (out_checks out), go_reason = out_reason out \<rparr>"

record gql_jwk =
  gk_kty :: string
  gk_crv :: string
  gk_kid :: "string option"

record gql_jwks =
  gk_keys :: "gql_jwk list"

definition gql_jwks_of :: "jwks \<Rightarrow> gql_jwks" where
  "gql_jwks_of ks = \<lparr> gk_keys = map (\<lambda>k.
     \<lparr> gk_kty = jwk_kty k, gk_crv = jwk_crv k, gk_kid = jwk_kid k \<rparr>) (jwks_keys ks) \<rparr>"

record gql_trust_policy =
  gp_trusted_issuers :: "string list"
  gp_expected_audience :: "string option"
  gp_required_scopes :: "string list"
  gp_leeway_secs :: i64

definition gql_policy_of :: "trust_policy \<Rightarrow> gql_trust_policy" where
  "gql_policy_of p =
     \<lparr> gp_trusted_issuers = iter_set (tp_trusted_issuers p),
       gp_expected_audience = tp_expected_audience p,
       gp_required_scopes = iter_set (tp_required_scopes p),
       gp_leeway_secs = tp_leeway_secs p \<rparr>"

record gql_stats =
  gs_jwt_accepted :: u64
  gs_jwt_rejected :: u64
  gs_vc_accepted :: u64
  gs_vc_rejected :: u64

record gql_event =
  ge_kind :: gql_token_kind
  ge_valid :: bool
  ge_subject :: "string option"
  ge_issuer :: "string option"
  ge_reason :: "string option"
  ge_at :: i64

definition gql_event_of :: "verification_event \<Rightarrow> gql_event" where
  "gql_event_of e =
     \<lparr> ge_kind = gql_kind (ev_kind e), ge_valid = ev_valid e, ge_subject = ev_subject e,
       ge_issuer = ev_issuer e, ge_reason = ev_reason e, ge_at = ev_at e \<rparr>"

section \<open>State, errors and helpers\<close>

record ('ch, 'g) service_state =
  ss_verifier :: "'ch edge_verifier"
  ss_rate_limiter :: 'g

definition service_state_new :: "'ch edge_verifier \<Rightarrow> 'g \<Rightarrow> ('ch, 'g) service_state" where
  "service_state_new verifier limiter = \<lparr> ss_verifier = verifier, ss_rate_limiter = limiter \<rparr>"

datatype gql_error = Gql_Error string

definition to_err :: "('e \<Rightarrow> string) \<Rightarrow> 'e \<Rightarrow> gql_error" where
  "to_err display e = Gql_Error (display e)"

definition rate_limit ::
  "('g, 'n, 'z) governor_scheme \<Rightarrow> instant \<Rightarrow> ('ch, 'g) service_state \<Rightarrow>
     (unit, gql_error) result \<times> ('ch, 'g) service_state" where
  "rate_limit G t s =
     (case rate_limiter_try_acquire G t (ss_rate_limiter s) of (r, g) \<Rightarrow>
        (map_err (\<lambda>_. Gql_Error ''rate limit exceeded'') r, s\<lparr>ss_rate_limiter := g\<rparr>))"

definition build_override :: "string option \<Rightarrow> string list option \<Rightarrow> policy_override option" where
  "build_override audience required_scopes =
     (let scopes = fset_of_list (case required_scopes of None \<Rightarrow> [] | Some xs \<Rightarrow> xs)
      in if audience = None \<and> scopes = {||} then None
         else Some \<lparr> ovr_audience = audience, ovr_required_scopes = scopes \<rparr>)"

section \<open>Queries\<close>

definition query_health :: bool where
  "query_health = True"

definition query_api_version :: string where
  \<comment> \<open>\<open>CARGO_PKG_VERSION\<close>, the version of the workspace manifest\<close>
  "query_api_version = ''0.1.0''"

definition query_trust_policy :: "('ch, 'g) service_state \<Rightarrow> gql_trust_policy" where
  "query_trust_policy s = gql_policy_of (service_policy (ss_verifier s))"

definition query_jwks :: "('ch, 'g) service_state \<Rightarrow> gql_jwks" where
  "query_jwks s = gql_jwks_of (service_jwks (ss_verifier s))"

definition query_stats :: "('ch, 'g) service_state \<Rightarrow> gql_stats" where
  "query_stats s =
     (let st = service_stats (ss_verifier s) in
      \<lparr> gs_jwt_accepted = st_jwt_accepted st, gs_jwt_rejected = st_jwt_rejected st,
        gs_vc_accepted = st_vc_accepted st, gs_vc_rejected = st_vc_rejected st \<rparr>)"

section \<open>Mutations\<close>

definition mutation_verify_jwt ::
  "('vk, 'sk, 'y) jwt_env_scheme \<Rightarrow> ('ch, 'x) broadcast_env_scheme \<Rightarrow> ('g, 'n, 'z) governor_scheme \<Rightarrow>
     (nat, unit) result \<Rightarrow> instant \<Rightarrow> string \<Rightarrow> string option \<Rightarrow> string list option \<Rightarrow>
     ('ch, 'g) service_state \<Rightarrow> (gql_outcome, gql_error) result \<times> ('ch, 'g) service_state" where
  "mutation_verify_jwt E B G os t token audience required_scopes s =
     (case rate_limit G t s of
        (Err e, s1) \<Rightarrow> (Err e, s1)
      | (Ok _, s1) \<Rightarrow>
          (case service_verify_jwt E B os token (build_override audience required_scopes) (ss_verifier s1) of
             (out, v) \<Rightarrow> (Ok (gql_outcome_of out), s1\<lparr>ss_verifier := v\<rparr>)))"

definition mutation_verify_credential ::
  "('vk, 'sk, 'y) vc_env_scheme \<Rightarrow> ('ch, 'x) broadcast_env_scheme \<Rightarrow> ('g, 'n, 'z) governor_scheme \<Rightarrow>
     (nat, unit) result \<Rightarrow> instant \<Rightarrow> string \<Rightarrow>
     ('ch, 'g) service_state \<Rightarrow> (gql_outcome, gql_error) result \<times> ('ch, 'g) service_state" where
  "mutation_verify_credential E B G os t credential s =
     (case rate_limit G t s of
        (Err e, s1) \<Rightarrow> (Err e, s1)
      | (Ok _, s1) \<Rightarrow>
          (case service_verify_credential_json E B os credential None (ss_verifier s1) of
             (Err e, v) \<Rightarrow> (Err (to_err verify_error_display e), s1\<lparr>ss_verifier := v\<rparr>)
           | (Ok out, v) \<Rightarrow> (Ok (gql_outcome_of out), s1\<lparr>ss_verifier := v\<rparr>)))"

definition mutation_refresh_jwks ::
  "('vk, 'sk, 'y) jwt_env_scheme \<Rightarrow> ('w, 'r, 'x) net_env_scheme \<Rightarrow> ('g, 'n, 'z) governor_scheme \<Rightarrow>
     instant \<Rightarrow> ('ch, 'g) service_state \<Rightarrow> 'w \<Rightarrow>
     (bool, gql_error) result option \<times> ('ch, 'g) service_state \<times> 'w" where
  "mutation_refresh_jwks E N G t s w =
     (case rate_limit G t s of
        (Err e, s1) \<Rightarrow> (Some (Err e), s1, w)
      | (Ok _, s1) \<Rightarrow>
          (case service_refresh E N (ss_verifier s1) w of
             (r, v, w') \<Rightarrow>
               (map_option (\<lambda>r. try_bind (map_err (to_err infra_error_display) r) (\<lambda>_. Ok True)) r,
                s1\<lparr>ss_verifier := v\<rparr>, w')))"

text \<open>
  The subscription: the resolver subscribes to the shared channel, and its stream is what the
  receiver yields, with the errors of a lagging receiver dropped, in the GraphQL projection.
\<close>

definition subscription_verifications ::
  "('ch, 'x) broadcast_env_scheme \<Rightarrow> ('ch, 'g) service_state \<Rightarrow> nat option \<times> ('ch, 'g) service_state" where
  "subscription_verifications B s =
     (case sink_subscribe B (sv_audit (ss_verifier s)) of
        (sink, rx) \<Rightarrow> (rx, s\<lparr>ss_verifier := (ss_verifier s)\<lparr>sv_audit := sink\<rparr>\<rparr>))"

definition verification_stream :: "(verification_event, 'e) result list \<Rightarrow> gql_event list" where
  "verification_stream received =
     concat (map (\<lambda>r. case r of Ok e \<Rightarrow> [gql_event_of e] | Err _ \<Rightarrow> []) received)"

section \<open>Properties\<close>

lemma rate_limit_simps:
  "rate_limiter_try_acquire G t (ss_rate_limiter s) = (Err x, g) \<Longrightarrow>
     rate_limit G t s = (Err (Gql_Error ''rate limit exceeded''), s\<lparr>ss_rate_limiter := g\<rparr>)"
  "rate_limiter_try_acquire G t (ss_rate_limiter s) = (Ok u, g) \<Longrightarrow>
     rate_limit G t s = (Ok (), s\<lparr>ss_rate_limiter := g\<rparr>)"
  by (simp_all add: rate_limit_def)

lemma build_override_None: "build_override None None = None"
  by (simp add: build_override_def)

lemma build_override_iff:
  "build_override audience scopes = None \<longleftrightarrow> audience = None \<and> (scopes = None \<or> scopes = Some [])"
proof -
  have "fset_of_list xs = {||} \<longleftrightarrow> xs = []" for xs :: "string list"
    by (cases xs) auto
  then show ?thesis
    by (auto simp: build_override_def Let_def split: option.splits)
qed

text \<open>
  A rate-limited mutation does nothing. When the limiter has no permit, every mutation
  answers with the rate-limit error, and the verifier (its keys, counters, audit channel) and
  the world are as before: no decision is made and no request is sent.
\<close>

theorem rate_limited_mutations_do_nothing:
  assumes "rate_limiter_try_acquire G t (ss_rate_limiter s) = (Err RateLimited, g)"
  shows "mutation_verify_jwt E B G os t token audience scopes s
       = (Err (Gql_Error ''rate limit exceeded''), s\<lparr>ss_rate_limiter := g\<rparr>)
     \<and> mutation_verify_credential E B G os t json s
       = (Err (Gql_Error ''rate limit exceeded''), s\<lparr>ss_rate_limiter := g\<rparr>)
     \<and> mutation_refresh_jwks E N G t s w
       = (Some (Err (Gql_Error ''rate limit exceeded'')), s\<lparr>ss_rate_limiter := g\<rparr>, w)"
  using rate_limit_simps(1) [OF assms]
  by (simp add: mutation_verify_jwt_def mutation_verify_credential_def mutation_refresh_jwks_def)

theorem rate_limited_mutations_do_nothing_witness:
  "mutation_refresh_jwks sample_env dead_net counting_governor 0
     (service_state_new (sample_service permissive) 0) 7
   = (Some (Err (Gql_Error ''rate limit exceeded'')), service_state_new (sample_service permissive) 0, 7)"
proof -
  have "rate_limiter_try_acquire counting_governor 0
      (ss_rate_limiter (service_state_new (sample_service permissive) 0)) = (Err RateLimited, 0)"
    by (simp add: rate_limiter_try_acquire_def counting_governor_def service_state_new_def)
  from rate_limited_mutations_do_nothing [OF this, of sample_env list_channel "Err ()" "[]" None None "[]" dead_net 7]
  show ?thesis by (simp add: service_state_new_def)
qed

text \<open>A burst of token mutations at one instant.\<close>

primrec jwt_burst ::
  "('vk, 'sk, 'y) jwt_env_scheme \<Rightarrow> ('ch, 'x) broadcast_env_scheme \<Rightarrow> ('g, 'n, 'z) governor_scheme \<Rightarrow>
     (nat, unit) result \<Rightarrow> instant \<Rightarrow> string list \<Rightarrow> ('ch, 'g) service_state \<Rightarrow>
     (gql_outcome, gql_error) result list \<times> ('ch, 'g) service_state" where
  "jwt_burst E B G os t [] s = ([], s)"
| "jwt_burst E B G os t (token # tokens) s =
     (case mutation_verify_jwt E B G os t token None None s of (r, s1) \<Rightarrow>
      case jwt_burst E B G os t tokens s1 of (rs, s2) \<Rightarrow> (r # rs, s2))"

definition pure_answer :: "('vk, 'sk, 'y) jwt_env_scheme \<Rightarrow> (nat, unit) result \<Rightarrow> 'ch edge_verifier \<Rightarrow>
    string \<Rightarrow> gql_outcome" where
  "pure_answer E os v token =
     gql_outcome_of (verify_jwt E token (service_jwks v) (sv_policy v) (service_now os v))"

lemma mutation_verify_jwt_answer:
  assumes "ext_check G (ss_rate_limiter s) t = (r, g)"
  obtains v where "mutation_verify_jwt E B G os t token None None s =
      (if is_ok r then Ok (pure_answer E os (ss_verifier s) token) else Err (Gql_Error ''rate limit exceeded''),
       \<lparr> ss_verifier = v, ss_rate_limiter = g \<rparr>)"
    "pure_answer E os v = pure_answer E os (ss_verifier s)"
proof (cases r)
  case (Inl x)
  have "rate_limiter_try_acquire G t (ss_rate_limiter s) = (Err RateLimited, g)"
    using assms Inl by (simp add: rate_limiter_try_acquire_def)
  then show ?thesis
    using Inl that [of "ss_verifier s"] by (cases s) (simp add: mutation_verify_jwt_def rate_limit_simps)
next
  case (Inr u)
  let ?v = "snd (service_verify_jwt E B os token None (ss_verifier s))"
  have "rate_limiter_try_acquire G t (ss_rate_limiter s) = (Ok (), g)"
    using assms Inr by (simp add: rate_limiter_try_acquire_def)
  moreover have "pure_answer E os ?v = pure_answer E os (ss_verifier s)"
    by (simp add: service_verify_jwt_def service_record_def pure_answer_def service_jwks_def service_now_def
        fun_eq_iff Let_def)
  ultimately show ?thesis
    using Inr that [of ?v]
    by (cases s) (simp add: mutation_verify_jwt_def rate_limit_simps build_override_None pure_answer_def
        service_verify_jwt_def service_jwks_def service_now_def Let_def)
qed

lemma jwt_burst_answers:
  "fst (jwt_burst E B G os t tokens s) =
     map2 (\<lambda>ok token. if ok then Ok (pure_answer E os (ss_verifier s) token)
                      else Err (Gql_Error ''rate limit exceeded''))
       (checks_at G t (length tokens) (ss_rate_limiter s)) tokens"
proof (induction tokens arbitrary: s)
  case (Cons token tokens)
  obtain r g where check: "ext_check G (ss_rate_limiter s) t = (r, g)"
    by (cases "ext_check G (ss_rate_limiter s) t")
  obtain v where step: "mutation_verify_jwt E B G os t token None None s =
      (if is_ok r then Ok (pure_answer E os (ss_verifier s) token) else Err (Gql_Error ''rate limit exceeded''),
       \<lparr> ss_verifier = v, ss_rate_limiter = g \<rparr>)"
    and same: "pure_answer E os v = pure_answer E os (ss_verifier s)"
    using check by (rule mutation_verify_jwt_answer)
  define s1 where "s1 = \<lparr> ss_verifier = v, ss_rate_limiter = g \<rparr>"
  have s1: "ss_verifier s1 = v" "ss_rate_limiter s1 = g"
    by (simp_all add: s1_def)
  show ?case
    using Cons.IH [of s1, unfolded s1 same] step
    by (cases "jwt_burst E B G os t tokens s1") (simp add: check s1_def)
qed simp

text \<open>
  A burst is served up to the rate. Of any number of token mutations arriving at one instant
  at a fresh limiter of rate \<open>r > 0\<close>, exactly the first \<open>r\<close> are answered, each with the pure
  verifier's decision under the base policy, and all others are refused.
\<close>

theorem burst_served_up_to_rate:
  assumes "burst_equals_rate G rate" "rate_limiter_per_second G rate = Some (ss_rate_limiter s)"
  shows "fst (jwt_burst E B G os t tokens s) =
     map (\<lambda>i. if i < unat rate
              then Ok (gql_outcome_of (verify_jwt E (tokens ! i) (service_jwks (ss_verifier s))
                         (sv_policy (ss_verifier s)) (service_now os (ss_verifier s))))
              else Err (Gql_Error ''rate limit exceeded'')) [0..<length tokens]"
proof -
  have "ss_rate_limiter s = ext_direct_per_second G rate"
    using assms(2) by (simp add: rate_limiter_per_second_def split: if_splits)
  then have "checks_at G t (length tokens) (ss_rate_limiter s) = map (\<lambda>i. i < unat rate) [0..<length tokens]"
    using assms(1) by (simp add: burst_equals_rate_def)
  then show ?thesis
    unfolding jwt_burst_answers pure_answer_def by (intro nth_equalityI) simp_all
qed

theorem burst_served_up_to_rate_witness:
  "fst (jwt_burst sample_env list_channel counting_governor (Err ()) 0 [sample_minted, sample_minted]
      (service_state_new (sample_service sample_policy) 1))
   = [Ok (gql_outcome_of (verify_jwt sample_env sample_minted (sample_jwks sample_env 5) sample_policy 1500)),
      Err (Gql_Error ''rate limit exceeded'')]"
proof -
  have "rate_limiter_per_second counting_governor 1
      = Some (ss_rate_limiter (service_state_new (sample_service sample_policy) 1))"
    by (simp add: rate_limiter_per_second_def counting_governor_def service_state_new_def)
  from burst_served_up_to_rate [OF counting_burst this, of sample_env list_channel "Err ()" 0
      "[sample_minted, sample_minted]"]
  show ?thesis
    by (simp add: service_state_new_def service_jwks_def service_now_def del: jwt_burst.simps)
qed

text \<open>
  The GraphQL answer is the whole decision, and shows no key material. Two outcomes with the
  same projection are equal; two policies with the same projection differ at most in their
  revocation lists; and the projected key set is the same for keys that differ only in their
  public values, use and algorithm.
\<close>

theorem gql_projections:
  "(gql_outcome_of a = gql_outcome_of b \<longleftrightarrow> a = b)
   \<and> (gql_policy_of p = gql_policy_of q \<longleftrightarrow> p\<lparr>tp_revoked_jti := tp_revoked_jti q\<rparr> = q)
   \<and> gql_jwks_of (jwks_from_keys (map (\<lambda>k. k\<lparr>jwk_x := f k, jwk_use := u, jwk_alg := v\<rparr>) ks))
       = gql_jwks_of (jwks_from_keys ks)"
proof (intro conjI)
  have kind: "gql_kind x = gql_kind y \<longleftrightarrow> x = y" for x y
    by (cases x; cases y) simp_all
  show "gql_outcome_of a = gql_outcome_of b \<longleftrightarrow> a = b"
    by (cases a; cases b; cases "out_checks a"; cases "out_checks b")
      (auto simp: gql_outcome_of_def gql_checks_of_def kind)
  have set: "iter_set x = iter_set y \<longleftrightarrow> x = y" for x y
    by (metis fset_of_list_iter_set)
  show "gql_policy_of p = gql_policy_of q \<longleftrightarrow> p\<lparr>tp_revoked_jti := tp_revoked_jti q\<rparr> = q"
    by (cases p; cases q) (auto simp: gql_policy_of_def set)
  show "gql_jwks_of (jwks_from_keys (map (\<lambda>k. k\<lparr>jwk_x := f k, jwk_use := u, jwk_alg := v\<rparr>) ks))
       = gql_jwks_of (jwks_from_keys ks)"
    by (simp add: gql_jwks_of_def jwks_from_keys_def)
qed

end
