(* ===== verification/Node_Startup.thy ===== *)
theory Node_Startup
  imports Graphql_Api
begin

text \<open>
  \<open>edgeauth-node/src/config.rs\<close> and \<open>startup.rs\<close>: the configuration, the composition root
  and the background refresher. Parsing the command line (\<open>clap\<close>) is not modelled; the offline
  command and the dispatch are in \<open>Node_Console\<close> and \<open>Node_Main\<close>.
\<close>

section \<open>Configuration\<close>

record common_args =
  ca_signer_seed :: byte
  ca_issuer :: string
  ca_trusted_issuers :: "string list"
  ca_audience :: "string option"
  ca_leeway_secs :: i64
  ca_jwks_url :: "string option"
  ca_jwks_refresh_secs :: u64

record serve_args =
  sa_bind_addr :: string
  sa_rate_limit_rps :: u32

record verify_args =
  va_token :: "string option"
  va_credential :: "string option"

datatype command = Serve serve_args | Demo | Mint | Verify verify_args

record cli =
  cli_common :: common_args
  cli_command :: "command option"

definition default_common_args :: common_args where
  \<comment> \<open>the \<open>default_value\<close>s; an absent option is \<open>None\<close> or the empty list\<close>
  "default_common_args = \<lparr> ca_signer_seed = 7, ca_issuer = ''https://issuer.local'',
     ca_trusted_issuers = [], ca_audience = None, ca_leeway_secs = 60, ca_jwks_url = None,
     ca_jwks_refresh_secs = 300 \<rparr>"

definition default_serve_args :: serve_args where
  "default_serve_args = \<lparr> sa_bind_addr = ''0.0.0.0:8080'', sa_rate_limit_rps = 100 \<rparr>"

definition selected_command :: "cli \<Rightarrow> command" where
  "selected_command c = (case cli_command c of None \<Rightarrow> Demo | Some cmd \<Rightarrow> cmd)"

section \<open>Composition\<close>

text \<open>Errors of the commands: \<open>anyhow\<close> keeps the source and the texts of \<open>context\<close>.\<close>

datatype node_error =
    Infra_Failed infra_error
  | Verify_Failed verify_error
  | Json_Failed string
  | Node_Message string
  | Context string node_error

definition LOCAL_KID :: string where
  "LOCAL_KID = ''edgeauth-local-1''"

definition local_signer :: "('vk, 'sk, 'z) primitives_scheme \<Rightarrow> byte \<Rightarrow> 'sk" where
  "local_signer E seed = ext_sk_from_bytes E (replicate 32 seed)"

definition local_jwks :: "('vk, 'sk, 'z) primitives_scheme \<Rightarrow> byte \<Rightarrow> jwks" where
  "local_jwks E seed =
     jwks_from_keys [jwk_from_verifying_key E (ext_sk_verifying_key E (local_signer E seed)) LOCAL_KID]"

definition build_policy :: "common_args \<Rightarrow> trust_policy" where
  "build_policy common =
     (let policy = with_leeway (with_trusted_issuer permissive (ca_issuer common)) (ca_leeway_secs common);
          policy = fold (\<lambda>issuer p. with_trusted_issuer p issuer) (ca_trusted_issuers common) policy
      in case ca_audience common of None \<Rightarrow> policy | Some aud \<Rightarrow> with_audience policy aud)"

definition build_state ::
  "('vk, 'sk, 'y) primitives_scheme \<Rightarrow> ('w, 'r, 'x) net_env_scheme \<Rightarrow> ('ch, 'z) broadcast_env_scheme \<Rightarrow>
     ('g, 'n, 'u) governor_scheme \<Rightarrow> common_args \<Rightarrow> u32 \<Rightarrow>
     (('ch, 'g) service_state, node_error) result option" where
  \<comment> \<open>\<open>None\<close> would be the panic of \<open>RateLimiter::per_second\<close>\<close>
  "build_state E N B G common rate_limit_rps =
     (let seed = local_jwks E (ca_signer_seed common);
          keys = (case ca_jwks_url common of
              Some url \<Rightarrow> try_bind (map_err (\<lambda>e. Context ''building remote JWKS provider'' (Infra_Failed e)) (cached_new N url seed))
                (\<lambda>p. Ok (Cached_Provider p))
            | None \<Rightarrow> Ok (static_new seed))
      in case keys of
           Err e \<Rightarrow> Some (Err e)
         | Ok provider \<Rightarrow>
             (let sink = broadcast_sink_new B 1024;
                  verifier = service_new provider System_Wall_Clock sink (build_policy common)
              in map_option (\<lambda>limiter. Ok (service_state_new verifier limiter))
                   (rate_limiter_per_second G (max rate_limit_rps 1))))"

section \<open>The background refresher\<close>

text \<open>
  An initial refresh, whose failure is only logged, then one refresh per tick of the interval
  timer, a parameter; \<open>n\<close> is the number of periodic ticks so far.
\<close>

definition refresh_period :: "u64 \<Rightarrow> duration" where
  "refresh_period refresh_secs = from_secs (max (unat refresh_secs) 10)"

primrec refresher_ticks ::
  "('vk, 'sk, 'y) jwt_env_scheme \<Rightarrow> ('w, 'r, 'x) net_env_scheme \<Rightarrow> (duration \<Rightarrow> 'w \<Rightarrow> 'w) \<Rightarrow>
     duration \<Rightarrow> nat \<Rightarrow> 'ch edge_verifier \<Rightarrow> 'w \<Rightarrow>
     (unit, infra_error) result option list \<times> 'ch edge_verifier \<times> 'w" where
  "refresher_ticks E N tick period 0 v w = ([], v, w)"
| "refresher_ticks E N tick period (Suc n) v w =
     (case service_refresh E N v (tick period w) of (r, v1, w1) \<Rightarrow>
      case refresher_ticks E N tick period n v1 w1 of (rs, v2, w2) \<Rightarrow> (r # rs, v2, w2))"

definition spawn_jwks_refresher ::
  "('vk, 'sk, 'y) jwt_env_scheme \<Rightarrow> ('w, 'r, 'x) net_env_scheme \<Rightarrow> (duration \<Rightarrow> 'w \<Rightarrow> 'w) \<Rightarrow>
     u64 \<Rightarrow> nat \<Rightarrow> 'ch edge_verifier \<Rightarrow> 'w \<Rightarrow>
     (unit, infra_error) result option list \<times> 'ch edge_verifier \<times> 'w" where
  "spawn_jwks_refresher E N tick refresh_secs n v w =
     (case service_refresh E N v w of (r, v1, w1) \<Rightarrow>
      case refresher_ticks E N tick (refresh_period refresh_secs) n v1 w1 of
        (rs, v2, w2) \<Rightarrow> (r # rs, v2, w2))"

section \<open>Properties\<close>

lemma fold_trusted_issuers:
  "tp_trusted_issuers (fold (\<lambda>i p. with_trusted_issuer p i) xs p) = fset_of_list xs |\<union>| tp_trusted_issuers p"
  by (induction xs arbitrary: p) (simp_all add: with_trusted_issuer_def)

lemma fold_trusted_rest:
  "\<exists>t. fold (\<lambda>i p. with_trusted_issuer p i) xs p = p\<lparr>tp_trusted_issuers := t\<rparr>"
proof (induction xs arbitrary: p)
  case Nil
  show ?case by (rule exI [of _ "tp_trusted_issuers p"]) simp
next
  case (Cons x xs)
  show ?case using Cons [of "with_trusted_issuer p x"] by (auto simp: with_trusted_issuer_def)
qed

lemma build_policy_form:
  "build_policy c = \<lparr> tp_trusted_issuers = fset_of_list (ca_issuer c # ca_trusted_issuers c),
     tp_expected_audience = ca_audience c, tp_required_scopes = {||}, tp_revoked_jti = {||},
     tp_leeway_secs = ca_leeway_secs c \<rparr>"
proof -
  let ?p = "with_leeway (with_trusted_issuer permissive (ca_issuer c)) (ca_leeway_secs c)"
  obtain t where t: "fold (\<lambda>i p. with_trusted_issuer p i) (ca_trusted_issuers c) ?p = ?p\<lparr>tp_trusted_issuers := t\<rparr>"
    using fold_trusted_rest by blast
  then have "t = fset_of_list (ca_trusted_issuers c) |\<union>| tp_trusted_issuers ?p"
    using fold_trusted_issuers [of "ca_trusted_issuers c" ?p] by simp
  then have "t = fset_of_list (ca_issuer c # ca_trusted_issuers c)"
    by (auto simp: policy_defs)
  then show ?thesis
    unfolding build_policy_def Let_def t by (cases "ca_audience c") (simp_all add: policy_defs)
qed

lemma build_policy_simps [simp]:
  "tp_trusted_issuers (build_policy c) = fset_of_list (ca_issuer c # ca_trusted_issuers c)"
  "tp_expected_audience (build_policy c) = ca_audience c"
  "tp_required_scopes (build_policy c) = {||}"
  "tp_revoked_jti (build_policy c) = {||}"
  "tp_leeway_secs (build_policy c) = ca_leeway_secs c"
  by (simp_all add: build_policy_form)

lemma build_policy_trusts:
  "issuer_trusted (build_policy c) i \<longleftrightarrow> (\<exists>x. i = Some x \<and> (x = ca_issuer c \<or> x \<in> set (ca_trusted_issuers c)))"
  by (auto simp: issuer_trusted_iff fset_of_list_elem)

text \<open>
  The node never trusts everyone. Whatever the configuration, the base policy trusts exactly
  the configured issuer and the additional ones, so an artifact without issuer is never
  trusted; its audience and leeway are the configured ones, and it requires no scope and
  revokes nothing, as no option sets these.
\<close>

theorem node_policy:
  "(issuer_trusted (build_policy c) i \<longleftrightarrow>
      (\<exists>x. i = Some x \<and> (x = ca_issuer c \<or> x \<in> set (ca_trusted_issuers c))))
   \<and> tp_expected_audience (build_policy c) = ca_audience c
   \<and> tp_leeway_secs (build_policy c) = ca_leeway_secs c
   \<and> tp_required_scopes (build_policy c) = {||} \<and> tp_revoked_jti (build_policy c) = {||}"
  by (simp only: build_policy_trusts build_policy_simps simp_thms)

lemma limiter_started: "\<exists>g. rate_limiter_per_second G (max rps 1) = Some g"
proof -
  have "max rps 1 \<noteq> (0 :: u32)"
    by (auto simp: max_def word_le_nat_alt)
  then show ?thesis by (simp add: rate_limiter_per_second_def)
qed

lemma build_state_Ok:
  assumes "build_state E N B G c rps = Some (Ok st)"
  shows "service_jwks (ss_verifier st) = local_jwks E (ca_signer_seed c)"
    "sv_policy (ss_verifier st) = build_policy c"
    "sv_clock (ss_verifier st) = System_Wall_Clock"
    "sv_counters (ss_verifier st) = counters_default"
    "rate_limiter_per_second G (max rps 1) = Some (ss_rate_limiter st)"
  using assms
  by (auto simp: build_state_def Let_def service_new_def service_state_new_def service_jwks_def
      static_new_def cached_new_def split: option.splits sum.splits)

lemma build_state_static: "ca_jwks_url c = None \<Longrightarrow> \<exists>st. build_state E N B G c rps = Some (Ok st)"
  using limiter_started [of G rps] unfolding build_state_def Let_def by auto

lemma build_state_remote:
  "ca_jwks_url c = Some u \<Longrightarrow> ext_client_build N USER_AGENT = Ok x \<Longrightarrow> \<exists>st. build_state E N B G c rps = Some (Ok st)"
  using limiter_started [of G rps] unfolding build_state_def Let_def cached_new_def by auto

lemma build_state_no_client:
  "ca_jwks_url c = Some u \<Longrightarrow> ext_client_build N USER_AGENT = Err m \<Longrightarrow> build_state E N B G c rps = Some (Err (Context ''building remote JWKS provider'' (Infra_Failed (Http m))))"
  unfolding build_state_def Let_def cached_new_def by simp

lemma build_state_result:
  "build_state E N B G c rps \<noteq> None
    \<and> (build_state E N B G c rps = Some (Err e) \<longleftrightarrow>
        (\<exists>url m. ca_jwks_url c = Some url \<and> ext_client_build N USER_AGENT = Err m \<and> e = Context ''building remote JWKS provider'' (Infra_Failed (Http m))))"
proof (cases "ca_jwks_url c")
  case None
  then show ?thesis using build_state_static [of c E N B G rps] by auto
next
  case (Some u)
  then show ?thesis
    using build_state_remote [of c u N _ E B G rps] build_state_no_client [of c u N _ E B G rps]
    by (cases "ext_client_build N USER_AGENT") auto
qed

text \<open>
  Starting up. Building the state never panics, even with a rate limit of 0; it fails exactly
  when a remote key set is configured and the HTTP client cannot be built; and a started node
  serves the local key, has decided nothing, applies the configured policy and limits to
  \<open>max rate 1\<close> mutations per second.
\<close>

theorem node_startup:
  "build_state E N B G c rps \<noteq> None
   \<and> (build_state E N B G c rps = Some (Err e) \<longleftrightarrow>
        (\<exists>url m. ca_jwks_url c = Some url \<and> ext_client_build N USER_AGENT = Err m \<and> e = Context ''building remote JWKS provider'' (Infra_Failed (Http m))))
   \<and> (case build_state E N B G c rps of
        Some (Ok st) \<Rightarrow> service_jwks (ss_verifier st) = local_jwks E (ca_signer_seed c)
          \<and> sv_policy (ss_verifier st) = build_policy c
          \<and> sv_counters (ss_verifier st) = counters_default
          \<and> rate_limiter_per_second G (max rps 1) = Some (ss_rate_limiter st)
      | _ \<Rightarrow> True)"
proof -
  have "case build_state E N B G c rps of
        Some (Ok st) \<Rightarrow> service_jwks (ss_verifier st) = local_jwks E (ca_signer_seed c)
          \<and> sv_policy (ss_verifier st) = build_policy c
          \<and> sv_counters (ss_verifier st) = counters_default
          \<and> rate_limiter_per_second G (max rps 1) = Some (ss_rate_limiter st)
      | _ \<Rightarrow> True"
    using build_state_Ok [of E N B G c rps] by (simp split: option.split sum.split)
  then show ?thesis using build_state_result [of E N B G c rps e] by blast
qed

lemma refresher_ticks_times:
  "refresher_ticks E N tick period n v w = refresh_times (\<lambda>v w. service_refresh E N v (tick period w)) n v w"
  by (induction n arbitrary: v w) (simp_all split: prod.splits)

lemma length_refresher_ticks: "length (fst (refresher_ticks E N tick p n v w)) = n"
proof (induction n arbitrary: v w)
  case (Suc n)
  obtain r v1 w1 where r: "service_refresh E N v (tick p w) = (r, v1, w1)"
    by (cases "service_refresh E N v (tick p w)")
  with Suc [of v1 w1] show ?case
    by (cases "refresher_ticks E N tick p n v1 w1") simp
qed simp

lemma refresher_ticks_length: "refresher_ticks E N tick p n v w = (rs, v', w') \<Longrightarrow> length rs = n"
  using length_refresher_ticks [of E N tick p n v w] by simp

lemma refresher_keeps_keys:
  assumes "spawn_jwks_refresher E N tick secs n v w = (rs, v', w')" and "Some (Ok ()) \<notin> set rs"
  shows "service_jwks v' = service_jwks v \<and> None \<notin> set rs"
proof -
  obtain r v1 w1 where first: "service_refresh E N v w = (r, v1, w1)"
    by (cases "service_refresh E N v w")
  obtain rs' where rest: "refresh_times (\<lambda>v w. service_refresh E N v (tick (refresh_period secs) w)) n v1 w1
      = (rs', v', w')" "rs = r # rs'"
    using assms(1) by (auto simp: spawn_jwks_refresher_def first refresher_ticks_times split: prod.splits)
  have "refresh_times (\<lambda>v w. service_refresh E N v w) 1 v w = ([r], v1, w1)"
    by (simp add: first)
  from service_source.failures_keep_keys [where f = "\<lambda>w. w", OF this]
    service_source.never_panics [where f = "\<lambda>w. w", OF this]
  have "service_jwks v1 = service_jwks v" "None \<noteq> r"
    using assms(2) rest(2) by auto
  moreover have "service_jwks v' = service_jwks v1" "None \<notin> set rs'"
    using service_source.failures_keep_keys [OF rest(1)] service_source.never_panics [OF rest(1)]
      assms(2) rest(2) by simp_all
  ultimately show ?thesis using rest(2) by simp
qed

text \<open>
  Cold start. A node configured for a remote key set trusts the built-in key of its seed until
  the first refresh succeeds, through the initial refresh and any number of periodic ones, and
  the refresher survives every failure.
\<close>

theorem cold_start_trusts_local_key:
  assumes "build_state E N B G c rps = Some (Ok st)"
    and "spawn_jwks_refresher E N tick (ca_jwks_refresh_secs c) n (ss_verifier st) w = (rs, v, w')"
    and "Some (Ok ()) \<notin> set rs"
  shows "service_jwks v = local_jwks E (ca_signer_seed c) \<and> None \<notin> set rs \<and> length rs = Suc n"
proof -
  have "length rs = Suc n"
    using assms(2)
    by (auto simp: spawn_jwks_refresher_def dest: refresher_ticks_length split: prod.splits)
  with refresher_keeps_keys [OF assms(2,3)] build_state_Ok(1) [OF assms(1)] show ?thesis by simp
qed

definition remote_args :: common_args where
  "remote_args = default_common_args\<lparr>ca_jwks_url := Some ''https://issuer.example/jwks.json''\<rparr>"

lemma dead_service_refresh:
  "service_refresh E dead_net v w = (r, v', w') \<Longrightarrow> sv_jwks v = Cached_Provider p \<Longrightarrow>
     r \<noteq> Some (Ok ()) \<and> (\<exists>p'. sv_jwks v' = Cached_Provider p')"
  using dead_refresh [of E p w] by (auto simp: service_refresh_def split: prod.splits)

theorem cold_start_trusts_local_key_witness:
  "\<exists>st v w'. build_state sample_env dead_net list_channel counting_governor remote_args 100 = Some (Ok st)
     \<and> snd (spawn_jwks_refresher sample_env dead_net (\<lambda>_ w. w) 300 0 (ss_verifier st) 0) = (v, w')
     \<and> service_jwks v = local_jwks sample_env 7"
proof -
  obtain st where st: "build_state sample_env dead_net list_channel counting_governor remote_args 100 = Some (Ok st)"
    "\<exists>p. sv_jwks (ss_verifier st) = Cached_Provider p"
    using limiter_started [of counting_governor 100]
    by (auto simp: build_state_def remote_args_def default_common_args_def cached_new_def dead_net_def
        service_state_new_def service_new_def Let_def)
  obtain r v w where one: "service_refresh sample_env dead_net (ss_verifier st) 0 = (r, v, w)"
    by (cases "service_refresh sample_env dead_net (ss_verifier st) 0")
  have args: "ca_jwks_refresh_secs remote_args = 300" "ca_signer_seed remote_args = 7"
    by (simp_all add: remote_args_def default_common_args_def)
  have run: "spawn_jwks_refresher sample_env dead_net (\<lambda>_ w. w) (ca_jwks_refresh_secs remote_args) 0
      (ss_verifier st) 0 = ([r], v, w)"
    using one by (simp add: spawn_jwks_refresher_def)
  have "Some (Ok ()) \<notin> set [r]"
    using dead_service_refresh [OF one] st(2) by auto
  then have "service_jwks v = local_jwks sample_env (ca_signer_seed remote_args)"
    using cold_start_trusts_local_key [OF st(1) run] by blast
  then show ?thesis
    using st(1) run by (intro exI [of _ st] exI [of _ v] exI [of _ w]) (simp add: args)
qed

end
