(* ===== verification/Node_Console.thy ===== *)
theory Node_Console
  imports Node_Startup
begin

text \<open>
  What the commands of the node print, and the offline \<open>verify\<close> command of
  \<open>edgeauth-node/src/startup.rs\<close>. A command is run on a console: the lines printed so far, the
  standard output they go to, and what it verifies with. An early return keeps what was printed
  before it. \<open>println!\<close> panics when the standard output cannot be written, and the panic ends the
  command. Warnings go to the log and are left out.
\<close>

section \<open>Console\<close>

record 'v console =
  con_lines :: "string list"
  con_stdout :: "nat \<Rightarrow> bool" \<comment> \<open>whether the line after the first \<open>n\<close> can be written\<close>
  con_verifier :: 'v

type_synonym 'ch service_console = "'ch edge_verifier console"

record ('vk, 'sk) node_env = "('vk, 'sk) vc_env" +
  ext_outcome_pretty :: "verification_outcome \<Rightarrow> (string, string) result"

definition console_start :: "(nat \<Rightarrow> bool) \<Rightarrow> 'v \<Rightarrow> 'v console" where
  "console_start stdout v = \<lparr> con_lines = [], con_stdout = stdout, con_verifier = v \<rparr>"

text \<open>The two ways a command ends before its end: the error of a \<open>?\<close>, and a panic.\<close>

datatype stop = Failed node_error | Panicked string

definition print_line :: "string \<Rightarrow> 'v console \<Rightarrow> (unit, stop) result \<times> 'v console" where
  "print_line line c =
     (if con_stdout c (length (con_lines c)) then (Ok (), c\<lparr>con_lines := con_lines c @ [line]\<rparr>)
      else (Err (Panicked ''failed printing to stdout''), c))"

text \<open>What a command leaves behind: its result, \<open>None\<close> for a panic, and the lines it printed.\<close>

fun command_result :: "(unit, stop) result \<Rightarrow> (unit, node_error) result option" where
  "command_result (Ok u) = Some (Ok u)"
| "command_result (Err (Failed e)) = Some (Err e)"
| "command_result (Err (Panicked m)) = None"

definition report :: "(unit, stop) result \<times> 'v console \<Rightarrow> (unit, node_error) result option \<times> string list" where
  "report x = (case x of (r, c) \<Rightarrow> (command_result r, con_lines c))"

section \<open>The offline command\<close>

definition verify_token_step ::
  "('vk, 'sk, 'y) node_env_scheme \<Rightarrow> ('ch, 'z) broadcast_env_scheme \<Rightarrow> (nat, unit) result \<Rightarrow>
     string option \<Rightarrow> 'ch service_console \<Rightarrow> (unit, stop) result \<times> 'ch service_console" where
  "verify_token_step E B os token c =
     (case token of
        None \<Rightarrow> (Ok (), c)
      | Some t \<Rightarrow>
          (case service_verify_jwt E B os t None (con_verifier c) of (out, v) \<Rightarrow>
             and_then (map_err (\<lambda>e. Failed (Json_Failed e)) (ext_outcome_pretty E out), c\<lparr>con_verifier := v\<rparr>) print_line))"

definition verify_credential_step ::
  "('vk, 'sk, 'y) node_env_scheme \<Rightarrow> ('ch, 'z) broadcast_env_scheme \<Rightarrow> (nat, unit) result \<Rightarrow>
     string option \<Rightarrow> 'ch service_console \<Rightarrow> (unit, stop) result \<times> 'ch service_console" where
  "verify_credential_step E B os credential c =
     (case credential of
        None \<Rightarrow> (Ok (), c)
      | Some doc \<Rightarrow>
          (case service_verify_credential_json E B os doc None (con_verifier c) of (r, v) \<Rightarrow>
             and_then (map_err (\<lambda>e. Failed (Context ''verifying credential'' (Verify_Failed e))) r, c\<lparr>con_verifier := v\<rparr>) (\<lambda>out c.
             and_then (map_err (\<lambda>e. Failed (Json_Failed e)) (ext_outcome_pretty E out), c) print_line)))"

definition run_verify ::
  "('vk, 'sk, 'y) node_env_scheme \<Rightarrow> ('w, 'r, 'x) net_env_scheme \<Rightarrow> ('ch, 'z) broadcast_env_scheme \<Rightarrow>
     ('g, 'n, 'u) governor_scheme \<Rightarrow> (nat \<Rightarrow> (nat, unit) result) \<Rightarrow> (nat \<Rightarrow> bool) \<Rightarrow> common_args \<Rightarrow>
     verify_args \<Rightarrow> (unit, node_error) result option \<times> string list" where
  \<comment> \<open>\<open>os 0\<close> and \<open>os 1\<close> are the clock readings of the two verifications\<close>
  "run_verify E N B G os stdout common args =
     (case build_state E N B G common 1000 of
        None \<Rightarrow> (None, [])
      | Some (Err e) \<Rightarrow> (Some (Err e), [])
      | Some (Ok state) \<Rightarrow>
          report (and_then (verify_token_step E B (os 0) (va_token args) (console_start stdout (ss_verifier state)))
            (\<lambda>_. verify_credential_step E B (os 1) (va_credential args))))"

section \<open>Printing to any standard output\<close>

text \<open>
  A command on a standard output that may fail against the same command on one that never does:
  it prints the same lines up to the first that cannot be written, and panics there; if there is
  none, it ends the same way. The command itself never panics.
\<close>

abbreviation always_open :: "nat \<Rightarrow> bool" where
  "always_open \<equiv> \<lambda>_. True"

definition blocked_at :: "(nat \<Rightarrow> bool) \<Rightarrow> nat \<Rightarrow> nat \<Rightarrow> nat \<Rightarrow> bool" where
  "blocked_at stdout k l n \<longleftrightarrow> k \<le> n \<and> n < l \<and> \<not> stdout n \<and> (\<forall>i. k \<le> i \<longrightarrow> i < n \<longrightarrow> stdout i)"

definition stdout_exact :: "('v console \<Rightarrow> ('a, stop) result \<times> 'v console) \<Rightarrow> bool" where
  "stdout_exact f \<longleftrightarrow> (\<forall>c r d. f (c\<lparr>con_stdout := always_open\<rparr>) = (r, d) \<longrightarrow>
     (\<exists>ls. con_lines d = con_lines c @ ls) \<and> con_stdout d = always_open \<and> (\<forall>m. r \<noteq> Err (Panicked m))
   \<and> ((\<forall>i. length (con_lines c) \<le> i \<longrightarrow> i < length (con_lines d) \<longrightarrow> con_stdout c i)
        \<longrightarrow> f c = (r, d\<lparr>con_stdout := con_stdout c\<rparr>))
   \<and> (\<forall>n. blocked_at (con_stdout c) (length (con_lines c)) (length (con_lines d)) n
        \<longrightarrow> (\<exists>m d'. f c = (Err (Panicked m), d') \<and> con_lines d' = take n (con_lines d))))"

lemma first_blocked:
  assumes "\<not> (\<forall>i. k \<le> i \<longrightarrow> i < l \<longrightarrow> stdout i)"
  obtains n where "blocked_at stdout k l n"
proof -
  obtain n where "k \<le> n \<and> n < l \<and> \<not> stdout n" "\<And>i. i < n \<Longrightarrow> \<not> (k \<le> i \<and> i < l \<and> \<not> stdout i)"
    using assms exists_least_iff [of "\<lambda>n. k \<le> n \<and> n < l \<and> \<not> stdout n"] by auto
  then show ?thesis
    by (intro that [of n]) (auto simp: blocked_at_def)
qed

lemma stdout_exact_pure:
  assumes "\<And>c. \<exists>r v. (\<forall>m. r \<noteq> Err (Panicked m)) \<and> f c = (r, c\<lparr>con_verifier := v\<rparr>)
      \<and> (\<forall>o'. f (c\<lparr>con_stdout := o'\<rparr>) = (r, c\<lparr>con_stdout := o', con_verifier := v\<rparr>))"
  shows "stdout_exact f"
  unfolding stdout_exact_def
proof (intro allI impI)
  fix c r d
  assume run: "f (c\<lparr>con_stdout := always_open\<rparr>) = (r, d)"
  obtain r' v where f: "\<forall>m. r' \<noteq> Err (Panicked m)" "f c = (r', c\<lparr>con_verifier := v\<rparr>)"
    "\<forall>o'. f (c\<lparr>con_stdout := o'\<rparr>) = (r', c\<lparr>con_stdout := o', con_verifier := v\<rparr>)"
    using assms [of c] by blast
  then have "r = r'" "d = c\<lparr>con_stdout := always_open, con_verifier := v\<rparr>"
    using run by auto
  with f show "(\<exists>ls. con_lines d = con_lines c @ ls) \<and> con_stdout d = always_open \<and> (\<forall>m. r \<noteq> Err (Panicked m))
   \<and> ((\<forall>i. length (con_lines c) \<le> i \<longrightarrow> i < length (con_lines d) \<longrightarrow> con_stdout c i)
        \<longrightarrow> f c = (r, d\<lparr>con_stdout := con_stdout c\<rparr>))
   \<and> (\<forall>n. blocked_at (con_stdout c) (length (con_lines c)) (length (con_lines d)) n
        \<longrightarrow> (\<exists>m d'. f c = (Err (Panicked m), d') \<and> con_lines d' = take n (con_lines d)))"
    by (auto simp: blocked_at_def)
qed

lemma stdout_exact_print: "stdout_exact (print_line line)"
  by (auto simp: stdout_exact_def print_line_def blocked_at_def less_Suc_eq)

text \<open>A step that only works on the verifier.\<close>

lemma stdout_exact_work:
  assumes "\<And>v m. fst (h v) \<noteq> Err (Panicked m)"
  shows "stdout_exact (\<lambda>c. (fst (h (con_verifier c)), c\<lparr>con_verifier := snd (h (con_verifier c))\<rparr>))"
  by (rule stdout_exact_pure) (use assms in auto)

lemma stdout_exact_return: "(\<And>m. r \<noteq> Err (Panicked m)) \<Longrightarrow> stdout_exact (\<lambda>c. (r, c))"
proof (rule stdout_exact_pure)
  fix c :: "'c console"
  assume "\<And>m. r \<noteq> Err (Panicked m)"
  then show "\<exists>r' v. (\<forall>m. r' \<noteq> Err (Panicked m)) \<and> (r, c) = (r', c\<lparr>con_verifier := v\<rparr>)
      \<and> (\<forall>o'. (r, c\<lparr>con_stdout := o'\<rparr>) = (r', c\<lparr>con_stdout := o', con_verifier := v\<rparr>))"
    by (intro exI [of _ r] exI [of _ "con_verifier c"]) simp
qed

lemma failed_not_panicked [simp]: "map_err (\<lambda>e. Failed (h e)) x \<noteq> Err (Panicked m)"
  by (cases x) simp_all

lemma stdout_exactD:
  assumes "stdout_exact f" "f (c\<lparr>con_stdout := always_open\<rparr>) = (r, d)"
  obtains ls where "con_lines d = con_lines c @ ls" "con_stdout d = always_open" "\<forall>m. r \<noteq> Err (Panicked m)"
    "(\<forall>i. length (con_lines c) \<le> i \<longrightarrow> i < length (con_lines d) \<longrightarrow> con_stdout c i)
       \<longrightarrow> f c = (r, d\<lparr>con_stdout := con_stdout c\<rparr>)"
    "\<forall>n. blocked_at (con_stdout c) (length (con_lines c)) (length (con_lines d)) n
       \<longrightarrow> (\<exists>m d'. f c = (Err (Panicked m), d') \<and> con_lines d' = take n (con_lines d))"
  using assms unfolding stdout_exact_def by metis

lemma stdout_exact_and_then:
  assumes f: "stdout_exact f" and g: "\<And>a. stdout_exact (g a)"
  shows "stdout_exact (\<lambda>c. and_then (f c) g)"
  unfolding stdout_exact_def
proof (intro allI impI)
  fix c r d
  assume run: "and_then (f (c\<lparr>con_stdout := always_open\<rparr>)) g = (r, d)"
  let ?k = "length (con_lines c)" and ?l = "length (con_lines d)"
  let ?goal = "(\<exists>ls. con_lines d = con_lines c @ ls) \<and> con_stdout d = always_open \<and> (\<forall>m. r \<noteq> Err (Panicked m))
   \<and> ((\<forall>i. ?k \<le> i \<longrightarrow> i < ?l \<longrightarrow> con_stdout c i) \<longrightarrow> and_then (f c) g = (r, d\<lparr>con_stdout := con_stdout c\<rparr>))
   \<and> (\<forall>n. blocked_at (con_stdout c) ?k ?l n
        \<longrightarrow> (\<exists>m d'. and_then (f c) g = (Err (Panicked m), d') \<and> con_lines d' = take n (con_lines d)))"
  obtain r1 d1 where one: "f (c\<lparr>con_stdout := always_open\<rparr>) = (r1, d1)" by (metis prod.exhaust)
  obtain ls where d1: "con_lines d1 = con_lines c @ ls" "con_stdout d1 = always_open" "\<forall>m. r1 \<noteq> Err (Panicked m)"
    and open1: "(\<forall>i. ?k \<le> i \<longrightarrow> i < length (con_lines d1) \<longrightarrow> con_stdout c i)
        \<longrightarrow> f c = (r1, d1\<lparr>con_stdout := con_stdout c\<rparr>)"
    and blocked1: "\<forall>n. blocked_at (con_stdout c) ?k (length (con_lines d1)) n
        \<longrightarrow> (\<exists>m d'. f c = (Err (Panicked m), d') \<and> con_lines d' = take n (con_lines d1))"
    by (rule stdout_exactD [OF f one])
  show ?goal
  proof (cases r1)
    case (Inl e)
    then have same: "r = Err e" "d = d1" using run one by simp_all
    show ?goal
      unfolding same using d1 open1 blocked1 Inl by (auto simp: and_then_def)
  next
    case (Inr a)
    let ?e = "d1\<lparr>con_stdout := con_stdout c\<rparr>"
    have "g a (?e\<lparr>con_stdout := always_open\<rparr>) = (r, d)"
      using run one Inr d1(2) by (cases d1) simp
    then obtain ls2 where d: "con_lines d = con_lines ?e @ ls2" "con_stdout d = always_open" "\<forall>m. r \<noteq> Err (Panicked m)"
      and open2: "(\<forall>i. length (con_lines ?e) \<le> i \<longrightarrow> i < ?l \<longrightarrow> con_stdout ?e i)
          \<longrightarrow> g a ?e = (r, d\<lparr>con_stdout := con_stdout ?e\<rparr>)"
      and blocked2: "\<forall>n. blocked_at (con_stdout ?e) (length (con_lines ?e)) ?l n
          \<longrightarrow> (\<exists>m d'. g a ?e = (Err (Panicked m), d') \<and> con_lines d' = take n (con_lines d))"
      by (rule stdout_exactD [OF g])
    have all: "and_then (f c) g = (r, d\<lparr>con_stdout := con_stdout c\<rparr>)"
      if "\<forall>i. ?k \<le> i \<longrightarrow> i < ?l \<longrightarrow> con_stdout c i"
      using that open1 open2 d(1) d1(1) Inr by simp
    have some: "\<exists>m d'. and_then (f c) g = (Err (Panicked m), d') \<and> con_lines d' = take n (con_lines d)"
      if n: "blocked_at (con_stdout c) ?k ?l n" for n
    proof (cases "n < length (con_lines d1)")
      case True
      then have "blocked_at (con_stdout c) ?k (length (con_lines d1)) n"
        using n by (simp add: blocked_at_def)
      with blocked1 obtain m d' where "f c = (Err (Panicked m), d')" "con_lines d' = take n (con_lines d1)"
        by blast
      then show ?thesis
        using True d(1) by simp
    next
      case False
      then have "f c = (Ok a, ?e)"
        using n open1 Inr by (auto simp: blocked_at_def)
      moreover have "blocked_at (con_stdout ?e) (length (con_lines ?e)) ?l n"
        using n False d1(1) by (simp add: blocked_at_def)
      ultimately show ?thesis
        using blocked2 by simp
    qed
    show ?goal
      using all some d d1(1) by simp
  qed
qed

text \<open>What is reported of a whole command.\<close>

lemma report_exact:
  assumes "stdout_exact f" "report (f (console_start always_open v)) = (r, ls)"
  shows "r \<noteq> None
    \<and> ((\<forall>i<length ls. stdout i) \<longrightarrow> report (f (console_start stdout v)) = (r, ls))
    \<and> (\<forall>n. blocked_at stdout 0 (length ls) n \<longrightarrow> report (f (console_start stdout v)) = (None, take n ls))"
proof -
  let ?c = "console_start stdout v"
  have start: "console_start always_open v = ?c\<lparr>con_stdout := always_open\<rparr>"
    by (simp add: console_start_def)
  obtain r' d where run: "f (?c\<lparr>con_stdout := always_open\<rparr>) = (r', d)" by (metis prod.exhaust)
  then have rep: "r = command_result r'" "ls = con_lines d"
    using assms(2) by (simp_all add: start report_def)
  obtain ls' where d: "\<forall>m. r' \<noteq> Err (Panicked m)"
    "(\<forall>i. length (con_lines ?c) \<le> i \<longrightarrow> i < length (con_lines d) \<longrightarrow> con_stdout ?c i)
       \<longrightarrow> f ?c = (r', d\<lparr>con_stdout := con_stdout ?c\<rparr>)"
    "\<forall>n. blocked_at (con_stdout ?c) (length (con_lines ?c)) (length (con_lines d)) n
       \<longrightarrow> (\<exists>m d'. f ?c = (Err (Panicked m), d') \<and> con_lines d' = take n (con_lines d))"
    by (rule stdout_exactD [OF assms(1) run])
  have "r \<noteq> None"
    using d(1) by (cases r' rule: command_result.cases) (simp_all add: rep)
  moreover have "report (f ?c) = (r, ls)" if "\<forall>i<length ls. stdout i"
    using d(2) that by (simp add: rep report_def) (simp add: console_start_def)
  moreover have "report (f ?c) = (None, take n ls)" if n: "blocked_at stdout 0 (length ls) n" for n
  proof -
    obtain m d' where "f ?c = (Err (Panicked m), d')" "con_lines d' = take n (con_lines d)"
      using d(3) n by (auto simp: rep console_start_def)
    then show ?thesis by (simp add: rep report_def)
  qed
  ultimately show ?thesis by blast
qed

lemma verify_token_exact: "stdout_exact (verify_token_step E B os token)"
proof (cases token)
  case None
  then have "verify_token_step E B os token = (\<lambda>c. (Ok (), c))"
    by (intro ext) (simp add: verify_token_step_def)
  then show ?thesis by (simp add: stdout_exact_return)
next
  case (Some t)
  let ?h = "\<lambda>v. case service_verify_jwt E B os t None v of (out, v) \<Rightarrow>
      (map_err (\<lambda>e. Failed (Json_Failed e)) (ext_outcome_pretty E out), v)"
  have eq: "verify_token_step E B os token
      = (\<lambda>c. and_then (fst (?h (con_verifier c)), c\<lparr>con_verifier := snd (?h (con_verifier c))\<rparr>) print_line)"
    using Some by (intro ext) (simp add: verify_token_step_def split: prod.split)
  show ?thesis
    unfolding eq by (rule stdout_exact_and_then [OF stdout_exact_work [of ?h] stdout_exact_print]) (simp split: prod.split)
qed

lemma verify_credential_exact: "stdout_exact (verify_credential_step E B os credential)"
proof (cases credential)
  case None
  then have "verify_credential_step E B os credential = (\<lambda>c. (Ok (), c))"
    by (intro ext) (simp add: verify_credential_step_def)
  then show ?thesis by (simp add: stdout_exact_return)
next
  case (Some doc)
  let ?h = "\<lambda>v. case service_verify_credential_json E B os doc None v of (r, v) \<Rightarrow>
      (map_err (\<lambda>e. Failed (Context ''verifying credential'' (Verify_Failed e))) r, v)"
  let ?print = "\<lambda>out c. and_then (map_err (\<lambda>e. Failed (Json_Failed e)) (ext_outcome_pretty E out), c) print_line"
  have eq: "verify_credential_step E B os credential
      = (\<lambda>c. and_then (fst (?h (con_verifier c)), c\<lparr>con_verifier := snd (?h (con_verifier c))\<rparr>) ?print)"
    using Some by (intro ext) (simp add: verify_credential_step_def split: prod.split)
  have print: "stdout_exact (?print out)" for out
    by (intro stdout_exact_and_then stdout_exact_return stdout_exact_print) simp
  show ?thesis
    unfolding eq by (rule stdout_exact_and_then [OF stdout_exact_work [of ?h] print]) (simp split: prod.split)
qed

lemma run_verify_exact:
  assumes "run_verify E N B G os always_open common args = (r, ls)"
  shows "r \<noteq> None
    \<and> ((\<forall>i<length ls. stdout i) \<longrightarrow> run_verify E N B G os stdout common args = (r, ls))
    \<and> (\<forall>n. blocked_at stdout 0 (length ls) n \<longrightarrow> run_verify E N B G os stdout common args = (None, take n ls))"
proof (cases "build_state E N B G common 1000")
  case None
  then show ?thesis using build_state_result by blast
next
  case (Some b)
  show ?thesis
  proof (cases b)
    case (Inl e)
    with Some assms show ?thesis by (auto simp: run_verify_def blocked_at_def)
  next
    case (Inr st)
    let ?f = "\<lambda>c. and_then (verify_token_step E B (os 0) (va_token args) c)
        (\<lambda>_. verify_credential_step E B (os 1) (va_credential args))"
    have run: "run_verify E N B G os out common args = report (?f (console_start out (ss_verifier st)))" for out
      using Some Inr by (simp add: run_verify_def)
    have "stdout_exact ?f"
      by (intro stdout_exact_and_then verify_token_exact verify_credential_exact)
    from report_exact [OF this assms [unfolded run]] show ?thesis
      unfolding run by blast
  qed
qed

section \<open>Offline verification is the pure verifier\<close>

text \<open>
  The report as a function of the arguments alone, on a standard output that can be written: the
  pure verifier under the configured policy with the node's built-in key, the token first; nothing
  is printed for the part that fails.
\<close>

definition offline_token ::
  "('vk, 'sk, 'y) node_env_scheme \<Rightarrow> common_args \<Rightarrow> i64 \<Rightarrow> string \<Rightarrow> (string, node_error) result" where
  "offline_token E common now token =
     map_err Json_Failed (ext_outcome_pretty E
       (verify_jwt E token (local_jwks E (ca_signer_seed common)) (build_policy common) now))"

definition offline_credential ::
  "('vk, 'sk, 'y) node_env_scheme \<Rightarrow> common_args \<Rightarrow> i64 \<Rightarrow> string \<Rightarrow> (string, node_error) result" where
  "offline_credential E common now doc =
     try_bind (map_err (\<lambda>e. Context ''verifying credential'' (Verify_Failed e)) (verify_credential_json E doc (build_policy common) now)) (\<lambda>out.
     map_err Json_Failed (ext_outcome_pretty E out))"

primrec report_lines :: "(string, node_error) result list \<Rightarrow> (unit, stop) result \<times> string list" where
  "report_lines [] = (Ok (), [])"
| "report_lines (r # rs) =
     (case r of Err e \<Rightarrow> (Err (Failed e), [])
      | Ok line \<Rightarrow> (case report_lines rs of (q, lines) \<Rightarrow> (q, line # lines)))"

definition opt_list :: "'a option \<Rightarrow> 'a list" where
  "opt_list x = (case x of None \<Rightarrow> [] | Some a \<Rightarrow> [a])"

lemma opt_list_simps [simp]: "opt_list None = []" "opt_list (Some a) = [a]"
  by (simp_all add: opt_list_def)

lemma token_step_report:
  assumes "service_jwks (con_verifier c) = local_jwks E (ca_signer_seed common)"
    and "sv_policy (con_verifier c) = build_policy common" "sv_clock (con_verifier c) = System_Wall_Clock"
    and "con_stdout c = always_open" and "verify_token_step E B os token c = (r, c')"
  shows "\<exists>ls. report_lines (map (offline_token E common (now_unix os System_Wall_Clock)) (opt_list token)) = (r, ls)
    \<and> con_lines c' = con_lines c @ ls \<and> con_stdout c' = always_open
    \<and> sv_policy (con_verifier c') = build_policy common \<and> sv_clock (con_verifier c') = System_Wall_Clock"
proof (cases token)
  case None
  with assms show ?thesis by (simp add: verify_token_step_def)
next
  case (Some t)
  let ?out = "verify_jwt E t (local_jwks E (ca_signer_seed common)) (build_policy common)
      (now_unix os System_Wall_Clock)"
  from Some assms show ?thesis
    by (cases "ext_outcome_pretty E ?out")
      (auto simp: verify_token_step_def service_verify_jwt_def Let_def service_jwks_def offline_token_def
        print_line_def service_record_def)
qed

lemma credential_step_report:
  assumes "sv_policy (con_verifier c) = build_policy common" "sv_clock (con_verifier c) = System_Wall_Clock"
    and "con_stdout c = always_open" and "verify_credential_step E B os credential c = (r, c')"
  shows "\<exists>ls. report_lines (map (offline_credential E common (now_unix os System_Wall_Clock)) (opt_list credential))
        = (r, ls) \<and> con_lines c' = con_lines c @ ls"
proof (cases credential)
  case None
  with assms show ?thesis by (simp add: verify_credential_step_def)
next
  case (Some doc)
  show ?thesis
  proof (cases "verify_credential_json E doc (build_policy common) (now_unix os System_Wall_Clock)")
    case (Inl e)
    with Some assms show ?thesis
      by (auto simp: verify_credential_step_def service_verify_credential_json_def Let_def offline_credential_def)
  next
    case (Inr out)
    with Some assms show ?thesis
      by (cases "ext_outcome_pretty E out")
        (auto simp: verify_credential_step_def service_verify_credential_json_def Let_def
          offline_credential_def print_line_def)
  qed
qed

lemma report_lines_append:
  "report_lines (rs @ qs) =
     (case report_lines rs of
        (Err e, lines) \<Rightarrow> (Err e, lines)
      | (Ok _, lines) \<Rightarrow> (case report_lines qs of (r, lines') \<Rightarrow> (r, lines @ lines')))"
  by (induction rs) (auto split: prod.splits sum.splits)

text \<open>
  The offline command is the pure verifier. Whenever the state can be built and the standard output
  written, its result and its output are those of the reference, which knows neither the service
  nor the network: artifacts are judged with the node's built-in key and configured policy. In
  particular a configured key-set URL has no influence; it is never fetched.
\<close>

theorem offline_verify_is_pure:
  assumes "ca_jwks_url common = None \<or> ext_client_build N USER_AGENT = Ok ()"
  shows "run_verify E N B G os always_open common args = (case report_lines
      (map (offline_token E common (now_unix (os 0) System_Wall_Clock)) (opt_list (va_token args))
       @ map (offline_credential E common (now_unix (os 1) System_Wall_Clock)) (opt_list (va_credential args)))
      of (r, ls) \<Rightarrow> (command_result r, ls))"
proof -
  obtain st where st: "build_state E N B G common 1000 = Some (Ok st)"
    using assms build_state_static build_state_remote by (cases "ca_jwks_url common") blast+
  note ports = build_state_Ok [OF st]
  let ?c = "console_start always_open (ss_verifier st)"
  obtain r c where token: "verify_token_step E B (os 0) (va_token args) ?c = (r, c)"
    by (cases "verify_token_step E B (os 0) (va_token args) ?c")
  obtain q d where cred: "verify_credential_step E B (os 1) (va_credential args) c = (q, d)"
    by (cases "verify_credential_step E B (os 1) (va_credential args) c")
  let ?rs = "map (offline_token E common (now_unix (os 0) System_Wall_Clock)) (opt_list (va_token args))"
    and ?qs = "map (offline_credential E common (now_unix (os 1) System_Wall_Clock)) (opt_list (va_credential args))"
  obtain ls where t: "report_lines ?rs = (r, ls)" "con_lines c = ls" "con_stdout c = always_open"
    "sv_policy (con_verifier c) = build_policy common" "sv_clock (con_verifier c) = System_Wall_Clock"
    using token_step_report [OF _ _ _ _ token, of common] ports by (auto simp: console_start_def)
  obtain ls' where "report_lines ?qs = (q, ls')" "con_lines d = con_lines c @ ls'"
    using credential_step_report [OF t(4,5,3) cred] by blast
  then show ?thesis
    using st token cred t(1,2)
    by (cases r) (simp_all add: run_verify_def report_def report_lines_append del: One_nat_def)
qed

definition sample_node_env :: "(byte, byte) node_env" where
  "sample_node_env = sample_vc_env [] [] [] [] []
     (node_env_ext (\<lambda>out. Ok (if out_valid out then ''valid'' else ''invalid'')) ())"

lemma sample_offline_run:
  "run_verify sample_node_env dead_net list_channel counting_governor (\<lambda>_. Err ()) always_open remote_args
     \<lparr> va_token = Some ''no token'', va_credential = None \<rparr> = (Some (Ok ()), [''invalid''])"
proof -
  have "split_char CHR ''.'' ''no token'' = [''no token'']"
    by (simp add: split_char_free)
  then have "\<exists>e. signed_jwt_parse sample_node_env ''no token'' = Err e"
    by (simp add: signed_jwt_parse_def)
  then have "\<not> out_valid (verify_jwt sample_node_env ''no token'' ks p now)" for ks p now
    by (auto simp: verify_jwt_def)
  then have "offline_token sample_node_env remote_args now ''no token'' = Ok ''invalid''" for now
    by (simp add: offline_token_def) (simp add: sample_node_env_def sample_vc_env_def sample_jwt_env_def
        sample_primitives_def)
  then show ?thesis
    using offline_verify_is_pure [of remote_args dead_net sample_node_env list_channel counting_governor
        "\<lambda>_. Err ()" "\<lparr> va_token = Some ''no token'', va_credential = None \<rparr>"]
    by (simp add: dead_net_def)
qed

theorem offline_verify_is_pure_witness:
  "run_verify sample_node_env dead_net list_channel counting_governor (\<lambda>_. Err ()) always_open remote_args
     \<lparr> va_token = Some ''no token'', va_credential = None \<rparr> = (Some (Ok ()), [''invalid''])"
  by (rule sample_offline_run)

end
