(* ===== verification/Node_Mint.thy ===== *)
theory Node_Mint
  imports Node_Console
begin

text \<open>
  \<open>edgeauth-node/src/mint.rs\<close>: the \<open>mint\<close> command, which signs a token and a credential
  with the keys of the configured seed and the seed after it, and prints the fixtures as one
  JSON object, which \<open>serde_json\<close> renders (a parameter).
\<close>

section \<open>Operations\<close>

definition FIXTURE_IAT :: i64 where
  "FIXTURE_IAT = 0"

definition FIXTURE_EXP :: i64 where
  "FIXTURE_EXP = 4102444800"

record fixtures =
  fx_jwt :: string
  fx_vc_issuer_did :: string
  fx_credential :: string

definition local_header :: jwt_header where
  "local_header = \<lparr> hdr_alg = JWT_ALG, hdr_typ = Some ''JWT'', hdr_kid = Some LOCAL_KID \<rparr>"

definition fixture_claims :: "string \<Rightarrow> string \<Rightarrow> jwt_claims" where
  "fixture_claims issuer audience = \<lparr> claim_iss = Some issuer, claim_sub = Some ''user-alice'',
     claim_aud = Some (Single audience), claim_exp = Some FIXTURE_EXP, claim_nbf = Some FIXTURE_IAT,
     claim_iat = Some FIXTURE_IAT, claim_jti = Some ''postman-1'',
     claim_scope = Some ''openid profile'', claim_roles = [''reader''] \<rparr>"

definition mint_jwt ::
  "('vk, 'sk, 'z) jwt_env_scheme \<Rightarrow> 'sk \<Rightarrow> string \<Rightarrow> string \<Rightarrow> (string, node_error) result" where
  "mint_jwt E signer issuer audience =
     map_err (\<lambda>e. Node_Message (''encoding JWT: '' @ verify_error_display e))
       (encode_jwt E local_header (fixture_claims issuer audience) signer)"

definition fixture_credential :: "did \<Rightarrow> did \<Rightarrow> verifiable_credential" where
  "fixture_credential issuer subject = \<lparr> vc_id = ''urn:cred:postman-1'', vc_credential_type = ''KycVerified'',
     vc_issuer = issuer,
     vc_subject = \<lparr> subj_id = subject, subj_claims = fmupd ''kyc_level'' ''gold'' fmempty \<rparr>,
     vc_issued_at = FIXTURE_IAT, vc_expires_at = Some FIXTURE_EXP, vc_proof = None \<rparr>"

definition mint_credential ::
  "('vk, 'sk, 'z) vc_env_scheme \<Rightarrow> 'sk \<Rightarrow> did \<Rightarrow> did \<Rightarrow> (string, node_error) result" where
  "mint_credential E vc_key issuer subject =
     try_bind (map_err (\<lambda>e. Node_Message (''signing credential: '' @ verify_error_display e))
                 (sign_with E (fixture_credential issuer subject) vc_key FIXTURE_IAT)) (\<lambda>vc.
     map_err Json_Failed (ext_vc_to_string E vc))"

definition mint_run :: "('vk, 'sk, 'z) vc_env_scheme \<Rightarrow> common_args \<Rightarrow> (fixtures, node_error) result" where
  "mint_run E common =
     (let seed = ca_signer_seed common;
          signer = local_signer E seed;
          vc_key = local_signer E (seed + 1);
          issuer_did = did_from_verifying_key E (ext_sk_verifying_key E vc_key);
          subject = did_from_verifying_key E (ext_sk_verifying_key E (local_signer E (seed + 2)))
      in try_bind (mint_jwt E signer (ca_issuer common) ''edge-api'') (\<lambda>jwt.
         try_bind (mint_credential E vc_key issuer_did subject) (\<lambda>credential.
         Ok \<lparr> fx_jwt = jwt, fx_vc_issuer_did = did_as_str issuer_did, fx_credential = credential \<rparr>)))"

definition mint_print ::
  "('vk, 'sk, 'z) vc_env_scheme \<Rightarrow> (fixtures \<Rightarrow> (string, string) result) \<Rightarrow> (nat \<Rightarrow> bool) \<Rightarrow> common_args \<Rightarrow>
     (unit, node_error) result option \<times> string list" where
  \<comment> \<open>the second argument is \<open>to_string_pretty\<close> of the JSON object of the fixtures\<close>
  "mint_print E pretty stdout common =
     report (and_then
       (map_err Failed (try_bind (mint_run E common) (\<lambda>f. map_err Json_Failed (pretty f))), console_start stdout ())
       print_line)"

lemma mint_print_exact:
  assumes "mint_print E pretty always_open common = (r, ls)"
  shows "r \<noteq> None
    \<and> ((\<forall>i<length ls. stdout i) \<longrightarrow> mint_print E pretty stdout common = (r, ls))
    \<and> (\<forall>n. blocked_at stdout 0 (length ls) n \<longrightarrow> mint_print E pretty stdout common = (None, take n ls))"
proof -
  let ?r = "map_err Failed (try_bind (mint_run E common) (\<lambda>f. map_err Json_Failed (pretty f)))"
  have "stdout_exact (\<lambda>c. and_then (?r, c) print_line)"
    by (intro stdout_exact_and_then stdout_exact_return stdout_exact_print)
      (cases "try_bind (mint_run E common) (\<lambda>f. map_err Json_Failed (pretty f))"; simp)
  from report_exact [OF this assms [unfolded mint_print_def]] show ?thesis
    unfolding mint_print_def by blast
qed

section \<open>The fixtures verify\<close>

text \<open>
  Documented behaviour of \<open>serde_json\<close> for the values the command writes: the header, the claims
  and the signed credential are read back as they were written.
\<close>

definition vc_issuer_of :: "('vk, 'sk, 'z) primitives_scheme \<Rightarrow> common_args \<Rightarrow> did" where
  "vc_issuer_of E common =
     did_from_verifying_key E (ext_sk_verifying_key E (local_signer E (ca_signer_seed common + 1)))"

definition vc_subject_of :: "('vk, 'sk, 'z) primitives_scheme \<Rightarrow> common_args \<Rightarrow> did" where
  "vc_subject_of E common =
     did_from_verifying_key E (ext_sk_verifying_key E (local_signer E (ca_signer_seed common + 2)))"

definition fixtures_serialize :: "('vk, 'sk, 'z) vc_env_scheme \<Rightarrow> common_args \<Rightarrow> bool" where
  "fixtures_serialize E common \<longleftrightarrow>
     json_header E local_header \<and> json_claims E (fixture_claims (ca_issuer common) ''edge-api'')
   \<and> (\<exists>vc. sign_with E (fixture_credential (vc_issuer_of E common) (vc_subject_of E common))
              (local_signer E (ca_signer_seed common + 1)) FIXTURE_IAT = Ok vc
         \<and> json_credential E vc)"

lemma local_jwks_find [simp]:
  "jwks_find (local_jwks E seed) (Some LOCAL_KID)
     = Some (jwk_from_verifying_key E (ext_sk_verifying_key E (local_signer E seed)) LOCAL_KID)"
  by (simp add: local_jwks_def)

lemma local_header_simps [simp]: "hdr_alg local_header = ''EdDSA''" "hdr_kid local_header = Some LOCAL_KID"
  by (simp_all add: local_header_def JWT_ALG_def)

text \<open>A token minted with the local key is accepted by the local key set when its claims are.\<close>

lemma local_token_valid:
  assumes "base64_roundtrip E" "base64_dotfree E" "signatures_verify E" "key_roundtrip E"
    and "json_header E local_header" "json_claims E claims"
  obtains token j where "encode_jwt E local_header claims (local_signer E seed) = Ok token"
    "signed_jwt_parse E token = Ok j" "sj_claims j = claims"
    "signed_jwt_verify_with E j (local_jwks E seed) = Ok ()"
  by (rule minted_verifies [of E local_header claims "local_jwks E seed" "local_signer E seed" LOCAL_KID])
    (use assms that in \<open>simp_all add: JWT_ALG_def\<close>)

lemma fixture_claims_acceptable_iff:
  assumes "tp_trusted_issuers p = {||} \<or> issuer |\<in>| tp_trusted_issuers p"
    and "tp_required_scopes p = {||}" "tp_revoked_jti p = {||}"
    and "0 \<le> now + sint (tp_leeway_secs p)" "now < 4102444800 + sint (tp_leeway_secs p)"
  shows "claims_acceptable p now (fixture_claims issuer aud)
    \<longleftrightarrow> tp_expected_audience p = None \<or> tp_expected_audience p = Some aud"
  using assms
  by (cases "tp_expected_audience p")
    (auto simp: claims_acceptable_def not_expired_spec_def not_before_spec_def fixture_claims_def
      issuer_trusted_iff FIXTURE_EXP_def FIXTURE_IAT_def)

lemma fixture_claims_acceptable:
  assumes "tp_trusted_issuers p = {||} \<or> issuer |\<in>| tp_trusted_issuers p"
    and "tp_expected_audience p = None \<or> tp_expected_audience p = Some ''edge-api''"
    and "tp_required_scopes p = {||}" "tp_revoked_jti p = {||}"
    and "0 \<le> now + sint (tp_leeway_secs p)" "now < 4102444800 + sint (tp_leeway_secs p)"
  shows "claims_acceptable p now (fixture_claims issuer ''edge-api'')"
  using assms by (simp add: fixture_claims_acceptable_iff)

lemma sign_with_view: "sign_with E vc sk t = Ok vc' \<Longrightarrow> unsigned_view_of vc' = unsigned_view_of vc"
  by (auto simp: sign_with_def Let_def)

lemma signed_credential_valid_iff:
  assumes "base58_roundtrip E" "key_roundtrip E" "hex_roundtrip E" "signatures_verify E"
    and "vc_issuer vc = did_from_verifying_key E (ext_sk_verifying_key E sk)"
    and "sign_with E vc sk t = Ok vc'" and "time_fits p now"
  shows "out_valid (verify_credential E vc' p now) \<longleftrightarrow> credential_acceptable p (sint now) vc"
proof -
  have "view_serializes E (unsigned_view_of vc)"
    using assms(6) by (auto simp: sign_with_def signing_payload_def view_serializes_def is_ok_iff)
  then have "verify_signature E vc' = Ok ()"
    using assms(1-6) by (metis signed_verifies sum.inject(2))
  moreover have "credential_acceptable p (sint now) vc' \<longleftrightarrow> credential_acceptable p (sint now) vc"
    using credential_acceptable_view [OF sign_with_view [OF assms(6)]] by simp
  ultimately show ?thesis
    using assms(7) by (simp add: verify_credential_valid_iff credential_checks_acceptable)
qed

lemma signed_credential_valid:
  assumes "base58_roundtrip E" "key_roundtrip E" "hex_roundtrip E" "signatures_verify E"
    and "vc_issuer vc = did_from_verifying_key E (ext_sk_verifying_key E sk)"
    and "sign_with E vc sk t = Ok vc'"
    and "time_fits p now" "credential_acceptable p (sint now) vc"
  shows "out_valid (verify_credential E vc' p now)"
  using assms by (simp add: signed_credential_valid_iff)

text \<open>
  C33: what the node that minted the fixtures makes of them. The fixtures \<open>mint\<close> prints are judged
  by a freshly started node of the same configuration as follows, at every time from the epoch
  until 2100-01-01, leeway included, that plus and minus the leeway stays within \<open>i64\<close>: the token
  is accepted exactly when the configured audience is unset or \<open>edge-api\<close>, and the credential
  exactly when its printed issuer DID is configured as an issuer, which the default
  configuration does not do.
\<close>

theorem minted_fixtures_verify:
  assumes "base64_roundtrip E" "base64_dotfree E" "base58_roundtrip E" "hex_roundtrip E"
    and "key_roundtrip E" "signatures_verify E" "fixtures_serialize E common"
    and "build_state E N B G common rps = Some (Ok st)"
    and "time_fits (build_policy common) (now_unix os System_Wall_Clock)"
    and "0 \<le> sint (now_unix os System_Wall_Clock) + sint (ca_leeway_secs common)"
    and "sint (now_unix os System_Wall_Clock) < 4102444800 + sint (ca_leeway_secs common)"
  shows "\<exists>f out. mint_run E common = Ok f
     \<and> fx_vc_issuer_did f = did_as_str (vc_issuer_of E common)
     \<and> (out_valid (fst (service_verify_jwt E B os (fx_jwt f) None (ss_verifier st)))
          \<longleftrightarrow> ca_audience common = None \<or> ca_audience common = Some ''edge-api'')
     \<and> fst (service_verify_credential_json E B os (fx_credential f) None (ss_verifier st)) = Ok out
     \<and> (out_valid out \<longleftrightarrow> fx_vc_issuer_did f \<in> set (ca_issuer common # ca_trusted_issuers common))"
proof -
  let ?now = "now_unix os System_Wall_Clock" and ?p = "build_policy common"
  let ?claims = "fixture_claims (ca_issuer common) ''edge-api''"
  let ?vc = "fixture_credential (vc_issuer_of E common) (vc_subject_of E common)"
  note st = build_state_Ok [OF assms(8)]
  obtain token j where token: "encode_jwt E local_header ?claims (local_signer E (ca_signer_seed common)) = Ok token"
    "signed_jwt_parse E token = Ok j" "sj_claims j = ?claims"
    "signed_jwt_verify_with E j (local_jwks E (ca_signer_seed common)) = Ok ()"
    using assms(1,2,5,6,7) unfolding fixtures_serialize_def by (blast elim: local_token_valid)
  obtain vc doc where vc: "sign_with E ?vc (local_signer E (ca_signer_seed common + 1)) FIXTURE_IAT = Ok vc"
    "ext_vc_to_string E vc = Ok doc" "ext_vc_from_str E doc = Ok vc"
    using assms(7) by (auto simp: fixtures_serialize_def json_credential_def)
  have "claims_acceptable ?p (sint ?now) ?claims \<longleftrightarrow> ca_audience common = None \<or> ca_audience common = Some ''edge-api''"
    using assms(10,11) by (subst fixture_claims_acceptable_iff) simp_all
  then have jwt: "out_valid (verify_jwt E token (local_jwks E (ca_signer_seed common)) ?p ?now)
      \<longleftrightarrow> ca_audience common = None \<or> ca_audience common = Some ''edge-api''"
    using token(2-4) assms(9) by (auto simp: verify_jwt_valid_spec)
  have "credential_acceptable ?p (sint ?now) ?vc
      \<longleftrightarrow> did_as_str (vc_issuer_of E common) \<in> set (ca_issuer common # ca_trusted_issuers common)"
    using assms(10,11)
    by (auto simp: credential_acceptable_def not_expired_spec_def not_before_spec_def fixture_credential_def
        build_policy_trusts FIXTURE_EXP_def FIXTURE_IAT_def)
  moreover have "out_valid (verify_credential E vc ?p ?now) \<longleftrightarrow> credential_acceptable ?p (sint ?now) ?vc"
    using assms(3-6,9) vc(1)
    by (intro signed_credential_valid_iff [of E ?vc]) (simp_all add: fixture_credential_def vc_issuer_of_def)
  ultimately have cred: "out_valid (verify_credential E vc ?p ?now)
      \<longleftrightarrow> did_as_str (vc_issuer_of E common) \<in> set (ca_issuer common # ca_trusted_issuers common)"
    by simp
  have "mint_run E common = Ok \<lparr> fx_jwt = token, fx_vc_issuer_did = did_as_str (vc_issuer_of E common),
      fx_credential = doc \<rparr>"
    using token(1) vc by (simp add: mint_run_def mint_jwt_def mint_credential_def Let_def
        vc_issuer_of_def vc_subject_of_def)
  then show ?thesis
    using jwt cred vc(3) st
    by (simp add: service_verify_jwt_def service_verify_credential_json_def verify_credential_json_def
        service_jwks_def Let_def)
qed

section \<open>Witness\<close>

definition mint_args :: common_args where
  "mint_args = default_common_args\<lparr>ca_trusted_issuers :=
     [did_as_str (did_from_verifying_key (sample_primitives ()) 8)]\<rparr>"

definition mint_env :: "verifiable_credential list \<Rightarrow> (byte, byte) vc_env" where
  "mint_env vcs = sample_vc_env
     [unsigned_view_of (fixture_credential (did_from_verifying_key (sample_primitives ()) 8)
        (did_from_verifying_key (sample_primitives ()) 9))] vcs
     [local_header] [fixture_claims ''https://issuer.local'' ''edge-api''] [] ()"

lemma replicate_head: "(case replicate 32 k of [] \<Rightarrow> 0 | b # _ \<Rightarrow> b) = (k :: byte)"
  by (simp add: numeral_eq_Suc)

lemma mint_env_laws [simp]:
  "base64_roundtrip (mint_env vcs)" "base64_dotfree (mint_env vcs)" "base58_roundtrip (mint_env vcs)"
  "hex_roundtrip (mint_env vcs)" "key_roundtrip (mint_env vcs)" "signatures_verify (mint_env vcs)"
  by (simp_all add: mint_env_def)

lemma mint_env_keys [simp]:
  "local_signer (mint_env vcs) k = k" "ext_sk_verifying_key (mint_env vcs) = id"
  "did_from_verifying_key (mint_env vcs) k = did_from_verifying_key (sample_primitives ()) k"
  by (simp_all add: mint_env_def local_signer_def sample_vc_env_def sample_jwt_env_def sample_primitives_def
      did_from_verifying_key_def replicate_head)

lemma mint_args_simps [simp]: "ca_signer_seed mint_args = 7" "ca_issuer mint_args = ''https://issuer.local''"
  "ca_audience mint_args = None" "ca_jwks_url mint_args = None" "ca_leeway_secs mint_args = 60"
  "ca_trusted_issuers mint_args = [did_as_str (did_from_verifying_key (sample_primitives ()) 8)]"
  by (simp_all add: mint_args_def default_common_args_def)

lemma mint_env_sign: "sign_with (mint_env vcs) = sign_with (mint_env [])"
  by (rule ext)+ (simp add: sign_with_def signing_payload_def sign_payload_def mint_env_def sample_vc_env_def
      sample_jwt_env_def sample_primitives_def)

lemma mint_env_serializes: "\<exists>vcs. fixtures_serialize (mint_env vcs) mint_args"
proof -
  let ?vc = "fixture_credential (did_from_verifying_key (sample_primitives ()) 8)
        (did_from_verifying_key (sample_primitives ()) 9)"
  obtain vc where vc: "sign_with (mint_env []) ?vc 8 FIXTURE_IAT = Ok vc"
    by (simp add: sign_with_def signing_payload_def mint_env_def table_to_vec_def Let_def)
  have "json_credential (mint_env [vc]) vc"
    by (simp add: mint_env_def sample_json_credential)
  moreover have "json_header (mint_env [vc]) local_header"
    "json_claims (mint_env [vc]) (fixture_claims ''https://issuer.local'' ''edge-api'')"
    by (simp_all add: mint_env_def sample_vc_env_def sample_json_header sample_json_claims)
  ultimately have "fixtures_serialize (mint_env [vc]) mint_args"
    using vc by (simp add: fixtures_serialize_def vc_issuer_of_def vc_subject_of_def mint_env_sign [of "[vc]"])
  then show ?thesis by blast
qed

theorem minted_fixtures_verify_witness:
  "\<exists>vcs f st out. mint_run (mint_env vcs) mint_args = Ok f
     \<and> build_state (mint_env vcs) dead_net list_channel counting_governor mint_args 100 = Some (Ok st)
     \<and> out_valid (fst (service_verify_jwt (mint_env vcs) list_channel (Ok 1700000000) (fx_jwt f) None (ss_verifier st)))
     \<and> fst (service_verify_credential_json (mint_env vcs) list_channel (Ok 1700000000) (fx_credential f) None
         (ss_verifier st)) = Ok out \<and> out_valid out"
proof -
  obtain vcs where ser: "fixtures_serialize (mint_env vcs) mint_args"
    using mint_env_serializes by blast
  obtain st where st: "build_state (mint_env vcs) dead_net list_channel counting_governor mint_args 100 = Some (Ok st)"
    using build_state_static [of mint_args "mint_env vcs" dead_net list_channel counting_governor 100] by auto
  have trusted: "did_as_str (vc_issuer_of (mint_env vcs) mint_args) \<in> set (ca_issuer mint_args # ca_trusted_issuers mint_args)"
    by (simp add: vc_issuer_of_def)
  have range: "time_fits (build_policy mint_args) (now_unix (Ok 1700000000 :: (nat, unit) result) System_Wall_Clock)"
    "0 \<le> sint (now_unix (Ok 1700000000 :: (nat, unit) result) System_Wall_Clock) + sint (ca_leeway_secs mint_args)"
    "sint (now_unix (Ok 1700000000 :: (nat, unit) result) System_Wall_Clock) < 4102444800 + sint (ca_leeway_secs mint_args)"
    by (simp_all add: time_fits_def add_fits_def sub_fits_def i64_fits_def)
  obtain f out where f: "mint_run (mint_env vcs) mint_args = Ok f"
    "out_valid (fst (service_verify_jwt (mint_env vcs) list_channel (Ok 1700000000) (fx_jwt f) None (ss_verifier st)))"
    "fst (service_verify_credential_json (mint_env vcs) list_channel (Ok 1700000000) (fx_credential f) None
         (ss_verifier st)) = Ok out" "out_valid out"
    using minted_fixtures_verify [OF mint_env_laws ser st range] trusted mint_args_simps(3) by metis
  with st show ?thesis
    by (intro exI [of _ vcs] exI [of _ f] exI [of _ st] exI [of _ out] conjI)
qed

end
