(* ===== verification/Node_Demo.thy ===== *)
theory Node_Demo
  imports Node_Mint
begin

text \<open>
  \<open>edgeauth-node/src/demo.rs\<close>: the \<open>demo\<close> command. It mints six artifacts and sends them
  through the real service. The clock is read once for minting and again for every
  verification, so the run takes the sequence of readings. It runs on a console: what it
  printed before a failing step stays printed.
\<close>

section \<open>Operations\<close>

definition demo_claims :: "string \<Rightarrow> string \<Rightarrow> i64 \<Rightarrow> i64 \<Rightarrow> jwt_claims" where
  "demo_claims issuer audience nbf expiry = \<lparr> claim_iss = Some issuer, claim_sub = Some ''user-demo'',
     claim_aud = Some (Single audience), claim_exp = Some expiry, claim_nbf = Some nbf,
     claim_iat = Some nbf, claim_jti = Some (''jti-'' @ show_int (sint nbf)),
     claim_scope = Some ''openid profile'', claim_roles = [''reader''] \<rparr>"

definition demo_mint_jwt ::
  "('vk, 'sk, 'z) jwt_env_scheme \<Rightarrow> 'sk \<Rightarrow> string \<Rightarrow> string \<Rightarrow> i64 \<Rightarrow> i64 \<Rightarrow> (string, node_error) result" where
  "demo_mint_jwt E signer issuer audience nbf expiry =
     map_err (\<lambda>e. Node_Message (''encoding JWT: '' @ verify_error_display e))
       (encode_jwt E local_header (demo_claims issuer audience nbf expiry) signer)"

definition build_credential :: "did \<Rightarrow> did \<Rightarrow> i64 \<Rightarrow> verifiable_credential" where
  "build_credential issuer subject now = \<lparr> vc_id = ''urn:cred:demo-1'', vc_credential_type = ''KycVerified'',
     vc_issuer = issuer,
     vc_subject = \<lparr> subj_id = subject, subj_claims = fmupd ''kyc_level'' ''gold'' fmempty \<rparr>,
     vc_issued_at = now - 3600, vc_expires_at = Some (now + 86400), vc_proof = None \<rparr>"

definition tamper_credential :: "verifiable_credential \<Rightarrow> verifiable_credential" where
  "tamper_credential vc = vc\<lparr>vc_subject := (vc_subject vc)\<lparr>subj_claims :=
     fmupd ''kyc_level'' ''platinum'' (subj_claims (vc_subject vc))\<rparr>\<rparr>"

text \<open>
  The printed line: the label padded to 22 characters (\<open>{label:<22}\<close>), absent values as a dash.
\<close>

definition pad_right :: "nat \<Rightarrow> string \<Rightarrow> string" where
  "pad_right n s = s @ replicate (n - length s) CHR '' ''"

definition or_dash :: "string option \<Rightarrow> string" where
  "or_dash x = (case x of None \<Rightarrow> ''-'' | Some s \<Rightarrow> s)"

definition outcome_line :: "string \<Rightarrow> verification_outcome \<Rightarrow> string" where
  "outcome_line label out = ''  ['' @ (if out_valid out then ''ACCEPT'' else ''REJECT'') @ ''] ''
     @ pad_right 22 label @ '' subject='' @ or_dash (out_subject out) @ '' reason='' @ or_dash (out_reason out)"

definition demo_policy :: "common_args \<Rightarrow> did \<Rightarrow> trust_policy" where
  "demo_policy common issuer_did = with_leeway (with_audience (with_trusted_issuer (with_trusted_issuer
     permissive (ca_issuer common)) (did_as_str issuer_did)) ''edge-api'') 60"

definition demo_service ::
  "('vk, 'sk, 'z) primitives_scheme \<Rightarrow> common_args \<Rightarrow> did \<Rightarrow> 'ch edge_verifier" where
  "demo_service E common issuer_did =
     service_new (static_new (local_jwks E (ca_signer_seed common))) System_Wall_Clock Noop_Sink
       (demo_policy common issuer_did)"

text \<open>One token: mint it, verify it, print the line.\<close>

definition demo_token ::
  "('vk, 'sk, 'y) jwt_env_scheme \<Rightarrow> ('ch, 'z) broadcast_env_scheme \<Rightarrow> 'sk \<Rightarrow> (nat, unit) result \<Rightarrow>
     string \<Rightarrow> string \<Rightarrow> string \<Rightarrow> i64 \<Rightarrow> i64 \<Rightarrow> 'ch service_console \<Rightarrow> (unit, stop) result \<times> 'ch service_console" where
  "demo_token E B signer os label issuer audience nbf expiry c =
     and_then (map_err Failed (demo_mint_jwt E signer issuer audience nbf expiry), c) (\<lambda>token c.
     case service_verify_jwt E B os token None (con_verifier c) of (out, v) \<Rightarrow>
       print_line (outcome_line label out) (c\<lparr>con_verifier := v\<rparr>))"

definition demo_credential ::
  "('vk, 'sk, 'y) vc_env_scheme \<Rightarrow> ('ch, 'z) broadcast_env_scheme \<Rightarrow> (nat, unit) result \<Rightarrow>
     string \<Rightarrow> string \<Rightarrow> verifiable_credential \<Rightarrow> 'ch service_console \<Rightarrow> (unit, stop) result \<times> 'ch service_console" where
  "demo_credential E B os label failure vc c =
     and_then (map_err (\<lambda>e. Failed (Json_Failed e)) (ext_vc_to_string E vc), c) (\<lambda>json c.
     case service_verify_credential_json E B os json None (con_verifier c) of (r, v) \<Rightarrow>
       and_then (map_err (\<lambda>e. Failed (Node_Message (failure @ verify_error_display e))) r, c\<lparr>con_verifier := v\<rparr>)
         (\<lambda>out. print_line (outcome_line label out)))"

text \<open>
  The first and the last line, as the arguments of \<open>println!\<close>: the dash of the heading is
  three bytes of UTF-8, and the line breaks within the texts are kept.
\<close>

definition demo_heading :: string where
  "demo_heading = ''EdgeAuth demo '' @ [CHR 0xE2, CHR 0x80, CHR 0x94] @ '' verifying with local key ''
     @ [CHR 0x60] @ LOCAL_KID @ [CHR 0x60, CHR 0x0A]"

definition stats_line :: "stats_snapshot \<Rightarrow> string" where
  "stats_line st = CHR 0x0A # ''stats: jwt accepted='' @ show_nat (unat (st_jwt_accepted st))
     @ '' rejected='' @ show_nat (unat (st_jwt_rejected st))
     @ '' | vc accepted='' @ show_nat (unat (st_vc_accepted st))
     @ '' rejected='' @ show_nat (unat (st_vc_rejected st))"

text \<open>
  The run in two phases: items 1 to 4 of the source are tokens, items 5 and 6 credentials. The
  function \<open>os\<close> gives the clock readings: \<open>os 0\<close> for minting, \<open>os i\<close> for the verification of
  item \<open>i\<close>.
\<close>

definition demo_token_phase ::
  "('vk, 'sk, 'y) jwt_env_scheme \<Rightarrow> ('ch, 'z) broadcast_env_scheme \<Rightarrow> (nat \<Rightarrow> (nat, unit) result) \<Rightarrow>
     'sk \<Rightarrow> string \<Rightarrow> i64 \<Rightarrow> 'ch service_console \<Rightarrow> (unit, stop) result \<times> 'ch service_console" where
  "demo_token_phase E B os signer issuer now c =
     and_then (demo_token E B signer (os 1) ''valid JWT'' issuer ''edge-api'' (now - 60) (now + 3600) c) (\<lambda>_ c.
     and_then (demo_token E B signer (os 2) ''expired JWT'' issuer ''edge-api'' (now - 7200) (now - 3600) c) (\<lambda>_ c.
     and_then (demo_token E B signer (os 3) ''untrusted-issuer JWT'' ''https://evil.example'' ''edge-api''
                 (now - 60) (now + 3600) c) (\<lambda>_ c.
     demo_token E B signer (os 4) ''wrong-audience JWT'' issuer ''other-api'' (now - 60) (now + 3600) c)))"

definition demo_credential_phase ::
  "('vk, 'sk, 'y) vc_env_scheme \<Rightarrow> ('ch, 'z) broadcast_env_scheme \<Rightarrow> (nat \<Rightarrow> (nat, unit) result) \<Rightarrow>
     'sk \<Rightarrow> verifiable_credential \<Rightarrow> i64 \<Rightarrow> 'ch service_console \<Rightarrow> (unit, stop) result \<times> 'ch service_console" where
  "demo_credential_phase E B os vc_key draft now c =
     and_then (map_err (\<lambda>e. Failed (Node_Message (''signing credential: '' @ verify_error_display e)))
                 (sign_with E draft vc_key now), c) (\<lambda>vc c.
     and_then (demo_credential E B (os 5) ''signed credential'' ''verifying credential: '' vc c) (\<lambda>_ c.
     demo_credential E B (os 6) ''tampered credential'' ''verifying tampered credential: ''
       (tamper_credential vc) c))"

definition demo_run ::
  "('vk, 'sk, 'y) vc_env_scheme \<Rightarrow> ('ch, 'z) broadcast_env_scheme \<Rightarrow> (nat \<Rightarrow> (nat, unit) result) \<Rightarrow>
     (nat \<Rightarrow> bool) \<Rightarrow> common_args \<Rightarrow> (unit, node_error) result option \<times> string list" where
  "demo_run E B os stdout common =
     (let seed = ca_signer_seed common;
          signer = local_signer E seed;
          vc_key = local_signer E (seed + 1);
          issuer_did = did_from_verifying_key E (ext_sk_verifying_key E vc_key);
          subject = did_from_verifying_key E (ext_sk_verifying_key E (local_signer E (seed + 2)));
          verifier = demo_service E common issuer_did;
          now = service_now (os 0) verifier
      in report (and_then (print_line demo_heading (console_start stdout verifier)) (\<lambda>_ c.
         and_then (demo_token_phase E B os signer (ca_issuer common) now c) (\<lambda>_ c.
         and_then (demo_credential_phase E B os vc_key (build_credential issuer_did subject now) now c) (\<lambda>_ c.
         print_line (stats_line (service_stats (con_verifier c))) c)))))"

section \<open>Printing\<close>

lemma demo_token_exact: "stdout_exact (demo_token E B signer os label issuer audience nbf expiry)"
proof -
  let ?h = "\<lambda>token v. case service_verify_jwt E B os token None v of (out, v) \<Rightarrow> (Ok out :: (verification_outcome, stop) result, v)"
  have eq: "demo_token E B signer os label issuer audience nbf expiry
      = (\<lambda>c. and_then (map_err Failed (demo_mint_jwt E signer issuer audience nbf expiry), c) (\<lambda>token c.
          and_then (fst (?h token (con_verifier c)), c\<lparr>con_verifier := snd (?h token (con_verifier c))\<rparr>)
            (\<lambda>out. print_line (outcome_line label out))))"
    by (intro ext) (simp add: demo_token_def case_prod_unfold)
  have "map_err Failed (demo_mint_jwt E signer issuer audience nbf expiry) \<noteq> Err (Panicked m)" for m
    by (cases "demo_mint_jwt E signer issuer audience nbf expiry") simp_all
  moreover have "stdout_exact (\<lambda>c. and_then (fst (?h token (con_verifier c)), c\<lparr>con_verifier := snd (?h token (con_verifier c))\<rparr>)
            (\<lambda>out. print_line (outcome_line label out)))" for token
    by (rule stdout_exact_and_then [OF stdout_exact_work [of "?h token"]]) (simp_all add: stdout_exact_print split: prod.split)
  ultimately show ?thesis
    unfolding eq by (intro stdout_exact_and_then [OF stdout_exact_return])
qed

lemma demo_credential_exact: "stdout_exact (demo_credential E B os label failure vc)"
proof -
  let ?h = "\<lambda>json v. case service_verify_credential_json E B os json None v of (r, v) \<Rightarrow>
      (map_err (\<lambda>e. Failed (Node_Message (failure @ verify_error_display e))) r, v)"
  have eq: "demo_credential E B os label failure vc
      = (\<lambda>c. and_then (map_err (\<lambda>e. Failed (Json_Failed e)) (ext_vc_to_string E vc), c) (\<lambda>json c.
          and_then (fst (?h json (con_verifier c)), c\<lparr>con_verifier := snd (?h json (con_verifier c))\<rparr>)
            (\<lambda>out. print_line (outcome_line label out))))"
    by (intro ext) (simp add: demo_credential_def case_prod_unfold)
  have "stdout_exact (\<lambda>c. and_then (fst (?h json (con_verifier c)), c\<lparr>con_verifier := snd (?h json (con_verifier c))\<rparr>)
            (\<lambda>out. print_line (outcome_line label out)))" for json
    by (rule stdout_exact_and_then [OF stdout_exact_work [of "?h json"]]) (simp_all add: stdout_exact_print split: prod.split)
  then show ?thesis
    unfolding eq by (intro stdout_exact_and_then [OF stdout_exact_return]) simp_all
qed

lemma stats_line_exact: "stdout_exact (\<lambda>c. print_line (stats_line (service_stats (con_verifier c))) c)"
proof -
  have eq: "(\<lambda>c. print_line (stats_line (service_stats (con_verifier c))) c)
      = (\<lambda>c. and_then (Ok (service_stats (con_verifier c)), c\<lparr>con_verifier := con_verifier c\<rparr>)
          (\<lambda>st. print_line (stats_line st)))"
    by (intro ext) simp
  show ?thesis
    unfolding eq
    using stdout_exact_and_then [OF stdout_exact_work [of "\<lambda>v. (Ok (service_stats v), v)"] stdout_exact_print [of "stats_line _"]]
    by simp
qed

lemma demo_token_phase_exact: "stdout_exact (demo_token_phase E B os signer issuer now)"
  unfolding demo_token_phase_def [abs_def] by (intro stdout_exact_and_then demo_token_exact)

lemma demo_credential_phase_exact: "stdout_exact (demo_credential_phase E B os vc_key draft now)"
  unfolding demo_credential_phase_def [abs_def]
  by (intro stdout_exact_and_then demo_credential_exact stdout_exact_return) simp

lemma demo_run_exact:
  fixes B :: "('ch, 'z) broadcast_env_scheme"
  assumes "demo_run E B os always_open common = (r, ls)"
  shows "r \<noteq> None
    \<and> ((\<forall>i<length ls. stdout i) \<longrightarrow> demo_run E B os stdout common = (r, ls))
    \<and> (\<forall>n. blocked_at stdout 0 (length ls) n \<longrightarrow> demo_run E B os stdout common = (None, take n ls))"
proof -
  let ?vc_key = "local_signer E (ca_signer_seed common + 1)"
  let ?issuer = "did_from_verifying_key E (ext_sk_verifying_key E ?vc_key)"
  let ?subject = "did_from_verifying_key E (ext_sk_verifying_key E (local_signer E (ca_signer_seed common + 2)))"
  define v :: "'ch edge_verifier" where "v = demo_service E common ?issuer"
  let ?now = "service_now (os 0) v"
  let ?f = "\<lambda>c. and_then (print_line demo_heading c) (\<lambda>_ c.
      and_then (demo_token_phase E B os (local_signer E (ca_signer_seed common)) (ca_issuer common) ?now c) (\<lambda>_ c.
      and_then (demo_credential_phase E B os ?vc_key (build_credential ?issuer ?subject ?now) ?now c) (\<lambda>_ c.
      print_line (stats_line (service_stats (con_verifier c))) c)))"
  have run: "demo_run E B os out common = report (?f (console_start out v))" for out
    by (simp add: demo_run_def v_def Let_def)
  have "stdout_exact ?f"
    by (intro stdout_exact_and_then stdout_exact_print demo_token_phase_exact demo_credential_phase_exact stats_line_exact)
  from report_exact [OF this assms [unfolded run]] show ?thesis
    unfolding run by blast
qed

section \<open>One artifact\<close>

text \<open>A verified artifact: its decision is recorded by the service and its line printed.\<close>

definition console_after ::
  "('ch, 'z) broadcast_env_scheme \<Rightarrow> (nat, unit) result \<times> string \<times> verification_outcome \<Rightarrow>
     'ch service_console \<Rightarrow> 'ch service_console" where
  "console_after B x c =
     (case x of (os, label, out) \<Rightarrow>
        c\<lparr>con_lines := con_lines c @ [outcome_line label out],
          con_verifier := service_record B out (service_now os (con_verifier c)) (con_verifier c)\<rparr>)"

definition demo_issuer :: "('vk, 'sk, 'z) primitives_scheme \<Rightarrow> common_args \<Rightarrow> did" where
  "demo_issuer E common =
     did_from_verifying_key E (ext_sk_verifying_key E (local_signer E (ca_signer_seed common + 1)))"

definition demo_ready :: "('vk, 'sk, 'z) primitives_scheme \<Rightarrow> common_args \<Rightarrow> 'ch service_console \<Rightarrow> bool" where
  \<comment> \<open>the console of the command on a standard output that can be written\<close>
  "demo_ready E common c \<longleftrightarrow>
     con_stdout c = always_open \<and> provider_current (sv_jwks (con_verifier c)) = local_jwks E (ca_signer_seed common)
   \<and> sv_clock (con_verifier c) = System_Wall_Clock
   \<and> sv_policy (con_verifier c) = demo_policy common (demo_issuer E common)"

lemma service_record_ports [simp]:
  "sv_policy (service_record B out now s) = sv_policy s"
  "sv_jwks (service_record B out now s) = sv_jwks s"
  "sv_clock (service_record B out now s) = sv_clock s"
  "sv_counters (service_record B out now s) = count_outcome out (sv_counters s)"
  by (simp_all add: service_record_def)

lemma demo_ready_start [simp]:
  "demo_ready E common (c\<lparr>con_lines := ls\<rparr>) = demo_ready E common c"
  "demo_ready E common (console_start always_open (demo_service E common (demo_issuer E common)))"
  by (simp_all add: demo_ready_def console_start_def demo_service_def service_new_def static_new_def)

lemma console_after_simps [simp]:
  "con_lines (console_after B (os, label, out) c) = con_lines c @ [outcome_line label out]"
  "sv_counters (con_verifier (console_after B (os, label, out) c)) = count_outcome out (sv_counters (con_verifier c))"
  "demo_ready E common (console_after B (os, label, out) c) = demo_ready E common c"
  by (simp_all add: console_after_def demo_ready_def)

lemma console_after_lines:
  "con_lines (fold (console_after B) xs c) = con_lines c @ map (\<lambda>(os, label, out). outcome_line label out) xs"
proof (induction xs arbitrary: c)
  case (Cons x xs)
  then show ?case by (cases x) simp
qed simp

lemma console_after_ready: "demo_ready E common (fold (console_after B) xs c) = demo_ready E common c"
proof (induction xs arbitrary: c)
  case (Cons x xs)
  then show ?case by (cases x) simp
qed simp

lemma demo_token_Ok:
  assumes "base64_roundtrip E" "base64_dotfree E" "signatures_verify E" "key_roundtrip E"
    and "json_header E local_header" "json_claims E (demo_claims issuer audience nbf expiry)"
    and "demo_ready E common c"
  obtains out where
    "demo_token E B (local_signer E (ca_signer_seed common)) os label issuer audience nbf expiry c
       = (Ok (), console_after B (os, label, out) c)"
    "out_kind out = Jwt_Kind"
    "out_checks out = jwt_checks (demo_claims issuer audience nbf expiry)
       (demo_policy common (demo_issuer E common)) (now_unix os System_Wall_Clock)"
    "out_valid out = checks_all (out_checks out)" "out_reason out = first_failure (out_checks out)"
proof -
  let ?claims = "demo_claims issuer audience nbf expiry" and ?seed = "ca_signer_seed common"
    and ?p = "demo_policy common (demo_issuer E common)" and ?t = "now_unix os System_Wall_Clock"
  obtain token j where t: "encode_jwt E local_header ?claims (local_signer E ?seed) = Ok token"
    "signed_jwt_parse E token = Ok j" "sj_claims j = ?claims"
    "signed_jwt_verify_with E j (local_jwks E ?seed) = Ok ()"
    using assms(1-6) by (rule local_token_valid)
  then show ?thesis
    using verify_jwt_Ok [OF t(2,4), of ?p ?t] assms(7)
    by (intro that [of "verify_jwt E token (local_jwks E ?seed) ?p ?t"])
      (simp_all add: demo_ready_def demo_token_def demo_mint_jwt_def service_verify_jwt_def
        service_now_def print_line_def console_after_def Let_def)
qed

lemma demo_policy_simps [simp]:
  "tp_trusted_issuers (demo_policy c d) = {|did_as_str d, ca_issuer c|}"
  "tp_expected_audience (demo_policy c d) = Some ''edge-api''" "tp_required_scopes (demo_policy c d) = {||}"
  "tp_revoked_jti (demo_policy c d) = {||}" "tp_leeway_secs (demo_policy c d) = 60"
  by (simp_all add: demo_policy_def policy_defs)

lemma demo_jwt_checks:
  assumes "0 \<le> sint t" "sint t + 60 < 2 ^ 63"
  shows "jwt_checks (demo_claims issuer audience nbf expiry) (demo_policy c d) t =
    \<lparr> chk_signature = True, chk_not_expired = (sint t - 60 < sint expiry),
      chk_not_before = (sint nbf \<le> sint t + 60),
      chk_issuer_trusted = (issuer = did_as_str d \<or> issuer = ca_issuer c),
      chk_audience = (audience = ''edge-api''), chk_scopes = True, chk_not_revoked = True \<rparr>"
proof -
  have "add_fits t 60" "sub_fits t 60"
    using assms by (simp_all add: add_fits_def sub_fits_def i64_fits_def)
  then show ?thesis
    by (auto simp: jwt_checks_def Let_def demo_claims_def sless_sub_iff sle_add_iff issuer_trusted_iff)
qed

text \<open>Times of the demonstration: \<open>secs\<close> is the reading for minting.\<close>

lemma time_offsets:
  assumes "int secs + 100000 < 2 ^ 63"
  shows "sint (word_of_nat secs :: i64) = int secs"
    "sint (word_of_nat secs - 60 :: i64) = int secs - 60"
    "sint (word_of_nat secs + 3600 :: i64) = int secs + 3600"
    "sint (word_of_nat secs - 3600 :: i64) = int secs - 3600"
    "sint (word_of_nat secs - 7200 :: i64) = int secs - 7200"
    "sint (word_of_nat secs + 86400 :: i64) = int secs + 86400"
proof -
  have base: "sint (word_of_nat secs :: i64) = int secs"
    using now_unix_exact [of secs] assms by simp
  then show "sint (word_of_nat secs :: i64) = int secs" .
  have "sub_fits (word_of_nat secs) 60" "add_fits (word_of_nat secs) 3600" "sub_fits (word_of_nat secs) 3600"
    "sub_fits (word_of_nat secs) 7200" "add_fits (word_of_nat secs) 86400"
    using assms by (simp_all add: add_fits_def sub_fits_def i64_fits_def base)
  then show
    "sint (word_of_nat secs - 60 :: i64) = int secs - 60"
    "sint (word_of_nat secs + 3600 :: i64) = int secs + 3600"
    "sint (word_of_nat secs - 3600 :: i64) = int secs - 3600"
    "sint (word_of_nat secs - 7200 :: i64) = int secs - 7200"
    "sint (word_of_nat secs + 86400 :: i64) = int secs + 86400"
    by (simp_all add: sint_sub_fits sint_add_fits base)
qed

lemma demo_credential_Ok:
  assumes "json_credential E vc" "demo_ready E common c"
  shows "demo_credential E B os label failure vc c = (Ok (), console_after B
     (os, label, verify_credential E vc (demo_policy common (demo_issuer E common)) (now_unix os System_Wall_Clock)) c)"
proof -
  obtain doc where "ext_vc_to_string E vc = Ok doc" "ext_vc_from_str E doc = Ok vc"
    using assms(1) by (auto simp: json_credential_def)
  then show ?thesis
    using assms(2)
    by (simp add: demo_ready_def demo_credential_def service_verify_credential_json_def
        verify_credential_json_def service_now_def print_line_def console_after_def Let_def)
qed

text \<open>
  The tampered credential keeps the proof of the original, so its verdict is that of the key on the
  old signature and the new payload.
\<close>

lemma tampered_verdict:
  assumes "did_verifying_key E (vc_issuer vc) = Ok key" "hex_roundtrip E"
    and "vc_proof vc = Some \<lparr> proof_type = PROOF_TYPE, proof_verification_method = vc_issuer vc,
           proof_created = created, proof_signature_hex = ext_hex_encode E sig \<rparr>"
    and "length sig = SIGNATURE_LEN" "ext_view_to_vec E (unsigned_view_of (tamper_credential vc)) = Ok m"
  shows "verify_signature E (tamper_credential vc) = (if ext_vk_verify E key m sig then Ok () else Err SignatureInvalid)"
  using assms
  by (simp add: verify_signature_def tamper_credential_def proof_signature_bytes_def signing_payload_def
      verify_payload_def ext_laws)

lemma tampered_checks [simp]: "credential_checks (tamper_credential vc) p t = credential_checks vc p t"
  by (simp add: credential_checks_def tamper_credential_def validity_at_def)

section \<open>The whole demonstration\<close>

definition demo_vc :: "('vk, 'sk, 'z) primitives_scheme \<Rightarrow> common_args \<Rightarrow> i64 \<Rightarrow> verifiable_credential" where
  "demo_vc E common now = build_credential (demo_issuer E common)
     (did_from_verifying_key E (ext_sk_verifying_key E (local_signer E (ca_signer_seed common + 2)))) now"

text \<open>
  What the run needs of \<open>serde_json\<close>: its header, its four claim sets and its two credentials are
  read back as written, and the payloads of the two credentials exist and, as the credentials
  differ, are different.
\<close>

definition demo_serializes :: "('vk, 'sk, 'z) vc_env_scheme \<Rightarrow> common_args \<Rightarrow> i64 \<Rightarrow> bool" where
  "demo_serializes E common now \<longleftrightarrow>
     json_header E local_header
   \<and> json_claims E (demo_claims (ca_issuer common) ''edge-api'' (now - 60) (now + 3600))
   \<and> json_claims E (demo_claims (ca_issuer common) ''edge-api'' (now - 7200) (now - 3600))
   \<and> json_claims E (demo_claims ''https://evil.example'' ''edge-api'' (now - 60) (now + 3600))
   \<and> json_claims E (demo_claims (ca_issuer common) ''other-api'' (now - 60) (now + 3600))
   \<and> view_serializes E (unsigned_view_of (tamper_credential (demo_vc E common now)))
   \<and> views_distinct E (unsigned_view_of (demo_vc E common now)) (unsigned_view_of (tamper_credential (demo_vc E common now)))
   \<and> (\<exists>vc. sign_with E (demo_vc E common now) (local_signer E (ca_signer_seed common + 1)) now = Ok vc
         \<and> json_credential E vc \<and> json_credential E (tamper_credential vc))"

text \<open>
  A forgery against the issuer of the demonstration: its key accepts, for the payload of the
  tampered credential, the signature it made over the different payload of the original. Nothing
  is assumed about whether one exists.
\<close>

definition demo_forgery :: "('vk, 'sk, 'z) vc_env_scheme \<Rightarrow> common_args \<Rightarrow> i64 \<Rightarrow> bool" where
  "demo_forgery E common now \<longleftrightarrow>
     (let sk = local_signer E (ca_signer_seed common + 1) in
      case (ext_view_to_vec E (unsigned_view_of (demo_vc E common now)),
            ext_view_to_vec E (unsigned_view_of (tamper_credential (demo_vc E common now)))) of
        (Ok m, Ok m') \<Rightarrow> m' \<noteq> m \<and> ext_vk_verify E (ext_sk_verifying_key E sk) m' (ext_sk_sign E sk m)
      | _ \<Rightarrow> False)"

lemma tampered_view_neq: "unsigned_view_of (demo_vc E common now) \<noteq> unsigned_view_of (tamper_credential (demo_vc E common now))"
proof -
  have "fmlookup (subj_claims (view_subject (unsigned_view_of (demo_vc E common now)))) ''kyc_level''
      \<noteq> fmlookup (subj_claims (view_subject (unsigned_view_of (tamper_credential (demo_vc E common now))))) ''kyc_level''"
    by (simp add: unsigned_view_of_def tamper_credential_def demo_vc_def build_credential_def)
  then show ?thesis by auto
qed

lemma demo_issuer_not_evil: "did_as_str (demo_issuer E common) \<noteq> ''https://evil.example''"
  by (simp add: demo_issuer_def DID_KEY_PREFIX_def)

lemma demo_signed:
  assumes "base58_roundtrip E" "key_roundtrip E" "hex_roundtrip E" "signatures_verify E"
    and "sign_with E (demo_vc E common now) (local_signer E (ca_signer_seed common + 1)) now = Ok vc"
    and "demo_serializes E common now"
  shows "verify_signature E (tamper_credential vc) = (if demo_forgery E common now then Ok () else Err SignatureInvalid)"
proof -
  let ?sk = "local_signer E (ca_signer_seed common + 1)" and ?vc = "demo_vc E common now"
  obtain m where m: "ext_view_to_vec E (unsigned_view_of ?vc) = Ok m"
    using assms(5) by (cases "ext_view_to_vec E (unsigned_view_of ?vc)") (auto simp: sign_with_def signing_payload_def)
  obtain m' where m': "ext_view_to_vec E (unsigned_view_of (tamper_credential ?vc)) = Ok m'"
    using assms(6) by (auto simp: demo_serializes_def view_serializes_def is_ok_iff)
  have "m' \<noteq> m"
    using assms(6) m m' tampered_view_neq by (force simp: demo_serializes_def views_distinct_def)
  then have forgery: "demo_forgery E common now \<longleftrightarrow> ext_vk_verify E (ext_sk_verifying_key E ?sk) m' (ext_sk_sign E ?sk m)"
    by (simp add: demo_forgery_def m m' Let_def)
  have vc: "vc = ?vc\<lparr>vc_proof := Some \<lparr> proof_type = PROOF_TYPE, proof_verification_method = vc_issuer ?vc,
      proof_created = now, proof_signature_hex = ext_hex_encode E (ext_sk_sign E ?sk m) \<rparr>\<rparr>"
    using assms(5) m by (simp add: sign_with_def signing_payload_def sign_payload_def Let_def)
  have issuer: "vc_issuer ?vc = did_from_verifying_key E (ext_sk_verifying_key E ?sk)"
    by (simp add: demo_vc_def build_credential_def demo_issuer_def)
  have "unsigned_view_of (tamper_credential vc) = unsigned_view_of (tamper_credential ?vc)"
    by (simp add: vc tamper_credential_def unsigned_view_of_def)
  then show ?thesis
    unfolding forgery using m' assms(1-4) issuer
    by (intro tampered_verdict [of E vc "ext_sk_verifying_key E ?sk" now "ext_sk_sign E ?sk m" m'])
      (simp_all add: vc ext_laws)
qed

lemma demo_vc_checks:
  assumes "unsigned_view_of vc = unsigned_view_of (demo_vc E common (word_of_nat secs))"
    and "int secs + 100000 < 2 ^ 63" "sint t = int secs + int d" "d \<le> 3000"
  shows "checks_all (credential_checks vc (demo_policy common (demo_issuer E common)) t)"
proof -
  let ?p = "demo_policy common (demo_issuer E common)"
  have fits: "time_fits ?p t"
    using assms(2-4) by (simp add: time_fits_def add_fits_def sub_fits_def i64_fits_def)
  have "credential_acceptable ?p (sint t) (demo_vc E common (word_of_nat secs))"
    using assms(3,4) time_offsets [OF assms(2)]
    by (simp add: credential_acceptable_def not_expired_spec_def not_before_spec_def issuer_trusted_iff
        demo_vc_def build_credential_def)
  then show ?thesis
    using credential_acceptable_view [OF assms(1)] fits by (simp add: credential_checks_acceptable)
qed

text \<open>The reason each token gets, from its checks.\<close>

lemma demo_reason:
  "first_failure \<lparr> chk_signature = True, chk_not_expired = e, chk_not_before = True, chk_issuer_trusted = i,
     chk_audience = a, chk_scopes = True, chk_not_revoked = True \<rparr> =
     (if \<not> i then Some ''issuer is not trusted'' else if \<not> e then Some ''artifact has expired (exp)''
      else if \<not> a then Some ''audience mismatch (aud)'' else None)"
  "checks_all \<lparr> chk_signature = True, chk_not_expired = e, chk_not_before = True, chk_issuer_trusted = i,
     chk_audience = a, chk_scopes = True, chk_not_revoked = True \<rparr> \<longleftrightarrow> e \<and> i \<and> a"
  by (auto simp: first_failure_def checks_all_def)

definition demo_labels :: "string list" where
  "demo_labels = [''valid JWT'', ''expired JWT'', ''untrusted-issuer JWT'', ''wrong-audience JWT'',
     ''signed credential'', ''tampered credential'']"

text \<open>
  One token of the demonstration at a reading within 50 minutes of the minting time.
\<close>

lemma demo_step:
  assumes "base64_roundtrip E" "base64_dotfree E" "signatures_verify E" "key_roundtrip E"
    and "json_header E local_header" "json_claims E (demo_claims issuer audience nbf expiry)"
    and "demo_ready E common c"
    and "int secs + 100000 < 2 ^ 63" "os = Ok (secs + k)" "k \<le> 3000" "sint nbf \<le> int secs"
    and "verdict \<longleftrightarrow> int secs + int k - 60 < sint expiry
        \<and> (issuer = did_as_str (demo_issuer E common) \<or> issuer = ca_issuer common) \<and> audience = ''edge-api''"
    and "reason = (if \<not> (issuer = did_as_str (demo_issuer E common) \<or> issuer = ca_issuer common)
          then Some ''issuer is not trusted''
        else if \<not> int secs + int k - 60 < sint expiry then Some ''artifact has expired (exp)''
        else if audience \<noteq> ''edge-api'' then Some ''audience mismatch (aud)'' else None)"
  obtains out where
    "demo_token E B (local_signer E (ca_signer_seed common)) os label issuer audience nbf expiry c
       = (Ok (), console_after B (os, label, out) c)"
    "out_kind out = Jwt_Kind"
    "out_valid out = verdict" "out_reason out = reason"
proof -
  let ?d = "demo_issuer E common"
  obtain out where out: "demo_token E B (local_signer E (ca_signer_seed common)) os label issuer audience nbf expiry c
       = (Ok (), console_after B (os, label, out) c)"
    "out_kind out = Jwt_Kind"
    "out_checks out = jwt_checks (demo_claims issuer audience nbf expiry) (demo_policy common ?d)
       (now_unix os System_Wall_Clock)"
    "out_valid out = checks_all (out_checks out)" "out_reason out = first_failure (out_checks out)"
    using assms(1-7) by (rule demo_token_Ok)
  have "secs + k < 2 ^ 63"
    using assms(8,10) by simp
  then have t: "sint (now_unix os System_Wall_Clock) = int secs + int k"
    using now_unix_exact [of "secs + k"] assms(9) by simp
  have "out_checks out = \<lparr> chk_signature = True, chk_not_expired = (int secs + int k - 60 < sint expiry),
      chk_not_before = True,
      chk_issuer_trusted = (issuer = did_as_str ?d \<or> issuer = ca_issuer common),
      chk_audience = (audience = ''edge-api''), chk_scopes = True, chk_not_revoked = True \<rparr>"
    using demo_jwt_checks [of "now_unix os System_Wall_Clock" issuer audience nbf expiry common ?d]
      assms(8,10,11) t out(3) by simp
  then have "out_valid out = verdict" "out_reason out = reason"
    unfolding out(4,5) assms(12,13) by (simp_all only: demo_reason)
  with out(1,2) show ?thesis by (rule that)
qed

text \<open>The two phases.\<close>

lemma demo_tokens:
  assumes "base64_roundtrip E" "base64_dotfree E" "signatures_verify E" "key_roundtrip E"
    and "demo_serializes E common (word_of_nat secs)" "demo_ready E common c"
    and "ca_issuer common \<noteq> ''https://evil.example''"
    and "int secs + 100000 < 2 ^ 63" "\<And>i. os i = Ok (secs + d i)" "\<And>i. d i \<le> 3000"
  obtains o1 o2 o3 o4 where
    "demo_token_phase E B os (local_signer E (ca_signer_seed common)) (ca_issuer common) (word_of_nat secs) c
       = (Ok (), fold (console_after B) [(os 1, ''valid JWT'', o1), (os 2, ''expired JWT'', o2),
             (os 3, ''untrusted-issuer JWT'', o3), (os 4, ''wrong-audience JWT'', o4)] c)"
    "map out_kind [o1, o2, o3, o4] = [Jwt_Kind, Jwt_Kind, Jwt_Kind, Jwt_Kind]"
    "map out_valid [o1, o2, o3, o4] = [True, False, False, False]"
    "map out_reason [o1, o2, o3, o4] = [None, Some ''artifact has expired (exp)'',
       Some ''issuer is not trusted'', Some ''audience mismatch (aud)'']"
proof -
  let ?now = "word_of_nat secs :: i64" and ?signer = "local_signer E (ca_signer_seed common)"
  note off = time_offsets [OF assms(8)]
  have json: "json_header E local_header"
    "json_claims E (demo_claims (ca_issuer common) ''edge-api'' (?now - 60) (?now + 3600))"
    "json_claims E (demo_claims (ca_issuer common) ''edge-api'' (?now - 7200) (?now - 3600))"
    "json_claims E (demo_claims ''https://evil.example'' ''edge-api'' (?now - 60) (?now + 3600))"
    "json_claims E (demo_claims (ca_issuer common) ''other-api'' (?now - 60) (?now + 3600))"
    using assms(5) by (simp_all add: demo_serializes_def)
  obtain o1 where o1: "demo_token E B ?signer (os 1) ''valid JWT'' (ca_issuer common) ''edge-api''
      (?now - 60) (?now + 3600) c = (Ok (), console_after B (os 1, ''valid JWT'', o1) c)"
    "out_kind o1 = Jwt_Kind" "out_valid o1 = True" "out_reason o1 = None"
    by (rule demo_step [where c = c and os = "os 1" and k = "d 1" and B = B and verdict = True and reason = "None"
          and label = "''valid JWT''", OF assms(1-4) json(1,2) assms(6,8)])
      (use assms(9) assms(10) [of 1] off in simp_all)
  let ?c = "console_after B (os 1, ''valid JWT'', o1) c"
  obtain o2 where o2: "demo_token E B ?signer (os 2) ''expired JWT'' (ca_issuer common) ''edge-api''
      (?now - 7200) (?now - 3600) ?c = (Ok (), console_after B (os 2, ''expired JWT'', o2) ?c)"
    "out_kind o2 = Jwt_Kind" "out_valid o2 = False" "out_reason o2 = Some ''artifact has expired (exp)''"
    by (rule demo_step [where c = ?c and os = "os 2" and k = "d 2" and B = B and verdict = False and reason = "Some ''artifact has expired (exp)''"
          and label = "''expired JWT''", OF assms(1-4) json(1,3) _ assms(8)])
      (use assms(6,9) assms(10) [of 2] off in auto)
  let ?c = "console_after B (os 2, ''expired JWT'', o2) ?c"
  obtain o3 where o3: "demo_token E B ?signer (os 3) ''untrusted-issuer JWT'' ''https://evil.example'' ''edge-api''
      (?now - 60) (?now + 3600) ?c = (Ok (), console_after B (os 3, ''untrusted-issuer JWT'', o3) ?c)"
    "out_kind o3 = Jwt_Kind" "out_valid o3 = False" "out_reason o3 = Some ''issuer is not trusted''"
    by (rule demo_step [where c = ?c and os = "os 3" and k = "d 3" and B = B and verdict = False and reason = "Some ''issuer is not trusted''"
          and label = "''untrusted-issuer JWT''", OF assms(1-4) json(1,4) _ assms(8)])
      (use assms(6,7,9) assms(10) [of 3] off demo_issuer_not_evil [of E common] in auto)
  let ?c = "console_after B (os 3, ''untrusted-issuer JWT'', o3) ?c"
  obtain o4 where o4: "demo_token E B ?signer (os 4) ''wrong-audience JWT'' (ca_issuer common) ''other-api''
      (?now - 60) (?now + 3600) ?c = (Ok (), console_after B (os 4, ''wrong-audience JWT'', o4) ?c)"
    "out_kind o4 = Jwt_Kind" "out_valid o4 = False" "out_reason o4 = Some ''audience mismatch (aud)''"
    by (rule demo_step [where c = ?c and os = "os 4" and k = "d 4" and B = B and verdict = False and reason = "Some ''audience mismatch (aud)''"
          and label = "''wrong-audience JWT''", OF assms(1-4) json(1,5) _ assms(8)])
      (use assms(6,9) assms(10) [of 4] off in auto)
  show ?thesis
    using o1 o2 o3 o4 by (intro that [of o1 o2 o3 o4]) (simp_all add: demo_token_phase_def del: One_nat_def)
qed

lemma print_line_open:
  "con_stdout c = always_open \<Longrightarrow> print_line l c = (Ok (), c\<lparr>con_lines := con_lines c @ [l]\<rparr>)"
  by (simp add: print_line_def)

lemma demo_run_phases:
  "demo_run E B os always_open common =
     (let verifier = demo_service E common (demo_issuer E common); now = service_now (os 0) verifier
      in report (and_then (demo_token_phase E B os (local_signer E (ca_signer_seed common)) (ca_issuer common) now
             ((console_start always_open verifier)\<lparr>con_lines := [demo_heading]\<rparr>)) (\<lambda>_ c.
         and_then (demo_credential_phase E B os (local_signer E (ca_signer_seed common + 1))
             (demo_vc E common now) now c) (\<lambda>_ c.
         print_line (stats_line (service_stats (con_verifier c))) c))))"
  by (simp add: demo_run_def demo_issuer_def demo_vc_def print_line_def console_start_def Let_def)

lemma demo_checks:
  assumes "sign_with E (demo_vc E common (word_of_nat secs)) sk t = Ok vc"
    and "int secs + 100000 < 2 ^ 63" "r = Ok (secs + k)" "k \<le> 3000"
  shows "checks_all (credential_checks vc (demo_policy common (demo_issuer E common)) (now_unix r System_Wall_Clock))"
proof -
  have "secs + k < 2 ^ 63"
    using assms(2,4) by simp
  then have "sint (now_unix r System_Wall_Clock) = int secs + int k"
    using now_unix_exact [of "secs + k"] assms(3) by simp
  from demo_vc_checks [OF sign_with_view [OF assms(1)] assms(2) this assms(4)] show ?thesis .
qed

lemma demo_signature:
  assumes "base58_roundtrip E" "key_roundtrip E" "hex_roundtrip E" "signatures_verify E"
    and "sign_with E (demo_vc E common now) (local_signer E (ca_signer_seed common + 1)) now = Ok vc"
  shows "verify_signature E vc = Ok ()"
proof -
  have "view_serializes E (unsigned_view_of (demo_vc E common now))"
    using assms(5) by (auto simp: sign_with_def signing_payload_def view_serializes_def is_ok_iff)
  moreover have "vc_issuer (demo_vc E common now)
      = did_from_verifying_key E (ext_sk_verifying_key E (local_signer E (ca_signer_seed common + 1)))"
    by (simp add: demo_vc_def build_credential_def demo_issuer_def)
  ultimately show ?thesis
    using assms(1-5) by (metis signed_verifies sum.inject(2))
qed

text \<open>A credential with passing checks is accepted when its proof verifies, and else rejected for it.\<close>

lemma verdict_by_signature:
  assumes "verify_signature E vc = (if ok then Ok () else Err SignatureInvalid)" "checks_all (credential_checks vc p t)"
  shows "out_valid (verify_credential E vc p t) = ok" "out_kind (verify_credential E vc p t) = Vc_Kind"
    "out_reason (verify_credential E vc p t) = (if ok then None else Some ''signature verification failed'')"
proof -
  show valid: "out_valid (verify_credential E vc p t) = ok"
    using assms by (auto simp: verify_credential_valid_iff)
  show "out_kind (verify_credential E vc p t) = Vc_Kind"
    by (rule vc_decision.kind_fixed)
  show "out_reason (verify_credential E vc p t) = (if ok then None else Some ''signature verification failed'')"
  proof (cases ok)
    case True
    with valid show ?thesis using vc_decision.reason_iff_invalid by auto
  next
    case False
    with assms(1) show ?thesis by (simp add: verify_credential_def)
  qed
qed

lemma demo_credentials:
  assumes "base58_roundtrip E" "hex_roundtrip E" "key_roundtrip E" "signatures_verify E"
    and "demo_serializes E common now" "demo_ready E common c"
    and "int secs + 100000 < 2 ^ 63" "\<And>i. os i = Ok (secs + d i)" "\<And>i. d i \<le> 3000" "now = word_of_nat secs"
  obtains o5 o6 where
    "demo_credential_phase E B os (local_signer E (ca_signer_seed common + 1)) (demo_vc E common now) now c
       = (Ok (), fold (console_after B) [(os 5, ''signed credential'', o5), (os 6, ''tampered credential'', o6)] c)"
    "map out_kind [o5, o6] = [Vc_Kind, Vc_Kind]" "map out_valid [o5, o6] = [True, demo_forgery E common now]"
    "map out_reason [o5, o6]
       = [None, if demo_forgery E common now then None else Some ''signature verification failed'']"
proof -
  let ?p = "demo_policy common (demo_issuer E common)"
  obtain vc where vc: "sign_with E (demo_vc E common now) (local_signer E (ca_signer_seed common + 1)) now = Ok vc"
    "json_credential E vc" "json_credential E (tamper_credential vc)"
    using assms(5) by (auto simp: demo_serializes_def)
  let ?o5 = "verify_credential E vc ?p (now_unix (os 5) System_Wall_Clock)"
  let ?o6 = "verify_credential E (tamper_credential vc) ?p (now_unix (os 6) System_Wall_Clock)"
  have checks: "checks_all (credential_checks vc ?p (now_unix (os i) System_Wall_Clock))" for i
    using demo_checks [OF vc(1) [unfolded assms(10)] assms(7,8,9)] .
  have "verify_signature E vc = (if True then Ok () else Err SignatureInvalid)"
    using demo_signature [OF assms(1,3,2,4) vc(1)] by simp
  note o5 = verdict_by_signature [OF this checks]
  have "checks_all (credential_checks (tamper_credential vc) ?p (now_unix (os 6) System_Wall_Clock))"
    using checks by simp
  note o6 = verdict_by_signature [OF demo_signed [OF assms(1,3,2,4) vc(1) assms(5)] this]
  show ?thesis
    using o5 o6 vc(1) assms(6)
    by (intro that [of ?o5 ?o6])
      (simp_all add: demo_credential_phase_def demo_credential_Ok [OF vc(2)] demo_credential_Ok [OF vc(3)])
qed

text \<open>
  C34: the demonstration shows what it announces. Run with any seed and any issuer but the evil one,
  on a standard output that takes its eight lines, at a time with 100000 seconds to spare before
  the end of \<open>i64\<close>, its clock reading the minting time first and at most 50 minutes more later,
  it ends without an error and prints, between its heading and the statistics, six lines: the
  valid token and the signed credential accepted, the next three artifacts rejected each for its
  own reason, and the tampered credential rejected for its signature, unless the issuer's key
  accepts the signature of the original for the different payload of the tampered one, a forgery,
  in which case it is accepted. The statistics count the six verdicts.
\<close>

theorem demo_report:
  fixes B :: "('ch, 'z) broadcast_env_scheme"
  assumes "base64_roundtrip E" "base64_dotfree E" "base58_roundtrip E" "hex_roundtrip E"
    and "key_roundtrip E" "signatures_verify E" "demo_serializes E common (word_of_nat secs)"
    and "ca_issuer common \<noteq> ''https://evil.example''"
    and "int secs + 100000 < 2 ^ 63" "\<And>i. os i = Ok (secs + d i)" "d 0 = 0" "\<And>i. d i \<le> 3000"
    and "\<And>n. n < 8 \<Longrightarrow> stdout n"
  shows "\<exists>outs forged. forged = demo_forgery E common (word_of_nat secs)
     \<and> demo_run E B os stdout common = (Some (Ok ()), demo_heading # map2 outcome_line demo_labels outs @ [stats_line
         \<lparr> st_jwt_accepted = 1, st_jwt_rejected = 3,
           st_vc_accepted = (if forged then 2 else 1), st_vc_rejected = (if forged then 0 else 1) \<rparr>])
     \<and> map out_reason outs = [None, Some ''artifact has expired (exp)'', Some ''issuer is not trusted'',
         Some ''audience mismatch (aud)'', None, if forged then None else Some ''signature verification failed'']
     \<and> map out_valid outs = [True, False, False, False, True, forged]"
proof -
  let ?now = "word_of_nat secs :: i64" and ?forged = "demo_forgery E common (word_of_nat secs)"
  define v :: "'ch edge_verifier" where "v = demo_service E common (demo_issuer E common)"
  define c0 where "c0 = (console_start always_open v)\<lparr>con_lines := [demo_heading]\<rparr>"
  have now: "service_now (os 0) v = ?now"
    using assms(10) [of 0] assms(11) by (simp add: service_now_def v_def demo_service_def service_new_def)
  have c0: "demo_ready E common c0" "con_lines c0 = [demo_heading]" "sv_counters (con_verifier c0) = counters_default"
    by (simp_all add: c0_def v_def) (simp add: console_start_def demo_service_def service_new_def)
  obtain o1 o2 o3 o4 where tokens:
    "demo_token_phase E B os (local_signer E (ca_signer_seed common)) (ca_issuer common) ?now c0
       = (Ok (), fold (console_after B) [(os 1, ''valid JWT'', o1), (os 2, ''expired JWT'', o2),
             (os 3, ''untrusted-issuer JWT'', o3), (os 4, ''wrong-audience JWT'', o4)] c0)"
    "map out_kind [o1, o2, o3, o4] = [Jwt_Kind, Jwt_Kind, Jwt_Kind, Jwt_Kind]"
    "map out_valid [o1, o2, o3, o4] = [True, False, False, False]"
    "map out_reason [o1, o2, o3, o4] = [None, Some ''artifact has expired (exp)'',
       Some ''issuer is not trusted'', Some ''audience mismatch (aud)'']"
    by (rule demo_tokens [where c = c0 and os = os and d = d and B = B, OF assms(1,2,6,5,7) c0(1) assms(8,9,10,12)])
  let ?xs = "[(os 1, ''valid JWT'', o1), (os 2, ''expired JWT'', o2), (os 3, ''untrusted-issuer JWT'', o3),
      (os 4, ''wrong-audience JWT'', o4)]"
  have "demo_ready E common (fold (console_after B) ?xs c0)"
    using c0(1) by (simp only: console_after_ready)
  then obtain o5 o6 where vcs: "demo_credential_phase E B os (local_signer E (ca_signer_seed common + 1))
      (demo_vc E common ?now) ?now (fold (console_after B) ?xs c0) = (Ok (), fold (console_after B)
        [(os 5, ''signed credential'', o5), (os 6, ''tampered credential'', o6)] (fold (console_after B) ?xs c0))"
    "map out_kind [o5, o6] = [Vc_Kind, Vc_Kind]" "map out_valid [o5, o6] = [True, ?forged]"
    "map out_reason [o5, o6] = [None, if ?forged then None else Some ''signature verification failed'']"
    by (rule demo_credentials [where os = os and B = B and d = d, OF assms(3,4,5,6,7) _ assms(9,10,12) refl])
  let ?ys = "?xs @ [(os 5, ''signed credential'', o5), (os 6, ''tampered credential'', o6)]"
  let ?outs = "[o1, o2, o3, o4, o5, o6]"
  define c where "c = fold (console_after B) ?ys c0"
  have ready: "demo_ready E common c"
    unfolding c_def using c0(1) by (simp only: console_after_ready)
  have run: "demo_run E B os always_open common = report (print_line (stats_line (service_stats (con_verifier c))) c)"
    using tokens(1) vcs(1) unfolding demo_run_phases Let_def v_def [symmetric] now c0_def [symmetric] c_def
    by (simp del: One_nat_def)
  have lines: "con_lines c = demo_heading # map2 outcome_line demo_labels ?outs"
    unfolding c_def console_after_lines by (simp add: demo_labels_def c0(2))
  have "sv_counters (con_verifier c) = \<lparr> jwt_accepted = 1, jwt_rejected = 3,
      vc_accepted = (if ?forged then 2 else 1), vc_rejected = (if ?forged then 0 else 1) \<rparr>"
    using tokens(2,3) vcs(2,3) by (simp add: c_def count_outcome_def c0(3) counters_default_def)
  then have stats: "service_stats (con_verifier c) = \<lparr> st_jwt_accepted = 1, st_jwt_rejected = 3,
      st_vc_accepted = (if ?forged then 2 else 1), st_vc_rejected = (if ?forged then 0 else 1) \<rparr>"
    by (simp add: service_stats_def)
  let ?all = "demo_heading # map2 outcome_line demo_labels ?outs @ [stats_line (service_stats (con_verifier c))]"
  have "demo_run E B os always_open common = (Some (Ok ()), ?all)"
    unfolding run using ready lines by (simp add: demo_ready_def print_line_open report_def)
  moreover have "length ?all = 8"
    by (simp add: demo_labels_def)
  ultimately have "demo_run E B os stdout common = (Some (Ok ()), ?all)"
    using demo_run_exact [of E B os common "Some (Ok ())" ?all stdout] assms(13) by simp
  then show ?thesis
    unfolding stats using tokens(3,4) vcs(3,4) by (intro exI [of _ ?outs] exI [of _ ?forged]) simp
qed

section \<open>Witness\<close>

definition demo_now :: i64 where
  "demo_now = word_of_nat 1700000000"

definition sample_demo_vc :: verifiable_credential where
  "sample_demo_vc = demo_vc (mint_env []) default_common_args demo_now"

definition demo_env :: "verifiable_credential list \<Rightarrow> (byte, byte) vc_env" where
  "demo_env vcs = sample_vc_env [unsigned_view_of sample_demo_vc, unsigned_view_of (tamper_credential sample_demo_vc)]
     vcs [local_header]
     [demo_claims ''https://issuer.local'' ''edge-api'' (demo_now - 60) (demo_now + 3600),
      demo_claims ''https://issuer.local'' ''edge-api'' (demo_now - 7200) (demo_now - 3600),
      demo_claims ''https://evil.example'' ''edge-api'' (demo_now - 60) (demo_now + 3600),
      demo_claims ''https://issuer.local'' ''other-api'' (demo_now - 60) (demo_now + 3600)] [] ()"

lemma demo_env_laws [simp]:
  "base64_roundtrip (demo_env vcs)" "base64_dotfree (demo_env vcs)" "base58_roundtrip (demo_env vcs)"
  "hex_roundtrip (demo_env vcs)" "key_roundtrip (demo_env vcs)" "signatures_verify (demo_env vcs)"
  by (simp_all add: demo_env_def)

lemma demo_env_keys [simp]:
  "local_signer (demo_env vcs) k = k" "ext_sk_verifying_key (demo_env vcs) = id"
  "ext_vk_verify (demo_env vcs) = (\<lambda>k m s. s = sample_sign k m)" "ext_sk_sign (demo_env vcs) = sample_sign"
  "did_from_verifying_key (demo_env vcs) k = did_from_verifying_key (sample_primitives ()) k"
  by (simp_all add: demo_env_def local_signer_def sample_vc_env_def sample_jwt_env_def sample_primitives_def
      did_from_verifying_key_def replicate_head)

lemma demo_env_vc [simp]: "demo_vc (demo_env vcs) default_common_args demo_now = sample_demo_vc"
  by (simp add: sample_demo_vc_def demo_vc_def demo_issuer_def)

lemma demo_env_sign: "sign_with (demo_env vcs) = sign_with (demo_env [])"
  by (rule ext)+ (simp add: sign_with_def signing_payload_def sign_payload_def demo_env_def sample_vc_env_def
      sample_jwt_env_def sample_primitives_def)

lemma default_args_simps [simp]: "ca_signer_seed default_common_args = 7"
  "ca_issuer default_common_args = ''https://issuer.local''"
  by (simp_all add: default_common_args_def)

lemma demo_env_views: "ext_view_to_vec (demo_env vcs) (unsigned_view_of sample_demo_vc) = Ok [0]"
  "ext_view_to_vec (demo_env vcs) (unsigned_view_of (tamper_credential sample_demo_vc)) = Ok [1]"
  using tampered_view_neq [of "mint_env []" default_common_args demo_now]
  by (simp_all add: sample_demo_vc_def [symmetric]) (simp_all add: demo_env_def table_to_vec_def)

lemma demo_env_detects: "\<not> demo_forgery (demo_env vcs) default_common_args demo_now"
proof -
  have "sample_sign 8 [0] \<noteq> sample_sign 8 [1]"
    by (simp add: sample_sign_def checksum_def)
  then show ?thesis by (simp add: demo_forgery_def demo_env_views)
qed

lemma demo_env_serializes: "\<exists>vcs. demo_serializes (demo_env vcs) default_common_args demo_now"
proof -
  obtain vc where vc: "sign_with (demo_env []) sample_demo_vc 8 demo_now = Ok vc"
    by (simp add: sign_with_def signing_payload_def demo_env_def table_to_vec_def Let_def)
  let ?vcs = "[vc, tamper_credential vc]"
  have "json_credential (demo_env ?vcs) vc" "json_credential (demo_env ?vcs) (tamper_credential vc)"
    by (simp_all add: demo_env_def sample_json_credential)
  then have "demo_serializes (demo_env ?vcs) default_common_args demo_now"
    using vc demo_env_views [of ?vcs] unfolding demo_serializes_def demo_env_vc view_serializes_def views_distinct_def
    by (simp add: demo_env_sign [of ?vcs])
      (simp add: demo_env_def sample_vc_env_def sample_json_header sample_json_claims)
  then show ?thesis by blast
qed

theorem demo_report_witness:
  "\<exists>vcs outs. demo_run (demo_env vcs) list_channel (\<lambda>i. Ok 1700000000) (\<lambda>n. n < 8) default_common_args
       = (Some (Ok ()), demo_heading # map2 outcome_line demo_labels outs @ [stats_line
         \<lparr> st_jwt_accepted = 1, st_jwt_rejected = 3, st_vc_accepted = 1, st_vc_rejected = 1 \<rparr>])
     \<and> map out_valid outs = [True, False, False, False, True, False]"
proof -
  obtain vcs where vcs: "demo_serializes (demo_env vcs) default_common_args (word_of_nat 1700000000)"
    using demo_env_serializes unfolding demo_now_def by blast
  have honest: "\<not> demo_forgery (demo_env vcs) default_common_args (word_of_nat 1700000000)"
    using demo_env_detects [of vcs] unfolding demo_now_def .
  have "ca_issuer default_common_args \<noteq> ''https://evil.example''" "int 1700000000 + 100000 < 2 ^ 63"
    by simp_all
  with demo_report [OF demo_env_laws vcs, of "\<lambda>i. Ok 1700000000" "\<lambda>_. 0" "\<lambda>n. n < 8" list_channel]
  have "\<exists>outs forged. forged = demo_forgery (demo_env vcs) default_common_args (word_of_nat 1700000000)
     \<and> demo_run (demo_env vcs) list_channel (\<lambda>i. Ok 1700000000) (\<lambda>n. n < 8) default_common_args
       = (Some (Ok ()), demo_heading # map2 outcome_line demo_labels outs @ [stats_line
         \<lparr> st_jwt_accepted = 1, st_jwt_rejected = 3,
           st_vc_accepted = (if forged then 2 else 1), st_vc_rejected = (if forged then 0 else 1) \<rparr>])
     \<and> map out_reason outs = [None, Some ''artifact has expired (exp)'', Some ''issuer is not trusted'',
         Some ''audience mismatch (aud)'', None, if forged then None else Some ''signature verification failed'']
     \<and> map out_valid outs = [True, False, False, False, True, forged]"
    by simp
  then obtain outs where "demo_run (demo_env vcs) list_channel (\<lambda>i. Ok 1700000000) (\<lambda>n. n < 8) default_common_args
       = (Some (Ok ()), demo_heading # map2 outcome_line demo_labels outs @ [stats_line
         \<lparr> st_jwt_accepted = 1, st_jwt_rejected = 3, st_vc_accepted = 1, st_vc_rejected = 1 \<rparr>])"
    "map out_valid outs = [True, False, False, False, True, False]"
    using honest by (elim exE conjE) (simp only: if_False)
  then show ?thesis by (intro exI [of _ vcs] exI [of _ outs] conjI)
qed

end
