(* ===== verification/Http_Router.thy ===== *)
theory Http_Router
  imports Graphql_Api
begin

text \<open>
  \<open>edgeauth-api/src/lib.rs\<close> and \<open>build_router\<close> of \<open>edgeauth-node/src/startup.rs\<close>: which requests
  reach which handler. The builder of \<open>axum\<close> is a parameter: a record of its functions on an
  abstract router \<open>'r\<close>, where adding a route may panic (\<open>None\<close>), with a lookup that tells the
  handler of a request and the layers around it. \<open>axum_documented\<close> states what its documentation
  promises for paths without parameters.
\<close>

section \<open>Requests and handlers\<close>

datatype http_method = GET | HEAD | POST | OtherMethod string

datatype layer = Timeout_Layer nat duration | Trace_Layer

datatype 'h routed = Routed "layer list" 'h | Method_Not_Allowed "layer list" | Not_Found "layer list"

record 'st edge_schema =
  schema_data :: 'st

text \<open>What the sources mount: two pages, a text, and the two services of \<open>async-graphql-axum\<close>.\<close>

datatype ('st, 'm) handler =
    Playground
  | Graphql "'st edge_schema"
  | Graphql_Subscription "'st edge_schema"
  | Health_Text
  | Metrics_Text 'm

record ('r, 'h) axum_env =
  ext_router_new :: 'r
  ext_route :: "'r \<Rightarrow> string \<Rightarrow> (http_method \<times> 'h) list \<Rightarrow> 'r option"
  ext_route_service :: "'r \<Rightarrow> string \<Rightarrow> 'h \<Rightarrow> 'r option"
  ext_layer :: "'r \<Rightarrow> layer \<Rightarrow> 'r"
  ext_lookup :: "'r \<Rightarrow> http_method \<Rightarrow> string \<Rightarrow> 'h routed"

section \<open>Operations\<close>

definition build_schema :: "'st \<Rightarrow> 'st edge_schema" where
  "build_schema state = \<lparr> schema_data = state \<rparr>"

definition playground :: "(string \<Rightarrow> string option \<Rightarrow> string) \<Rightarrow> string" where
  \<comment> \<open>the argument is \<open>playground_source\<close> of an endpoint and a subscription endpoint\<close>
  "playground source = source ''/graphql'' (Some ''/graphql/ws'')"

definition graphql_router ::
  "('r, ('st, 'm) handler, 'z) axum_env_scheme \<Rightarrow> 'st edge_schema \<Rightarrow> 'r option" where
  "graphql_router A schema =
     Option.bind (ext_route A (ext_router_new A) ''/graphql'' [(GET, Playground), (POST, Graphql schema)]) (\<lambda>r.
     ext_route_service A r ''/graphql/ws'' (Graphql_Subscription schema))"

definition REQUEST_TIMEOUT :: nat where
  "REQUEST_TIMEOUT = 408"

definition build_router ::
  "('r, ('st, 'm) handler, 'z) axum_env_scheme \<Rightarrow> 'st \<Rightarrow> 'm \<Rightarrow> 'r option" where
  \<comment> \<open>\<open>None\<close> is the panic of \<open>Router::route\<close>\<close>
  "build_router A state metrics =
     (let schema = build_schema state in
      Option.bind (graphql_router A schema) (\<lambda>r.
      Option.bind (ext_route A r ''/health'' [(GET, Health_Text)]) (\<lambda>r.
      Option.bind (ext_route A r ''/metrics'' [(GET, Metrics_Text metrics)]) (\<lambda>r.
      let r = ext_layer A r (Timeout_Layer REQUEST_TIMEOUT (from_secs 15))
      in Some (ext_layer A r Trace_Layer)))))"

text \<open>The bodies of the handlers that read nothing of the request.\<close>

fun page ::
  "(string \<Rightarrow> string option \<Rightarrow> string) \<Rightarrow> ('m \<Rightarrow> string) \<Rightarrow> ('st, 'm) handler \<Rightarrow> string option" where
  "page source render Playground = Some (playground source)"
| "page source render Health_Text = Some ''ok''"
| "page source render (Metrics_Text metrics) = Some (render metrics)"
| "page source render (Graphql schema) = None"
| "page source render (Graphql_Subscription schema) = None"

fun handler_state :: "('st, 'm) handler \<Rightarrow> 'st option" where
  "handler_state (Graphql schema) = Some (schema_data schema)"
| "handler_state (Graphql_Subscription schema) = Some (schema_data schema)"
| "handler_state _ = None"

section \<open>Documented behaviour of the builder\<close>

text \<open>
  Paths without parameters match themselves; a \<open>get\<close> handler also answers HEAD; adding a route
  panics only where the path is taken; a service takes every method; and a layer surrounds all
  that was added before it, the answers for unknown paths and methods included.
\<close>

definition select_method :: "(http_method \<times> 'h) list \<Rightarrow> http_method \<Rightarrow> 'h option" where
  "select_method hs m =
     (case map_of hs m of Some h \<Rightarrow> Some h | None \<Rightarrow> if m = HEAD then map_of hs GET else None)"

fun add_layer :: "layer \<Rightarrow> 'h routed \<Rightarrow> 'h routed" where
  "add_layer l (Routed ls h) = Routed (l # ls) h"
| "add_layer l (Method_Not_Allowed ls) = Method_Not_Allowed (l # ls)"
| "add_layer l (Not_Found ls) = Not_Found (l # ls)"

fun is_not_found :: "'h routed \<Rightarrow> bool" where
  "is_not_found (Not_Found ls) = True"
| "is_not_found _ = False"

definition literal_path :: "string \<Rightarrow> bool" where
  "literal_path p \<longleftrightarrow> p \<noteq> [] \<and> hd p = CHR ''/'' \<and> set p \<inter> set ''{}:*'' = {}"

definition axum_documented :: "('r, 'h, 'z) axum_env_scheme \<Rightarrow> bool" where
  "axum_documented A \<longleftrightarrow>
     (\<forall>m p. ext_lookup A (ext_router_new A) m p = Not_Found [])
   \<and> (\<forall>r p hs. literal_path p \<and> (\<forall>m. is_not_found (ext_lookup A r m p)) \<longrightarrow>
        (\<exists>r'. ext_route A r p hs = Some r'
           \<and> (\<forall>m q. ext_lookup A r' m q =
                (if q = p then (case select_method hs m of Some h \<Rightarrow> Routed [] h | None \<Rightarrow> Method_Not_Allowed [])
                 else ext_lookup A r m q))))
   \<and> (\<forall>r p h. literal_path p \<and> (\<forall>m. is_not_found (ext_lookup A r m p)) \<longrightarrow>
        (\<exists>r'. ext_route_service A r p h = Some r'
           \<and> (\<forall>m q. ext_lookup A r' m q = (if q = p then Routed [] h else ext_lookup A r m q))))
   \<and> (\<forall>r l m p. ext_lookup A (ext_layer A r l) m p = add_layer l (ext_lookup A r m p))"

lemma axum_new: "axum_documented A \<Longrightarrow> ext_lookup A (ext_router_new A) m p = Not_Found []"
  by (simp add: axum_documented_def)

lemma axum_layer: "axum_documented A \<Longrightarrow> ext_lookup A (ext_layer A r l) m p = add_layer l (ext_lookup A r m p)"
  by (simp add: axum_documented_def)

lemma axum_route:
  assumes "axum_documented A" "literal_path p" "\<And>m. is_not_found (ext_lookup A r m p)"
  obtains r' where "ext_route A r p hs = Some r'"
    "\<And>m q. ext_lookup A r' m q =
       (if q = p then (case select_method hs m of Some h \<Rightarrow> Routed [] h | None \<Rightarrow> Method_Not_Allowed [])
        else ext_lookup A r m q)"
  using assms unfolding axum_documented_def by blast

lemma axum_route_service:
  assumes "axum_documented A" "literal_path p" "\<And>m. is_not_found (ext_lookup A r m p)"
  obtains r' where "ext_route_service A r p h = Some r'"
    "\<And>m q. ext_lookup A r' m q = (if q = p then Routed [] h else ext_lookup A r m q)"
  using assms unfolding axum_documented_def by blast

section \<open>The routes of a node\<close>

lemma node_paths: "literal_path ''/graphql''" "literal_path ''/graphql/ws''" "literal_path ''/health''" "literal_path ''/metrics''"
  by (simp_all add: literal_path_def)

definition node_layers :: "layer list" where
  "node_layers = [Trace_Layer, Timeout_Layer 408 (from_secs 15)]"

fun route_spec :: "'st \<Rightarrow> 'm \<Rightarrow> http_method \<Rightarrow> string \<Rightarrow> ('st, 'm) handler option option" where
  \<comment> \<open>the table of the documentation: \<open>None\<close> an unknown path, \<open>Some None\<close> a method that is not allowed\<close>
  "route_spec state metrics m p =
     (if p = ''/graphql'' then
        Some (if m = GET \<or> m = HEAD then Some Playground
              else if m = POST then Some (Graphql \<lparr> schema_data = state \<rparr>) else None)
      else if p = ''/graphql/ws'' then Some (Some (Graphql_Subscription \<lparr> schema_data = state \<rparr>))
      else if p = ''/health'' then Some (if m = GET \<or> m = HEAD then Some Health_Text else None)
      else if p = ''/metrics'' then Some (if m = GET \<or> m = HEAD then Some (Metrics_Text metrics) else None)
      else None)"

lemma build_router_routes:
  fixes A :: "('r, ('st, 'm) handler, 'z) axum_env_scheme"
  assumes "axum_documented A"
  shows "\<exists>r. build_router A state metrics = Some r \<and> (\<forall>m p. ext_lookup A r m p =
    (case route_spec state metrics m p of
       None \<Rightarrow> Not_Found node_layers
     | Some None \<Rightarrow> Method_Not_Allowed node_layers
     | Some (Some h) \<Rightarrow> Routed node_layers h))"
proof -
  let ?schema = "build_schema state"
  let ?hs = "[(GET, Playground), (POST, Graphql ?schema)]"
  have "\<And>m. is_not_found (ext_lookup A (ext_router_new A) m ''/graphql'')"
    by (simp add: axum_new [OF assms])
  then obtain r1 where r1: "ext_route A (ext_router_new A) ''/graphql'' ?hs = Some r1"
    "\<And>m q. ext_lookup A r1 m q = (if q = ''/graphql'' then
       (case select_method ?hs m of Some h \<Rightarrow> Routed [] h | None \<Rightarrow> Method_Not_Allowed [])
       else ext_lookup A (ext_router_new A) m q)"
    by (rule axum_route [where hs = ?hs, OF assms node_paths(1)]) (rule that)
  have "\<And>m. is_not_found (ext_lookup A r1 m ''/graphql/ws'')"
    by (simp add: r1(2) axum_new [OF assms])
  then obtain r2 where r2: "ext_route_service A r1 ''/graphql/ws'' (Graphql_Subscription ?schema) = Some r2"
    "\<And>m q. ext_lookup A r2 m q = (if q = ''/graphql/ws'' then Routed [] (Graphql_Subscription ?schema) else ext_lookup A r1 m q)"
    by (rule axum_route_service [where h = "Graphql_Subscription ?schema", OF assms node_paths(2)]) (rule that)
  have "\<And>m. is_not_found (ext_lookup A r2 m ''/health'')"
    by (simp add: r2(2) r1(2) axum_new [OF assms])
  then obtain r3 where r3: "ext_route A r2 ''/health'' [(GET, Health_Text)] = Some r3"
    "\<And>m q. ext_lookup A r3 m q = (if q = ''/health'' then
       (case select_method [(GET, Health_Text)] m of Some h \<Rightarrow> Routed [] h | None \<Rightarrow> Method_Not_Allowed [])
       else ext_lookup A r2 m q)"
    by (rule axum_route [where hs = "[(GET, Health_Text)]", OF assms node_paths(3)]) (rule that)
  have "\<And>m. is_not_found (ext_lookup A r3 m ''/metrics'')"
    by (simp add: r3(2) r2(2) r1(2) axum_new [OF assms])
  then obtain r4 where r4: "ext_route A r3 ''/metrics'' [(GET, Metrics_Text metrics)] = Some r4"
    "\<And>m q. ext_lookup A r4 m q = (if q = ''/metrics'' then
       (case select_method [(GET, Metrics_Text metrics)] m of Some h \<Rightarrow> Routed [] h | None \<Rightarrow> Method_Not_Allowed [])
       else ext_lookup A r3 m q)"
    by (rule axum_route [where hs = "[(GET, Metrics_Text metrics)]", OF assms node_paths(4)]) (rule that)
  let ?r = "ext_layer A (ext_layer A r4 (Timeout_Layer REQUEST_TIMEOUT (from_secs 15))) Trace_Layer"
  have "build_router A state metrics = Some ?r"
    by (simp add: build_router_def graphql_router_def r1(1) r2(1) r3(1) r4(1) Let_def)
  moreover have "ext_lookup A ?r m p =
    (case route_spec state metrics m p of
       None \<Rightarrow> Not_Found node_layers
     | Some None \<Rightarrow> Method_Not_Allowed node_layers
     | Some (Some h) \<Rightarrow> Routed node_layers h)" for m p
    by (cases m) (simp_all add: axum_layer [OF assms] axum_new [OF assms] r4(2) r3(2) r2(2) r1(2) select_method_def node_layers_def
        REQUEST_TIMEOUT_def build_schema_def)
  ultimately show ?thesis by blast
qed

text \<open>
  C35: The HTTP surface of a node. Building the router does not panic, and it answers exactly the
  documented table: the playground and the queries on \<open>/graphql\<close>, the subscriptions on
  \<open>/graphql/ws\<close>, \<open>/health\<close> and \<open>/metrics\<close>, each behind the timeout of 15 seconds and, outside
  it, the trace. The shared state is reached by POST on \<open>/graphql\<close> and by \<open>/graphql/ws\<close> only, and
  it is the state the router was built with.
\<close>

theorem node_routes:
  fixes A :: "('r, ('st, 'm) handler, 'z) axum_env_scheme"
  assumes "axum_documented A"
  shows "\<exists>r. build_router A state metrics = Some r
    \<and> (\<forall>m p. ext_lookup A r m p =
         (case route_spec state metrics m p of
            None \<Rightarrow> Not_Found [Trace_Layer, Timeout_Layer 408 (from_secs 15)]
          | Some None \<Rightarrow> Method_Not_Allowed [Trace_Layer, Timeout_Layer 408 (from_secs 15)]
          | Some (Some h) \<Rightarrow> Routed [Trace_Layer, Timeout_Layer 408 (from_secs 15)] h))
    \<and> (\<forall>m p ls h st. ext_lookup A r m p = Routed ls h \<and> handler_state h = Some st \<longrightarrow>
         st = state \<and> (p = ''/graphql'' \<and> m = POST \<or> p = ''/graphql/ws''))"
proof -
  from build_router_routes [OF assms, of state metrics] obtain r where
    b: "build_router A state metrics = Some r"
    and l: "\<forall>m p. ext_lookup A r m p = (case route_spec state metrics m p of
       None \<Rightarrow> Not_Found node_layers | Some None \<Rightarrow> Method_Not_Allowed node_layers
     | Some (Some h) \<Rightarrow> Routed node_layers h)"
    by blast
  have st: "st = state \<and> (p = ''/graphql'' \<and> m = POST \<or> p = ''/graphql/ws'')"
    if "ext_lookup A r m p = Routed ls h" "handler_state h = Some st" for m p ls h st
    using that l [rule_format, of m p] by (auto split: if_splits)
  show ?thesis
  proof (intro exI [of _ r] conjI allI impI)
    show "build_router A state metrics = Some r" by (rule b)
    show "ext_lookup A r m p = (case route_spec state metrics m p of
       None \<Rightarrow> Not_Found [Trace_Layer, Timeout_Layer 408 (from_secs 15)]
     | Some None \<Rightarrow> Method_Not_Allowed [Trace_Layer, Timeout_Layer 408 (from_secs 15)]
     | Some (Some h) \<Rightarrow> Routed [Trace_Layer, Timeout_Layer 408 (from_secs 15)] h)" for m p
      using l by (simp only: node_layers_def)
    fix m p ls h st
    assume "ext_lookup A r m p = Routed ls h \<and> handler_state h = Some st"
    then show "st = state" and "p = ''/graphql'' \<and> m = POST \<or> p = ''/graphql/ws''"
      using st [of m p ls h st] by simp_all
  qed
qed

text \<open>A router as its own lookup table.\<close>

definition table_axum :: "(http_method \<Rightarrow> string \<Rightarrow> 'h routed, 'h) axum_env" where
  "table_axum = \<lparr> ext_router_new = (\<lambda>m p. Not_Found []),
     ext_route = (\<lambda>r p hs. if is_not_found (r GET p)
       then Some (\<lambda>m q. if q = p
         then (case select_method hs m of Some h \<Rightarrow> Routed [] h | None \<Rightarrow> Method_Not_Allowed []) else r m q)
       else None),
     ext_route_service = (\<lambda>r p h. if is_not_found (r GET p)
       then Some (\<lambda>m q. if q = p then Routed [] h else r m q) else None),
     ext_layer = (\<lambda>r l m p. add_layer l (r m p)),
     ext_lookup = (\<lambda>r. r) \<rparr>"

lemma table_axum_documented: "axum_documented table_axum"
  by (simp add: axum_documented_def table_axum_def)

theorem node_routes_witness:
  "\<exists>r. build_router table_axum (7 :: nat) True = Some r
    \<and> ext_lookup table_axum r POST ''/graphql'' =
        Routed [Trace_Layer, Timeout_Layer 408 (from_secs 15)] (Graphql \<lparr> schema_data = 7 \<rparr>)
    \<and> ext_lookup table_axum r POST ''/metrics'' = Method_Not_Allowed [Trace_Layer, Timeout_Layer 408 (from_secs 15)]
    \<and> ext_lookup table_axum r GET ''/admin'' = Not_Found [Trace_Layer, Timeout_Layer 408 (from_secs 15)]"
proof -
  obtain r where "build_router table_axum (7 :: nat) True = Some r"
    "\<forall>m p. ext_lookup table_axum r m p = (case route_spec 7 True m p of
       None \<Rightarrow> Not_Found [Trace_Layer, Timeout_Layer 408 (from_secs 15)]
     | Some None \<Rightarrow> Method_Not_Allowed [Trace_Layer, Timeout_Layer 408 (from_secs 15)]
     | Some (Some h) \<Rightarrow> Routed [Trace_Layer, Timeout_Layer 408 (from_secs 15)] h)"
    using node_routes [OF table_axum_documented, of "7 :: nat" True] by (elim exE conjE) (rule that)
  then show ?thesis
    by (intro exI [of _ r]) simp
qed

end
