(* ===== verification/Telemetry.thy ===== *)
theory Telemetry
  imports Node_Startup
begin

text \<open>
  \<open>edgeauth-node/src/telemetry.rs\<close>: the global subscriber for log lines and the global recorder of
  the metrics. Both are installed at most once in a process; the crates that hold them are
  parameters, on a state \<open>'t\<close> of what is installed.
\<close>

section \<open>Operations\<close>

record ('f, 't) tracing_env =
  ext_filter_from_env :: "('f, string) result"
  ext_filter_new :: "string \<Rightarrow> 'f"
  ext_try_init :: "'f \<Rightarrow> 't \<Rightarrow> (unit, string) result \<times> 't"

definition init_tracing :: "('f, 't, 'z) tracing_env_scheme \<Rightarrow> 't \<Rightarrow> 't" where
  \<comment> \<open>the subscriber is the JSON layer behind the filter; a failed installation is ignored\<close>
  "init_tracing T t =
     (let filter' = (case ext_filter_from_env T of Ok f \<Rightarrow> f | Err _ \<Rightarrow> ext_filter_new T ''info'')
      in snd (ext_try_init T filter' t))"

definition init_metrics ::
  "('t \<Rightarrow> ('m, string) result \<times> 't) \<Rightarrow> 't \<Rightarrow> ('m, node_error) result \<times> 't" where
  "init_metrics install t =
     (case install t of
        (r, t') \<Rightarrow> (map_err (\<lambda>e. Context ''installing Prometheus recorder'' (Node_Message e)) r, t'))"

section \<open>Installing once\<close>

text \<open>
  The documented contract of a process-wide slot: an installation into an empty slot fills it and
  succeeds, one into a full slot fails and leaves it as it is.
\<close>

definition slot_documented :: "('t \<Rightarrow> bool) \<Rightarrow> ('t \<Rightarrow> ('a, string) result \<times> 't) \<Rightarrow> bool" where
  "slot_documented installed install \<longleftrightarrow>
     (\<forall>t. (if installed t then \<not> is_ok (fst (install t)) \<and> snd (install t) = t
          else is_ok (fst (install t)) \<and> installed (snd (install t))))"

lemma slot_full: "slot_documented installed install \<Longrightarrow> installed t \<Longrightarrow> \<not> is_ok (fst (install t)) \<and> snd (install t) = t"
  by (metis slot_documented_def)

lemma slot_filled: "slot_documented installed install \<Longrightarrow> installed (snd (install t))"
  by (metis slot_documented_def)

text \<open>A second call of \<open>init_tracing\<close> is a no-op, also with another filter in the environment.\<close>

theorem init_tracing_once:
  assumes "\<And>f. slot_documented installed (ext_try_init T f)" "\<And>f. slot_documented installed (ext_try_init T' f)"
  shows "init_tracing T' (init_tracing T t) = init_tracing T t"
  using slot_full [OF assms(2)] slot_filled [OF assms(1)] by (simp add: init_tracing_def Let_def)

text \<open>The recorder is installed by the first call; the second reports the error with its context.\<close>

theorem init_metrics_once:
  assumes "slot_documented installed install" "init_metrics install t = (r, t1)" "init_metrics install t1 = (r', t2)"
  shows "(\<exists>e. r' = Err (Context ''installing Prometheus recorder'' (Node_Message e))) \<and> t2 = t1"
proof -
  have "t1 = snd (install t)" using assms(2) by (auto simp: init_metrics_def split: prod.splits)
  then have "\<not> is_ok (fst (install t1)) \<and> snd (install t1) = t1"
    using slot_full [OF assms(1)] slot_filled [OF assms(1)] by blast
  then show ?thesis
    using assms(3) by (cases "fst (install t1)") (auto simp: init_metrics_def split: prod.splits)
qed

end
