(* ===== verification/Node_Main.thy ===== *)
theory Node_Main
  imports Node_Demo Http_Router Telemetry
begin

text \<open>
  \<open>serve\<close> of \<open>edgeauth-node/src/startup.rs\<close> and \<open>main.rs\<close>. What the operating system and the HTTP
  stack do is a parameter: installing the metrics recorder, binding the socket, waiting for
  Ctrl-C, and serving until shutdown. While the server runs, the routes of \<open>Http_Router\<close> reach
  the resolvers of \<open>Graphql_Api\<close> and the refresher ticks as in \<open>Node_Startup\<close>; here the command is
  followed up to the moment it listens, and to its result. The globals of the process are \<open>'t\<close>.
  The environment file and the command line are read by \<open>dotenvy\<close> and \<open>clap\<close>; \<open>main\<close> starts from the
  parsed \<open>cli\<close>.
\<close>

section \<open>The server command\<close>

record ('t, 'm, 'l, 'a, 'w) server_env =
  ext_install_recorder :: "'t \<Rightarrow> ('m, string) result \<times> 't"
  ext_bind :: "string \<Rightarrow> ('l, string) result"
  ext_ctrl_c :: "'w \<Rightarrow> (unit, string) result \<times> 'w"
  ext_serve :: "'l \<Rightarrow> 'a \<Rightarrow> ('w \<Rightarrow> 'w) \<Rightarrow> 'w \<Rightarrow> (unit, string) result"

definition shutdown_signal :: "('t, 'm, 'l, 'a, 'w, 'q) server_env_scheme \<Rightarrow> 'w \<Rightarrow> 'w" where
  \<comment> \<open>an error of the signal handler ends the wait like the signal itself\<close>
  "shutdown_signal S w = snd (ext_ctrl_c S w)"

definition serve_start ::
  "('vk, 'sk, 'y) jwt_env_scheme \<Rightarrow> ('w, 'r, 'x) net_env_scheme \<Rightarrow> ('ch, 'z) broadcast_env_scheme \<Rightarrow>
     ('g, 'n, 'u) governor_scheme \<Rightarrow> ('a, (('ch, 'g) service_state, 'm) handler, 'o) axum_env_scheme \<Rightarrow>
     ('t, 'm, 'l, 'a, 'w, 'q) server_env_scheme \<Rightarrow> common_args \<Rightarrow> serve_args \<Rightarrow> 't \<Rightarrow> 'w \<Rightarrow>
     ('l \<times> 'a, node_error) result option \<times> 't \<times> 'w" where
  \<comment> \<open>up to the listening socket; \<open>None\<close> would be a panic\<close>
  "serve_start E N B G A S common args t w =
     (case init_metrics (ext_install_recorder S) t of
        (Err e, t1) \<Rightarrow> (Some (Err e), t1, w)
      | (Ok metrics, t1) \<Rightarrow>
          (case build_state E N B G common (sa_rate_limit_rps args) of
             None \<Rightarrow> (None, t1, w)
           | Some (Err e) \<Rightarrow> (Some (Err e), t1, w)
           | Some (Ok state) \<Rightarrow>
               (case (if ca_jwks_url common \<noteq> None
                      then spawn_jwks_refresher E N (\<lambda>_ w. w) (ca_jwks_refresh_secs common) 0 (ss_verifier state) w
                      else ([], ss_verifier state, w)) of
                  (_, verifier, w1) \<Rightarrow>
                    (case build_router A (state\<lparr>ss_verifier := verifier\<rparr>) metrics of
                       None \<Rightarrow> (None, t1, w1)
                     | Some app \<Rightarrow>
                         (Some (try_bind (map_err (\<lambda>e. Context (''binding '' @ sa_bind_addr args) (Node_Message e))
                                  (ext_bind S (sa_bind_addr args))) (\<lambda>listener. Ok (listener, app))), t1, w1)))))"

definition serve_command ::
  "('vk, 'sk, 'y) jwt_env_scheme \<Rightarrow> ('w, 'r, 'x) net_env_scheme \<Rightarrow> ('ch, 'z) broadcast_env_scheme \<Rightarrow>
     ('g, 'n, 'u) governor_scheme \<Rightarrow> ('a, (('ch, 'g) service_state, 'm) handler, 'o) axum_env_scheme \<Rightarrow>
     ('t, 'm, 'l, 'a, 'w, 'q) server_env_scheme \<Rightarrow> common_args \<Rightarrow> serve_args \<Rightarrow> 't \<Rightarrow> 'w \<Rightarrow>
     (unit, node_error) result option" where
  "serve_command E N B G A S common args t w =
     (case serve_start E N B G A S common args t w of
        (r, t1, w1) \<Rightarrow> map_option (\<lambda>r. try_bind r (\<lambda>(listener, app).
          map_err (\<lambda>e. Context ''server error'' (Node_Message e))
            (ext_serve S listener app (shutdown_signal S) w1))) r)"

section \<open>Dispatch\<close>

definition node_main ::
  "('vk, 'sk, 'y) node_env_scheme \<Rightarrow> ('w, 'r, 'x) net_env_scheme \<Rightarrow> ('ch, 'z) broadcast_env_scheme \<Rightarrow>
     ('g, 'n, 'u) governor_scheme \<Rightarrow> ('a, (('ch, 'g) service_state, 'm) handler, 'o) axum_env_scheme \<Rightarrow>
     ('t, 'm, 'l, 'a, 'w, 'q) server_env_scheme \<Rightarrow> ('f, 't, 'i) tracing_env_scheme \<Rightarrow>
     (fixtures \<Rightarrow> (string, string) result) \<Rightarrow> (nat \<Rightarrow> (nat, unit) result) \<Rightarrow> (nat \<Rightarrow> bool) \<Rightarrow> 't \<Rightarrow> 'w \<Rightarrow>
     cli \<Rightarrow> (unit, node_error) result option \<times> string list" where
  \<comment> \<open>the result of \<open>main\<close>, \<open>None\<close> for a panic, and what was printed\<close>
  "node_main E N B G A S T pretty os stdout t w c =
     (let t1 = init_tracing T t in
      case selected_command c of
        Serve args \<Rightarrow> (serve_command E N B G A S (cli_common c) args t1 w, [])
      | Demo \<Rightarrow> demo_run E B os stdout (cli_common c)
      | Mint \<Rightarrow> mint_print E pretty stdout (cli_common c)
      | Verify args \<Rightarrow> run_verify E N B G os stdout (cli_common c) args)"

section \<open>Properties\<close>

lemma spawn_initial:
  assumes "spawn_jwks_refresher E N tick secs 0 v w = (rs, v', w')"
  obtains r where "service_refresh E N v w = (Some r, v', w')"
proof -
  obtain r where "service_refresh E N v w = (r, v', w')"
    using assms by (auto simp: spawn_jwks_refresher_def split: prod.splits)
  moreover have "fst (service_refresh E N v w) \<noteq> None"
    by (rule service_source.no_panic)
  ultimately show ?thesis using that by auto
qed

lemma init_metrics_result:
  "init_metrics install t = (Ok m, t') \<longleftrightarrow> install t = (Ok m, t')"
  by (auto simp: init_metrics_def map_err_def split: prod.splits sum.splits)

lemma serve_start_Ok:
  assumes "serve_start E N B G A S c args t w = (Some (Ok (l, app)), t', w')"
  obtains st0 v metrics where "build_state E N B G c (sa_rate_limit_rps args) = Some (Ok st0)"
    "ext_install_recorder S t = (Ok metrics, t')"
    "build_router A (st0\<lparr>ss_verifier := v\<rparr>) metrics = Some app"
    "ca_jwks_url c = None \<and> v = ss_verifier st0 \<and> w' = w
     \<or> (\<exists>url r. ca_jwks_url c = Some url \<and> service_refresh E N (ss_verifier st0) w = (Some r, v, w'))"
proof -
  obtain r0 t0 where rec: "init_metrics (ext_install_recorder S) t = (r0, t0)"
    by (cases "init_metrics (ext_install_recorder S) t")
  obtain metrics st0 where st0: "r0 = Ok metrics" "build_state E N B G c (sa_rate_limit_rps args) = Some (Ok st0)"
    using assms rec by (auto simp: serve_start_def split: sum.splits option.splits)
  have t': "t' = t0"
    using assms rec by (auto simp: serve_start_def split: sum.splits option.splits prod.splits)
  note start = assms [unfolded serve_start_def rec st0, simplified, unfolded st0(2), simplified]
  show ?thesis
  proof (cases "ca_jwks_url c")
    case None
    with start st0 rec t' show ?thesis
      by (intro that [of st0 metrics "ss_verifier st0"]) (auto simp: init_metrics_result split: option.splits sum.splits)
  next
    case (Some url)
    obtain rs v w1 where sp: "spawn_jwks_refresher E N (\<lambda>_ w. w) (ca_jwks_refresh_secs c) 0 (ss_verifier st0) w = (rs, v, w1)"
      by (cases "spawn_jwks_refresher E N (\<lambda>_ w. w) (ca_jwks_refresh_secs c) 0 (ss_verifier st0) w")
    then obtain r where "service_refresh E N (ss_verifier st0) w = (Some r, v, w1)"
      by (rule spawn_initial)
    with start st0 Some sp rec t' show ?thesis
      by (intro that [of st0 metrics v]) (auto simp: init_metrics_result split: option.splits sum.splits)
  qed
qed

lemma build_state_remote_provider:
  assumes "build_state E N B G c rps = Some (Ok st)" "ca_jwks_url c = Some url"
  obtains p where "sv_jwks (ss_verifier st) = Cached_Provider p" "cp_url p = url"
  using assms
  by (auto simp: build_state_def Let_def service_new_def service_state_new_def cached_new_def
      split: option.splits sum.splits)

text \<open>The service a command starts with, after the initial refresh of a remote configuration.\<close>

lemma started_verifier:
  assumes "build_state E N B G c rps = Some (Ok st0)"
    and "ca_jwks_url c = None \<and> v = ss_verifier st0 \<and> w' = w
     \<or> (\<exists>url r. ca_jwks_url c = Some url \<and> service_refresh E N (ss_verifier st0) w = (Some r, v, w'))"
    and "timeout_transparent N"
  shows "sv_policy v = build_policy c \<and> sv_counters v = counters_default
    \<and> (case ca_jwks_url c of
         None \<Rightarrow> w' = w \<and> service_jwks v = local_jwks E (ca_signer_seed c)
       | Some url \<Rightarrow> service_jwks v = local_jwks E (ca_signer_seed c)
           \<or> (\<exists>w0 resp w1 body w2. ext_http_get N url w0 = (Ok resp, w1) \<and> ext_status_success N resp
                \<and> ext_body_text N resp w1 = (Ok body, w2) \<and> jwks_from_json E body = Ok (service_jwks v)))"
proof (cases "ca_jwks_url c")
  case None
  with assms(2) build_state_Ok [OF assms(1)] show ?thesis by simp
next
  case (Some url)
  then obtain r where r: "service_refresh E N (ss_verifier st0) w = (Some r, v, w')"
    using assms(2) by auto
  note ports = build_state_Ok [OF assms(1)]
  obtain p where p: "sv_jwks (ss_verifier st0) = Cached_Provider p" "cp_url p = url"
    using build_state_remote_provider [OF assms(1) Some] by blast
  obtain p' where p': "cached_refresh E N p w = (Some r, p', w')" "v = (ss_verifier st0)\<lparr>sv_jwks := Cached_Provider p'\<rparr>"
    using r p(1) by (auto simp: service_refresh_def split: prod.splits)
  show ?thesis
  proof (cases r)
    case (Inl e)
    with p'(1) have "cp_cache p' = cp_cache p"
      by (simp add: cached_refresh_failed_keeps)
    with Some p p'(2) ports show ?thesis by (simp add: service_jwks_def)
  next
    case (Inr u)
    with p'(1) have "cached_refresh E N p w = (Some (Ok ()), p', w')" by simp
    from refreshed_keys_from_url [OF this assms(3)] Some p p'(2) ports show ?thesis
      by (simp add: service_jwks_def)
  qed
qed

text \<open>
  What a server serves that has started to listen. The app it is about to serve answers POST
  requests on \<open>/graphql\<close> from a state that applies the configured policy and has decided nothing,
  and \<open>/metrics\<close> with the recorder just installed. Without a key-set URL it has sent no request
  and trusts the built-in key; with one, it has refreshed once, and trusts either the built-in key
  or the keys decoded from a successful response of that URL.
\<close>

theorem listening_server:
  fixes A :: "('a, (('ch, 'g) service_state, 'm) handler, 'o) axum_env_scheme"
  assumes "serve_start E N B G A S c args t w = (Some (Ok (l, app)), t', w')"
    and "axum_documented A" and "timeout_transparent N"
  shows "\<exists>st metrics layers.
      ext_lookup A app POST ''/graphql'' = Routed layers (Graphql \<lparr> schema_data = st \<rparr>)
    \<and> ext_lookup A app GET ''/metrics'' = Routed layers (Metrics_Text metrics)
    \<and> ext_install_recorder S t = (Ok metrics, t')
    \<and> sv_policy (ss_verifier st) = build_policy c \<and> sv_counters (ss_verifier st) = counters_default
    \<and> (case ca_jwks_url c of
         None \<Rightarrow> w' = w \<and> service_jwks (ss_verifier st) = local_jwks E (ca_signer_seed c)
       | Some url \<Rightarrow> service_jwks (ss_verifier st) = local_jwks E (ca_signer_seed c)
           \<or> (\<exists>w0 resp w1 body w2. ext_http_get N url w0 = (Ok resp, w1) \<and> ext_status_success N resp
                \<and> ext_body_text N resp w1 = (Ok body, w2)
                \<and> jwks_from_json E body = Ok (service_jwks (ss_verifier st))))"
  using assms(1)
proof (rule serve_start_Ok)
  fix st0 v metrics
  assume st0: "build_state E N B G c (sa_rate_limit_rps args) = Some (Ok st0)"
    and rec: "ext_install_recorder S t = (Ok metrics, t')"
    and app: "build_router A (st0\<lparr>ss_verifier := v\<rparr>) metrics = Some app"
    and v: "ca_jwks_url c = None \<and> v = ss_verifier st0 \<and> w' = w
     \<or> (\<exists>url r. ca_jwks_url c = Some url \<and> service_refresh E N (ss_verifier st0) w = (Some r, v, w'))"
  note served = started_verifier [OF st0 v assms(3)]
  have routes: "ext_lookup A app POST ''/graphql'' = Routed node_layers (Graphql \<lparr> schema_data = st0\<lparr>ss_verifier := v\<rparr> \<rparr>)"
    "ext_lookup A app GET ''/metrics'' = Routed node_layers (Metrics_Text metrics)"
    using build_router_routes [OF assms(2), of "st0\<lparr>ss_verifier := v\<rparr>" metrics] app by auto
  then show ?thesis
    using rec served by (intro exI [of _ "st0\<lparr>ss_verifier := v\<rparr>"] exI [of _ metrics] exI [of _ node_layers])
      (simp cong: option.case_cong)
qed

definition sample_server ::
  "(bool, unit, unit, http_method \<Rightarrow> string \<Rightarrow> ((verification_event list, nat) service_state, unit) handler routed, nat) server_env" where
  "sample_server = \<lparr> ext_install_recorder = (\<lambda>t. if t then (Err ''installed'', t) else (Ok (), True)),
     ext_bind = (\<lambda>_. Ok ()), ext_ctrl_c = (\<lambda>w. (Ok (), w)), ext_serve = (\<lambda>_ _ _ _. Ok ()) \<rparr>"

lemma remote_args_url: "ca_jwks_url remote_args = Some ''https://issuer.example/jwks.json''"
  by (simp add: remote_args_def)

theorem listening_server_witness:
  "\<exists>app t' w' st layers. serve_start sample_env dead_net list_channel counting_governor table_axum sample_server remote_args
       default_serve_args False 0 = (Some (Ok ((), app)), t', w')
     \<and> ext_lookup table_axum app POST ''/graphql'' = Routed layers (Graphql \<lparr> schema_data = st \<rparr>)
     \<and> sv_policy (ss_verifier st) = build_policy remote_args"
proof -
  have client: "ext_client_build dead_net USER_AGENT = Ok ()"
    by (simp add: dead_net_def)
  then obtain st0 where st0: "build_state sample_env dead_net list_channel counting_governor remote_args
      (sa_rate_limit_rps default_serve_args) = Some (Ok st0)"
    using build_state_remote [OF remote_args_url] by blast
  obtain rs v w1 where sp: "spawn_jwks_refresher sample_env dead_net (\<lambda>_ w. w) (ca_jwks_refresh_secs remote_args) 0
      (ss_verifier st0) 0 = (rs, v, w1)"
    by (metis prod.exhaust)
  obtain app where "build_router table_axum (st0\<lparr>ss_verifier := v\<rparr>) () = Some app"
    using build_router_routes [OF table_axum_documented, of "st0\<lparr>ss_verifier := v\<rparr>" "()"] by blast
  with st0 sp have *: "serve_start sample_env dead_net list_channel counting_governor table_axum sample_server
      remote_args default_serve_args False 0 = (Some (Ok ((), app)), True, w1)"
    by (simp add: serve_start_def sample_server_def remote_args_url init_metrics_def)
  have "timeout_transparent dead_net"
    by (simp add: timeout_transparent_def dead_net_def split: prod.splits)
  then show ?thesis
    using listening_server [OF * table_axum_documented] * by blast
qed

lemma started_clock:
  assumes "build_state E N B G c rps = Some (Ok st0)"
    and "ca_jwks_url c = None \<and> v = ss_verifier st0 \<and> w' = w
     \<or> (\<exists>url r. ca_jwks_url c = Some url \<and> service_refresh E N (ss_verifier st0) w = (Some r, v, w'))"
  shows "sv_clock v = System_Wall_Clock" "sv_policy v = build_policy c"
  using assms(2) build_state_Ok(2,3) [OF assms(1)] by (auto dest: service_refresh_ports)

text \<open>
  The first burst at a started server. Of any number of token mutations that reach the \<open>/graphql\<close> endpoint
  of a server that has just started to listen, at one instant, exactly the first
  \<open>max rate_limit_rps 1\<close> are answered, each with the decision of the pure verifier on the server's
  keys under the configured policy at the system time; all others are refused.
\<close>

theorem server_burst:
  fixes A :: "('a, (('ch, 'g) service_state, 'm) handler, 'o) axum_env_scheme"
  assumes "serve_start E N B G A S c args t w = (Some (Ok (l, app)), t', w')"
    and "axum_documented A" and "burst_equals_rate G (max (sa_rate_limit_rps args) 1)"
    and "ext_lookup A app POST ''/graphql'' = Routed layers (Graphql \<lparr> schema_data = st \<rparr>)"
  shows "fst (jwt_burst E B G os instant tokens st) =
     map (\<lambda>i. if i < max (unat (sa_rate_limit_rps args)) 1
              then Ok (gql_outcome_of (verify_jwt E (tokens ! i) (service_jwks (ss_verifier st))
                         (build_policy c) (now_unix os System_Wall_Clock)))
              else Err (Gql_Error ''rate limit exceeded'')) [0..<length tokens]"
  using assms(1)
proof (rule serve_start_Ok)
  fix st0 v metrics
  assume st0: "build_state E N B G c (sa_rate_limit_rps args) = Some (Ok st0)"
    and app: "build_router A (st0\<lparr>ss_verifier := v\<rparr>) metrics = Some app"
    and v: "ca_jwks_url c = None \<and> v = ss_verifier st0 \<and> w' = w
     \<or> (\<exists>url r. ca_jwks_url c = Some url \<and> service_refresh E N (ss_verifier st0) w = (Some r, v, w'))"
  have st: "st = st0\<lparr>ss_verifier := v\<rparr>"
    using build_router_routes [OF assms(2), of "st0\<lparr>ss_verifier := v\<rparr>" metrics] app assms(4) by auto
  have "rate_limiter_per_second G (max (sa_rate_limit_rps args) 1) = Some (ss_rate_limiter st)"
    using build_state_Ok(5) [OF st0] by (simp add: st)
  moreover have "unat (max (sa_rate_limit_rps args) 1) = max (unat (sa_rate_limit_rps args)) 1"
    by (simp add: max_def word_le_nat_alt)
  ultimately show ?thesis
    using burst_served_up_to_rate [OF assms(3), of st E B os instant tokens] started_clock [OF st0 v]
    by (simp add: st service_now_def)
qed

theorem server_burst_witness:
  "\<exists>app t' w' st layers. serve_start sample_env dead_net list_channel counting_governor table_axum sample_server
       default_common_args (default_serve_args\<lparr>sa_rate_limit_rps := 0\<rparr>) False 0 = (Some (Ok ((), app)), t', w')
     \<and> ext_lookup table_axum app POST ''/graphql'' = Routed layers (Graphql \<lparr> schema_data = st \<rparr>)
     \<and> fst (jwt_burst sample_env list_channel counting_governor (Err ()) 0 [''a.b.c'', ''a.b.c''] st) ! 1
         = Err (Gql_Error ''rate limit exceeded'')"
proof -
  let ?args = "default_serve_args\<lparr>sa_rate_limit_rps := 0\<rparr>"
  have local: "ca_jwks_url default_common_args = None" by (simp add: default_common_args_def)
  obtain st where st: "build_state sample_env dead_net list_channel counting_governor default_common_args
      (sa_rate_limit_rps ?args) = Some (Ok st)"
    using build_state_static [OF local] by blast
  obtain app where app: "build_router table_axum st () = Some app"
    and routes: "\<forall>m p. ext_lookup table_axum app m p = (case route_spec st () m p of
       None \<Rightarrow> Not_Found node_layers | Some None \<Rightarrow> Method_Not_Allowed node_layers
     | Some (Some h) \<Rightarrow> Routed node_layers h)"
    using build_router_routes [OF table_axum_documented, of st "()"] by blast
  have same: "st\<lparr>ss_verifier := ss_verifier st\<rparr> = st" by (cases st) simp
  have run: "serve_start sample_env dead_net list_channel counting_governor table_axum sample_server
      default_common_args ?args False 0 = (Some (Ok ((), app)), True, 0)"
    using st app by (simp add: serve_start_def sample_server_def local init_metrics_def same)
  have lookup: "ext_lookup table_axum app POST ''/graphql'' = Routed node_layers (Graphql \<lparr> schema_data = st \<rparr>)"
    using routes by simp
  have "max (sa_rate_limit_rps ?args) 1 = 1" "max (unat (sa_rate_limit_rps ?args)) 1 = 1"
    by (simp_all add: default_serve_args_def)
  with server_burst [OF run table_axum_documented counting_burst lookup, of "Err ()" 0 "[''a.b.c'', ''a.b.c'']"]
  have "fst (jwt_burst sample_env list_channel counting_governor (Err ()) 0 [''a.b.c'', ''a.b.c''] st) ! 1
      = Err (Gql_Error ''rate limit exceeded'')"
    by (simp del: jwt_burst.simps)
  with run lookup show ?thesis by blast
qed

lemma serve_returns:
  assumes "axum_documented A"
  shows "serve_command E N B G A S common args t w \<noteq> None"
proof -
  have routed: "build_router A state metrics \<noteq> None" for state metrics
    using build_router_routes [OF assms, of state metrics] by auto
  show ?thesis
    using build_state_result [of E N B G common "sa_rate_limit_rps args"]
    by (auto simp: serve_command_def serve_start_def routed simp del: not_None_eq split: prod.splits sum.splits option.splits)
qed

text \<open>
  C36: The node panics only where it prints, log lines aside. In the release build, compare a
  command with the same command on a standard output that takes every line. The latter never
  panics, whatever the configuration (a rate limit of 0 included), the arguments, the clock, the
  network, the recorder and the socket do. The former ends the same way if its lines can be
  written, and otherwise panics at the first line that cannot, having printed exactly the lines
  before it. The server prints nothing, so it does not panic up to the moment it hands its routes
  to the server library, whose serving is a parameter.
\<close>

theorem panics_only_when_printing:
  assumes "axum_documented A" and "node_main E N B G A S T pretty os (\<lambda>_. True) t w c = (r, ls)"
  shows "r \<noteq> None
     \<and> ((\<forall>i<length ls. stdout i) \<longrightarrow> node_main E N B G A S T pretty os stdout t w c = (r, ls))
     \<and> (\<forall>n<length ls. \<not> stdout n \<longrightarrow> (\<forall>i<n. stdout i)
          \<longrightarrow> node_main E N B G A S T pretty os stdout t w c = (None, take n ls))"
proof -
  have blocked: "blocked_at stdout 0 (length ls) n \<longleftrightarrow> n < length ls \<and> \<not> stdout n \<and> (\<forall>i<n. stdout i)" for n
    by (auto simp: blocked_at_def)
  show ?thesis
  proof (cases "selected_command c")
    case (Serve args)
    have "serve_command E N B G A S (cli_common c) args (init_tracing T t) w \<noteq> None"
      by (rule serve_returns [OF assms(1)])
    with Serve assms(2) show ?thesis
      by (auto simp: node_main_def Let_def)
  next
    case Demo
    with assms(2) demo_run_exact [of E B os "cli_common c" r ls stdout] show ?thesis
      unfolding blocked by (simp add: node_main_def Let_def del: not_None_eq)
  next
    case Mint
    with assms(2) mint_print_exact [of E pretty "cli_common c" r ls stdout] show ?thesis
      unfolding blocked by (simp add: node_main_def Let_def del: not_None_eq)
  next
    case (Verify args)
    with assms(2) run_verify_exact [of E N B G os "cli_common c" args r ls stdout] show ?thesis
      unfolding blocked by (simp add: node_main_def Let_def del: not_None_eq)
  qed
qed

definition sample_tracing :: "(string, bool) tracing_env" where
  "sample_tracing = \<lparr> ext_filter_from_env = Err ''unset'', ext_filter_new = (\<lambda>s. s), ext_try_init = (\<lambda>f t. (Ok (), t)) \<rparr>"

text \<open>The offline command on a token, with the standard output closed.\<close>

theorem panics_only_when_printing_witness:
  "node_main sample_node_env dead_net list_channel counting_governor table_axum sample_server sample_tracing
     (\<lambda>_. Err []) (\<lambda>_. Err ()) (\<lambda>_. False) False 0
     \<lparr> cli_common = remote_args, cli_command = Some (Verify \<lparr> va_token = Some ''no token'', va_credential = None \<rparr>) \<rparr>
   = (None, [])"
proof -
  let ?c = "\<lparr> cli_common = remote_args, cli_command = Some (Verify \<lparr> va_token = Some ''no token'', va_credential = None \<rparr>) \<rparr>"
  have "run_verify sample_node_env dead_net list_channel counting_governor (\<lambda>_. Err ()) always_open remote_args
      \<lparr> va_token = Some ''no token'', va_credential = None \<rparr> = (Some (Ok ()), [''invalid''])"
    by (rule sample_offline_run)
  then have "node_main sample_node_env dead_net list_channel counting_governor table_axum sample_server sample_tracing
      (\<lambda>_. Err []) (\<lambda>_. Err ()) always_open False 0 ?c = (Some (Ok ()), [''invalid''])"
    by (simp add: node_main_def selected_command_def)
  from panics_only_when_printing [OF table_axum_documented this, of "\<lambda>_. False"] show ?thesis
    by simp
qed

end
