(* ===== verification/Server_Run.thy ===== *)
theory Server_Run
  imports Key_Source Concurrent_Service Concurrent_Refresh Node_Main
begin

text \<open>
  The running server: the mutations of \<open>edgeauth-api/src/schema.rs\<close>, the service and the key
  provider of \<open>edgeauth-infra\<close> and the refresher of \<open>edgeauth-node/src/startup.rs\<close>, interleaved.
  A step is one access to shared state: a check of the rate limiter, a step of a request as in
  \<open>Concurrent_Service\<close>, or a step of a refresh as in \<open>Concurrent_Refresh\<close>, where a key set is
  written only if an attempt returned it. A mutation that passed the limiter holds a permit until
  it enters the service. Subscribers only read the audit channel and are left out here.
\<close>

section \<open>States and steps\<close>

record ('ch, 'g) running =
  rn_time :: instant
  rn_state :: "('ch, 'g) service_state"
  rn_admitted :: nat
  rn_pending :: "pending_token multiset"
  rn_uncounted :: "decision multiset"
  rn_unsent :: "decision multiset"
  rn_fetching :: nat
  rn_written :: nat

definition running_new :: "instant \<Rightarrow> ('ch, 'g) service_state \<Rightarrow> ('ch, 'g) running" where
  "running_new t st = \<lparr> rn_time = t, rn_state = st, rn_admitted = 0, rn_pending = {#},
     rn_uncounted = {#}, rn_unsent = {#}, rn_fetching = 0, rn_written = 0 \<rparr>"

definition service_view :: "('ch, 'g) running \<Rightarrow> 'ch server_state" where
  "service_view s = (ss_verifier (rn_state s), rn_pending s, rn_uncounted s, rn_unsent s)"

fun with_service :: "'ch server_state \<Rightarrow> ('ch, 'g) running \<Rightarrow> ('ch, 'g) running" where
  "with_service (v, I, C, M) s =
     s\<lparr>rn_state := (rn_state s)\<lparr>ss_verifier := v\<rparr>, rn_pending := I, rn_uncounted := C, rn_unsent := M\<rparr>"

definition provider_view :: "cached_provider \<Rightarrow> ('ch, 'g) running \<Rightarrow> refresher_state" where
  "provider_view p s = (rn_time s, p, rn_fetching s, rn_written s)"

fun with_provider :: "refresher_state \<Rightarrow> ('ch, 'g) running \<Rightarrow> ('ch, 'g) running" where
  "with_provider (now, p, f, g) s =
     s\<lparr>rn_time := now, rn_fetching := f, rn_written := g,
       rn_state := (rn_state s)\<lparr>ss_verifier := (ss_verifier (rn_state s))\<lparr>sv_jwks := Cached_Provider p\<rparr>\<rparr>\<rparr>"

datatype run_event =
    Arrive instant bool
  | Request service_event
  | Refresh bool refresh_event
  | Static_Refresh

text \<open>
  The requests the API makes of the service: overrides come from the arguments of the token
  mutation, a credential mutation has none, and keys change by refreshing only. Entering the
  service costs the permit, and so does a refresh on behalf of a mutation.
\<close>

fun offered :: "service_event \<Rightarrow> bool" where
  "offered (Read_Keys token over) \<longleftrightarrow> (\<exists>audience scopes. over = build_override audience scopes)"
| "offered (Decide_Credential os json over d) \<longleftrightarrow> over = None"
| "offered (Unreadable json over) \<longleftrightarrow> over = None"
| "offered (Rekey p) \<longleftrightarrow> False"
| "offered _ \<longleftrightarrow> True"

fun permits :: "run_event \<Rightarrow> nat" where
  "permits (Request (Read_Keys token over)) = 1"
| "permits (Request (Decide_Credential os json over d)) = 1"
| "permits (Request (Unreadable json over)) = 1"
| "permits (Refresh True e) = (if asks_breaker e then 1 else 0)"
| "permits Static_Refresh = 1"
| "permits _ = 0"

inductive run_step ::
  "('vk, 'sk, 'y) vc_env_scheme \<Rightarrow> ('w, 'r, 'x) net_env_scheme \<Rightarrow> ('ch, 'z) broadcast_env_scheme \<Rightarrow>
     ('g, 'n, 'u) governor_scheme \<Rightarrow> ('ch, 'g) running \<Rightarrow> run_event \<Rightarrow> ('ch, 'g) running \<Rightarrow> bool"
  for E :: "('vk, 'sk, 'y) vc_env_scheme" and N :: "('w, 'r, 'x) net_env_scheme"
    and B :: "('ch, 'z) broadcast_env_scheme" and G :: "('g, 'n, 'u) governor_scheme" where
  arrive: "rate_limit G t (rn_state s) = (r, st) \<Longrightarrow>
    run_step E N B G s (Arrive t (is_ok r))
      (s\<lparr>rn_state := st, rn_admitted := (if is_ok r then Suc (rn_admitted s) else rn_admitted s)\<rparr>)"
| request: "service_step E B (service_view s) e \<sigma> \<Longrightarrow> offered e \<Longrightarrow>
    rn_admitted s = permits (Request e) + n \<Longrightarrow>
    run_step E N B G s (Request e) (with_service \<sigma> (s\<lparr>rn_admitted := n\<rparr>))"
| refresh: "sv_jwks (ss_verifier (rn_state s)) = Cached_Provider p \<Longrightarrow>
    refresh_step (provider_view p s) e \<pi> \<Longrightarrow> fetched E N p e \<Longrightarrow>
    rn_admitted s = permits (Refresh by_mutation e) + n \<Longrightarrow>
    run_step E N B G s (Refresh by_mutation e) (with_provider \<pi> (s\<lparr>rn_admitted := n\<rparr>))"
| static_refresh: "sv_jwks (ss_verifier (rn_state s)) = Static_Provider ks \<Longrightarrow>
    rn_admitted s = Suc n \<Longrightarrow>
    run_step E N B G s Static_Refresh (s\<lparr>rn_admitted := n\<rparr>)"

inductive_cases run_stepE: "run_step E N B G s e s'"

lemma service_view_simps [simp]:
  "service_view (with_service \<sigma> s) = \<sigma>" "service_view (s\<lparr>rn_admitted := n\<rparr>) = service_view s"
  "rn_admitted (with_service \<sigma> s) = rn_admitted s" "rn_time (with_service \<sigma> s) = rn_time s"
  "rn_fetching (with_service \<sigma> s) = rn_fetching s" "rn_written (with_service \<sigma> s) = rn_written s"
  "ss_rate_limiter (rn_state (with_service \<sigma> s)) = ss_rate_limiter (rn_state s)"
  "rn_admitted (with_provider \<pi> s) = rn_admitted s" "rn_pending (with_provider \<pi> s) = rn_pending s"
  "rn_uncounted (with_provider \<pi> s) = rn_uncounted s" "rn_unsent (with_provider \<pi> s) = rn_unsent s"
  "ss_rate_limiter (rn_state (with_provider \<pi> s)) = ss_rate_limiter (rn_state s)"
  by (cases \<sigma> rule: prod_cases4; simp add: service_view_def; fail | cases \<pi> rule: prod_cases4; simp; fail
      | simp add: service_view_def; fail)+

lemma rate_limit_ports:
  "rate_limit G t st = (r, st') \<Longrightarrow> ss_verifier st' = ss_verifier st"
  by (auto simp: rate_limit_def split: prod.splits)

section \<open>Projections to the components\<close>

text \<open>A step of the server is a step of the concurrent service, possibly a change of provider, or none.\<close>

fun requests :: "run_event list \<Rightarrow> service_event list" where
  "requests [] = []"
| "requests (Request e # es) = e # requests es"
| "requests (_ # es) = requests es"

lemma requests_Cons: "requests (e # es) = requests [e] @ requests es"
  by (cases e) simp_all

definition rekeys :: "service_event \<Rightarrow> bool" where
  "rekeys e \<longleftrightarrow> (\<exists>p. e = Rekey p)"

lemma set_rekeyed: "set (rekeyed es) = {provider_current p |p. Rekey p \<in> set es}"
proof (induction es)
  case (Cons e es)
  then show ?case by (cases e) auto
qed simp

lemma run_step_service:
  assumes "run_step E N B G s e s'"
  shows "\<exists>es. steps (service_step E B) (service_view s) es (service_view s')
    \<and> filter (\<lambda>e. \<not> rekeys e) es = requests [e]
    \<and> (\<forall>p. Rekey p \<in> set es \<longrightarrow> sv_jwks (ss_verifier (rn_state s')) = p)"
  using assms
proof (cases rule: run_step.cases)
  case (arrive t r st)
  then show ?thesis
    by (intro exI [of _ "[]"]) (simp add: service_view_def rate_limit_ports)
next
  case (request e' \<sigma> n)
  then have "\<not> rekeys e'" by (auto simp: rekeys_def)
  with request show ?thesis
    by (intro exI [of _ "[e']"]) (auto simp: steps_single rekeys_def)
next
  case (refresh p e' \<pi> by_mutation n)
  obtain now q f g where \<pi>: "\<pi> = (now, q, f, g)" by (rule prod_cases4)
  have "service_step E B (service_view s) (Rekey (Cached_Provider q)) (service_view s')"
    using rekey [of E B "ss_verifier (rn_state s)"] refresh(2) by (simp add: service_view_def \<pi>)
  then show ?thesis
    using refresh(1,2) by (intro exI [of _ "[Rekey (Cached_Provider q)]"]) (simp add: steps_single rekeys_def \<pi>)
next
  case (static_refresh ks n)
  then show ?thesis by (intro exI [of _ "[]"]) (simp add: service_view_def)
qed

section \<open>Which keys the server can have\<close>

definition key_origin ::
  "('vk, 'sk, 'y) jwt_env_scheme \<Rightarrow> ('w, 'r, 'x) net_env_scheme \<Rightarrow> string option \<Rightarrow> jwks \<Rightarrow> jwks \<Rightarrow> bool" where
  "key_origin E N src seed ks \<longleftrightarrow> ks = seed \<or> from_url E N src ks"

definition keys_inv ::
  "('vk, 'sk, 'y) jwt_env_scheme \<Rightarrow> ('w, 'r, 'x) net_env_scheme \<Rightarrow> string option \<Rightarrow> jwks \<Rightarrow> ('ch, 'g) running \<Rightarrow> bool" where
  "keys_inv E N src seed s \<longleftrightarrow> service_key_source (ss_verifier (rn_state s)) = src
     \<and> key_origin E N src seed (service_jwks (ss_verifier (rn_state s)))"

lemma service_step_jwks:
  "service_step E B (s, I, C, M) e (s', I', C', M') \<Longrightarrow> \<not> rekeys e \<Longrightarrow> sv_jwks s' = sv_jwks s"
  by (erule service_stepE) (simp_all add: rekeys_def)

lemma refresh_step_keys:
  assumes "refresh_step (now, p, f, g) e (now', p', f', g')" and "fetched E N p e"
  shows "cp_url p' = cp_url p \<and> (cp_cache p' = cp_cache p \<or> from_url E N (Some (cp_url p)) (cp_cache p'))"
  using assms
  by (cases rule: refresh_step.cases)
    (auto simp: write_cache_def report_success_def report_failure_def from_url_def fetch_attempt_served)

lemma run_step_keys:
  assumes "keys_inv E N src seed s" and "run_step E N B G s e s'"
  shows "keys_inv E N src seed s'"
  using assms(2)
proof (cases rule: run_step.cases)
  case (arrive t r st)
  then show ?thesis using assms(1) by (simp add: keys_inv_def rate_limit_ports)
next
  case (request e' \<sigma> n)
  obtain v I C M where \<sigma>: "\<sigma> = (v, I, C, M)" by (rule prod_cases4)
  have "\<not> rekeys e'" using request(4) by (auto simp: rekeys_def)
  then have "sv_jwks v = sv_jwks (ss_verifier (rn_state s))"
    using request(3) by (simp add: service_view_def \<sigma> service_step_jwks)
  then show ?thesis
    using assms(1) request(2) by (simp add: keys_inv_def \<sigma> service_key_source_def service_jwks_def)
next
  case (refresh p e' \<pi> by_mutation n)
  obtain now q f g where \<pi>: "\<pi> = (now, q, f, g)" by (rule prod_cases4)
  have "cp_url q = cp_url p \<and> (cp_cache q = cp_cache p \<or> from_url E N (Some (cp_url p)) (cp_cache q))"
    using refresh_step_keys refresh(4,5) unfolding provider_view_def \<pi> by blast
  then show ?thesis
    using assms(1) refresh(2,3)
    by (auto simp: keys_inv_def \<pi> service_key_source_def service_jwks_def key_origin_def)
next
  case (static_refresh ks n)
  then show ?thesis using assms(1) by (simp add: keys_inv_def)
qed

interpretation server_keys: step_invariant "run_step E N B G"
    "\<lambda>s. service_key_source (ss_verifier (rn_state s)) = src \<and> service_jwks (ss_verifier (rn_state s)) = seed"
    "keys_inv E N src seed"
  for E :: "('vk, 'sk, 'y) vc_env_scheme" and N :: "('w, 'r, 'x) net_env_scheme"
    and B :: "('ch, 'z) broadcast_env_scheme" and G :: "('g, 'n, 'u) governor_scheme" and src seed
  by unfold_locales (simp add: keys_inv_def key_origin_def, rule run_step_keys)

text \<open>An execution of the server is one of the concurrent service whose new keys have that origin.\<close>

lemma run_service:
  assumes "steps (run_step E N B G) s es s'" and "keys_inv E N src seed s"
  shows "\<exists>ses. steps (service_step E B) (service_view s) ses (service_view s')
    \<and> filter (\<lambda>e. \<not> rekeys e) ses = requests es
    \<and> (\<forall>ks \<in> set (rekeyed ses). key_origin E N src seed ks)"
  using assms
proof (induction rule: steps.induct)
  case (steps_Nil s)
  show ?case by (intro exI [of _ "[]"]) simp
next
  case (steps_Cons s e s1 es s')
  have inv: "keys_inv E N src seed s1"
    using run_step_keys steps_Cons.prems steps_Cons.hyps(1) .
  obtain one where one: "steps (service_step E B) (service_view s) one (service_view s1)"
    "filter (\<lambda>e. \<not> rekeys e) one = requests [e]"
    "\<forall>p. Rekey p \<in> set one \<longrightarrow> sv_jwks (ss_verifier (rn_state s1)) = p"
    using run_step_service [OF steps_Cons.hyps(1)] by blast
  obtain ses where ses: "steps (service_step E B) (service_view s1) ses (service_view s')"
    "filter (\<lambda>e. \<not> rekeys e) ses = requests es" "\<forall>ks \<in> set (rekeyed ses). key_origin E N src seed ks"
    using steps_Cons.IH [OF inv] by blast
  have "\<forall>ks \<in> set (rekeyed one). key_origin E N src seed ks"
    using one(3) inv by (auto simp: set_rekeyed keys_inv_def service_jwks_def)
  with ses one show ?case
    unfolding requests_Cons [of e es]
    by (intro exI [of _ "one @ ses"]) (auto simp: steps_append set_rekeyed)
qed

section \<open>From the configuration to a decision\<close>

lemma build_state_source:
  "build_state E N B G c rps = Some (Ok st) \<Longrightarrow> service_key_source (ss_verifier st) = ca_jwks_url c"
  by (auto simp: build_state_def Let_def service_new_def service_state_new_def cached_new_def static_new_def
      service_key_source_def split: option.splits sum.splits)

lemma started_source:
  assumes "build_state E N B G c rps = Some (Ok st0)"
    and "ca_jwks_url c = None \<and> v = ss_verifier st0 \<and> w' = w
     \<or> (\<exists>url r. ca_jwks_url c = Some url \<and> service_refresh E N (ss_verifier st0) w = (Some r, v, w'))"
  shows "service_key_source v = ca_jwks_url c"
  using assms(2) build_state_source [OF assms(1)] service_sourced.source_fixed [where f = "\<lambda>w. w"] by fastforce

text \<open>The state behind \<open>/graphql\<close> of a server that has started to listen.\<close>

lemma listening_state:
  fixes A :: "('a, (('ch, 'g) service_state, 'm) handler, 'o) axum_env_scheme"
  assumes "serve_start E N B G A S c args t w = (Some (Ok (l, app)), t', w')"
    and "axum_documented A" and "timeout_transparent N"
    and "ext_lookup A app POST ''/graphql'' = Routed layers (Graphql \<lparr> schema_data = st \<rparr>)"
  shows "sv_policy (ss_verifier st) = build_policy c" "sv_clock (ss_verifier st) = System_Wall_Clock"
    "service_key_source (ss_verifier st) = ca_jwks_url c"
    "key_origin E N (ca_jwks_url c) (local_jwks E (ca_signer_seed c)) (service_jwks (ss_verifier st))"
    "rate_limiter_per_second G (max (sa_rate_limit_rps args) 1) = Some (ss_rate_limiter st)"
proof -
  obtain st0 v metrics where st0: "build_state E N B G c (sa_rate_limit_rps args) = Some (Ok st0)"
    and app: "build_router A (st0\<lparr>ss_verifier := v\<rparr>) metrics = Some app"
    and v: "ca_jwks_url c = None \<and> v = ss_verifier st0 \<and> w' = w
     \<or> (\<exists>url r. ca_jwks_url c = Some url \<and> service_refresh E N (ss_verifier st0) w = (Some r, v, w'))"
    using assms(1) by (rule serve_start_Ok)
  have st: "st = st0\<lparr>ss_verifier := v\<rparr>"
    using build_router_routes [OF assms(2), of "st0\<lparr>ss_verifier := v\<rparr>" metrics] app assms(4) by auto
  show "sv_policy (ss_verifier st) = build_policy c" "sv_clock (ss_verifier st) = System_Wall_Clock"
    using started_clock [OF st0 v] by (simp_all add: st)
  show "service_key_source (ss_verifier st) = ca_jwks_url c"
    using started_source [OF st0 v] by (simp add: st)
  show "key_origin E N (ca_jwks_url c) (local_jwks E (ca_signer_seed c)) (service_jwks (ss_verifier st))"
    using started_verifier [OF st0 v assms(3)]
    by (cases "ca_jwks_url c") (auto simp: st key_origin_def from_url_def served_by_def)
  show "rate_limiter_per_second G (max (sa_rate_limit_rps args) 1) = Some (ss_rate_limiter st)"
    using build_state_Ok(5) [OF st0] by (simp add: st)
qed

lemma signature_by_trusted_key:
  assumes "signed_jwt_parse E token = Ok j" and "signed_jwt_verify_with E j ks = Ok ()"
  shows "\<exists>s k key. token = sj_signing_input j @ ''.'' @ s \<and> k \<in> set (jwks_keys ks)
    \<and> jwk_verifying_key E k = Ok key \<and> ext_vk_verify E key (as_bytes (sj_signing_input j)) (sj_signature j)"
proof -
  obtain h p s where "split_char CHR ''.'' token = [h, p, s]" "sj_signing_input j = h @ ''.'' @ p"
    using assms(1) by (auto simp: signed_jwt_parse_Ok_iff)
  then have "token = sj_signing_input j @ ''.'' @ s"
    by (simp add: split_char_three_iff)
  moreover obtain k key where "jwks_find ks (hdr_kid (sj_header j)) = Some k" "jwk_verifying_key E k = Ok key"
    "ext_vk_verify E key (as_bytes (sj_signing_input j)) (sj_signature j)"
    using assms(2) by (auto simp: signed_jwt_verify_with_Ok_iff)
  ultimately show ?thesis using jwks_find_member by blast
qed

lemma requests_mem: "Request e \<in> set es \<longleftrightarrow> e \<in> set (requests es)"
  by (induction es rule: requests.induct) auto

lemma key_origin_trans:
  "key_origin E N src seed ks0 \<Longrightarrow> key_origin E N src ks0 ks \<Longrightarrow> key_origin E N src seed ks"
  by (auto simp: key_origin_def)

text \<open>Which request a decided token belongs to, and what the decision was taken with.\<close>

lemma run_decision:
  assumes "steps (run_step E N B G) (running_new now st) es s'"
    and "Request (Decide_Token os (token, policy, keys) (out, sec)) \<in> set es"
  shows "\<exists>over. Request (Read_Keys token over) \<in> set es \<and> policy = effective_policy (ss_verifier st) over
    \<and> out = verify_jwt E token keys policy sec \<and> sec = service_now os (ss_verifier st)
    \<and> key_origin E N (service_key_source (ss_verifier st)) (service_jwks (ss_verifier st)) keys"
proof -
  let ?v = "ss_verifier st"
  have "keys_inv E N (service_key_source ?v) (service_jwks ?v) (running_new now st)"
    by (simp add: keys_inv_def running_new_def key_origin_def)
  then obtain ses where ses: "steps (service_step E B) (service_view (running_new now st)) ses (service_view s')"
    "filter (\<lambda>e. \<not> rekeys e) ses = requests es"
    "\<forall>ks \<in> set (rekeyed ses). key_origin E N (service_key_source ?v) (service_jwks ?v) ks"
    using run_service [OF assms(1)] by blast
  have mem: "e \<in> set ses \<longleftrightarrow> Request e \<in> set es" if "\<not> rekeys e" for e
    using that unfolding requests_mem ses(2) [symmetric] by simp
  have "Decide_Token os (token, policy, keys) (out, sec) \<in> set ses"
    using assms(2) by (simp add: mem rekeys_def)
  from decided_token_origin [OF ses(1) _ this, of ?v "{#}" "{#}" "{#}"]
  obtain over where "Read_Keys token over \<in> set ses" "policy = effective_policy ?v over"
    "out = verify_jwt E token keys policy sec" "sec = service_now os ?v" "keys \<in> set (service_jwks ?v # rekeyed ses)"
    by (auto simp: service_view_def running_new_def)
  then show ?thesis
    using ses(3) mem [of "Read_Keys token over"] by (auto simp: rekeys_def key_origin_def)
qed

end
