(* ===== verification/Server_Handlers.thy ===== *)
theory Server_Handlers
  imports Server_Run
begin

text \<open>
  The mutations of \<open>edgeauth-api/src/schema.rs\<close> and the refresher's calls, taken from start to end
  without interruption, are executions of the running server of \<open>Server_Run\<close>: what is proved of
  every interleaving holds of the handlers as they are written.
\<close>

section \<open>Lifting the components' executions\<close>

lemma with_service_again [simp]:
  "with_service \<sigma>' (with_service \<sigma> s) = with_service \<sigma>' s"
  "(with_service \<sigma> s)\<lparr>rn_admitted := n\<rparr> = with_service \<sigma> (s\<lparr>rn_admitted := n\<rparr>)"
  "with_service (service_view s) s = s"
  by (cases \<sigma> rule: prod_cases4; cases \<sigma>' rule: prod_cases4; simp add: service_view_def)+

lemma with_provider_again [simp]:
  "with_provider \<pi>' (with_provider \<pi> s) = with_provider \<pi>' s"
  "(with_provider \<pi> s)\<lparr>rn_admitted := n\<rparr> = with_provider \<pi> (s\<lparr>rn_admitted := n\<rparr>)"
  by (cases \<pi> rule: prod_cases4; cases \<pi>' rule: prod_cases4; simp)+

definition cost :: "run_event list \<Rightarrow> nat" where
  "cost es = sum_list (map permits es)"

lemma cost_simps [simp]: "cost [] = 0" "cost (e # es) = permits e + cost es" "cost (es @ es') = cost es + cost es'"
  by (simp_all add: cost_def)

lemma lift_requests:
  assumes "steps (service_step E B) \<sigma> es \<sigma>'" and "service_view s = \<sigma>" and "list_all offered es"
    and "rn_admitted s = cost (map Request es) + n"
  shows "steps (run_step E N B G) s (map Request es) (with_service \<sigma>' (s\<lparr>rn_admitted := n\<rparr>))"
  using assms
proof (induction arbitrary: s rule: steps.induct)
  case (steps_Nil \<sigma>)
  then have "rn_admitted s = n" by simp
  then have "s\<lparr>rn_admitted := n\<rparr> = s" by (cases s) simp
  with steps_Nil show ?case by (metis with_service_again(3) list.simps(8) steps.steps_Nil)
next
  case (steps_Cons \<sigma> e \<sigma>1 es \<sigma>')
  let ?m = "cost (map Request es) + n"
  have one: "run_step E N B G s (Request e) (with_service \<sigma>1 (s\<lparr>rn_admitted := ?m\<rparr>))"
    using steps_Cons.hyps(1) steps_Cons.prems by (intro request) simp_all
  have "steps (run_step E N B G) (with_service \<sigma>1 (s\<lparr>rn_admitted := ?m\<rparr>)) (map Request es)
      (with_service \<sigma>' ((with_service \<sigma>1 (s\<lparr>rn_admitted := ?m\<rparr>))\<lparr>rn_admitted := n\<rparr>))"
    using steps_Cons.prems by (intro steps_Cons.IH) simp_all
  with one show ?case by (auto intro: steps.steps_Cons)
qed

lemma fetch_attempt_config:
  "cp_url q = cp_url p \<Longrightarrow> cp_per_attempt_timeout q = cp_per_attempt_timeout p \<Longrightarrow>
     fetch_attempt E N q = fetch_attempt E N p"
  by (rule ext) (simp add: fetch_attempt_def)

lemma fetched_config:
  "fetch_attempt E N q = fetch_attempt E N p \<Longrightarrow> fetched E N q e = fetched E N p e"
  by (cases e) simp_all

lemma refresh_step_fetched:
  assumes "refresh_step (now, p, f, g) e (now', p', f', g')"
  shows "fetched E N p' = fetched E N p"
proof -
  have "cp_url p' = cp_url p \<and> cp_per_attempt_timeout p' = cp_per_attempt_timeout p"
    using assms by (auto elim!: refresh_stepE simp: write_cache_def report_success_def report_failure_def)
  then show ?thesis by (intro ext fetched_config fetch_attempt_config) simp_all
qed

lemma provider_view_with [simp]:
  "provider_view q (with_provider (now, q, f, g) s) = (now, q, f, g)"
  "sv_jwks (ss_verifier (rn_state (with_provider (now, q, f, g) s))) = Cached_Provider q"
  by (simp_all add: provider_view_def)

lemma with_provider_same:
  "sv_jwks (ss_verifier (rn_state s)) = Cached_Provider p \<Longrightarrow> with_provider (provider_view p s) s = s"
  by (cases s; cases "rn_state s"; cases "ss_verifier (rn_state s)") (simp add: provider_view_def)

lemma lift_refreshes:
  assumes "steps refresh_step \<pi> es \<pi>'" and "provider_view p s = \<pi>"
    and "sv_jwks (ss_verifier (rn_state s)) = Cached_Provider p" and "list_all (fetched E N p) es"
    and "rn_admitted s = cost (map (Refresh by_mutation) es) + n"
  shows "steps (run_step E N B G) s (map (Refresh by_mutation) es) (with_provider \<pi>' (s\<lparr>rn_admitted := n\<rparr>))"
  using assms
proof (induction arbitrary: s p rule: steps.induct)
  case (steps_Nil \<pi>)
  then have "rn_admitted s = n" by simp
  then have "s\<lparr>rn_admitted := n\<rparr> = s" by (cases s) simp
  with steps_Nil show ?case by (metis with_provider_same list.simps(8) steps.steps_Nil)
next
  case (steps_Cons \<pi> e \<pi>1 es \<pi>')
  let ?m = "cost (map (Refresh by_mutation) es) + n"
  obtain now q f g where \<pi>1: "\<pi>1 = (now, q, f, g)" by (rule prod_cases4)
  let ?s1 = "with_provider \<pi>1 (s\<lparr>rn_admitted := ?m\<rparr>)"
  have one: "run_step E N B G s (Refresh by_mutation e) ?s1"
    using steps_Cons.hyps(1) steps_Cons.prems by (intro refresh [where p = p]) (simp_all del: permits.simps)
  have "fetched E N q = fetched E N p"
    using steps_Cons.hyps(1) steps_Cons.prems(1) refresh_step_fetched unfolding \<pi>1 provider_view_def by metis
  then have "steps (run_step E N B G) ?s1 (map (Refresh by_mutation) es) (with_provider \<pi>' (?s1\<lparr>rn_admitted := n\<rparr>))"
    using steps_Cons.prems \<pi>1 by (intro steps_Cons.IH [where p = q]) (simp_all del: with_provider.simps)
  with one show ?case by (auto intro: steps.steps_Cons simp del: with_provider.simps)
qed

section \<open>The mutations\<close>

text \<open>Passing the limiter, or being turned away.\<close>

lemma limiter_steps:
  assumes "rate_limit G t st = (r, st1)" and "rn_state s = st"
  shows "run_step E N B G s (Arrive t (is_ok r))
     (s\<lparr>rn_state := st1, rn_admitted := (if is_ok r then Suc (rn_admitted s) else rn_admitted s)\<rparr>)"
  using assms arrive by blast

lemma service_view_state [simp]:
  "with_service (v, rn_pending s, rn_uncounted s, rn_unsent s) s = s\<lparr>rn_state := (rn_state s)\<lparr>ss_verifier := v\<rparr>\<rparr>"
  by (cases s) simp

text \<open>
  A token mutation: checked by the limiter, then the keys are read, the token decided, and the
  decision counted and sent; or turned away with no further step.
\<close>

lemma token_mutation_execution:
  assumes "mutation_verify_jwt E B G os t token audience scopes (rn_state s) = (r, st')"
  shows "\<exists>es. steps (run_step E N B G) s es (s\<lparr>rn_state := st'\<rparr>)
    \<and> (case r of Err e \<Rightarrow> es = [Arrive t False] | Ok answer \<Rightarrow> \<exists>policy keys out.
         Request (Decide_Token os (token, policy, keys) (out, service_now os (ss_verifier (rn_state s)))) \<in> set es
           \<and> answer = gql_outcome_of out)"
proof -
  obtain x st1 where lim: "rate_limit G t (rn_state s) = (x, st1)"
    by (cases "rate_limit G t (rn_state s)")
  note arr = limiter_steps [OF lim refl, of E N B]
  show ?thesis
  proof (cases x)
    case (Inl e)
    then have "r = Err e" "st' = st1"
      using assms lim by (simp_all add: mutation_verify_jwt_def)
    moreover have "run_step E N B G s (Arrive t False) (s\<lparr>rn_state := st1\<rparr>)"
      using arr Inl by (cases s) simp
    ultimately show ?thesis by (intro exI [of _ "[Arrive t False]"]) (simp add: steps_single)
  next
    case (Inr u)
    let ?s1 = "s\<lparr>rn_state := st1, rn_admitted := Suc (rn_admitted s)\<rparr>"
    let ?over = "build_override audience scopes" and ?v = "ss_verifier st1"
    let ?q = "(token, effective_policy ?v ?over, service_jwks ?v)"
    let ?out = "verify_jwt E token (service_jwks ?v) (effective_policy ?v ?over) (service_now os ?v)"
    let ?d = "(?out, service_now os ?v)"
    let ?es = "[Read_Keys token ?over, Decide_Token os ?q ?d, Count ?d, Emit ?d]"
    let ?v' = "snd (service_verify_jwt E B os token ?over ?v)"
    have same: "ss_verifier (rn_state s) = ?v"
      using lim by (simp add: rate_limit_ports)
    have r: "r = Ok (gql_outcome_of ?out)" "st' = st1\<lparr>ss_verifier := ?v'\<rparr>"
      using assms lim Inr
      by (auto simp: mutation_verify_jwt_def service_verify_jwt_def service_jwks_def service_now_def Let_def)
    have "steps (run_step E N B G) ?s1 (map Request ?es)
        (with_service (?v', rn_pending s, rn_uncounted s, rn_unsent s) (?s1\<lparr>rn_admitted := rn_admitted s\<rparr>))"
      by (rule lift_requests [OF token_request_steps [of E B ?v "rn_pending s" "rn_uncounted s" "rn_unsent s" token ?over os]])
        (auto simp: service_view_def)
    then have "steps (run_step E N B G) ?s1 (map Request ?es) (s\<lparr>rn_state := st'\<rparr>)"
      unfolding r(2) by (cases s) simp
    then have "steps (run_step E N B G) s (Arrive t True # map Request ?es) (s\<lparr>rn_state := st'\<rparr>)"
      using arr Inr by (auto intro: steps.steps_Cons)
    then show ?thesis
      using r(1) unfolding same
      by (intro exI [of _ "Arrive t True # map Request ?es"]) auto
  qed
qed

text \<open>A credential mutation; a document that is no credential leaves the state as it is.\<close>

lemma credential_mutation_execution:
  assumes "mutation_verify_credential E B G os t json (rn_state s) = (r, st')"
  shows "\<exists>es. steps (run_step E N B G) s es (s\<lparr>rn_state := st'\<rparr>)
    \<and> (case r of Err e \<Rightarrow> es = [Arrive t False] \<or> es = [Arrive t True, Request (Unreadable json None)]
         | Ok answer \<Rightarrow> \<exists>out now. Request (Decide_Credential os json None (out, now)) \<in> set es
             \<and> answer = gql_outcome_of out)"
proof -
  obtain x st1 where lim: "rate_limit G t (rn_state s) = (x, st1)"
    by (cases "rate_limit G t (rn_state s)")
  note arr = limiter_steps [OF lim refl, of E N B]
  show ?thesis
  proof (cases x)
    case (Inl e)
    then have "r = Err e" "st' = st1"
      using assms lim by (simp_all add: mutation_verify_credential_def)
    moreover have "run_step E N B G s (Arrive t False) (s\<lparr>rn_state := st1\<rparr>)"
      using arr Inl by (cases s) simp
    ultimately show ?thesis by (intro exI [of _ "[Arrive t False]"]) (simp add: steps_single)
  next
    case (Inr u)
    let ?s1 = "s\<lparr>rn_state := st1, rn_admitted := Suc (rn_admitted s)\<rparr>"
    let ?v = "ss_verifier st1" and ?now = "service_now os (ss_verifier st1)"
    have arr1: "run_step E N B G s (Arrive t True) ?s1"
      using arr Inr by simp
    have "\<exists>es v'. steps (service_step E B) (service_view ?s1) es (v', rn_pending s, rn_uncounted s, rn_unsent s)
        \<and> st' = st1\<lparr>ss_verifier := v'\<rparr> \<and> list_all offered es \<and> cost (map Request es) = 1
        \<and> (case r of Err e \<Rightarrow> es = [Unreadable json None]
            | Ok answer \<Rightarrow> \<exists>out. Decide_Credential os json None (out, ?now) \<in> set es \<and> answer = gql_outcome_of out)"
    proof (cases "verify_credential_json E json (effective_policy ?v None) ?now")
      case (Inl e)
      have "service_step E B (service_view ?s1) (Unreadable json None) (service_view ?s1)"
        using unreadable [of E json ?v None os e B] Inl by (simp add: service_view_def)
      then show ?thesis
        using assms lim Inr Inl
        by (intro exI [of _ "[Unreadable json None]"] exI [of _ ?v])
          (auto simp: mutation_verify_credential_def service_verify_credential_json_def service_now_def Let_def
            steps_single service_view_def)
    next
      case c: (Inr out)
      show ?thesis
        using assms lim Inr c credential_request_steps [OF c, of B "rn_pending s" "rn_uncounted s" "rn_unsent s"]
        by (intro exI [of _ "[Decide_Credential os json None (out, ?now), Count (out, ?now), Emit (out, ?now)]"]
              exI [of _ "service_record B out ?now ?v"])
          (auto simp: mutation_verify_credential_def service_verify_credential_json_def service_now_def Let_def
            service_view_def)
    qed
    then obtain es v' where es: "steps (service_step E B) (service_view ?s1) es (v', rn_pending s, rn_uncounted s, rn_unsent s)"
      "st' = st1\<lparr>ss_verifier := v'\<rparr>" "list_all offered es" "cost (map Request es) = 1"
      "case r of Err e \<Rightarrow> es = [Unreadable json None]
        | Ok answer \<Rightarrow> \<exists>out. Decide_Credential os json None (out, ?now) \<in> set es \<and> answer = gql_outcome_of out"
      by blast
    have "steps (run_step E N B G) ?s1 (map Request es)
        (with_service (v', rn_pending s, rn_uncounted s, rn_unsent s) (?s1\<lparr>rn_admitted := rn_admitted s\<rparr>))"
      using es(3,4) by (intro lift_requests [OF es(1) refl]) simp_all
    then have "steps (run_step E N B G) ?s1 (map Request es) (s\<lparr>rn_state := st'\<rparr>)"
      unfolding es(2) by (cases s) simp
    then have "steps (run_step E N B G) s (Arrive t True # map Request es) (s\<lparr>rn_state := st'\<rparr>)"
      using arr1 by (rule steps.steps_Cons [rotated])
    moreover have "case r of Err e \<Rightarrow> Arrive t True # map Request es = [Arrive t False]
          \<or> Arrive t True # map Request es = [Arrive t True, Request (Unreadable json None)]
        | Ok answer \<Rightarrow> \<exists>out now. Request (Decide_Credential os json None (out, now)) \<in> set (Arrive t True # map Request es)
             \<and> answer = gql_outcome_of out"
      using es(5) by (cases r) auto
    ultimately show ?thesis by blast
  qed
qed

text \<open>A refresh, by the refresher or by a mutation that holds a permit.\<close>

lemma refresh_call_execution:
  assumes "service_refresh E N (ss_verifier (rn_state s)) w = (r, v', w')"
    and "sv_jwks (ss_verifier (rn_state s)) = Cached_Provider p"
    and "rn_time s = ext_mono_now N w" "ext_mono_now N w \<le> ext_mono_now N w'"
    and "rn_admitted s = (if by_mutation then 1 else 0) + n"
  shows "\<exists>es. steps (run_step E N B G) s (map (Refresh by_mutation) es)
    (s\<lparr>rn_admitted := n, rn_time := ext_mono_now N w', rn_state := (rn_state s)\<lparr>ss_verifier := v'\<rparr>\<rparr>)"
proof -
  obtain p' where p': "cached_refresh E N p w = (r, p', w')"
    "v' = (ss_verifier (rn_state s))\<lparr>sv_jwks := Cached_Provider p'\<rparr>"
    using assms(1,2) by (auto simp: service_refresh_def split: prod.splits)
  obtain e es where es: "steps refresh_step (ext_mono_now N w, p, rn_fetching s, rn_written s) (e # es)
      (ext_mono_now N w', p', rn_fetching s, rn_written s)"
    "asks_breaker e" "list_all (\<lambda>e. \<not> asks_breaker e) es" "list_all (fetched E N p) (e # es)"
    using p'(1) assms(4) by (rule refresh_execution)
  have "cost (map (Refresh by_mutation) es) = 0"
    using es(3) by (induction es) (cases by_mutation; simp)+
  then have "rn_admitted s = cost (map (Refresh by_mutation) (e # es)) + n"
    using assms(5) es(2) by (cases by_mutation) simp_all
  then have "steps (run_step E N B G) s (map (Refresh by_mutation) (e # es))
      (with_provider (ext_mono_now N w', p', rn_fetching s, rn_written s) (s\<lparr>rn_admitted := n\<rparr>))"
    using es(4) assms(2,3) by (intro lift_refreshes [OF es(1)]) (simp_all add: provider_view_def)
  moreover have "with_provider (ext_mono_now N w', p', rn_fetching s, rn_written s) (s\<lparr>rn_admitted := n\<rparr>)
      = s\<lparr>rn_admitted := n, rn_time := ext_mono_now N w', rn_state := (rn_state s)\<lparr>ss_verifier := v'\<rparr>\<rparr>"
    by (cases s) (simp add: p'(2))
  ultimately show ?thesis by (intro exI [of _ "e # es"]) simp
qed

lemma refresh_mutation_execution:
  assumes "mutation_refresh_jwks E N G t (rn_state s) w = (r, st', w')"
    and "rn_time s = ext_mono_now N w" "ext_mono_now N w \<le> ext_mono_now N w'"
  shows "\<exists>es. steps (run_step E N B G) s es (s\<lparr>rn_time := ext_mono_now N w', rn_state := st'\<rparr>)"
proof -
  obtain x st1 where lim: "rate_limit G t (rn_state s) = (x, st1)"
    by (cases "rate_limit G t (rn_state s)")
  note arr = limiter_steps [OF lim refl, of E N B]
  have same_time: "s\<lparr>rn_time := ext_mono_now N w\<rparr> = s"
    using assms(2) by (cases s) simp
  show ?thesis
  proof (cases x)
    case (Inl e)
    then have end_state: "st' = st1" "w' = w"
      using assms(1) lim by (simp_all add: mutation_refresh_jwks_def)
    have "run_step E N B G s (Arrive t False) (s\<lparr>rn_time := ext_mono_now N w', rn_state := st'\<rparr>)"
      using arr Inl assms(2) end_state by (cases s) simp
    then show ?thesis by (metis steps_single)
  next
    case (Inr u)
    let ?s1 = "s\<lparr>rn_state := st1, rn_admitted := Suc (rn_admitted s)\<rparr>"
    have arr1: "run_step E N B G s (Arrive t True) ?s1"
      using arr Inr by simp
    obtain r0 v' where ref: "service_refresh E N (ss_verifier (rn_state ?s1)) w = (r0, v', w')"
      "st' = st1\<lparr>ss_verifier := v'\<rparr>"
      using assms(1) lim Inr by (auto simp: mutation_refresh_jwks_def split: prod.splits)
    have "\<exists>es. steps (run_step E N B G) ?s1 es
        (?s1\<lparr>rn_admitted := rn_admitted s, rn_time := ext_mono_now N w', rn_state := st1\<lparr>ss_verifier := v'\<rparr>\<rparr>)"
    proof (cases "sv_jwks (ss_verifier (rn_state ?s1))")
      case (Static_Provider ks)
      then have v': "v' = ss_verifier st1" "w' = w"
        using ref(1) by (auto simp: service_refresh_def)
      have "run_step E N B G ?s1 Static_Refresh (?s1\<lparr>rn_admitted := rn_admitted s\<rparr>)"
        using Static_Provider by (rule static_refresh) simp
      moreover have "?s1\<lparr>rn_admitted := rn_admitted s\<rparr>
          = ?s1\<lparr>rn_admitted := rn_admitted s, rn_time := ext_mono_now N w', rn_state := st1\<lparr>ss_verifier := v'\<rparr>\<rparr>"
        using assms(2) v' by (cases s; cases st1) simp
      ultimately show ?thesis by (metis steps_single)
    next
      case (Cached_Provider p)
      from refresh_call_execution [OF ref(1) this, where by_mutation = True and n = "rn_admitted s"] assms(2,3)
      show ?thesis by auto
    qed
    then obtain es where "steps (run_step E N B G) ?s1 es (s\<lparr>rn_time := ext_mono_now N w', rn_state := st'\<rparr>)"
      unfolding ref(2) by (cases s) auto
    then show ?thesis using arr1 by (blast intro: steps.steps_Cons)
  qed
qed

text \<open>
  C23: The handlers as written are executions. Each mutation of the API, taken from the rate limiter to
  its answer on any state of the running server, is an execution of the interleaved system that
  ends in the handler's next state; a decision it answers with was taken by one of its steps; and
  a token mutation that is turned away takes no step but the check of the limiter.
\<close>

theorem mutations_are_executions:
  assumes "mutation_verify_jwt E B G os t token audience scopes (rn_state s) = (r1, st1)"
    and "mutation_verify_credential E B G os t json (rn_state s) = (r2, st2)"
    and "mutation_refresh_jwks E N G t (rn_state s) w = (r3, st3, w')"
    and "rn_time s = ext_mono_now N w" "ext_mono_now N w \<le> ext_mono_now N w'"
  shows "(\<exists>es. steps (run_step E N B G) s es (s\<lparr>rn_state := st1\<rparr>)
      \<and> (case r1 of Err e \<Rightarrow> es = [Arrive t False]
         | Ok answer \<Rightarrow> \<exists>policy keys out.
             Request (Decide_Token os (token, policy, keys) (out, service_now os (ss_verifier (rn_state s)))) \<in> set es
               \<and> answer = gql_outcome_of out))
    \<and> (\<exists>es. steps (run_step E N B G) s es (s\<lparr>rn_state := st2\<rparr>)
      \<and> (case r2 of Err e \<Rightarrow> es = [Arrive t False] \<or> es = [Arrive t True, Request (Unreadable json None)]
         | Ok answer \<Rightarrow> \<exists>out now. Request (Decide_Credential os json None (out, now)) \<in> set es
             \<and> answer = gql_outcome_of out))
    \<and> (\<exists>es. steps (run_step E N B G) s es (s\<lparr>rn_time := ext_mono_now N w', rn_state := st3\<rparr>))"
  using token_mutation_execution [OF assms(1)] credential_mutation_execution [OF assms(2)]
    refresh_mutation_execution [OF assms(3-5)] by blast

theorem mutations_are_executions_witness:
  "let s = running_new 0 (service_state_new (sample_service sample_policy) 1) in
   \<exists>es st q out now. steps (run_step sample_env dead_net list_channel counting_governor) s es (s\<lparr>rn_state := st\<rparr>)
     \<and> Request (Decide_Token (Err ()) q (out, now)) \<in> set es"
proof -
  let ?s = "running_new 0 (service_state_new (sample_service sample_policy) 1)"
  obtain r1 st1 where one: "mutation_verify_jwt sample_env list_channel counting_governor (Err ()) 0 ''a.b.c'' None None
      (rn_state ?s) = (r1, st1)" by (metis prod.exhaust)
  obtain r2 st2 where two: "mutation_verify_credential sample_env list_channel counting_governor (Err ()) 0 ''{}''
      (rn_state ?s) = (r2, st2)" by (metis prod.exhaust)
  obtain r3 st3 w' where three: "mutation_refresh_jwks sample_env dead_net counting_governor 0 (rn_state ?s) 0 = (r3, st3, w')"
    by (metis prod.exhaust)
  obtain answer where answer: "r1 = Ok answer"
    using one by (auto simp: mutation_verify_jwt_def rate_limit_def rate_limiter_try_acquire_def counting_governor_def
        running_new_def service_state_new_def split: prod.splits)
  have time: "rn_time ?s = ext_mono_now dead_net 0" "ext_mono_now dead_net 0 \<le> ext_mono_now dead_net w'"
    by (simp_all add: running_new_def dead_net_def)
  show ?thesis
    using mutations_are_executions [OF one two three time, THEN conjunct1] unfolding answer sum.case Let_def by blast
qed

end
