(* ===== verification/Server_Safety.thy ===== *)
theory Server_Safety
  imports Server_Handlers
begin

text \<open>
  What holds of every execution of a started server, from the configuration to the answers:
  whose signature an accepted token or credential carries and what its contents meet, and how
  much work a burst can cause. The steps are those of \<open>Server_Run\<close>; the start is \<open>serve\<close> of
  \<open>edgeauth-node/src/startup.rs\<close>.
\<close>

section \<open>Accepted tokens\<close>

text \<open>
  C2: End to end. Take a server started from any configuration, and any interleaving of requests,
  refreshes and passing time. Every token decided valid was requested, and is a signed input
  followed by its signature, which a key accepts that is the built-in one of the configured seed
  or belongs to a key set the configured URL has served; its issuer is a configured one, and its
  claims pass every check of the configured policy, as the request changed it, at the system time
  of the decision. The checks compute with \<open>i64\<close> words: where that time plus and minus the
  configured leeway stays within \<open>i64\<close> (\<open>time_fits\<close>), the claims meet the policy on exact integers;
  beyond it, reached only with an extreme leeway, the sums wrap and nothing is claimed about
  integers.
\<close>

theorem accepted_tokens_are_signed:
  fixes A :: "('a, (('ch, 'g) service_state, 'm) handler, 'o) axum_env_scheme"
  assumes "serve_start E N B G A S c args t w = (Some (Ok (l, app)), t', w')"
    and "axum_documented A" and "timeout_transparent N"
    and "ext_lookup A app POST ''/graphql'' = Routed layers (Graphql \<lparr> schema_data = st \<rparr>)"
    and "steps (run_step E N B G) (running_new start st) es s'"
    and "Request (Decide_Token os (token, policy, keys) (out, now)) \<in> set es"
    and "out_valid out"
  shows "\<exists>over j sig k key.
      Request (Read_Keys token over) \<in> set es
    \<and> signed_jwt_parse E token = Ok j \<and> token = sj_signing_input j @ ''.'' @ sig
    \<and> k \<in> set (jwks_keys keys) \<and> jwk_verifying_key E k = Ok key
    \<and> ext_vk_verify E key (as_bytes (sj_signing_input j)) (sj_signature j)
    \<and> (keys = local_jwks E (ca_signer_seed c)
       \<or> (\<exists>url. ca_jwks_url c = Some url \<and> served_by E N url keys))
    \<and> (\<exists>iss. claim_iss (sj_claims j) = Some iss \<and> (iss = ca_issuer c \<or> iss \<in> set (ca_trusted_issuers c)))
    \<and> sv_policy (ss_verifier st) = build_policy c \<and> policy = effective_policy (ss_verifier st) over
    \<and> now = now_unix os System_Wall_Clock \<and> checks_all (jwt_checks (sj_claims j) policy now)
    \<and> (time_fits (build_policy c) now \<longrightarrow> claims_acceptable policy (sint now) (sj_claims j))"
proof -
  note start = listening_state [OF assms(1-4)]
  obtain over where over: "Request (Read_Keys token over) \<in> set es" "policy = effective_policy (ss_verifier st) over"
    "out = verify_jwt E token keys policy now" "now = service_now os (ss_verifier st)"
    "key_origin E N (ca_jwks_url c) (service_jwks (ss_verifier st)) keys"
    using run_decision [OF assms(5,6)] start(3) by auto
  obtain j where j: "signed_jwt_parse E token = Ok j" "signed_jwt_verify_with E j keys = Ok ()"
    "checks_all (jwt_checks (sj_claims j) policy now)"
    using assms(7) over(3) by (auto simp: verify_jwt_valid_iff)
  have exact: "claims_acceptable policy (sint now) (sj_claims j)" if "time_fits (build_policy c) now"
  proof -
    have "time_fits policy now"
      using that start(1) by (simp add: over(2) time_fits_def)
    with j(3) show ?thesis by (simp add: jwt_checks_acceptable)
  qed
  obtain sig k key where k: "token = sj_signing_input j @ ''.'' @ sig" "k \<in> set (jwks_keys keys)"
    "jwk_verifying_key E k = Ok key" "ext_vk_verify E key (as_bytes (sj_signing_input j)) (sj_signature j)"
    using signature_by_trusted_key [OF j(1,2)] by blast
  have origin: "keys = local_jwks E (ca_signer_seed c) \<or> (\<exists>url. ca_jwks_url c = Some url \<and> served_by E N url keys)"
    using key_origin_trans [OF start(4) over(5)] assms(3) by (auto simp: key_origin_def from_url_def)
  have "issuer_trusted (build_policy c) (claim_iss (sj_claims j))"
    using j(3) start(1) by (simp add: checks_all_def jwt_checks_def over(2) issuer_trusted_def Let_def)
  then have iss: "\<exists>iss. claim_iss (sj_claims j) = Some iss \<and> (iss = ca_issuer c \<or> iss \<in> set (ca_trusted_issuers c))"
    by (simp add: build_policy_trusts)
  have "now = now_unix os System_Wall_Clock"
    using over(4) start(2) by (simp add: service_now_def)
  with over(1,2) j(1,3) k origin iss start(1) exact show ?thesis by blast
qed

lemma local_serve_start:
  fixes A :: "('a, (('ch, 'g) service_state, 'm) handler, 'o) axum_env_scheme"
  assumes "ca_jwks_url c = None" and "axum_documented A" and "ext_bind S (sa_bind_addr args) = Ok l"
    and "ext_install_recorder S t = (Ok metrics, t')"
  obtains st app layers where "serve_start E N B G A S c args t w = (Some (Ok (l, app)), t', w)"
    "ext_lookup A app POST ''/graphql'' = Routed layers (Graphql \<lparr> schema_data = st \<rparr>)"
    "build_state E N B G c (sa_rate_limit_rps args) = Some (Ok st)"
proof -
  obtain st where st: "build_state E N B G c (sa_rate_limit_rps args) = Some (Ok st)"
    using build_state_static [OF assms(1)] by blast
  obtain app where app: "build_router A st metrics = Some app"
    and routes: "\<forall>m p. ext_lookup A app m p = (case route_spec st metrics m p of
       None \<Rightarrow> Not_Found node_layers | Some None \<Rightarrow> Method_Not_Allowed node_layers
     | Some (Some h) \<Rightarrow> Routed node_layers h)"
    using build_router_routes [OF assms(2), of st metrics] by blast
  have "st\<lparr>ss_verifier := ss_verifier st\<rparr> = st" by (cases st) simp
  then have "serve_start E N B G A S c args t w = (Some (Ok (l, app)), t', w)"
    using st app assms by (simp add: serve_start_def init_metrics_def)
  with st routes show ?thesis by (intro that [of app node_layers st]) simp_all
qed

text \<open>
  A run for the witness: the first token mutation at a server with the built-in key, for the token
  that \<open>mint\<close> prints.
\<close>

lemma first_token_run:
  fixes A :: "('a, (('ch, 'g) service_state, 'm) handler, 'o) axum_env_scheme"
  assumes "build_state E N B G c rps = Some (Ok st)" and "ext_check G (ss_rate_limiter st) t = (Ok u, g)"
    and "out_valid (verify_jwt E token (local_jwks E (ca_signer_seed c)) (build_policy c) (now_unix os System_Wall_Clock))"
  obtains es s' policy keys out where "steps (run_step E N B G) (running_new start st) es s'"
    "Request (Decide_Token os (token, policy, keys) (out, now_unix os System_Wall_Clock)) \<in> set es" "out_valid out"
proof -
  obtain r st' where step: "mutation_verify_jwt E B G os t token None None (rn_state (running_new start st)) = (r, st')"
    by (metis prod.exhaust)
  have "r = Ok (pure_answer E os (ss_verifier st) token)"
    using mutation_verify_jwt_answer [OF assms(2), of E B os token] step by (auto simp: running_new_def)
  moreover have "service_now os (ss_verifier (rn_state (running_new start st))) = now_unix os System_Wall_Clock"
    "go_valid (pure_answer E os (ss_verifier st) token)"
    using build_state_Ok(1-3) [OF assms(1)] assms(3)
    by (simp_all add: running_new_def service_now_def pure_answer_def gql_outcome_of_def)
  ultimately show ?thesis
    using token_mutation_execution [OF step, of N] that by (auto simp: gql_outcome_of_def)
qed

theorem accepted_tokens_are_signed_witness:
  "\<exists>token j key policy. signed_jwt_parse (mint_env []) token = Ok j \<and> claims_acceptable policy 1700000000 (sj_claims j)
     \<and> ext_vk_verify (mint_env []) key (as_bytes (sj_signing_input j)) (sj_signature j)
     \<and> claim_iss (sj_claims j) = Some ''https://issuer.local''"
proof -
  let ?E = "mint_env []" and ?os = "Ok 1700000000" and ?claims = "fixture_claims ''https://issuer.local'' ''edge-api''"
  have "json_header ?E local_header" "json_claims ?E ?claims"
    by (simp_all add: mint_env_def sample_vc_env_def sample_json_header sample_json_claims)
  then obtain token j where token: "signed_jwt_parse ?E token = Ok j" "sj_claims j = ?claims"
    "signed_jwt_verify_with ?E j (local_jwks ?E 7) = Ok ()"
    using mint_env_laws [of "[]"] by (blast elim: local_token_valid)
  have fits: "time_fits (build_policy mint_args) (now_unix ?os System_Wall_Clock)"
    by (simp add: time_fits_def add_fits_def sub_fits_def i64_fits_def)
  have "claims_acceptable (build_policy mint_args) 1700000000 ?claims"
    by (rule fixture_claims_acceptable) simp_all
  then have valid: "out_valid (verify_jwt ?E token (local_jwks ?E (ca_signer_seed mint_args)) (build_policy mint_args)
      (now_unix ?os System_Wall_Clock))"
    using token fits by (auto simp: verify_jwt_valid_spec)
  have env: "ca_jwks_url mint_args = None" "ext_bind sample_server (sa_bind_addr default_serve_args) = Ok ()"
    "ext_install_recorder sample_server False = (Ok (), True)"
    by (simp_all add: sample_server_def)
  obtain st app layers where started: "serve_start ?E dead_net list_channel counting_governor table_axum sample_server
      mint_args default_serve_args False 0 = (Some (Ok ((), app)), True, 0)"
    "ext_lookup table_axum app POST ''/graphql'' = Routed layers (Graphql \<lparr> schema_data = st \<rparr>)"
    "build_state ?E dead_net list_channel counting_governor mint_args (sa_rate_limit_rps default_serve_args) = Some (Ok st)"
    by (rule local_serve_start [OF env(1) table_axum_documented env(2,3)])
  have "ss_rate_limiter st = 100"
    using build_state_Ok(5) [OF started(3)]
    by (simp add: rate_limiter_per_second_def counting_governor_def default_serve_args_def max_def word_le_nat_alt)
  then have "ext_check counting_governor (ss_rate_limiter st) 0 = (Ok (), 99)"
    by (simp add: counting_governor_def)
  then obtain es s' policy keys out where run: "steps (run_step ?E dead_net list_channel counting_governor) (running_new 0 st) es s'"
    "Request (Decide_Token ?os (token, policy, keys) (out, now_unix ?os System_Wall_Clock)) \<in> set es" "out_valid out"
    using first_token_run [OF started(3) _ valid] by metis
  have "timeout_transparent dead_net"
    by (simp add: timeout_transparent_def dead_net_def split: prod.splits)
  from accepted_tokens_are_signed [OF started(1) table_axum_documented this started(2) run] fits
  obtain over j' key where j': "signed_jwt_parse ?E token = Ok j'" "policy = effective_policy (ss_verifier st) over"
    "ext_vk_verify ?E key (as_bytes (sj_signing_input j')) (sj_signature j')"
    "claims_acceptable policy 1700000000 (sj_claims j')"
    by auto
  then show ?thesis
    using token(1,2) by (intro exI [of _ token] exI [of _ j] exI [of _ key] exI [of _ policy]) (simp add: fixture_claims_def)
qed

lemma counting_limit:
  "rate_limit counting_governor t st =
     (if 0 < ss_rate_limiter st then (Ok (), st\<lparr>ss_rate_limiter := ss_rate_limiter st - 1\<rparr>)
      else (Err (Gql_Error ''rate limit exceeded''), st))"
  by (cases st) (simp add: rate_limit_def rate_limiter_try_acquire_def counting_governor_def)

section \<open>Accepted credentials\<close>

lemma decided_credential_origin:
  assumes "steps (service_step E B) \<sigma> es \<sigma>'" and "\<sigma> = (s, I, C, M)"
    and "Decide_Credential os json over (out, now) \<in> set es"
  shows "now = service_now os s \<and> verify_credential_json E json (effective_policy s over) now = Ok out"
  using assms
proof (induction arbitrary: s I C M rule: steps.induct)
  case (steps_Cons \<sigma> e \<sigma>1 es \<sigma>')
  obtain s1 I1 C1 M1 where \<sigma>1: "\<sigma>1 = (s1, I1, C1, M1)" by (rule prod_cases4)
  note one = steps_Cons.hyps(1) [unfolded \<sigma>1 \<open>\<sigma> = (s, I, C, M)\<close>]
  have ports: "sv_policy s1 = sv_policy s" "sv_clock s1 = sv_clock s"
    using service_step_ports [OF one] by simp_all
  show ?case
  proof (cases "e = Decide_Credential os json over (out, now)")
    case True
    then show ?thesis using one by (auto elim!: service_stepE)
  next
    case False
    with steps_Cons.prems have "Decide_Credential os json over (out, now) \<in> set es" by simp
    from steps_Cons.IH [OF \<sigma>1 this] show ?thesis
      using ports by (auto simp: effective_policy_ports [of s1 s] service_now_def)
  qed
qed simp

lemma run_credential_decision:
  assumes "steps (run_step E N B G) (running_new start st) es s'"
    and "Request (Decide_Credential os json over (out, now)) \<in> set es"
  shows "now = service_now os (ss_verifier st)
    \<and> verify_credential_json E json (effective_policy (ss_verifier st) over) now = Ok out"
proof -
  let ?v = "ss_verifier st"
  have "keys_inv E N (service_key_source ?v) (service_jwks ?v) (running_new start st)"
    by (simp add: keys_inv_def running_new_def key_origin_def)
  then obtain ses where ses: "steps (service_step E B) (service_view (running_new start st)) ses (service_view s')"
    "filter (\<lambda>e. \<not> rekeys e) ses = requests es"
    using run_service [OF assms(1)] by blast
  have "Decide_Credential os json over (out, now) \<in> set ses"
    using assms(2) unfolding requests_mem ses(2) [symmetric] by simp
  from decided_credential_origin [OF ses(1) _ this, of ?v "{#}" "{#}" "{#}"] show ?thesis
    by (auto simp: service_view_def running_new_def)
qed

lemma credential_checks_override:
  "credential_checks vc (effective_policy s over) now = credential_checks vc (sv_policy s) now"
  by (simp add: credential_checks_def issuer_trusted_def)

text \<open>
  C6: End to end for credentials. In any execution of a started server, every document decided valid
  is a credential whose proof was made in the name of its issuer, a configured one; the key that
  the issuer's \<open>did:key\<close> spells accepts the proof's signature over the canonical payload; and the
  credential passes every check of the configured policy at the system time of the decision,
  whatever keys the server holds and whatever refreshes do. Where that time plus and minus the
  configured leeway stays within \<open>i64\<close> (\<open>time_fits\<close>), it meets the policy on exact integers;
  beyond it the sums of the checks wrap and nothing is claimed about integers.
\<close>

theorem accepted_credentials_are_signed:
  fixes A :: "('a, (('ch, 'g) service_state, 'm) handler, 'o) axum_env_scheme"
  assumes "serve_start E N B G A S c args t w = (Some (Ok (l, app)), t', w')"
    and "axum_documented A" and "timeout_transparent N"
    and "ext_lookup A app POST ''/graphql'' = Routed layers (Graphql \<lparr> schema_data = st \<rparr>)"
    and "steps (run_step E N B G) (running_new start st) es s'"
    and "Request (Decide_Credential os json over (out, now)) \<in> set es"
    and "out_valid out"
  shows "\<exists>vc pr key sig payload.
      ext_vc_from_str E json = Ok vc \<and> vc_proof vc = Some pr \<and> proof_verification_method pr = vc_issuer vc
    \<and> did_verifying_key E (vc_issuer vc) = Ok key \<and> ext_hex_decode E (proof_signature_hex pr) = Ok sig
    \<and> ext_view_to_vec E (unsigned_view_of vc) = Ok payload \<and> ext_vk_verify E key payload sig
    \<and> did_as_str (vc_issuer vc) \<in> set (ca_issuer c # ca_trusted_issuers c)
    \<and> now = now_unix os System_Wall_Clock \<and> checks_all (credential_checks vc (build_policy c) now)
    \<and> (time_fits (build_policy c) now \<longrightarrow> credential_acceptable (build_policy c) (sint now) vc)"
proof -
  note start = listening_state [OF assms(1-4)]
  have now: "now = now_unix os System_Wall_Clock"
    and out: "verify_credential_json E json (effective_policy (ss_verifier st) over) now = Ok out"
    using run_credential_decision [OF assms(5,6)] start(2) by (auto simp: service_now_def)
  obtain vc where vc: "ext_vc_from_str E json = Ok vc"
    "out = verify_credential E vc (effective_policy (ss_verifier st) over) now"
    using out by (cases "ext_vc_from_str E json") (auto simp: verify_credential_json_def)
  have sig: "verify_signature E vc = Ok ()" and acc: "checks_all (credential_checks vc (build_policy c) now)"
    using assms(7) vc(2) start(1) by (auto simp: verify_credential_valid_iff credential_checks_override)
  have "did_as_str (vc_issuer vc) \<in> set (ca_issuer c # ca_trusted_issuers c)"
    using acc by (auto simp: checks_all_def credential_checks_def build_policy_trusts split: prod.splits)
  moreover have "credential_acceptable (build_policy c) (sint now) vc" if "time_fits (build_policy c) now"
    using that acc by (simp add: credential_checks_acceptable)
  ultimately show ?thesis
    using sig acc vc(1) now by (auto simp: verify_signature_Ok_iff)
qed

theorem accepted_credentials_are_signed_witness:
  "\<exists>vcs doc vc pr key sig payload. ext_vc_from_str (mint_env vcs) doc = Ok vc
     \<and> credential_acceptable (build_policy mint_args) 1700000000 vc
     \<and> ext_vk_verify (mint_env vcs) key payload sig \<and> vc_proof vc = Some pr
     \<and> ext_hex_decode (mint_env vcs) (proof_signature_hex pr) = Ok sig
     \<and> did_as_str (vc_issuer vc) \<in> set (ca_issuer mint_args # ca_trusted_issuers mint_args)"
proof -
  let ?os = "Ok 1700000000 :: (nat, unit) result"
  obtain vcs where ser: "fixtures_serialize (mint_env vcs) mint_args"
    using mint_env_serializes by blast
  let ?E = "mint_env vcs" and ?p = "build_policy mint_args"
  let ?vc = "fixture_credential (vc_issuer_of ?E mint_args) (vc_subject_of ?E mint_args)"
  obtain vc doc where vc: "sign_with ?E ?vc (local_signer ?E (ca_signer_seed mint_args + 1)) FIXTURE_IAT = Ok vc"
    "ext_vc_from_str ?E doc = Ok vc"
    using ser by (auto simp: fixtures_serialize_def json_credential_def)
  have fits: "time_fits ?p (now_unix ?os System_Wall_Clock)"
    by (simp add: time_fits_def add_fits_def sub_fits_def i64_fits_def)
  have "credential_acceptable ?p (sint (now_unix ?os System_Wall_Clock)) ?vc"
    by (auto simp: credential_acceptable_def not_expired_spec_def not_before_spec_def fixture_credential_def
        build_policy_trusts FIXTURE_EXP_def FIXTURE_IAT_def vc_issuer_of_def)
  then have valid: "out_valid (verify_credential ?E vc ?p (now_unix ?os System_Wall_Clock))"
    using vc(1) fits
    by (intro signed_credential_valid [of ?E ?vc]) (simp_all add: fixture_credential_def vc_issuer_of_def)
  have env: "ca_jwks_url mint_args = None" "ext_bind sample_server (sa_bind_addr default_serve_args) = Ok ()"
    "ext_install_recorder sample_server False = (Ok (), True)"
    by (simp_all add: sample_server_def)
  obtain st app layers where started: "serve_start ?E dead_net list_channel counting_governor table_axum sample_server
      mint_args default_serve_args False 0 = (Some (Ok ((), app)), True, 0)"
    "ext_lookup table_axum app POST ''/graphql'' = Routed layers (Graphql \<lparr> schema_data = st \<rparr>)"
    "build_state ?E dead_net list_channel counting_governor mint_args (sa_rate_limit_rps default_serve_args) = Some (Ok st)"
    by (rule local_serve_start [OF env(1) table_axum_documented env(2,3)])
  have limit: "0 < ss_rate_limiter st"
    using build_state_Ok(5) [OF started(3)]
    by (simp add: rate_limiter_per_second_def counting_governor_def default_serve_args_def max_def word_le_nat_alt)
  let ?s = "running_new 0 st"
  obtain r st' where step: "mutation_verify_credential ?E list_channel counting_governor ?os 0 doc (rn_state ?s) = (r, st')"
    by (metis prod.exhaust)
  have "r = Ok (gql_outcome_of (verify_credential ?E vc ?p (now_unix ?os System_Wall_Clock)))"
    using step vc(2) limit build_state_Ok(2,3) [OF started(3)]
    by (auto simp: mutation_verify_credential_def counting_limit running_new_def service_verify_credential_json_def
        verify_credential_json_def Let_def)
  then obtain es out now where run: "steps (run_step ?E dead_net list_channel counting_governor) ?s es (?s\<lparr>rn_state := st'\<rparr>)"
    "Request (Decide_Credential ?os doc None (out, now)) \<in> set es"
    "gql_outcome_of out = gql_outcome_of (verify_credential ?E vc ?p (now_unix ?os System_Wall_Clock))"
    using credential_mutation_execution [OF step, of dead_net] by auto
  have out: "out_valid out"
    using run(3) valid by (simp add: gql_outcome_of_def)
  have transparent: "timeout_transparent dead_net"
    by (simp add: timeout_transparent_def dead_net_def split: prod.splits)
  from accepted_credentials_are_signed [OF started(1) table_axum_documented transparent started(2) run(1,2) out]
  obtain vc pr key sig payload where got: "now = now_unix ?os System_Wall_Clock"
    "time_fits ?p now \<longrightarrow> credential_acceptable ?p (sint now) vc"
    "ext_vc_from_str ?E doc = Ok vc" "vc_proof vc = Some pr" "ext_hex_decode ?E (proof_signature_hex pr) = Ok sig"
    "ext_vk_verify ?E key payload sig" "did_as_str (vc_issuer vc) \<in> set (ca_issuer mint_args # ca_trusted_issuers mint_args)"
    by blast
  moreover have "credential_acceptable ?p 1700000000 vc"
    using got(1,2) fits by simp
  ultimately show ?thesis
    by (intro exI [of _ vcs] exI [of _ doc] exI [of _ vc] exI [of _ pr] exI [of _ key] exI [of _ sig] exI [of _ payload] conjI)
qed

section \<open>Work and permits\<close>

text \<open>
  The arrivals of an execution with the limiter's answers, and its work: the decisions taken and the
  refreshes begun on behalf of mutations.
\<close>

fun arrivals :: "run_event list \<Rightarrow> bool list" where
  "arrivals [] = []"
| "arrivals (Arrive t ok # es) = ok # arrivals es"
| "arrivals (_ # es) = arrivals es"

fun refreshes_begun :: "run_event list \<Rightarrow> nat" where
  "refreshes_begun [] = 0"
| "refreshes_begun (Refresh True Begin # es) = Suc (refreshes_begun es)"
| "refreshes_begun (Static_Refresh # es) = Suc (refreshes_begun es)"
| "refreshes_begun (_ # es) = refreshes_begun es"

definition work :: "run_event list \<Rightarrow> nat" where
  "work es = length (decisions (requests es)) + refreshes_begun es"

definition granted :: "run_event list \<Rightarrow> nat" where
  "granted es = length (filter (\<lambda>ok. ok) (arrivals es))"

definition unused_permits :: "('ch, 'g) running \<Rightarrow> nat" where
  "unused_permits s = rn_admitted s + size (rn_pending s)"

lemma arrivals_Cons: "arrivals (e # es) = arrivals [e] @ arrivals es"
  by (cases e) simp_all

lemma refreshes_begun_Cons: "refreshes_begun (e # es) = refreshes_begun [e] + refreshes_begun es"
proof (cases e)
  case (Refresh by_mutation r)
  then show ?thesis by (cases by_mutation; cases r) simp_all
qed simp_all

lemma decisions_append: "decisions (es @ es') = decisions es @ decisions es'"
proof (induction es)
  case (Cons e es)
  then show ?case using event_lists_Cons(1) [of e "es @ es'"] event_lists_Cons(1) [of e es] by simp
qed simp

lemma work_Cons: "work (e # es) = work [e] + work es" "granted (e # es) = granted [e] + granted es"
  unfolding work_def granted_def requests_Cons [of e es] arrivals_Cons [of e es] refreshes_begun_Cons [of e es]
  by (simp_all add: decisions_append)

text \<open>Every piece of work uses a permit that the limiter granted.\<close>

lemma run_step_work:
  assumes "run_step E N B G s e s'"
  shows "work [e] + unused_permits s' \<le> unused_permits s + granted [e]"
  using assms
proof (cases rule: run_step.cases)
  case (arrive t r st)
  then show ?thesis by (simp add: work_def granted_def unused_permits_def)
next
  case (request e' \<sigma> n)
  obtain v I C M where \<sigma>: "\<sigma> = (v, I, C, M)" by (rule prod_cases4)
  show ?thesis
    using request(3) unfolding service_view_def
  proof (cases rule: service_step.cases)
  qed (use request(1,2,5) \<sigma> in \<open>simp_all add: work_def granted_def unused_permits_def\<close>)
next
  case (refresh p e' \<pi> by_mutation n)
  then show ?thesis
    by (cases by_mutation; cases e') (simp_all add: work_def granted_def unused_permits_def del: with_provider.simps)
next
  case (static_refresh ks n)
  then show ?thesis by (simp add: work_def granted_def unused_permits_def)
qed

lemma run_work:
  "steps (run_step E N B G) s es s' \<Longrightarrow> work es + unused_permits s' \<le> unused_permits s + granted es"
proof (induction rule: steps.induct)
  case (steps_Cons s e s1 es s')
  then show ?case
    using run_step_work [OF steps_Cons.hyps(1)] unfolding work_Cons [of e es] by linarith
qed (simp add: work_def granted_def)

text \<open>Arrivals at one instant are answered like that many checks of the limiter in a row.\<close>

definition arrives_at :: "instant \<Rightarrow> run_event \<Rightarrow> bool" where
  "arrives_at t e \<longleftrightarrow> (\<forall>t' ok. e = Arrive t' ok \<longrightarrow> t' = t)"

lemma run_step_limiter:
  assumes "run_step E N B G s e s'" and "arrives_at t e"
  shows "checks_at G t (length (arrivals [e]) + n) (ss_rate_limiter (rn_state s))
     = arrivals [e] @ checks_at G t n (ss_rate_limiter (rn_state s'))"
  using assms(1)
proof (cases rule: run_step.cases)
  case (arrive t' r st)
  moreover obtain x g where "ext_check G (ss_rate_limiter (rn_state s)) t = (x, g)"
    by (cases "ext_check G (ss_rate_limiter (rn_state s)) t")
  ultimately show ?thesis
    using assms(2) by (cases x) (auto simp: arrives_at_def rate_limit_def rate_limiter_try_acquire_def)
next
  case (request e' \<sigma> n)
  then show ?thesis by (simp del: with_service.simps)
next
  case (refresh p e' \<pi> by_mutation n)
  then show ?thesis by (simp del: with_provider.simps)
next
  case (static_refresh ks n)
  then show ?thesis by simp
qed

lemma run_limiter:
  "steps (run_step E N B G) s es s' \<Longrightarrow> list_all (arrives_at t) es \<Longrightarrow>
     arrivals es = checks_at G t (length (arrivals es)) (ss_rate_limiter (rn_state s))"
proof (induction rule: steps.induct)
  case (steps_Cons s e s1 es s')
  then show ?case
    using run_step_limiter [OF steps_Cons.hyps(1), of t "length (arrivals es)"]
    unfolding arrivals_Cons [of e es] by simp
qed simp

lemma filter_below: "length (filter (\<lambda>ok. ok) (map (\<lambda>i. i < k) [0..<n])) = min n k"
  by (induction n) auto

text \<open>
  C24: What a burst can cause. Of any number of mutations that reach a server that has just started to
  listen at one instant, however their handlers interleave with each other, with refreshes and
  with the refresher, exactly the first \<open>max rate_limit_rps 1\<close> are admitted; and at every moment
  the decisions taken and the refreshes begun on their behalf are no more than those admitted.
\<close>

theorem burst_work_bounded:
  fixes A :: "('a, (('ch, 'g) service_state, 'm) handler, 'o) axum_env_scheme"
  assumes "serve_start E N B G A S c args t w = (Some (Ok (l, app)), t', w')"
    and "axum_documented A" and "timeout_transparent N"
    and "ext_lookup A app POST ''/graphql'' = Routed layers (Graphql \<lparr> schema_data = st \<rparr>)"
    and "burst_equals_rate G (max (sa_rate_limit_rps args) 1)"
    and "steps (run_step E N B G) (running_new start st) es s'" and "list_all (arrives_at instant) es"
  shows "granted es = min (length (arrivals es)) (max (unat (sa_rate_limit_rps args)) 1)
    \<and> length (decisions (requests es)) + refreshes_begun es \<le> granted es"
proof -
  let ?rate = "max (sa_rate_limit_rps args) 1"
  have "ss_rate_limiter st = ext_direct_per_second G ?rate"
    using listening_state(5) [OF assms(1-4)] by (simp add: rate_limiter_per_second_def split: if_splits)
  then have "arrivals es = map (\<lambda>i. i < unat ?rate) [0..<length (arrivals es)]"
    using run_limiter [OF assms(6,7)] assms(5) by (simp add: burst_equals_rate_def running_new_def)
  then have "granted es = min (length (arrivals es)) (unat ?rate)"
    unfolding granted_def using filter_below by metis
  moreover have "unat ?rate = max (unat (sa_rate_limit_rps args)) 1"
    by (simp add: max_def word_le_nat_alt)
  moreover have "unused_permits (running_new start st) = 0"
    by (simp add: unused_permits_def running_new_def)
  ultimately show ?thesis
    using run_work [OF assms(6)] by (simp add: work_def)
qed

theorem burst_work_bounded_witness:
  "\<exists>st s'. build_state (mint_env []) dead_net list_channel counting_governor mint_args 0 = Some (Ok st)
     \<and> steps (run_step (mint_env []) dead_net list_channel counting_governor) (running_new 0 st)
         [Arrive 5 True, Arrive 5 False, Static_Refresh] s'
     \<and> granted [Arrive 5 True, Arrive 5 False, Static_Refresh] = 1"
proof -
  let ?E = "mint_env []" and ?args = "default_serve_args\<lparr>sa_rate_limit_rps := 0\<rparr>"
  let ?step = "run_step ?E dead_net list_channel counting_governor"
  have env: "ca_jwks_url mint_args = None" "ext_bind sample_server (sa_bind_addr ?args) = Ok ()"
    "ext_install_recorder sample_server False = (Ok (), True)"
    by (simp_all add: sample_server_def)
  obtain st app layers where started: "serve_start ?E dead_net list_channel counting_governor table_axum sample_server
      mint_args ?args False 0 = (Some (Ok ((), app)), True, 0)"
    "ext_lookup table_axum app POST ''/graphql'' = Routed layers (Graphql \<lparr> schema_data = st \<rparr>)"
    "build_state ?E dead_net list_channel counting_governor mint_args (sa_rate_limit_rps ?args) = Some (Ok st)"
    by (rule local_serve_start [OF env(1) table_axum_documented env(2,3)])
  have one: "ss_rate_limiter st = 1"
    using build_state_Ok(5) [OF started(3)] by (simp add: rate_limiter_per_second_def counting_governor_def)
  obtain ks where static: "sv_jwks (ss_verifier st) = Static_Provider ks"
    using started(3) by (auto simp: build_state_def Let_def service_state_new_def service_new_def static_new_def
        split: option.splits)
  let ?s = "running_new 0 st" and ?st1 = "st\<lparr>ss_rate_limiter := 0\<rparr>"
  let ?s1 = "?s\<lparr>rn_state := ?st1, rn_admitted := 1\<rparr>"
  have "?step ?s (Arrive 5 True) ?s1"
    using arrive [of counting_governor 5 ?s "Ok ()" ?st1] one by (simp add: counting_limit running_new_def)
  moreover have "?step ?s1 (Arrive 5 False) ?s1"
    using arrive [of counting_governor 5 ?s1 "Err (Gql_Error ''rate limit exceeded'')" ?st1]
    by (simp add: counting_limit running_new_def)
  moreover have "?step ?s1 Static_Refresh (?s1\<lparr>rn_admitted := 0\<rparr>)"
    using static by (intro static_refresh) simp_all
  ultimately have run: "steps ?step ?s [Arrive 5 True, Arrive 5 False, Static_Refresh] (?s1\<lparr>rn_admitted := 0\<rparr>)"
    by (blast intro: steps.intros)
  have "timeout_transparent dead_net"
    by (simp add: timeout_transparent_def dead_net_def split: prod.splits)
  from burst_work_bounded [OF started(1) table_axum_documented this started(2) counting_burst run, of 5]
  have "granted [Arrive 5 True, Arrive 5 False, Static_Refresh] = 1"
    by (simp add: arrives_at_def)
  then show ?thesis using run started(3) by auto
qed

end
