(* ===== verification/Edge_Wasm.thy ===== *)
theory Edge_Wasm
  imports Verifier
begin

text \<open>
  \<open>edgeauth-wasm/src/lib.rs\<close>: the WebAssembly bindings. The host passes the time as an
  \<open>f64\<close>, which \<open>as i64\<close> converts by truncating towards zero and saturating, with NaN as 0. A
  finite double is the rational it denotes. JSON texts are again functions of the environment.
\<close>

section \<open>The time argument\<close>

datatype f64 = F64_NaN | F64_PosInf | F64_NegInf | F64_Finite rat

definition truncate_rat :: "rat \<Rightarrow> int" where
  "truncate_rat q = (if 0 \<le> q then \<lfloor>q\<rfloor> else \<lceil>q\<rceil>)"

fun f64_as_i64 :: "f64 \<Rightarrow> i64" where
  "f64_as_i64 F64_NaN = 0"
| "f64_as_i64 F64_PosInf = word_of_int (2 ^ 63 - 1)"
| "f64_as_i64 F64_NegInf = word_of_int (- (2 ^ 63))"
| "f64_as_i64 (F64_Finite q) =
     word_of_int (max (- (2 ^ 63)) (min (2 ^ 63 - 1) (truncate_rat q)))"

section \<open>Operations\<close>

record ('vk, 'sk) wasm_env = "('vk, 'sk) vc_env" +
  ext_policy_from_str :: "string \<Rightarrow> (trust_policy, string) result"
  ext_outcome_to_string :: "verification_outcome \<Rightarrow> (string, string) result"

definition wasm_to_json :: "('vk, 'sk, 'z) wasm_env_scheme \<Rightarrow> verification_outcome \<Rightarrow> string" where
  "wasm_to_json E out =
     (case ext_outcome_to_string E out of
        Ok s \<Rightarrow> s
      | Err _ \<Rightarrow> ''{'' @ [CHR 0x22] @ ''valid'' @ [CHR 0x22] @ '':false,'' @ [CHR 0x22] @ ''reason'' @ [CHR 0x22]
          @ '':'' @ [CHR 0x22] @ ''internal serialization error'' @ [CHR 0x22] @ ''}'')"

definition parse_policy :: "('vk, 'sk, 'z) wasm_env_scheme \<Rightarrow> string \<Rightarrow> (trust_policy, string) result" where
  "parse_policy E policy_json =
     (if is_blank policy_json then Ok permissive
      else map_err (\<lambda>e. ''invalid trust policy JSON: '' @ e) (ext_policy_from_str E policy_json))"

definition wasm_verify_jwt ::
  "('vk, 'sk, 'z) wasm_env_scheme \<Rightarrow> string \<Rightarrow> string \<Rightarrow> string \<Rightarrow> f64 \<Rightarrow> string" where
  "wasm_verify_jwt E token jwks_json policy_json now_secs =
     (case parse_policy E policy_json of
        Err e \<Rightarrow> wasm_to_json E (rejected Jwt_Kind e)
      | Ok policy \<Rightarrow>
          (case jwks_from_json E jwks_json of
             Err e \<Rightarrow> wasm_to_json E (rejected Jwt_Kind (''invalid JWKS JSON: '' @ verify_error_display e))
           | Ok keys \<Rightarrow> wasm_to_json E (verify_jwt E token keys policy (f64_as_i64 now_secs))))"

definition wasm_verify_credential ::
  "('vk, 'sk, 'z) wasm_env_scheme \<Rightarrow> string \<Rightarrow> string \<Rightarrow> f64 \<Rightarrow> string" where
  "wasm_verify_credential E credential_json policy_json now_secs =
     (case parse_policy E policy_json of
        Err e \<Rightarrow> wasm_to_json E (rejected Vc_Kind e)
      | Ok policy \<Rightarrow>
          (case verify_credential_json E credential_json policy (f64_as_i64 now_secs) of
             Ok out \<Rightarrow> wasm_to_json E out
           | Err e \<Rightarrow> wasm_to_json E (rejected Vc_Kind (verify_error_display e))))"

definition wasm_version :: string where
  "wasm_version = ''0.1.0''"

section \<open>The conversion\<close>

lemma truncate_floor: "0 \<le> q \<Longrightarrow> truncate_rat q = \<lfloor>q\<rfloor>"
  by (simp add: truncate_rat_def)

lemma sint_f64_saturates:
  "sint (f64_as_i64 (F64_Finite q)) = max (- (2 ^ 63)) (min (2 ^ 63 - 1) (truncate_rat q))"
  unfolding f64_as_i64.simps by (rule sint_of_fits) (simp add: i64_fits_def)

lemma truncate_mono:
  assumes "p \<le> q"
  shows "truncate_rat p \<le> truncate_rat q"
proof (cases "0 \<le> q \<and> p < 0")
  case True
  then have "\<lceil>p\<rceil> \<le> 0" "0 \<le> \<lfloor>q\<rfloor>" by (simp_all add: ceiling_le_zero)
  then have "\<lceil>p\<rceil> \<le> \<lfloor>q\<rfloor>" by (rule order_trans)
  with True show ?thesis by (simp add: truncate_rat_def)
next
  case False
  with assms show ?thesis by (auto simp: truncate_rat_def floor_mono ceiling_mono)
qed

lemma f64_whole_seconds:
  assumes "0 \<le> q" "q < 2 ^ 63"
  shows "sint (f64_as_i64 (F64_Finite q)) = \<lfloor>q\<rfloor>"
proof -
  have "\<lfloor>q\<rfloor> < 2 ^ 63" "0 \<le> \<lfloor>q\<rfloor>"
    using assms by (simp_all add: floor_less_iff)
  then show ?thesis
    using assms(1) by (simp add: sint_f64_saturates truncate_floor del: f64_as_i64.simps)
qed

text \<open>
  Fractional seconds. A non-negative time below 2^63 is read as its whole seconds; the
  conversion never wraps, keeps the order of times, and clamps what does not fit.
\<close>

theorem f64_time_conversion:
  assumes "p \<le> q" "0 \<le> q" "q < 2 ^ 63"
  shows "sint (f64_as_i64 (F64_Finite q)) = \<lfloor>q\<rfloor>
       \<and> sint (f64_as_i64 (F64_Finite p)) \<le> sint (f64_as_i64 (F64_Finite q))
       \<and> sint (f64_as_i64 F64_NegInf) \<le> sint (f64_as_i64 (F64_Finite p))
       \<and> sint (f64_as_i64 (F64_Finite q)) \<le> sint (f64_as_i64 F64_PosInf)"
proof -
  have "sint (f64_as_i64 (F64_Finite q)) = \<lfloor>q\<rfloor>"
    using assms(2,3) by (rule f64_whole_seconds)
  moreover have "sint (f64_as_i64 (F64_Finite p)) \<le> sint (f64_as_i64 (F64_Finite q))"
    unfolding sint_f64_saturates using truncate_mono [OF assms(1)] by simp
  moreover have "sint (f64_as_i64 F64_PosInf) = 2 ^ 63 - 1" "sint (f64_as_i64 F64_NegInf) = - (2 ^ 63)"
    unfolding f64_as_i64.simps by (rule sint_of_fits; simp add: i64_fits_def)+
  moreover have "- (2 ^ 63) \<le> sint (f64_as_i64 (F64_Finite p))"
    unfolding sint_f64_saturates by simp
  ultimately show ?thesis
    using assms(3) by (simp del: f64_as_i64.simps)
qed

theorem f64_time_conversion_witness:
  "sint (f64_as_i64 (F64_Finite (3001 / 2))) = 1500"
proof -
  have "\<lfloor>3001 / 2 :: rat\<rfloor> = 1500" by (rule floor_unique) simp_all
  then show ?thesis
    using f64_time_conversion [of 0 "3001 / 2"] by (simp del: f64_as_i64.simps)
qed

section \<open>Verification at the edge\<close>

lemma wasm_verify_jwt_outcome:
  obtains out where "wasm_verify_jwt E token jj pj t = wasm_to_json E out" "out_kind out = Jwt_Kind"
    "out_reason out = None \<longleftrightarrow> out_valid out"
    "out_valid out \<longleftrightarrow> (\<exists>p ks. parse_policy E pj = Ok p \<and> jwks_from_json E jj = Ok ks
        \<and> out_valid (verify_jwt E token ks p (f64_as_i64 t)))"
proof (cases "parse_policy E pj")
  case (Inl e)
  then show ?thesis
    by (intro that [of "rejected Jwt_Kind e"]) (simp_all add: wasm_verify_jwt_def)
next
  case policy: (Inr p)
  show ?thesis
  proof (cases "jwks_from_json E jj")
    case (Inl e)
    with policy show ?thesis
      by (intro that [of "rejected Jwt_Kind (''invalid JWKS JSON: '' @ verify_error_display e)"])
        (simp_all add: wasm_verify_jwt_def)
  next
    case (Inr ks)
    with policy show ?thesis
      by (intro that [of "verify_jwt E token ks p (f64_as_i64 t)"])
        (simp_all add: wasm_verify_jwt_def jwt_decision.kind_fixed jwt_decision.reason_iff_invalid)
  qed
qed

text \<open>
  C29: the edge entry point is total and fails closed. On any strings and any time it returns the
  JSON of an outcome for a JWT, with a reason exactly when it is invalid, and valid exactly when
  the policy and the key set parse and the core verifier accepts the token under them at the
  converted time.
\<close>

theorem wasm_jwt_fails_closed:
  "\<exists>out. wasm_verify_jwt E token jwks_json policy_json t = wasm_to_json E out
     \<and> out_kind out = Jwt_Kind \<and> (out_reason out = None \<longleftrightarrow> out_valid out)
     \<and> (out_valid out \<longleftrightarrow> (\<exists>p ks. parse_policy E policy_json = Ok p \<and> jwks_from_json E jwks_json = Ok ks
          \<and> out_valid (verify_jwt E token ks p (f64_as_i64 t))))"
proof (rule wasm_verify_jwt_outcome [of E token jwks_json policy_json t])
  fix out
  assume "wasm_verify_jwt E token jwks_json policy_json t = wasm_to_json E out" "out_kind out = Jwt_Kind"
    "out_reason out = None \<longleftrightarrow> out_valid out"
    "out_valid out \<longleftrightarrow> (\<exists>p ks. parse_policy E policy_json = Ok p \<and> jwks_from_json E jwks_json = Ok ks
        \<and> out_valid (verify_jwt E token ks p (f64_as_i64 t)))"
  then show ?thesis by (intro exI [of _ out] conjI)
qed

text \<open>
  C40: a time that is not a number is the epoch. When the host passes NaN (as JavaScript does for
  a missing argument), the edge entry point does not refuse: it answers as for the time 0. With a
  policy and a key set that parse, and a leeway whose negation is an \<open>i64\<close>, it therefore returns
  the JSON of an acceptance for every authenticated token that the policy would accept at the
  epoch, such as one without \<open>nbf\<close>, however long ago it expired.
\<close>

theorem nan_time_accepts_expired:
  assumes "parse_policy E policy_json = Ok p" "jwks_from_json E jwks_json = Ok keys"
    and "signed_jwt_parse E token = Ok j" "signed_jwt_verify_with E j keys = Ok ()"
    and "claims_acceptable p 0 (sj_claims j)" "i64_fits (- sint (tp_leeway_secs p))"
    and "claim_exp (sj_claims j) = Some e" "sint e + sint (tp_leeway_secs p) \<le> now"
  shows "wasm_verify_jwt E token jwks_json policy_json F64_NaN = wasm_to_json E (verify_jwt E token keys p 0)
       \<and> out_valid (verify_jwt E token keys p 0)
       \<and> wasm_verify_jwt E token jwks_json policy_json F64_NaN
           = wasm_verify_jwt E token jwks_json policy_json (F64_Finite 0)
       \<and> \<not> claims_acceptable p now (sj_claims j)"
proof (intro conjI)
  show "wasm_verify_jwt E token jwks_json policy_json F64_NaN = wasm_to_json E (verify_jwt E token keys p 0)"
    using assms(1,2) by (simp add: wasm_verify_jwt_def)
  have "time_fits p 0"
    using assms(6) by (simp add: time_fits_def add_fits_def sub_fits_def)
  then show "out_valid (verify_jwt E token keys p 0)"
    using assms(3-5) by (auto simp: verify_jwt_valid_spec)
  show "wasm_verify_jwt E token jwks_json policy_json F64_NaN
      = wasm_verify_jwt E token jwks_json policy_json (F64_Finite 0)"
    using assms(1,2) by (simp add: wasm_verify_jwt_def truncate_rat_def)
  show "\<not> claims_acceptable p now (sj_claims j)"
    using assms(7,8) by (simp add: claims_acceptable_def not_expired_spec_def)
qed

definition sample_no_nbf :: jwt_claims where
  "sample_no_nbf = sample_claims\<lparr>claim_nbf := None\<rparr>"

definition nan_env :: "(byte, byte) wasm_env" where
  "nan_env = sample_vc_env [] [] [sample_header] [sample_no_nbf] [sample_jwks sample_env 5]
     (wasm_env_ext (\<lambda>_. Err ''unreadable'') (\<lambda>out. Ok (if out_valid out then ''valid'' else ''invalid'')) ())"

lemma nan_env_simps [simp]:
  "base64_roundtrip nan_env" "base64_dotfree nan_env" "signatures_verify nan_env" "key_roundtrip nan_env"
  "json_header nan_env sample_header" "json_claims nan_env sample_no_nbf"
  "wasm_to_json nan_env out = (if out_valid out then ''valid'' else ''invalid'')"
  "jwk_from_verifying_key nan_env k n = jwk_from_verifying_key sample_env k n"
  "ext_sk_verifying_key nan_env = ext_sk_verifying_key sample_env"
  "jwks_from_json nan_env doc = map_err Json (table_from_str [sample_jwks sample_env 5] doc)"
  by (simp_all add: nan_env_def sample_vc_env_def sample_json_header sample_json_claims)
    (simp_all add: sample_jwt_env_def sample_primitives_def sample_env_def sample_vc_env_def wasm_to_json_def
      jwk_from_verifying_key_def jwks_from_json_def b64url_encode_def)

theorem nan_time_accepts_expired_witness:
  "\<exists>token doc. wasm_verify_jwt nan_env token doc [] F64_NaN = ''valid''"
proof -
  let ?keys = "sample_jwks sample_env 5"
  have key: "jwks_find ?keys (hdr_kid sample_header)
      = Some (jwk_from_verifying_key nan_env (ext_sk_verifying_key nan_env 5) ''k1'')"
    by simp
  obtain token j where j: "signed_jwt_parse nan_env token = Ok j" "sj_claims j = sample_no_nbf"
    "signed_jwt_verify_with nan_env j ?keys = Ok ()"
    by (rule minted_verifies [of nan_env sample_header sample_no_nbf ?keys 5 "''k1''"])
      (use key in \<open>simp_all add: JWT_ALG_def\<close>)
  obtain doc where "table_from_str [?keys] doc = Ok ?keys"
    using table_string_roundtrip [of ?keys "[?keys]"] by auto
  then have parsed: "parse_policy nan_env [] = Ok permissive" "jwks_from_json nan_env doc = Ok ?keys"
    by (simp_all add: parse_policy_def is_blank_def split_whitespace_def emit_word_def)
  have "claims_acceptable permissive 0 (sj_claims j)" "i64_fits (- sint (tp_leeway_secs permissive))"
    by (simp_all add: j(2) permissive_def claims_acceptable_def not_expired_spec_def not_before_spec_def
        sample_no_nbf_def sample_claims_def i64_fits_def issuer_trusted_def)
  moreover have "claim_exp (sj_claims j) = Some 2000" "sint (2000 :: i64) + sint (tp_leeway_secs permissive) \<le> 1900000000"
    by (simp_all add: j(2) sample_no_nbf_def sample_claims_def permissive_def)
  ultimately have "wasm_verify_jwt nan_env token doc [] F64_NaN
      = wasm_to_json nan_env (verify_jwt nan_env token ?keys permissive 0)
    \<and> out_valid (verify_jwt nan_env token ?keys permissive 0)"
    using nan_time_accepts_expired [OF parsed j(1,3)] by blast
  then show ?thesis by (intro exI [of _ token] exI [of _ doc]) simp
qed

end
