(* ===== verification/Wire_Format.thy ===== *)
theory Wire_Format
  imports Edge_Wasm
begin

text \<open>
  The JSON shapes of the types of \<open>edgeauth-types\<close>: what \<open>#[derive(Serialize, Deserialize)]\<close> and
  the \<open>serde\<close> attributes of the sources ask for, as functions between the types and JSON values.
  Field names, their order, renamings, defaults and skipped fields are those of the sources. The
  text of a value is a parameter (\<open>Wire_Env\<close>). The derived readers take an object, whose
  unknown members they ignore and whose known members must not repeat, or an array of the fields in
  order; integers out of range and non-integers are no \<open>i64\<close>.
\<close>

section \<open>JSON values\<close>

datatype json =
    JNull
  | JBool bool
  | JInt int
  | JFloat rat
  | JString string
  | JArray "json list"
  | JObject "(string \<times> json) list"

text \<open>A type that is read back from what it is written as.\<close>

locale wire_type =
  fixes to_json :: "'a \<Rightarrow> json"
    and of_json :: "json \<Rightarrow> 'a option"
  assumes read_back: "of_json (to_json x) = Some x"
begin

lemma to_json_inj: "to_json x = to_json y \<longleftrightarrow> x = y"
  by (metis option.inject read_back)

lemma list_read_back: "those (map of_json (map to_json xs)) = Some xs"
  by (induction xs) (simp_all add: read_back)

end

section \<open>Scalars and containers\<close>

fun string_of_json :: "json \<Rightarrow> string option" where
  "string_of_json (JString s) = Some s"
| "string_of_json _ = None"

fun bool_of_json :: "json \<Rightarrow> bool option" where
  "bool_of_json (JBool b) = Some b"
| "bool_of_json _ = None"

definition i64_to_json :: "i64 \<Rightarrow> json" where
  "i64_to_json x = JInt (sint x)"

fun i64_of_json :: "json \<Rightarrow> i64 option" where
  "i64_of_json (JInt i) = (if i64_fits i then Some (word_of_int i) else None)"
| "i64_of_json _ = None"

definition strings_to_json :: "string list \<Rightarrow> json" where
  "strings_to_json xs = JArray (map JString xs)"

fun strings_of_json :: "json \<Rightarrow> string list option" where
  "strings_of_json (JArray vs) = those (map string_of_json vs)"
| "strings_of_json _ = None"

definition string_set_to_json :: "string fset \<Rightarrow> json" where
  "string_set_to_json A = strings_to_json (iter_set A)"

definition string_set_of_json :: "json \<Rightarrow> string fset option" where
  "string_set_of_json v = map_option fset_of_list (strings_of_json v)"

definition string_map_to_json :: "(string, string) fmap \<Rightarrow> json" where
  "string_map_to_json m = JObject (map (\<lambda>k. (k, JString (the (fmlookup m k)))) (iter_set (fmdom m)))"

fun string_map_of_json :: "json \<Rightarrow> (string, string) fmap option" where
  \<comment> \<open>a repeated key keeps its last value\<close>
  "string_map_of_json (JObject kvs) =
     map_option (\<lambda>kvs. fmap_of_list (rev kvs)) (those (map (\<lambda>(k, v). map_option (Pair k) (string_of_json v)) kvs))"
| "string_map_of_json _ = None"

interpretation string_wire: wire_type JString string_of_json
  by unfold_locales simp

interpretation bool_wire: wire_type JBool bool_of_json
  by unfold_locales simp

interpretation i64_wire: wire_type i64_to_json i64_of_json
  by unfold_locales (simp add: i64_to_json_def)

interpretation strings_wire: wire_type strings_to_json strings_of_json
  using string_wire.list_read_back by unfold_locales (simp add: strings_to_json_def)

interpretation string_set_wire: wire_type string_set_to_json string_set_of_json
  by unfold_locales (simp add: string_set_to_json_def string_set_of_json_def strings_wire.read_back)

lemma those_map_Some: "those (map (\<lambda>x. Some (f x)) xs) = Some (map f xs)"
  by (induction xs) simp_all

lemma fmap_of_entries:
  "fmap_of_list (rev (map (\<lambda>k. (k, the (fmlookup m k))) (iter_set (fmdom m)))) = m"
proof (rule fmap_ext)
  fix k
  have "distinct (map fst (map (\<lambda>k. (k, the (fmlookup m k))) (iter_set (fmdom m))))"
    by (simp add: comp_def distinct_iter_set)
  then have "map_of (rev (map (\<lambda>k. (k, the (fmlookup m k))) (iter_set (fmdom m)))) k
      = map_of (map (\<lambda>k. (k, the (fmlookup m k))) (iter_set (fmdom m))) k"
    by (subst map_of_inject_set [THEN iffD2]) (simp_all add: rev_map [symmetric])
  also have "\<dots> = (if k |\<in>| fmdom m then Some (the (fmlookup m k)) else None)"
    by (simp add: map_of_map_restrict restrict_map_def)
  also have "\<dots> = fmlookup m k"
    by (cases "fmlookup m k") (simp_all add: fmdomI fmdom_notI)
  finally show "fmlookup (fmap_of_list (rev (map (\<lambda>k. (k, the (fmlookup m k))) (iter_set (fmdom m))))) k = fmlookup m k"
    by (simp only: fmlookup_of_list)
qed

interpretation string_map_wire: wire_type string_map_to_json string_map_of_json
  by unfold_locales (simp add: string_map_to_json_def comp_def those_map_Some fmap_of_entries)

section \<open>Structs\<close>

text \<open>
  A struct is written as the object of its fields in order, without those that are skipped. The
  reader is given the field names, each with whether it has a default, and returns what it found
  for each of them, or nothing on an error.
\<close>

definition struct_to_json :: "(string \<times> json option) list \<Rightarrow> json" where
  "struct_to_json fs = JObject (concat (map (\<lambda>(k, v). case v of None \<Rightarrow> [] | Some j \<Rightarrow> [(k, j)]) fs))"

definition member_of :: "(string \<times> json) list \<Rightarrow> string \<Rightarrow> json option option" where
  \<comment> \<open>\<open>None\<close> is the error of a repeated field\<close>
  "member_of kvs k =
     (case filter (\<lambda>(k', v). k' = k) kvs of [] \<Rightarrow> Some None | [(k', v)] \<Rightarrow> Some (Some v) | _ \<Rightarrow> None)"

fun positional :: "bool list \<Rightarrow> json list \<Rightarrow> json option list option" where
  "positional [] [] = Some []"
| "positional [] (v # vs) = None"
| "positional (d # ds) [] = (if d then map_option (Cons None) (positional ds []) else None)"
| "positional (d # ds) (v # vs) = map_option (Cons (Some v)) (positional ds vs)"

fun struct_members :: "(string \<times> bool) list \<Rightarrow> json \<Rightarrow> json option list option" where
  "struct_members fs (JObject kvs) = those (map (\<lambda>(k, d). member_of kvs k) fs)"
| "struct_members fs (JArray vs) = positional (map snd fs) vs"
| "struct_members fs _ = None"

fun required :: "(json \<Rightarrow> 'a option) \<Rightarrow> json option \<Rightarrow> 'a option" where
  "required f None = None"
| "required f (Some v) = f v"

fun optional :: "(json \<Rightarrow> 'a option) \<Rightarrow> json option \<Rightarrow> 'a option option" where
  "optional f None = Some None"
| "optional f (Some JNull) = Some None"
| "optional f (Some v) = map_option Some (f v)"

fun defaulted :: "'a \<Rightarrow> (json \<Rightarrow> 'a option) \<Rightarrow> json option \<Rightarrow> 'a option" where
  "defaulted d f None = Some d"
| "defaulted d f (Some v) = f v"

lemma member_of_struct:
  assumes "distinct (map fst fs)" and "(k, v) \<in> set fs"
  shows "member_of (concat (map (\<lambda>(k, v). case v of None \<Rightarrow> [] | Some j \<Rightarrow> [(k, j)]) fs)) k = Some v"
proof -
  let ?es = "\<lambda>fs. concat (map (\<lambda>(k, v). case v of None \<Rightarrow> [] | Some j \<Rightarrow> [(k, j)]) fs)"
  have none: "filter (\<lambda>(k', v). k' = k) (?es fs) = []" if "k \<notin> fst ` set fs" for fs
    using that by (force simp: filter_empty_conv split: option.splits)
  have "filter (\<lambda>(k', v). k' = k) (?es fs) = (case v of None \<Rightarrow> [] | Some j \<Rightarrow> [(k, j)])"
    using assms
  proof (induction fs)
    case (Cons f fs)
    obtain k0 v0 where f: "f = (k0, v0)" by (cases f)
    show ?case
    proof (cases "k0 = k")
      case True
      then have "v0 = v" "k \<notin> fst ` set fs"
        using Cons.prems f by force+
      with True f none [of fs] show ?thesis by (simp split: option.split)
    next
      case False
      then show ?thesis using Cons f by (auto split: option.split)
    qed
  qed simp
  then show ?thesis by (simp add: member_of_def split: option.split)
qed

lemma struct_read_back:
  assumes "map fst ns = map fst fs" and "distinct (map fst fs)"
  shows "struct_members ns (struct_to_json fs) = Some (map snd fs)"
proof -
  let ?kvs = "concat (map (\<lambda>(k, v). case v of None \<Rightarrow> [] | Some j \<Rightarrow> [(k, j)]) fs)"
  have "map (\<lambda>(k, d). member_of ?kvs k) ns = map (member_of ?kvs) (map fst ns)"
    by (simp add: case_prod_beta comp_def)
  also have "\<dots> = map (\<lambda>f. member_of ?kvs (fst f)) fs"
    by (simp add: assms(1) comp_def)
  also have "\<dots> = map (\<lambda>f. Some (snd f)) fs"
    using member_of_struct [OF assms(2)] by (intro map_cong) auto
  finally show ?thesis
    by (simp add: struct_to_json_def those_map_Some)
qed

lemma optional_read_back:
  assumes "wire_type to_json of_json" and "\<And>x. to_json x \<noteq> JNull"
  shows "optional of_json (map_option to_json v) = Some v"
proof (cases v)
  case (Some x)
  have "of_json (to_json x) = Some x" using assms(1) by (rule wire_type.read_back)
  with Some assms(2) [of x] show ?thesis by (cases "to_json x") simp_all
qed simp

lemma null_read_back:
  assumes "wire_type to_json of_json" and "\<And>x. to_json x \<noteq> JNull"
  shows "optional of_json (Some (case v of None \<Rightarrow> JNull | Some x \<Rightarrow> to_json x)) = Some v"
proof (cases v)
  case (Some x)
  have "of_json (to_json x) = Some x" using assms(1) by (rule wire_type.read_back)
  with Some assms(2) [of x] show ?thesis by (cases "to_json x") simp_all
qed simp

definition nullable :: "('a \<Rightarrow> json) \<Rightarrow> 'a option \<Rightarrow> json" where
  \<comment> \<open>an \<open>Option\<close> that is not skipped\<close>
  "nullable to_json v = (case v of None \<Rightarrow> JNull | Some x \<Rightarrow> to_json x)"

section \<open>Tokens\<close>

definition header_to_json :: "jwt_header \<Rightarrow> json" where
  "header_to_json h = struct_to_json
     [(''alg'', Some (JString (hdr_alg h))), (''typ'', map_option JString (hdr_typ h)),
      (''kid'', map_option JString (hdr_kid h))]"

definition header_of_json :: "json \<Rightarrow> jwt_header option" where
  "header_of_json j =
     (case struct_members [(''alg'', False), (''typ'', True), (''kid'', True)] j of
        Some [alg, typ, kid] \<Rightarrow>
          Option.bind (required string_of_json alg) (\<lambda>alg.
          Option.bind (optional string_of_json typ) (\<lambda>typ.
          Option.bind (optional string_of_json kid) (\<lambda>kid.
          Some \<lparr> hdr_alg = alg, hdr_typ = typ, hdr_kid = kid \<rparr>)))
      | _ \<Rightarrow> None)"

fun audience_to_json :: "audience \<Rightarrow> json" where
  "audience_to_json (Single a) = JString a"
| "audience_to_json (Multiple xs) = strings_to_json xs"

definition audience_of_json :: "json \<Rightarrow> audience option" where
  \<comment> \<open>untagged: the first variant that reads\<close>
  "audience_of_json v =
     (case string_of_json v of
        Some a \<Rightarrow> Some (Single a)
      | None \<Rightarrow> map_option Multiple (strings_of_json v))"

definition claims_to_json :: "jwt_claims \<Rightarrow> json" where
  "claims_to_json c = struct_to_json
     [(''iss'', map_option JString (claim_iss c)), (''sub'', map_option JString (claim_sub c)),
      (''aud'', map_option audience_to_json (claim_aud c)), (''exp'', map_option i64_to_json (claim_exp c)),
      (''nbf'', map_option i64_to_json (claim_nbf c)), (''iat'', map_option i64_to_json (claim_iat c)),
      (''jti'', map_option JString (claim_jti c)), (''scope'', map_option JString (claim_scope c)),
      (''roles'', if claim_roles c = [] then None else Some (strings_to_json (claim_roles c)))]"

definition claims_of_json :: "json \<Rightarrow> jwt_claims option" where
  "claims_of_json j =
     (case struct_members [(''iss'', True), (''sub'', True), (''aud'', True), (''exp'', True), (''nbf'', True),
             (''iat'', True), (''jti'', True), (''scope'', True), (''roles'', True)] j of
        Some [iss, sub, aud, expiry, nbf, iat, jti, scope, roles] \<Rightarrow>
          Option.bind (optional string_of_json iss) (\<lambda>iss.
          Option.bind (optional string_of_json sub) (\<lambda>sub.
          Option.bind (optional audience_of_json aud) (\<lambda>aud.
          Option.bind (optional i64_of_json expiry) (\<lambda>expiry.
          Option.bind (optional i64_of_json nbf) (\<lambda>nbf.
          Option.bind (optional i64_of_json iat) (\<lambda>iat.
          Option.bind (optional string_of_json jti) (\<lambda>jti.
          Option.bind (optional string_of_json scope) (\<lambda>scope.
          Option.bind (defaulted [] strings_of_json roles) (\<lambda>roles.
          Some \<lparr> claim_iss = iss, claim_sub = sub, claim_aud = aud, claim_exp = expiry, claim_nbf = nbf,
                 claim_iat = iat, claim_jti = jti, claim_scope = scope, claim_roles = roles \<rparr>)))))))))
      | _ \<Rightarrow> None)"

definition jwk_to_json :: "jwk \<Rightarrow> json" where
  "jwk_to_json k = struct_to_json
     [(''kty'', Some (JString (jwk_kty k))), (''crv'', Some (JString (jwk_crv k))), (''x'', Some (JString (jwk_x k))),
      (''kid'', map_option JString (jwk_kid k)), (''use'', map_option JString (jwk_use k)),
      (''alg'', map_option JString (jwk_alg k))]"

definition jwk_of_json :: "json \<Rightarrow> jwk option" where
  "jwk_of_json j =
     (case struct_members [(''kty'', False), (''crv'', False), (''x'', False), (''kid'', True), (''use'', True),
             (''alg'', True)] j of
        Some [kty, crv, x, kid, use, alg] \<Rightarrow>
          Option.bind (required string_of_json kty) (\<lambda>kty.
          Option.bind (required string_of_json crv) (\<lambda>crv.
          Option.bind (required string_of_json x) (\<lambda>x.
          Option.bind (optional string_of_json kid) (\<lambda>kid.
          Option.bind (optional string_of_json use) (\<lambda>use.
          Option.bind (optional string_of_json alg) (\<lambda>alg.
          Some \<lparr> jwk_kty = kty, jwk_crv = crv, jwk_x = x, jwk_kid = kid, jwk_use = use, jwk_alg = alg \<rparr>))))))
      | _ \<Rightarrow> None)"

definition jwks_to_json :: "jwks \<Rightarrow> json" where
  "jwks_to_json ks = struct_to_json [(''keys'', Some (JArray (map jwk_to_json (jwks_keys ks))))]"

fun list_of_json :: "(json \<Rightarrow> 'a option) \<Rightarrow> json \<Rightarrow> 'a list option" where
  "list_of_json f (JArray vs) = those (map f vs)"
| "list_of_json f _ = None"

definition jwks_of_json :: "json \<Rightarrow> jwks option" where
  "jwks_of_json j =
     (case struct_members [(''keys'', False)] j of
        Some [keys] \<Rightarrow> map_option (\<lambda>keys. \<lparr> jwks_keys = keys \<rparr>) (required (list_of_json jwk_of_json) keys)
      | _ \<Rightarrow> None)"

lemma audience_not_null: "audience_to_json a \<noteq> JNull"
  by (cases a) (simp_all add: strings_to_json_def)

interpretation audience_wire: wire_type audience_to_json audience_of_json
proof
  fix a
  show "audience_of_json (audience_to_json a) = Some a"
    using strings_wire.read_back by (cases a) (simp_all add: audience_of_json_def strings_to_json_def)
qed

lemma scalar_not_null: "JString s \<noteq> JNull" "i64_to_json x \<noteq> JNull"
  by (simp_all add: i64_to_json_def)

text \<open>The fields of the structs, read back.\<close>

lemmas field_read_back [simp] =
  optional_read_back [OF string_wire.wire_type_axioms scalar_not_null(1)]
  null_read_back [OF string_wire.wire_type_axioms scalar_not_null(1), folded nullable_def]
  optional_read_back [OF i64_wire.wire_type_axioms scalar_not_null(2)]
  null_read_back [OF i64_wire.wire_type_axioms scalar_not_null(2), folded nullable_def]
  optional_read_back [OF audience_wire.wire_type_axioms audience_not_null]

interpretation header_wire: wire_type header_to_json header_of_json
  by unfold_locales (simp add: header_of_json_def header_to_json_def struct_read_back)

interpretation claims_wire: wire_type claims_to_json claims_of_json
proof
  fix c
  have "defaulted [] strings_of_json (if rs = [] then None else Some (strings_to_json rs)) = Some rs" for rs
    using strings_wire.read_back by simp
  then show "claims_of_json (claims_to_json c) = Some c"
    by (simp add: claims_of_json_def claims_to_json_def struct_read_back del: if_split_asm)
qed

interpretation jwk_wire: wire_type jwk_to_json jwk_of_json
  by unfold_locales (simp add: jwk_of_json_def jwk_to_json_def struct_read_back)

interpretation jwks_wire: wire_type jwks_to_json jwks_of_json
  using jwk_wire.list_read_back
  by unfold_locales (simp add: jwks_of_json_def jwks_to_json_def struct_read_back)

section \<open>Credentials\<close>

fun did_to_json :: "did \<Rightarrow> json" where
  \<comment> \<open>transparent\<close>
  "did_to_json (Did s) = JString s"

definition did_of_json :: "json \<Rightarrow> did option" where
  "did_of_json v = map_option Did (string_of_json v)"

definition subject_to_json :: "credential_subject \<Rightarrow> json" where
  "subject_to_json s = struct_to_json
     [(''id'', Some (did_to_json (subj_id s))), (''claims'', Some (string_map_to_json (subj_claims s)))]"

definition subject_of_json :: "json \<Rightarrow> credential_subject option" where
  "subject_of_json j =
     (case struct_members [(''id'', False), (''claims'', False)] j of
        Some [sid, claims] \<Rightarrow>
          Option.bind (required did_of_json sid) (\<lambda>sid.
          Option.bind (required string_map_of_json claims) (\<lambda>claims.
          Some \<lparr> subj_id = sid, subj_claims = claims \<rparr>))
      | _ \<Rightarrow> None)"

definition proof_to_json :: "proof_record \<Rightarrow> json" where
  "proof_to_json p = struct_to_json
     [(''type'', Some (JString (proof_type p))),
      (''verification_method'', Some (did_to_json (proof_verification_method p))),
      (''created'', Some (i64_to_json (proof_created p))),
      (''signature_hex'', Some (JString (proof_signature_hex p)))]"

definition proof_of_json :: "json \<Rightarrow> proof_record option" where
  "proof_of_json j =
     (case struct_members [(''type'', False), (''verification_method'', False), (''created'', False),
             (''signature_hex'', False)] j of
        Some [kind, verification_method, created, signature_hex] \<Rightarrow>
          Option.bind (required string_of_json kind) (\<lambda>kind.
          Option.bind (required did_of_json verification_method) (\<lambda>verification_method.
          Option.bind (required i64_of_json created) (\<lambda>created.
          Option.bind (required string_of_json signature_hex) (\<lambda>signature_hex.
          Some \<lparr> proof_type = kind, proof_verification_method = verification_method, proof_created = created,
                 proof_signature_hex = signature_hex \<rparr>))))
      | _ \<Rightarrow> None)"

definition credential_to_json :: "verifiable_credential \<Rightarrow> json" where
  "credential_to_json vc = struct_to_json
     [(''id'', Some (JString (vc_id vc))), (''type'', Some (JString (vc_credential_type vc))),
      (''issuer'', Some (did_to_json (vc_issuer vc))), (''subject'', Some (subject_to_json (vc_subject vc))),
      (''issued_at'', Some (i64_to_json (vc_issued_at vc))),
      (''expires_at'', Some (nullable i64_to_json (vc_expires_at vc))),
      (''proof'', map_option proof_to_json (vc_proof vc))]"

definition credential_of_json :: "json \<Rightarrow> verifiable_credential option" where
  "credential_of_json j =
     (case struct_members [(''id'', False), (''type'', False), (''issuer'', False), (''subject'', False),
             (''issued_at'', False), (''expires_at'', False), (''proof'', True)] j of
        Some [cid, kind, issuer, subject, issued_at, expires_at, prf] \<Rightarrow>
          Option.bind (required string_of_json cid) (\<lambda>cid.
          Option.bind (required string_of_json kind) (\<lambda>kind.
          Option.bind (required did_of_json issuer) (\<lambda>issuer.
          Option.bind (required subject_of_json subject) (\<lambda>subject.
          Option.bind (required i64_of_json issued_at) (\<lambda>issued_at.
          Option.bind (optional i64_of_json expires_at) (\<lambda>expires_at.
          Option.bind (optional proof_of_json prf) (\<lambda>prf.
          Some \<lparr> vc_id = cid, vc_credential_type = kind, vc_issuer = issuer, vc_subject = subject,
                 vc_issued_at = issued_at, vc_expires_at = expires_at, vc_proof = prf \<rparr>)))))))
      | _ \<Rightarrow> None)"

definition view_to_json :: "unsigned_view \<Rightarrow> json" where
  "view_to_json v = struct_to_json
     [(''id'', Some (JString (view_id v))), (''type'', Some (JString (view_credential_type v))),
      (''issuer'', Some (did_to_json (view_issuer v))), (''subject'', Some (subject_to_json (view_subject v))),
      (''issued_at'', Some (i64_to_json (view_issued_at v))),
      (''expires_at'', Some (nullable i64_to_json (view_expires_at v)))]"

interpretation did_wire: wire_type did_to_json did_of_json
proof
  fix d
  show "did_of_json (did_to_json d) = Some d"
    by (cases d) (simp add: did_of_json_def)
qed

interpretation subject_wire: wire_type subject_to_json subject_of_json
  by unfold_locales (simp add: subject_of_json_def subject_to_json_def struct_read_back
      did_wire.read_back string_map_wire.read_back)

interpretation proof_wire: wire_type proof_to_json proof_of_json
  by unfold_locales (simp add: proof_of_json_def proof_to_json_def struct_read_back
      did_wire.read_back i64_wire.read_back)

lemma proof_not_null: "proof_to_json p \<noteq> JNull"
  by (simp add: proof_to_json_def struct_to_json_def)

interpretation credential_wire: wire_type credential_to_json credential_of_json
  by unfold_locales (simp add: credential_of_json_def credential_to_json_def struct_read_back
      did_wire.read_back subject_wire.read_back i64_wire.read_back
      optional_read_back [OF proof_wire.wire_type_axioms proof_not_null])

text \<open>The signed view is never read, but determined by what is written.\<close>

lemma view_as_credential:
  "view_to_json v = credential_to_json
     \<lparr> vc_id = view_id v, vc_credential_type = view_credential_type v, vc_issuer = view_issuer v,
       vc_subject = view_subject v, vc_issued_at = view_issued_at v, vc_expires_at = view_expires_at v,
       vc_proof = None \<rparr>"
  by (simp add: view_to_json_def credential_to_json_def struct_to_json_def)

lemma view_to_json_inj: "view_to_json v = view_to_json v' \<longleftrightarrow> v = v'"
  by (cases v; cases v') (simp add: view_as_credential credential_wire.to_json_inj)

section \<open>Policies and outcomes\<close>

definition policy_to_json :: "trust_policy \<Rightarrow> json" where
  "policy_to_json p = struct_to_json
     [(''trusted_issuers'', Some (string_set_to_json (tp_trusted_issuers p))),
      (''expected_audience'', Some (nullable JString (tp_expected_audience p))),
      (''required_scopes'', Some (string_set_to_json (tp_required_scopes p))),
      (''revoked_jti'', Some (string_set_to_json (tp_revoked_jti p))),
      (''leeway_secs'', Some (i64_to_json (tp_leeway_secs p)))]"

definition policy_of_json :: "json \<Rightarrow> trust_policy option" where
  \<comment> \<open>the container's \<open>serde(default)\<close>: a missing field has its value in the default policy\<close>
  "policy_of_json j =
     (case struct_members [(''trusted_issuers'', True), (''expected_audience'', True), (''required_scopes'', True),
             (''revoked_jti'', True), (''leeway_secs'', True)] j of
        Some [issuers, audience, scopes, revoked, leeway] \<Rightarrow>
          Option.bind (defaulted {||} string_set_of_json issuers) (\<lambda>issuers.
          Option.bind (optional string_of_json audience) (\<lambda>audience.
          Option.bind (defaulted {||} string_set_of_json scopes) (\<lambda>scopes.
          Option.bind (defaulted {||} string_set_of_json revoked) (\<lambda>revoked.
          Option.bind (defaulted 0 i64_of_json leeway) (\<lambda>leeway.
          Some \<lparr> tp_trusted_issuers = issuers, tp_expected_audience = audience, tp_required_scopes = scopes,
                 tp_revoked_jti = revoked, tp_leeway_secs = leeway \<rparr>)))))
      | _ \<Rightarrow> None)"

fun kind_to_json :: "token_kind \<Rightarrow> json" where
  "kind_to_json Jwt_Kind = JString ''jwt''"
| "kind_to_json Vc_Kind = JString ''verifiable_credential''"

definition kind_of_json :: "json \<Rightarrow> token_kind option" where
  \<comment> \<open>a unit variant is its name, or an object with the name as its only member and null\<close>
  "kind_of_json j =
     (let name = (case j of JString s \<Rightarrow> Some s | JObject [(s, JNull)] \<Rightarrow> Some s | _ \<Rightarrow> None) in
      if name = Some ''jwt'' then Some Jwt_Kind
      else if name = Some ''verifiable_credential'' then Some Vc_Kind else None)"

definition checks_to_json :: "verification_checks \<Rightarrow> json" where
  "checks_to_json c = struct_to_json
     [(''signature'', Some (JBool (chk_signature c))), (''not_expired'', Some (JBool (chk_not_expired c))),
      (''not_before'', Some (JBool (chk_not_before c))), (''issuer_trusted'', Some (JBool (chk_issuer_trusted c))),
      (''audience'', Some (JBool (chk_audience c))), (''scopes'', Some (JBool (chk_scopes c))),
      (''not_revoked'', Some (JBool (chk_not_revoked c)))]"

definition checks_of_json :: "json \<Rightarrow> verification_checks option" where
  "checks_of_json j =
     (case struct_members [(''signature'', False), (''not_expired'', False), (''not_before'', False),
             (''issuer_trusted'', False), (''audience'', False), (''scopes'', False), (''not_revoked'', False)] j of
        Some [signature, not_expired, not_before, trusted, audience, scopes, not_revoked] \<Rightarrow>
          Option.bind (required bool_of_json signature) (\<lambda>signature.
          Option.bind (required bool_of_json not_expired) (\<lambda>not_expired.
          Option.bind (required bool_of_json not_before) (\<lambda>not_before.
          Option.bind (required bool_of_json trusted) (\<lambda>trusted.
          Option.bind (required bool_of_json audience) (\<lambda>audience.
          Option.bind (required bool_of_json scopes) (\<lambda>scopes.
          Option.bind (required bool_of_json not_revoked) (\<lambda>not_revoked.
          Some \<lparr> chk_signature = signature, chk_not_expired = not_expired, chk_not_before = not_before,
                 chk_issuer_trusted = trusted, chk_audience = audience, chk_scopes = scopes,
                 chk_not_revoked = not_revoked \<rparr>)))))))
      | _ \<Rightarrow> None)"

definition outcome_to_json :: "verification_outcome \<Rightarrow> json" where
  "outcome_to_json out = struct_to_json
     [(''valid'', Some (JBool (out_valid out))), (''kind'', Some (kind_to_json (out_kind out))),
      (''subject'', Some (nullable JString (out_subject out))), (''issuer'', Some (nullable JString (out_issuer out))),
      (''scopes'', Some (strings_to_json (out_scopes out))), (''roles'', Some (strings_to_json (out_roles out))),
      (''checks'', Some (checks_to_json (out_checks out))), (''reason'', Some (nullable JString (out_reason out)))]"

definition outcome_of_json :: "json \<Rightarrow> verification_outcome option" where
  "outcome_of_json j =
     (case struct_members [(''valid'', False), (''kind'', False), (''subject'', False), (''issuer'', False),
             (''scopes'', False), (''roles'', False), (''checks'', False), (''reason'', False)] j of
        Some [valid, kind, subject, issuer, scopes, roles, checks, reason] \<Rightarrow>
          Option.bind (required bool_of_json valid) (\<lambda>valid.
          Option.bind (required kind_of_json kind) (\<lambda>kind.
          Option.bind (optional string_of_json subject) (\<lambda>subject.
          Option.bind (optional string_of_json issuer) (\<lambda>issuer.
          Option.bind (required strings_of_json scopes) (\<lambda>scopes.
          Option.bind (required strings_of_json roles) (\<lambda>roles.
          Option.bind (required checks_of_json checks) (\<lambda>checks.
          Option.bind (optional string_of_json reason) (\<lambda>reason.
          Some \<lparr> out_valid = valid, out_kind = kind, out_subject = subject, out_issuer = issuer,
                 out_scopes = scopes, out_roles = roles, out_checks = checks, out_reason = reason \<rparr>))))))))
      | _ \<Rightarrow> None)"

interpretation policy_wire: wire_type policy_to_json policy_of_json
  by unfold_locales (simp add: policy_of_json_def policy_to_json_def struct_read_back
      string_set_wire.read_back i64_wire.read_back)

interpretation kind_wire: wire_type kind_to_json kind_of_json
proof
  fix k
  show "kind_of_json (kind_to_json k) = Some k"
    by (cases k) (simp_all add: kind_of_json_def)
qed

interpretation checks_wire: wire_type checks_to_json checks_of_json
  by unfold_locales (simp add: checks_of_json_def checks_to_json_def struct_read_back)

interpretation outcome_wire: wire_type outcome_to_json outcome_of_json
  by unfold_locales (simp add: outcome_of_json_def outcome_to_json_def struct_read_back
      kind_wire.read_back strings_wire.read_back checks_wire.read_back)

section \<open>What the shapes guarantee, and what they let through\<close>

text \<open>
  C18: Nothing is lost on the wire. Every header, claim set, key set, credential, policy and outcome is
  read back from the JSON value it is written as, and two signed views are written alike only
  when they are equal, so the signature covers every field of a credential but its proof.
\<close>

theorem wire_round_trips:
  "header_of_json (header_to_json h) = Some h \<and> claims_of_json (claims_to_json c) = Some c
   \<and> jwks_of_json (jwks_to_json ks) = Some ks \<and> credential_of_json (credential_to_json vc) = Some vc
   \<and> policy_of_json (policy_to_json p) = Some p \<and> outcome_of_json (outcome_to_json out) = Some out
   \<and> (view_to_json (unsigned_view_of vc) = view_to_json (unsigned_view_of vc')
       \<longleftrightarrow> vc\<lparr>vc_proof := vc_proof vc'\<rparr> = vc')"
proof -
  have "unsigned_view_of vc = unsigned_view_of vc' \<longleftrightarrow> vc\<lparr>vc_proof := vc_proof vc'\<rparr> = vc'"
    by (cases vc; cases vc') (auto simp: unsigned_view_of_def)
  then show ?thesis
    by (simp only: header_wire.read_back claims_wire.read_back jwks_wire.read_back credential_wire.read_back
        policy_wire.read_back outcome_wire.read_back view_to_json_inj simp_thms)
qed

lemma those_Some_iff: "those xs = Some ys \<longleftrightarrow> xs = map Some ys"
proof (induction xs arbitrary: ys)
  case (Cons x xs)
  then show ?case by (cases x; cases ys) auto
qed auto

lemma member_of_mem:
  assumes "(k, v) \<in> set kvs"
  shows "member_of kvs k = None \<or> member_of kvs k = Some (Some v)"
proof -
  have "(k, v) \<in> set (filter (\<lambda>(k', v). k' = k) kvs)"
    using assms by simp
  then show ?thesis
    unfolding member_of_def by (cases "filter (\<lambda>(k', v). k' = k) kvs"; cases "tl (filter (\<lambda>(k', v). k' = k) kvs)")
      (auto split: prod.split)
qed

lemma member_of_absent: "k \<notin> fst ` set kvs \<Longrightarrow> member_of kvs k = Some None"
proof -
  assume "k \<notin> fst ` set kvs"
  then have "filter (\<lambda>(k', v). k' = k) kvs = []"
    by (force simp: filter_empty_conv)
  then show ?thesis by (simp add: member_of_def)
qed

text \<open>A reader sees of an object only the members it knows.\<close>

lemma unknown_members_ignored:
  "struct_members fs (JObject (filter (\<lambda>(k, v). k \<in> fst ` set fs) kvs)) = struct_members fs (JObject kvs)"
proof -
  have "filter (\<lambda>(k', v). k' = k) (filter (\<lambda>(k, v). k \<in> fst ` set fs) kvs) = filter (\<lambda>(k', v). k' = k) kvs"
    if "k \<in> fst ` set fs" for k
    using that by (induction kvs) auto
  then show ?thesis
    by (auto simp: member_of_def intro!: arg_cong [where f = those] map_cong [OF refl]) force
qed

lemma no_known_member_is_permissive:
  assumes "fst ` set kvs \<inter> {''trusted_issuers'', ''expected_audience'', ''required_scopes'', ''revoked_jti'', ''leeway_secs''} = {}"
  shows "policy_of_json (JObject kvs) = Some permissive"
proof -
  have "member_of kvs k = Some None"
    if "k \<in> {''trusted_issuers'', ''expected_audience'', ''required_scopes'', ''revoked_jti'', ''leeway_secs''}" for k
    using that assms by (intro member_of_absent) blast
  then show ?thesis by (simp add: policy_of_json_def permissive_def)
qed

lemma claims_of_object:
  assumes "claims_of_json (JObject kvs) = Some c"
  obtains x y z where "member_of kvs ''exp'' = Some x" "optional i64_of_json x = Some (claim_exp c)"
    "member_of kvs ''nbf'' = Some y" "optional i64_of_json y = Some (claim_nbf c)"
    "member_of kvs ''iat'' = Some z" "optional i64_of_json z = Some (claim_iat c)"
proof -
  obtain iss sub aud expiry nbf iat jti scope roles where
    "struct_members [(''iss'', True), (''sub'', True), (''aud'', True), (''exp'', True), (''nbf'', True),
       (''iat'', True), (''jti'', True), (''scope'', True), (''roles'', True)] (JObject kvs)
     = Some [iss, sub, aud, expiry, nbf, iat, jti, scope, roles]"
    using assms unfolding claims_of_json_def by (auto split: option.splits list.splits)
  note m = this
  then have "member_of kvs ''exp'' = Some expiry" "member_of kvs ''nbf'' = Some nbf" "member_of kvs ''iat'' = Some iat"
    by (simp_all only: struct_members.simps those_Some_iff list.map prod.case list.inject)
  moreover have "optional i64_of_json expiry = Some (claim_exp c)" "optional i64_of_json nbf = Some (claim_nbf c)"
    "optional i64_of_json iat = Some (claim_iat c)"
    using assms unfolding claims_of_json_def m by (auto simp: Option.bind_eq_Some_conv)
  ultimately show ?thesis using that by blast
qed

text \<open>Dates are 64-bit integers or null; anything else makes the claims unreadable.\<close>

lemma bad_date_unreadable:
  assumes "(k, v) \<in> set kvs" "k \<in> {''exp'', ''nbf'', ''iat''}" "v \<noteq> JNull" "i64_of_json v = None"
  shows "claims_of_json (JObject kvs) = None"
proof (rule ccontr)
  assume "claims_of_json (JObject kvs) \<noteq> None"
  then obtain c where c: "claims_of_json (JObject kvs) = Some c" by blast
  have bad: "optional i64_of_json (Some v) = None"
    using assms(3,4) by (cases v) simp_all
  from c show False
  proof (rule claims_of_object)
    fix x y z
    assume "member_of kvs ''exp'' = Some x" "optional i64_of_json x = Some (claim_exp c)"
      "member_of kvs ''nbf'' = Some y" "optional i64_of_json y = Some (claim_nbf c)"
      "member_of kvs ''iat'' = Some z" "optional i64_of_json z = Some (claim_iat c)"
    then show False
      using assms(2) member_of_mem [OF assms(1)] bad by auto
  qed
qed

end
