(* ===== verification/Wire_Env.thy ===== *)
theory Wire_Env
  imports Wire_Format Node_Mint
begin

text \<open>
  The JSON functions of the environment, tied to the shapes of \<open>Wire_Format\<close>: \<open>serde_json\<close> writes a
  value of a type as the text of its JSON value, and reads a text by parsing it and converting the
  value. What is left as a parameter is the text of a JSON value; the laws the components assume
  of their JSON functions follow from one law about it.
\<close>

section \<open>The text of a JSON value\<close>

record json_text =
  ext_json_print :: "json \<Rightarrow> (bytes, string) result"
  ext_json_parse :: "bytes \<Rightarrow> (json, string) result"

text \<open>Documented behaviour: a value that was written is read back.\<close>

definition text_reads_back :: "json_text \<Rightarrow> json \<Rightarrow> bool" where
  "text_reads_back T v \<longleftrightarrow> (\<exists>bs. ext_json_print T v = Ok bs \<and> ext_json_parse T bs = Ok v)"

definition reads :: "json_text \<Rightarrow> (json \<Rightarrow> 'a option) \<Rightarrow> bytes \<Rightarrow> 'a \<Rightarrow> bool" where
  "reads T of_json bs x \<longleftrightarrow> (\<exists>v. ext_json_parse T bs = Ok v \<and> of_json v = Some x)"

text \<open>Documented behaviour of the derived functions of the core, and of the edge module's.\<close>

definition serde_documented :: "('vk, 'sk, 'z) vc_env_scheme \<Rightarrow> json_text \<Rightarrow> bool" where
  "serde_documented E T \<longleftrightarrow>
     (\<forall>h. ext_header_to_vec E h = ext_json_print T (header_to_json h))
   \<and> (\<forall>c. ext_claims_to_vec E c = ext_json_print T (claims_to_json c))
   \<and> (\<forall>v. ext_view_to_vec E v = ext_json_print T (view_to_json v))
   \<and> (\<forall>vc s. ext_vc_to_string E vc = Ok s \<longleftrightarrow> ext_json_print T (credential_to_json vc) = Ok (as_bytes s))
   \<and> (\<forall>bs h. ext_header_from_slice E bs = Ok h \<longleftrightarrow> reads T header_of_json bs h)
   \<and> (\<forall>bs c. ext_claims_from_slice E bs = Ok c \<longleftrightarrow> reads T claims_of_json bs c)
   \<and> (\<forall>s ks. ext_jwks_from_str E s = Ok ks \<longleftrightarrow> reads T jwks_of_json (as_bytes s) ks)
   \<and> (\<forall>s vc. ext_vc_from_str E s = Ok vc \<longleftrightarrow> reads T credential_of_json (as_bytes s) vc)"

definition serde_edge_documented :: "('vk, 'sk, 'z) wasm_env_scheme \<Rightarrow> json_text \<Rightarrow> bool" where
  "serde_edge_documented E T \<longleftrightarrow>
     (\<forall>s p. ext_policy_from_str E s = Ok p \<longleftrightarrow> reads T policy_of_json (as_bytes s) p)
   \<and> (\<forall>out s. ext_outcome_to_string E out = Ok s \<longleftrightarrow> ext_json_print T (outcome_to_json out) = Ok (as_bytes s))"

section \<open>The laws of the components\<close>

lemma as_bytes_onto: "as_bytes (bytes_as_string bs) = bs"
proof -
  have "(of_char (char_of (unat b) :: char) :: byte) = b" for b :: byte
  proof -
    have "unat b < 256"
      using unsigned_less [of b, where ?'a = nat] by simp
    then have "unat b mod 256 = unat b" by simp
    have "(of_char (char_of (unat b) :: char) :: byte) = of_nat (of_char (char_of (unat b) :: char))"
      by (simp only: of_nat_of_char)
    also have "\<dots> = of_nat (unat b)"
      by (simp only: of_char_of \<open>unat b mod 256 = unat b\<close>)
    also have "\<dots> = b" by simp
    finally show ?thesis .
  qed
  then show ?thesis by (simp add: as_bytes_def bytes_as_string_def comp_def)
qed

lemma reads_back:
  assumes "wire_type to_json of_json" and "text_reads_back T (to_json x)"
  obtains bs where "ext_json_print T (to_json x) = Ok bs" "reads T of_json bs x"
  using assms by (auto simp: text_reads_back_def reads_def wire_type_def)

lemma serde_header: "serde_documented E T \<Longrightarrow> text_reads_back T (header_to_json h) \<Longrightarrow> json_header E h"
  by (rule reads_back [OF header_wire.wire_type_axioms]) (auto simp: serde_documented_def json_header_def)

lemma serde_claims: "serde_documented E T \<Longrightarrow> text_reads_back T (claims_to_json c) \<Longrightarrow> json_claims E c"
  by (rule reads_back [OF claims_wire.wire_type_axioms]) (auto simp: serde_documented_def json_claims_def)

lemma serde_credential:
  assumes "serde_documented E T" "text_reads_back T (credential_to_json vc)"
  shows "json_credential E vc"
proof -
  obtain bs where bs: "ext_json_print T (credential_to_json vc) = Ok bs" "reads T credential_of_json bs vc"
    by (rule reads_back [OF credential_wire.wire_type_axioms assms(2)])
  then show ?thesis
    using assms(1) as_bytes_onto [of bs] unfolding serde_documented_def json_credential_def
    by (intro exI [of _ "bytes_as_string bs"]) simp
qed

lemma serde_view: "serde_documented E T \<Longrightarrow> text_reads_back T (view_to_json v) \<Longrightarrow> view_serializes E v"
  by (auto simp: serde_documented_def text_reads_back_def view_serializes_def)

lemma serde_views_distinct:
  assumes "serde_documented E T" "text_reads_back T (view_to_json v)" "text_reads_back T (view_to_json v')"
  shows "views_distinct E v v'"
  using assms by (auto simp: serde_documented_def text_reads_back_def views_distinct_def view_to_json_inj [symmetric])

text \<open>What the fixtures of \<open>mint\<close> need of JSON.\<close>

lemma serde_fixtures:
  assumes "serde_documented E T" and "\<And>v. text_reads_back T v"
  shows "fixtures_serialize E common"
proof -
  let ?vc = "fixture_credential (vc_issuer_of E common) (vc_subject_of E common)"
  have "view_serializes E (unsigned_view_of ?vc)"
    using assms by (rule serde_view)
  then obtain vc where "sign_with E ?vc (local_signer E (ca_signer_seed common + 1)) FIXTURE_IAT = Ok vc"
    by (auto simp: view_serializes_def sign_with_def signing_payload_def is_ok_iff Let_def)
  then show ?thesis
    using assms by (auto simp: fixtures_serialize_def serde_header serde_claims serde_credential)
qed

section \<open>A concrete environment\<close>

text \<open>For witnesses: the derived functions over a table of JSON values, which the text of a value indexes.\<close>

definition from_text :: "json_text \<Rightarrow> (json \<Rightarrow> 'a option) \<Rightarrow> bytes \<Rightarrow> ('a, string) result" where
  "from_text T of_json bs = try_bind (ext_json_parse T bs) (\<lambda>v. ok_or ''invalid value'' (of_json v))"

definition to_text :: "json_text \<Rightarrow> json \<Rightarrow> (string, string) result" where
  "to_text T v = try_bind (ext_json_print T v) (\<lambda>bs. Ok (bytes_as_string bs))"

definition serde_env :: "json_text \<Rightarrow> (byte, byte) wasm_env" where
  "serde_env T = sample_primitives
     (jwt_env_ext (from_text T header_of_json) (from_text T claims_of_json)
        (\<lambda>s. from_text T jwks_of_json (as_bytes s)) (\<lambda>h. ext_json_print T (header_to_json h))
        (\<lambda>c. ext_json_print T (claims_to_json c))
     (vc_env_ext (\<lambda>v. ext_json_print T (view_to_json v)) (\<lambda>s. from_text T credential_of_json (as_bytes s))
        (\<lambda>vc. to_text T (credential_to_json vc))
     (wasm_env_ext (\<lambda>s. from_text T policy_of_json (as_bytes s)) (\<lambda>out. to_text T (outcome_to_json out)) ())))"

definition json_table :: "json list \<Rightarrow> json_text" where
  "json_table vs = \<lparr> ext_json_print = table_to_vec vs, ext_json_parse = table_from_slice vs \<rparr>"

lemma from_text_reads: "from_text T of_json bs = Ok x \<longleftrightarrow> reads T of_json bs x"
  by (cases "ext_json_parse T bs") (auto simp: from_text_def reads_def ok_or_def split: option.splits)

lemma to_text_prints: "to_text T v = Ok s \<longleftrightarrow> ext_json_print T v = Ok (as_bytes s)"
proof (cases "ext_json_print T v")
  case (Inr bs)
  have "bytes_as_string bs = s \<longleftrightarrow> bs = as_bytes s"
    using as_bytes_onto [of bs] bytes_as_string_as_bytes [of s] by metis
  with Inr show ?thesis by (simp add: to_text_def)
qed (simp add: to_text_def)

lemma serde_env_documented: "serde_documented (serde_env T) T" "serde_edge_documented (serde_env T) T"
  by (simp_all add: serde_documented_def serde_edge_documented_def serde_env_def sample_primitives_def
      from_text_reads to_text_prints)

lemma json_table_reads_back: "v \<in> set vs \<Longrightarrow> length vs \<le> 256 \<Longrightarrow> text_reads_back (json_table vs) v"
  using table_roundtrip [of v vs] by (simp add: text_reads_back_def json_table_def)

section \<open>Consequences\<close>

text \<open>
  Tampering, with nothing assumed of the canonical payload but that JSON text reads back: two
  different credentials with one proof that both verify exhibit a forgery.
\<close>

theorem tampered_document_is_forgery:
  assumes "serde_documented E T"
    and "text_reads_back T (view_to_json (unsigned_view_of vc))" "text_reads_back T (view_to_json (unsigned_view_of vc'))"
    and "verify_signature E vc = Ok ()" "verify_signature E vc' = Ok ()"
    and "vc_proof vc' = vc_proof vc" "vc' \<noteq> vc"
  shows "\<exists>key m m' sig. did_verifying_key E (vc_issuer vc) = Ok key \<and> m \<noteq> m'
    \<and> ext_vk_verify E key m sig \<and> ext_vk_verify E key m' sig"
  using forged_payload [OF assms(4-7) serde_views_distinct [OF assms(1-3)]] by blast

text \<open>
  C31: A misspelt policy trusts everyone. At the edge, a policy text that is a JSON object without
  any member named like a field of the policy, such as one that says \<open>trusted_issuer\<close>, is no
  error: tokens and credentials are decided as if no policy had been passed, so those of every
  issuer, audience and scope are accepted.
\<close>

theorem misspelt_policy_is_permissive:
  assumes "serde_edge_documented E T"
    and "ext_json_parse T (as_bytes policy_json) = Ok (JObject members)"
    and "fst ` set members \<inter> {''trusted_issuers'', ''expected_audience'', ''required_scopes'',
           ''revoked_jti'', ''leeway_secs''} = {}"
  shows "wasm_verify_jwt E token jwks_json policy_json t = wasm_verify_jwt E token jwks_json [] t
    \<and> wasm_verify_credential E json policy_json t = wasm_verify_credential E json [] t
    \<and> parse_policy E policy_json = Ok permissive"
proof -
  have "reads T policy_of_json (as_bytes policy_json) permissive"
    using no_known_member_is_permissive [OF assms(3)] assms(2) by (simp add: reads_def)
  then have "ext_policy_from_str E policy_json = Ok permissive"
    using assms(1) by (simp add: serde_edge_documented_def)
  then have "parse_policy E policy_json = Ok permissive"
    by (simp add: parse_policy_def)
  moreover have "is_blank []"
    by code_simp
  then have "parse_policy E [] = Ok permissive"
    by (simp add: parse_policy_def)
  ultimately show ?thesis
    by (simp add: wasm_verify_jwt_def wasm_verify_credential_def)
qed

theorem misspelt_policy_is_permissive_witness:
  "let T = json_table [JObject [(''trusted_issuer'', JArray [JString ''https://issuer.example''])]] in
   parse_policy (serde_env T) (bytes_as_string [0]) = Ok permissive"
proof -
  let ?T = "json_table [JObject [(''trusted_issuer'', JArray [JString ''https://issuer.example''])]]"
  have "ext_json_parse ?T (as_bytes (bytes_as_string [0])) = Ok (JObject [(''trusted_issuer'', JArray [JString ''https://issuer.example''])])"
    unfolding as_bytes_onto by (simp add: json_table_def table_from_slice_def)
  then show ?thesis
    unfolding Let_def
    by (rule misspelt_policy_is_permissive [OF serde_env_documented(2), THEN conjunct2, THEN conjunct2]) simp
qed

text \<open>
  C32: Dates are whole seconds or the token is unreadable. Whatever its signature, a token whose
  claims hold an \<open>exp\<close>, \<open>nbf\<close> or \<open>iat\<close> that is neither null nor an integer of 64 bits, such as
  the fractional dates that RFC 7519 allows, does not parse, and is rejected with no identity.
\<close>

theorem inexact_dates_rejected:
  assumes "serde_documented E T"
    and "split_char CHR ''.'' token = [h, p, s]" "b64url_decode E p = Ok payload"
    and "ext_json_parse T payload = Ok (JObject members)"
    and "(k, v) \<in> set members" "k \<in> {''exp'', ''nbf'', ''iat''}"
    and "v \<noteq> JNull" "\<nexists>i. v = JInt i \<and> i64_fits i"
  shows "(\<exists>e. signed_jwt_parse E token = Err e)
    \<and> \<not> out_valid (verify_jwt E token keys policy now)
    \<and> out_subject (verify_jwt E token keys policy now) = None"
proof -
  have "i64_of_json v = None"
    using assms(8) by (cases v) auto
  then have "\<nexists>c. ext_claims_from_slice E payload = Ok c"
    using assms(1,4) bad_date_unreadable [OF assms(5-7)] by (simp add: serde_documented_def reads_def)
  then have "\<nexists>j. signed_jwt_parse E token = Ok j"
    using assms(2,3) by (auto simp: signed_jwt_parse_Ok_iff)
  then obtain e where "signed_jwt_parse E token = Err e"
    by (cases "signed_jwt_parse E token") auto
  then show ?thesis by (simp add: verify_jwt_def rejected_def)
qed

theorem inexact_dates_rejected_witness:
  "let T = json_table [JObject [(''exp'', JFloat (3001 / 2))]] in
   \<not> out_valid (verify_jwt (serde_env T) (''aa.'' @ letters [0] @ ''.aa'') (jwks_from_keys []) permissive 0)"
proof -
  let ?T = "json_table [JObject [(''exp'', JFloat (3001 / 2))]]"
  have "split_char CHR ''.'' (''aa.'' @ letters [0] @ ''.aa'') = [''aa'', letters [0], ''aa'']"
    by (simp add: nibble_char_def) code_simp
  moreover have "b64url_decode (serde_env ?T) (letters [0]) = Ok [0]"
    by (simp add: b64url_decode_def serde_env_def sample_primitives_def del: letters.simps)
  moreover have "ext_json_parse ?T [0] = Ok (JObject [(''exp'', JFloat (3001 / 2))])"
    by (simp add: json_table_def table_from_slice_def)
  ultimately show ?thesis
    unfolding Let_def
    using inexact_dates_rejected [OF serde_env_documented(1), where T = ?T and k = "''exp''" and v = "JFloat (3001 / 2)"]
    by fastforce
qed

end
