(* ===== verification/Debug_Build.thy ===== *)
theory Debug_Build
  imports Service
begin

text \<open>
  The verifier in a build with overflow checks. No profile of \<open>Cargo.toml\<close> changes the defaults:
  release builds wrap, as in \<open>Verifier\<close>; development and test builds panic where \<open>now + leeway\<close>
  or \<open>now - leeway\<close> of \<open>edgeauth-verifier/src/lib.rs\<close> and \<open>edgeauth-types/src/credential.rs\<close> does not
  fit 64 bits. \<open>None\<close> is that panic. The closures of \<open>is_none_or\<close> subtract and add only when the
  claim is present.
\<close>

section \<open>Operations\<close>

definition checked_add :: "i64 \<Rightarrow> i64 \<Rightarrow> i64 option" where
  "checked_add a b = (if add_fits a b then Some (a + b) else None)"

definition checked_sub :: "i64 \<Rightarrow> i64 \<Rightarrow> i64 option" where
  "checked_sub a b = (if sub_fits a b then Some (a - b) else None)"

fun is_none_or_debug :: "('a \<Rightarrow> bool option) \<Rightarrow> 'a option \<Rightarrow> bool option" where
  "is_none_or_debug p None = Some True"
| "is_none_or_debug p (Some x) = p x"

definition jwt_checks_debug :: "jwt_claims \<Rightarrow> trust_policy \<Rightarrow> i64 \<Rightarrow> verification_checks option" where
  "jwt_checks_debug claims policy now =
     (let leeway = tp_leeway_secs policy in
      Option.bind (is_none_or_debug (\<lambda>exp. map_option (\<lambda>t. t <s exp) (checked_sub now leeway)) (claim_exp claims))
        (\<lambda>not_expired.
      Option.bind (is_none_or_debug (\<lambda>nbf. map_option (\<lambda>t. nbf <=s t) (checked_add now leeway)) (claim_nbf claims))
        (\<lambda>not_before.
      Some
      \<lparr> chk_signature = True, chk_not_expired = not_expired, chk_not_before = not_before,
        chk_issuer_trusted = issuer_trusted policy (claim_iss claims),
        chk_audience = (case tp_expected_audience policy of
            None \<Rightarrow> True
          | Some expected \<Rightarrow> is_some_and (\<lambda>a. audience_contains a expected) (claim_aud claims)),
        chk_scopes = tp_required_scopes policy |\<subseteq>| claims_scopes claims,
        chk_not_revoked = is_none_or (\<lambda>jti. jti |\<notin>| tp_revoked_jti policy) (claim_jti claims) \<rparr>)))"

definition verify_jwt_debug ::
  "('vk, 'sk, 'z) jwt_env_scheme \<Rightarrow> string \<Rightarrow> jwks \<Rightarrow> trust_policy \<Rightarrow> i64 \<Rightarrow> verification_outcome option" where
  "verify_jwt_debug E token keys policy now =
     (case signed_jwt_parse E token of
        Err e \<Rightarrow> Some (rejected Jwt_Kind (verify_error_display e))
      | Ok jwt \<Rightarrow>
          (case signed_jwt_verify_with E jwt keys of
             Err e \<Rightarrow> Some (rejected Jwt_Kind (verify_error_display e))
           | Ok _ \<Rightarrow>
               (let claims = sj_claims jwt; scopes = claims_scopes claims in
                map_option (\<lambda>checks.
                   \<lparr> out_valid = checks_all checks, out_kind = Jwt_Kind,
                     out_subject = claim_sub claims, out_issuer = claim_iss claims,
                     out_scopes = iter_set scopes, out_roles = claim_roles claims,
                     out_checks = checks, out_reason = first_failure checks \<rparr>)
                  (jwt_checks_debug claims policy now))))"

definition validity_at_debug :: "verifiable_credential \<Rightarrow> i64 \<Rightarrow> i64 \<Rightarrow> (bool \<times> bool) option" where
  "validity_at_debug vc now leeway =
     Option.bind (map_option (\<lambda>t. vc_issued_at vc <=s t) (checked_add now leeway)) (\<lambda>not_before_ok.
     Option.bind (is_none_or_debug (\<lambda>exp. map_option (\<lambda>t. t <s exp) (checked_sub now leeway)) (vc_expires_at vc))
       (\<lambda>not_expired_ok. Some (not_before_ok, not_expired_ok)))"

definition verify_credential_debug ::
  "('vk, 'sk, 'z) vc_env_scheme \<Rightarrow> verifiable_credential \<Rightarrow> trust_policy \<Rightarrow> i64 \<Rightarrow> verification_outcome option" where
  "verify_credential_debug E vc policy now =
     (case verify_signature E vc of
        Err e \<Rightarrow> Some (rejected Vc_Kind (verify_error_display e))
      | Ok _ \<Rightarrow>
          map_option (\<lambda>(not_before, not_expired).
            let checks = \<lparr> chk_signature = True, chk_not_expired = not_expired, chk_not_before = not_before,
                chk_issuer_trusted = issuer_trusted policy (Some (did_as_str (vc_issuer vc))),
                chk_audience = True, chk_scopes = True,
                chk_not_revoked = (vc_id vc |\<notin>| tp_revoked_jti policy) \<rparr>
            in \<lparr> out_valid = checks_all checks, out_kind = Vc_Kind,
                 out_subject = Some (did_as_str (subj_id (vc_subject vc))),
                 out_issuer = Some (did_as_str (vc_issuer vc)),
                 out_scopes = [], out_roles = [],
                 out_checks = checks, out_reason = first_failure checks \<rparr>)
            (validity_at_debug vc now (tp_leeway_secs policy)))"

section \<open>When the build with overflow checks panics\<close>

definition jwt_overflows :: "jwt_claims \<Rightarrow> trust_policy \<Rightarrow> i64 \<Rightarrow> bool" where
  "jwt_overflows c p now \<longleftrightarrow>
     claim_exp c \<noteq> None \<and> \<not> i64_fits (sint now - sint (tp_leeway_secs p))
   \<or> claim_nbf c \<noteq> None \<and> \<not> i64_fits (sint now + sint (tp_leeway_secs p))"

definition credential_overflows :: "verifiable_credential \<Rightarrow> trust_policy \<Rightarrow> i64 \<Rightarrow> bool" where
  "credential_overflows vc p now \<longleftrightarrow>
     vc_expires_at vc \<noteq> None \<and> \<not> i64_fits (sint now - sint (tp_leeway_secs p))
   \<or> \<not> i64_fits (sint now + sint (tp_leeway_secs p))"

lemma jwt_checks_debug_eq:
  "jwt_checks_debug c p now = (if jwt_overflows c p now then None else Some (jwt_checks c p now))"
  by (cases "claim_exp c"; cases "claim_nbf c")
    (auto simp: jwt_checks_debug_def jwt_overflows_def checked_add_def checked_sub_def add_fits_def sub_fits_def
      jwt_checks_def Let_def)

lemma validity_at_debug_eq:
  "validity_at_debug vc now (tp_leeway_secs p)
     = (if credential_overflows vc p now then None else Some (validity_at vc now (tp_leeway_secs p)))"
  by (cases "vc_expires_at vc")
    (auto simp: validity_at_debug_def credential_overflows_def checked_add_def checked_sub_def add_fits_def
      sub_fits_def validity_at_def Let_def)

lemma verify_jwt_debug_eq:
  "verify_jwt_debug E token keys p now =
     (if \<exists>j. signed_jwt_parse E token = Ok j \<and> signed_jwt_verify_with E j keys = Ok ()
           \<and> jwt_overflows (sj_claims j) p now
      then None else Some (verify_jwt E token keys p now))"
proof (cases rule: verify_jwt_cases [of E token keys p now])
  case (rejected e)
  then show ?thesis by (auto simp: verify_jwt_debug_def)
next
  case (authenticated j)
  then show ?thesis by (simp add: verify_jwt_debug_def jwt_checks_debug_eq Let_def)
qed

lemma verify_credential_debug_eq:
  "verify_credential_debug E vc p now =
     (if verify_signature E vc = Ok () \<and> credential_overflows vc p now
      then None else Some (verify_credential E vc p now))"
proof (cases rule: verify_credential_cases [of E vc p now])
  case (rejected e)
  then show ?thesis by (simp add: verify_credential_debug_def)
next
  case authenticated
  then show ?thesis
    by (simp add: verify_credential_debug_def validity_at_debug_eq credential_checks_def Let_def
        split: prod.split)
qed

text \<open>
  C30: The two builds. A build with overflow checks decides every token and every credential like the
  release build, except that it panics, exactly when the artifact is authentic and an addition or
  subtraction that its dates call for does not fit 64 bits; so a forged artifact never panics it,
  and nothing does while time and leeway add up.
\<close>

theorem debug_build_agrees:
  "verify_jwt_debug E token keys p now =
     (if \<exists>j. signed_jwt_parse E token = Ok j \<and> signed_jwt_verify_with E j keys = Ok ()
           \<and> (claim_exp (sj_claims j) \<noteq> None \<and> \<not> i64_fits (sint now - sint (tp_leeway_secs p))
              \<or> claim_nbf (sj_claims j) \<noteq> None \<and> \<not> i64_fits (sint now + sint (tp_leeway_secs p)))
      then None else Some (verify_jwt E token keys p now))
   \<and> verify_credential_debug E vc p now =
     (if verify_signature E vc = Ok ()
         \<and> (vc_expires_at vc \<noteq> None \<and> \<not> i64_fits (sint now - sint (tp_leeway_secs p))
            \<or> \<not> i64_fits (sint now + sint (tp_leeway_secs p)))
      then None else Some (verify_credential E vc p now))"
  using verify_jwt_debug_eq verify_credential_debug_eq
  unfolding jwt_overflows_def credential_overflows_def by (rule conjI)

theorem debug_build_agrees_witness:
  "verify_jwt_debug sample_env sample_minted (sample_jwks sample_env 5) (with_leeway permissive 9223372036854775807) 1500 = None
   \<and> verify_jwt_debug sample_env ''a.b'' (sample_jwks sample_env 5) (with_leeway permissive 9223372036854775807) 1500 \<noteq> None"
proof -
  let ?p = "with_leeway permissive 9223372036854775807"
  obtain j where j: "signed_jwt_parse sample_env sample_minted = Ok j" "sj_claims j = sample_claims"
    "signed_jwt_verify_with sample_env j (sample_jwks sample_env 5) = Ok ()"
    by (rule sample_minted_parses)
  have "claim_nbf sample_claims \<noteq> None" "\<not> i64_fits (sint (1500 :: i64) + sint (tp_leeway_secs ?p))"
    by (simp_all add: sample_claims_def with_leeway_def i64_fits_def)
  with j have "verify_jwt_debug sample_env sample_minted (sample_jwks sample_env 5) ?p 1500 = None"
    using debug_build_agrees [of sample_env sample_minted "sample_jwks sample_env 5" ?p 1500 sample_vc] by auto
  moreover have "signed_jwt_parse sample_env ''a.b'' = Err (MalformedJwt ''expected exactly three dot-separated segments'')"
    by (simp add: signed_jwt_parse_def)
  then have "verify_jwt_debug sample_env ''a.b'' (sample_jwks sample_env 5) ?p 1500 \<noteq> None"
    using debug_build_agrees [of sample_env "''a.b''" "sample_jwks sample_env 5" ?p 1500 sample_vc] by simp
  ultimately show ?thesis by blast
qed

text \<open>A non-negative time and leeway below half the range never panic.\<close>

lemma moderate_never_panics:
  assumes "0 \<le> sint now" "sint now < 2 ^ 62" "0 \<le> sint (tp_leeway_secs p)" "sint (tp_leeway_secs p) < 2 ^ 62"
  shows "verify_jwt_debug E token keys p now = Some (verify_jwt E token keys p now)"
    "verify_credential_debug E vc p now = Some (verify_credential E vc p now)"
proof -
  have "i64_fits (sint now - sint (tp_leeway_secs p))" "i64_fits (sint now + sint (tp_leeway_secs p))"
    using assms by (simp_all add: i64_fits_def)
  then show "verify_jwt_debug E token keys p now = Some (verify_jwt E token keys p now)"
    "verify_credential_debug E vc p now = Some (verify_credential E vc p now)"
    by (simp_all add: verify_jwt_debug_eq verify_credential_debug_eq jwt_overflows_def credential_overflows_def)
qed

section \<open>Nobody reaches the panic without a key\<close>

text \<open>
  The service in such a build: a panic unwinds out of the handler before anything is recorded.
\<close>

definition service_verify_jwt_debug ::
  "('vk, 'sk, 'y) jwt_env_scheme \<Rightarrow> ('ch, 'z) broadcast_env_scheme \<Rightarrow> (nat, unit) result \<Rightarrow>
     string \<Rightarrow> policy_override option \<Rightarrow> 'ch edge_verifier \<Rightarrow>
     verification_outcome option \<times> 'ch edge_verifier" where
  "service_verify_jwt_debug E B os token over s =
     (let policy = effective_policy s over;
          keys = provider_current (sv_jwks s);
          now = now_unix os (sv_clock s)
      in case verify_jwt_debug E token keys policy now of
           None \<Rightarrow> (None, s)
         | Some out \<Rightarrow> (Some out, service_record B out now s))"

lemma service_debug_agrees:
  "service_verify_jwt_debug E B os token over s =
     (if verify_jwt_debug E token (service_jwks s) (effective_policy s over) (service_now os s) = None
      then (None, s)
      else (case service_verify_jwt E B os token over s of (out, s') \<Rightarrow> (Some out, s')))"
  by (auto simp: service_verify_jwt_debug_def service_verify_jwt_def service_jwks_def service_now_def Let_def
      verify_jwt_debug_eq)

end
