(* ===== verification/Refresher_Recovery.thy ===== *)
theory Refresher_Recovery
  imports Node_Startup
begin

text \<open>
  The refresher of \<open>edgeauth-node/src/startup.rs\<close> with everything under it: interval timer, service,
  provider, breaker, retries and timeouts. Whatever the issuer did before, once it answers again
  the node has its keys after at most three ticks.
\<close>

section \<open>The environment\<close>

text \<open>Time does not run backwards while the node waits, sleeps or talks to the network.\<close>

definition time_forward :: "('w, 'r, 'z) net_env_scheme \<Rightarrow> bool" where
  "time_forward N \<longleftrightarrow>
     (\<forall>url w. ext_mono_now N w \<le> ext_mono_now N (snd (ext_http_get N url w)))
   \<and> (\<forall>resp w. ext_mono_now N w \<le> ext_mono_now N (snd (ext_body_text N resp w)))
   \<and> (\<forall>d w. ext_mono_now N w \<le> ext_mono_now N (ext_sleep N d w))
   \<and> (\<forall>d f. (\<forall>w. ext_mono_now N w \<le> ext_mono_now N (snd (f w))) \<longrightarrow>
         (\<forall>w. ext_mono_now N w \<le> ext_mono_now N (snd (ext_timeout N d f w))))"

definition ticks_by :: "('w, 'r, 'z) net_env_scheme \<Rightarrow> (duration \<Rightarrow> 'w \<Rightarrow> 'w) \<Rightarrow> bool" where
  \<comment> \<open>an interval timer waits at least its period\<close>
  "ticks_by N tick \<longleftrightarrow> (\<forall>d w. ext_mono_now N w + d \<le> ext_mono_now N (tick d w))"

definition issuer_answers ::
  "('w, 'r, 'z) net_env_scheme \<Rightarrow> (duration \<Rightarrow> 'w \<Rightarrow> 'w) \<Rightarrow> string \<Rightarrow> string \<Rightarrow> ('w \<Rightarrow> bool) \<Rightarrow> bool" where
  \<comment> \<open>in the worlds \<open>up\<close>, which are not left, the URL is answered with \<open>body\<close> in time\<close>
  "issuer_answers N tick url body up \<longleftrightarrow>
     (\<forall>w. up w \<longrightarrow> (\<exists>resp w1 w2. ext_http_get N url w = (Ok resp, w1) \<and> ext_status_success N resp
        \<and> ext_body_text N resp w1 = (Ok body, w2) \<and> up w2))
   \<and> (\<forall>d f w. up w \<and> up (snd (f w)) \<longrightarrow> ext_timeout N d f w = (Some (fst (f w)), snd (f w)))
   \<and> (\<forall>d w. up w \<longrightarrow> up (tick d w))"

section \<open>A refresh moves forward in time\<close>

lemma fetch_once_time:
  "time_forward N \<Longrightarrow> ext_mono_now N w \<le> ext_mono_now N (snd (fetch_once E N url w))"
proof -
  assume t: "time_forward N"
  obtain r w1 where g: "ext_http_get N url w = (r, w1)" by (cases "ext_http_get N url w")
  have a: "ext_mono_now N w \<le> ext_mono_now N w1"
    using t g unfolding time_forward_def by (metis snd_conv)
  have b: "ext_mono_now N w1 \<le> ext_mono_now N (snd (ext_body_text N resp w1))" for resp
    using t unfolding time_forward_def by blast
  show ?thesis
    using a b le_trans [OF a b]
    by (auto simp: fetch_once_def g split: sum.splits prod.splits) (metis snd_conv)+
qed

lemma fetch_attempt_time:
  assumes "time_forward N"
  shows "ext_mono_now N w \<le> ext_mono_now N (snd (fetch_attempt E N p w))"
proof -
  have "ext_mono_now N w \<le> ext_mono_now N (snd (ext_timeout N (cp_per_attempt_timeout p) (fetch_once E N (cp_url p)) w))"
    using fetch_once_time [OF assms] assms unfolding time_forward_def by blast
  then show ?thesis
    by (auto simp: fetch_attempt_def with_timeout_def split: prod.splits sum.splits)
qed

lemma before_attempt_time:
  assumes "\<And>w. ext_mono_now N w \<le> ext_mono_now N (snd (op w))" and "time_forward N"
  shows "ext_mono_now N w \<le> ext_mono_now N (before_attempt p op (ext_sleep N) k w)"
proof (induction k)
  case (Suc k)
  note Suc
  also have "ext_mono_now N (before_attempt p op (ext_sleep N) k w)
      \<le> ext_mono_now N (snd (op (before_attempt p op (ext_sleep N) k w)))" by (rule assms(1))
  also have "\<dots> \<le> ext_mono_now N (before_attempt p op (ext_sleep N) (Suc k) w)"
    using assms(2) by (simp add: time_forward_def)
  finally show ?case .
qed simp

lemma refresh_fetch_time:
  assumes "time_forward N" "refresh_fetch E N p w = (r, w')"
  shows "ext_mono_now N w \<le> ext_mono_now N w'"
proof -
  let ?op = "fetch_attempt E N p"
  obtain k where "w' = snd (?op (before_attempt (cp_retry_policy p) ?op (ext_sleep N) k w))"
    using assms(2) retry_from_op [of "cp_retry_policy p" ?op "ext_sleep N" w] by (auto simp: refresh_fetch_def)
  then show ?thesis
    using before_attempt_time [of N ?op w "cp_retry_policy p" k] fetch_attempt_time [OF assms(1)] assms(1) le_trans by blast
qed

section \<open>What every refresh keeps\<close>

definition provider_inv :: "('w, 'r, 'z) net_env_scheme \<Rightarrow> string \<Rightarrow> cached_provider \<Rightarrow> 'w \<Rightarrow> bool" where
  "provider_inv N url p w \<longleftrightarrow> cp_url p = url \<and> cp_breaker_config p = default_breaker_config
     \<and> breaker_inv default_breaker_config (ext_mono_now N w) (cp_breaker p)"

lemma provider_inv_later:
  "provider_inv N url p w \<Longrightarrow> ext_mono_now N w \<le> ext_mono_now N w' \<Longrightarrow> provider_inv N url p w'"
  by (auto simp: provider_inv_def intro: breaker_inv_later)

text \<open>A refresh is a guarded call in the sense of \<open>call_guard\<close>: ask, fetch, report.\<close>

lemma cached_refresh_guarded:
  assumes "cached_refresh E N p w = (r, p', w')"
  obtains ok b success where
    "breaker_admit (cp_breaker_config p) (ext_mono_now N w) (cp_breaker p) = (ok, b)"
    "cp_breaker p' = (if \<not> ok then cp_breaker p else if success then breaker_record_success b
       else breaker_record_failure (cp_breaker_config p) (ext_mono_now N w') b)"
    "cp_url p' = cp_url p" "cp_breaker_config p' = cp_breaker_config p"
    "w' = w \<or> (\<exists>q r. refresh_fetch E N q w = (r, w'))"
proof (cases rule: cached_refresh_cases [of p N w E])
  case (refused t)
  with assms show ?thesis
    by (intro that [of False "cp_breaker p"]) (simp_all add: breaker_admit_def acquire_open_window)
next
  case (fetched b ks v)
  with assms show ?thesis
    by (intro that [of True b True]) (auto simp: breaker_admit_def report_success_def write_cache_def)
next
  case (failed b e v)
  with assms show ?thesis
    by (intro that [of True b False]) (auto simp: breaker_admit_def report_failure_def)
qed

lemma provider_inv_refresh:
  assumes "time_forward N" "provider_inv N url p w" "cached_refresh E N p w = (r, p', w')"
  shows "provider_inv N url p' w'"
  using assms(3)
proof (rule cached_refresh_guarded)
  fix ok b success
  assume admit: "breaker_admit (cp_breaker_config p) (ext_mono_now N w) (cp_breaker p) = (ok, b)"
    and breaker: "cp_breaker p' = (if \<not> ok then cp_breaker p else if success then breaker_record_success b
       else breaker_record_failure (cp_breaker_config p) (ext_mono_now N w') b)"
    and same: "cp_url p' = cp_url p" "cp_breaker_config p' = cp_breaker_config p"
    and "w' = w \<or> (\<exists>q r. refresh_fetch E N q w = (r, w'))"
  then have "ext_mono_now N w \<le> ext_mono_now N w'"
    using refresh_fetch_time [OF assms(1)] by blast
  moreover have "breaker_inv (cp_breaker_config p) (ext_mono_now N w) (cp_breaker p)"
    using assms(2) by (simp add: provider_inv_def)
  ultimately have "breaker_inv (cp_breaker_config p) (ext_mono_now N w') (cp_breaker p')"
    unfolding breaker using admit by (intro breaker_guard.inv_guarded)
  with same assms(2) show ?thesis by (simp add: provider_inv_def)
qed

definition node_inv :: "('w, 'r, 'z) net_env_scheme \<Rightarrow> string \<Rightarrow> 'ch edge_verifier \<Rightarrow> 'w \<Rightarrow> bool" where
  "node_inv N url v w \<longleftrightarrow> (\<exists>p. sv_jwks v = Cached_Provider p \<and> provider_inv N url p w)"

lemma node_inv_refresh:
  "time_forward N \<Longrightarrow> node_inv N url v w \<Longrightarrow> service_refresh E N v w = (r, v', w') \<Longrightarrow> node_inv N url v' w'"
  by (auto simp: node_inv_def service_refresh_def dest: provider_inv_refresh split: prod.splits)

lemma node_inv_tick:
  "ticks_by N tick \<Longrightarrow> node_inv N url v w \<Longrightarrow> node_inv N url v (tick d w)"
  by (auto simp: node_inv_def ticks_by_def intro!: provider_inv_later [of N url _ w] dest: add_leD1)

lemma node_inv_ticks:
  assumes "time_forward N" "ticks_by N tick"
  shows "node_inv N url v w \<Longrightarrow> refresher_ticks E N tick period n v w = (rs, v', w') \<Longrightarrow> node_inv N url v' w'"
proof (induction n arbitrary: v w rs)
  case (Suc n)
  obtain r v1 w1 where one: "service_refresh E N v (tick period w) = (r, v1, w1)"
    by (cases "service_refresh E N v (tick period w)")
  obtain rs1 where rest: "refresher_ticks E N tick period n v1 w1 = (rs1, v', w')"
    using Suc.prems(2) by (auto simp: one split: prod.splits)
  have "node_inv N url v1 w1"
    using node_inv_refresh [OF assms(1) node_inv_tick [OF assms(2) Suc.prems(1)] one] .
  then show ?case using rest by (rule Suc.IH)
qed simp

section \<open>Once the issuer answers\<close>

definition waiting :: "('w, 'r, 'z) net_env_scheme \<Rightarrow> 'ch edge_verifier \<Rightarrow> 'w \<Rightarrow> nat \<Rightarrow> duration \<Rightarrow> bool" where
  \<comment> \<open>an open breaker has cooled down after \<open>q\<close> more periods\<close>
  "waiting N v w q period \<longleftrightarrow>
     (\<forall>p t. sv_jwks v = Cached_Provider p \<and> raw_state (cp_breaker p) = RawOpen t \<longrightarrow>
        t + cfg_open_duration (cp_breaker_config p) \<le> ext_mono_now N w + q * period)"

lemma up_attempt:
  assumes "issuer_answers N tick url body up" "jwks_from_json E body = Ok ks" "up w" "cp_url p = url"
  shows "\<exists>w'. fetch_attempt E N p w = (Ok ks, w') \<and> up w'"
proof -
  obtain resp w1 w2 where "ext_http_get N url w = (Ok resp, w1)" "ext_status_success N resp"
    "ext_body_text N resp w1 = (Ok body, w2)" and up: "up w2"
    using assms(1,3) unfolding issuer_answers_def by blast
  then have once: "fetch_once E N url w = (Ok ks, w2)"
    by (simp add: fetch_once_def assms(2))
  then have "ext_timeout N (cp_per_attempt_timeout p) (fetch_once E N url) w = (Some (Ok ks), w2)"
    using assms(1,3) up unfolding issuer_answers_def by (metis fst_conv snd_conv)
  then show ?thesis
    using up assms(4) by (simp add: fetch_attempt_def with_timeout_def)
qed

lemma up_fetch:
  assumes "issuer_answers N tick url body up" "jwks_from_json E body = Ok ks" "up w" "cp_url p = url"
  shows "\<exists>w'. refresh_fetch E N p w = (Some (Ok ks), w') \<and> up w'"
proof -
  let ?op = "fetch_attempt E N p"
  obtain w' where a: "?op w = (Ok ks, w')" "up w'"
    using up_attempt [OF assms] by blast
  then have "decisive_attempt (cp_retry_policy p) ?op (ext_sleep N) w \<le> 0"
    by (intro conjunct1 [OF decisive_attempt_succeeds]) (simp_all add: attempt_limit_pos)
  then show ?thesis
    using a by (simp add: refresh_fetch_def retry_decisive Let_def)
qed

text \<open>One tick: an open circuit refuses it and changes nothing, or the keys arrive.\<close>

lemma up_refresh:
  assumes "issuer_answers N tick url body up" "jwks_from_json E body = Ok ks" "up w" "node_inv N url v w"
  obtains (refused) p t where "sv_jwks v = Cached_Provider p" "raw_state (cp_breaker p) = RawOpen t"
      "ext_mono_now N w < t + cfg_open_duration (cp_breaker_config p)"
      "service_refresh E N v w = (Some (Err InfraCircuitOpen), v, w)"
  | (fetched) v' w' where "service_refresh E N v w = (Some (Ok ()), v', w')" "up w'" "node_inv N url v' w'"
      "service_jwks v' = ks" "\<And>q period. waiting N v' w' q period"
proof -
  obtain p where p: "sv_jwks v = Cached_Provider p" "provider_inv N url p w"
    using assms(4) by (auto simp: node_inv_def)
  show ?thesis
  proof (cases rule: cached_refresh_cases [of p N w E])
    case (refused t)
    moreover have "t \<le> ext_mono_now N w"
      using p(2) refused(1) by (simp add: provider_inv_def breaker_inv_def)
    moreover have "v\<lparr>sv_jwks := Cached_Provider p\<rparr> = v"
      using p(1) by (metis (no_types) edge_verifier.surjective edge_verifier.update_convs(1) edge_verifier.select_convs(1))
    ultimately show ?thesis
      using p(1) by (intro that(1) [of p t]) (simp_all add: service_refresh_def)
  next
    case (fetched b ks' w')
    obtain w2 where "refresh_fetch E N (p\<lparr>cp_breaker := b\<rparr>) w = (Some (Ok ks), w2)" "up w2"
      using up_fetch [OF assms(1-3), of "p\<lparr>cp_breaker := b\<rparr>"] p(2) by (auto simp: provider_inv_def)
    with fetched(2) have "ks' = ks" "up w'" by simp_all
    with fetched(3) p show ?thesis
      by (intro that(2)) (auto simp: service_refresh_def node_inv_def provider_inv_def service_jwks_def waiting_def
          report_success_def write_cache_def breaker_inv_success [unfolded breaker_record_success_def]
          breaker_record_success_def)
  next
    case (failed b e w')
    obtain w2 where "refresh_fetch E N (p\<lparr>cp_breaker := b\<rparr>) w = (Some (Ok ks), w2)"
      using up_fetch [OF assms(1-3), of "p\<lparr>cp_breaker := b\<rparr>"] p(2) by (auto simp: provider_inv_def)
    with failed(2) show ?thesis by simp
  qed
qed

lemma waiting_fetched:
  assumes "waiting N v w (Suc q) period" "ext_mono_now N w + period \<le> ext_mono_now N w'"
  shows "waiting N v w' q period"
  using assms by (fastforce simp: waiting_def)

lemma up_ticks:
  assumes "issuer_answers N tick url body up" "jwks_from_json E body = Ok ks" "ticks_by N tick"
  shows "up w \<Longrightarrow> node_inv N url v w \<Longrightarrow> waiting N v w (Suc q) period \<Longrightarrow>
      refresher_ticks E N tick period m v w = (rs, v', w') \<Longrightarrow>
     \<exists>k \<le> q. rs = replicate (min k m) (Some (Err InfraCircuitOpen)) @ replicate (m - k) (Some (Ok ()))
       \<and> (k < m \<longrightarrow> service_jwks v' = ks)"
proof (induction m arbitrary: v w q rs)
  case 0
  then show ?case by (intro exI [of _ 0]) simp
next
  case (Suc m)
  have up: "up (tick period w)" using assms(1) Suc.prems(1) by (simp add: issuer_answers_def)
  have time: "ext_mono_now N w + period \<le> ext_mono_now N (tick period w)"
    using assms(3) by (simp add: ticks_by_def)
  note inv = node_inv_tick [OF assms(3) Suc.prems(2), of period]
  show ?case
  proof (cases rule: up_refresh [OF assms(1,2) up inv, case_names refused fetched])
    case (refused p t)
    obtain q' where q: "q = Suc q'"
      using Suc.prems(3) refused(1-3) time by (cases q) (auto simp: waiting_def)
    obtain rs1 where rest: "refresher_ticks E N tick period m v (tick period w) = (rs1, v', w')"
      "rs = Some (Err InfraCircuitOpen) # rs1"
      using Suc.prems(4) by (auto simp: refused(4) split: prod.splits)
    have "waiting N v (tick period w) (Suc q') period"
      using Suc.prems(3) time unfolding q by (rule waiting_fetched)
    from Suc.IH [OF up inv this rest(1)] obtain k where "k \<le> q'"
      "rs1 = replicate (min k m) (Some (Err InfraCircuitOpen)) @ replicate (m - k) (Some (Ok ()))"
      "k < m \<longrightarrow> service_jwks v' = ks" by blast
    then show ?thesis
      using rest(2) q by (intro exI [of _ "Suc k"]) simp
  next
    case (fetched v1 w1)
    obtain rs1 where rest: "refresher_ticks E N tick period m v1 w1 = (rs1, v', w')" "rs = Some (Ok ()) # rs1"
      using Suc.prems(4) by (auto simp: fetched(1) split: prod.splits)
    from Suc.IH [OF fetched(2,3) fetched(5) rest(1), of 0] have
      "rs1 = replicate m (Some (Ok ())) \<and> (0 < m \<longrightarrow> service_jwks v' = ks)" by auto
    moreover have "m = 0 \<Longrightarrow> v' = v1" using rest(1) by simp
    ultimately show ?thesis
      using rest(2) fetched(4) by (intro exI [of _ 0]) auto
  qed
qed

lemma started_inv:
  assumes "build_state E N B G c rps = Some (Ok st)" "ca_jwks_url c = Some url"
  shows "node_inv N url (ss_verifier st) w"
  using assms
  by (auto simp: build_state_def Let_def service_new_def service_state_new_def cached_new_def node_inv_def
      provider_inv_def split: option.splits sum.splits)

text \<open>
  C21: A node catches up with its issuer. Whatever the initial refresh and any number of ticks met
  before (outages, timeouts, broken documents, an open circuit), once the configured URL answers in
  time with a readable key set, at most two more refreshes are refused by the cooling circuit; every
  later one succeeds, and from the third tick on the node serves exactly the published keys.
\<close>

theorem refresher_catches_up:
  assumes "build_state E N B G c rps = Some (Ok st)" and "ca_jwks_url c = Some url"
    and "spawn_jwks_refresher E N tick secs n (ss_verifier st) w = (rs, v, w1)"
    and "time_forward N" and "ticks_by N tick"
    and "issuer_answers N tick url body up" and "jwks_from_json E body = Ok ks" and "up w1"
    and "refresher_ticks E N tick (refresh_period secs) m v w1 = (rs', v', w')"
  shows "\<exists>k \<le> 2. rs' = replicate (min k m) (Some (Err InfraCircuitOpen)) @ replicate (m - k) (Some (Ok ()))
      \<and> (3 \<le> m \<longrightarrow> service_jwks v' = ks)"
proof -
  obtain r v0 w0 where first: "service_refresh E N (ss_verifier st) w = (r, v0, w0)"
    by (cases "service_refresh E N (ss_verifier st) w")
  obtain rs0 where ticks: "refresher_ticks E N tick (refresh_period secs) n v0 w0 = (rs0, v, w1)"
    using assms(3) by (auto simp: spawn_jwks_refresher_def first split: prod.splits)
  have inv: "node_inv N url v w1"
    using node_inv_ticks [OF assms(4,5) node_inv_refresh [OF assms(4) started_inv [OF assms(1,2)] first] ticks] .
  have "from_secs 30 \<le> 3 * refresh_period secs"
    by (simp add: refresh_period_def from_secs_def)
  with inv have "waiting N v w1 (Suc 2) (refresh_period secs)"
    by (auto simp: waiting_def node_inv_def provider_inv_def breaker_inv_def default_breaker_config_def)
  from up_ticks [OF assms(6,7,5,8) inv this assms(9)] show ?thesis
    by (elim exE conjE, intro exI conjI impI) auto
qed

text \<open>A network in which time is the world and a request takes a nanosecond.\<close>

definition clocked_net :: "string \<Rightarrow> (nat, unit) net_env" where
  "clocked_net body = (live_net body)\<lparr>ext_sleep := (\<lambda>d w. w + d), ext_mono_now := (\<lambda>w. w)\<rparr>"

lemma clocked_net_documented:
  "time_forward (clocked_net body)" "ticks_by (clocked_net body) (\<lambda>d w. w + d)"
  "issuer_answers (clocked_net body) (\<lambda>d w. w + d) url body (\<lambda>_. True)"
  by (auto simp: time_forward_def ticks_by_def issuer_answers_def clocked_net_def live_net_def dead_net_def
      split: prod.splits) (metis snd_conv)

theorem refresher_catches_up_witness:
  "\<exists>body st rs v w1 rs' v' w'.
     build_state (sample_jwt_env [] [] [jwks_from_keys []] ()) (clocked_net body) list_channel counting_governor remote_args 100 = Some (Ok st)
     \<and> spawn_jwks_refresher (sample_jwt_env [] [] [jwks_from_keys []] ()) (clocked_net body) (\<lambda>d w. w + d) 300 5 (ss_verifier st) 0 = (rs, v, w1)
     \<and> refresher_ticks (sample_jwt_env [] [] [jwks_from_keys []] ()) (clocked_net body) (\<lambda>d w. w + d) (refresh_period 300) 3 v w1 = (rs', v', w')
     \<and> service_jwks v' = jwks_from_keys []"
proof -
  let ?E = "sample_jwt_env [] [] [jwks_from_keys []] ()"
  obtain body where "table_from_str [jwks_from_keys []] body = Ok (jwks_from_keys [])"
    using table_string_roundtrip [of "jwks_from_keys []" "[jwks_from_keys []]"] by auto
  then have json: "jwks_from_json ?E body = Ok (jwks_from_keys [])"
    by (simp add: jwks_from_json_def sample_jwt_env_def sample_primitives_def)
  let ?N = "clocked_net body" and ?tick = "\<lambda>d w :: nat. w + d"
  have url: "ca_jwks_url remote_args = Some ''https://issuer.example/jwks.json''"
    by (simp add: remote_args_def)
  have "ext_client_build ?N USER_AGENT = Ok ()"
    by (simp add: clocked_net_def live_net_def dead_net_def)
  then obtain st where st: "build_state ?E ?N list_channel counting_governor remote_args 100 = Some (Ok st)"
    using build_state_remote [OF url] by blast
  obtain rs v w1 where sp: "spawn_jwks_refresher ?E ?N ?tick 300 5 (ss_verifier st) 0 = (rs, v, w1)"
    by (metis prod.exhaust)
  obtain rs' v' w' where run: "refresher_ticks ?E ?N ?tick (refresh_period 300) 3 v w1 = (rs', v', w')"
    by (metis prod.exhaust)
  have "service_jwks v' = jwks_from_keys []"
    using refresher_catches_up [OF st url sp clocked_net_documented json TrueI run] by blast
  with st sp run show ?thesis by blast
qed

end
