(* ===== verification/Service_Metrics.thy ===== *)
theory Service_Metrics
  imports Service
begin

text \<open>
  The counters of the \<open>metrics\<close> crate that \<open>edgeauth-infra/src/service.rs\<close> and \<open>jwks.rs\<close> increment.
  The recorder is a parameter, with the law of a counter. Each operation is given again with the
  increment at its place in the code; forgetting the metrics gives the operations of \<open>Service\<close> and
  \<open>Jwks_Provider\<close> back, so what is proved there holds of a metered node.
\<close>

section \<open>Counters\<close>

datatype metric_key = Metric_Key string "(string \<times> string) list"

record 'm metrics_env =
  ext_increment :: "metric_key \<Rightarrow> u64 \<Rightarrow> 'm \<Rightarrow> 'm"
  ext_counter :: "'m \<Rightarrow> metric_key \<Rightarrow> u64"

definition metrics_documented :: "('m, 'z) metrics_env_scheme \<Rightarrow> bool" where
  "metrics_documented M \<longleftrightarrow>
     (\<forall>k n m k'. ext_counter M (ext_increment M k n m) k' = (if k' = k then ext_counter M m k + n else ext_counter M m k'))"

definition verification_metric :: "verification_outcome \<Rightarrow> metric_key" where
  "verification_metric out =
     (let result = (if out_valid out then ''accepted'' else ''rejected'')
      in Metric_Key ''edgeauth_verifications_total''
           [(''kind'', token_kind_as_str (out_kind out)), (''result'', result)])"

definition refresh_metric :: "string \<Rightarrow> metric_key" where
  "refresh_metric result = Metric_Key ''edgeauth_jwks_refresh_total'' [(''result'', result)]"

section \<open>Metered operations\<close>

definition metered_record ::
  "('m, 'q) metrics_env_scheme \<Rightarrow> ('ch, 'z) broadcast_env_scheme \<Rightarrow> verification_outcome \<Rightarrow> i64 \<Rightarrow>
     'ch edge_verifier \<times> 'm \<Rightarrow> 'ch edge_verifier \<times> 'm" where
  "metered_record M B out now sm =
     (case sm of (s, m) \<Rightarrow>
      let s1 = s\<lparr>sv_counters := count_outcome out (sv_counters s)\<rparr>;
          m1 = ext_increment M (verification_metric out) 1 m
      in (s1\<lparr>sv_audit := audit_record B (event_from_outcome out now) (sv_audit s1)\<rparr>, m1))"

definition metered_verify_jwt ::
  "('m, 'q) metrics_env_scheme \<Rightarrow> ('vk, 'sk, 'y) jwt_env_scheme \<Rightarrow> ('ch, 'z) broadcast_env_scheme \<Rightarrow>
     (nat, unit) result \<Rightarrow> string \<Rightarrow> policy_override option \<Rightarrow> 'ch edge_verifier \<times> 'm \<Rightarrow>
     verification_outcome \<times> 'ch edge_verifier \<times> 'm" where
  "metered_verify_jwt M E B os token over sm =
     (let policy = effective_policy (fst sm) over;
          keys = provider_current (sv_jwks (fst sm));
          now = now_unix os (sv_clock (fst sm));
          out = verify_jwt E token keys policy now
      in (out, metered_record M B out now sm))"

definition metered_verify_credential_json ::
  "('m, 'q) metrics_env_scheme \<Rightarrow> ('vk, 'sk, 'y) vc_env_scheme \<Rightarrow> ('ch, 'z) broadcast_env_scheme \<Rightarrow>
     (nat, unit) result \<Rightarrow> string \<Rightarrow> policy_override option \<Rightarrow> 'ch edge_verifier \<times> 'm \<Rightarrow>
     (verification_outcome, verify_error) result \<times> 'ch edge_verifier \<times> 'm" where
  "metered_verify_credential_json M E B os json over sm =
     (let policy = effective_policy (fst sm) over;
          now = now_unix os (sv_clock (fst sm))
      in case verify_credential_json E json policy now of
           Err e \<Rightarrow> (Err e, sm)
         | Ok out \<Rightarrow> (Ok out, metered_record M B out now sm))"

definition metered_refresh_end ::
  "('m, 'q) metrics_env_scheme \<Rightarrow> ('w, 'r, 'z) net_env_scheme \<Rightarrow> (jwks, infra_error) result \<Rightarrow>
     cached_provider \<Rightarrow> 'w \<Rightarrow> 'm \<Rightarrow> (unit, infra_error) result \<times> cached_provider \<times> 'm" where
  "metered_refresh_end M N fetched p w m =
     (case fetched of
        Ok ks \<Rightarrow> (Ok (), report_success (write_cache ks p), ext_increment M (refresh_metric ''ok'') 1 m)
      | Err e \<Rightarrow> (Err e, report_failure (ext_mono_now N w) p, ext_increment M (refresh_metric ''error'') 1 m))"

definition metered_cached_refresh ::
  "('m, 'q) metrics_env_scheme \<Rightarrow> ('vk, 'sk, 'y) jwt_env_scheme \<Rightarrow> ('w, 'r, 'z) net_env_scheme \<Rightarrow>
     cached_provider \<Rightarrow> 'w \<Rightarrow> 'm \<Rightarrow> (unit, infra_error) result option \<times> cached_provider \<times> 'w \<times> 'm" where
  "metered_cached_refresh M E N p w m =
     (case refresh_begin N p w of
        (Err e, p1) \<Rightarrow> (Some (Err e), p1, w, m)
      | (Ok _, p1) \<Rightarrow>
          (case refresh_fetch E N p1 w of
             (None, w1) \<Rightarrow> (None, p1, w1, m)
           | (Some fetched, w1) \<Rightarrow>
               (case metered_refresh_end M N fetched p1 w1 m of (r, p2, m1) \<Rightarrow> (Some r, p2, w1, m1))))"

definition metered_service_refresh ::
  "('m, 'q) metrics_env_scheme \<Rightarrow> ('vk, 'sk, 'y) jwt_env_scheme \<Rightarrow> ('w, 'r, 'z) net_env_scheme \<Rightarrow>
     'ch edge_verifier \<times> 'm \<Rightarrow> 'w \<Rightarrow> (unit, infra_error) result option \<times> ('ch edge_verifier \<times> 'm) \<times> 'w" where
  "metered_service_refresh M E N sm w =
     (case sm of (s, m) \<Rightarrow>
      case sv_jwks s of
        Static_Provider ks \<Rightarrow> (Some (Ok ()), (s, m), w)
      | Cached_Provider p \<Rightarrow>
          (case metered_cached_refresh M E N p w m of
             (r, p', w', m') \<Rightarrow> (r, (s\<lparr>sv_jwks := Cached_Provider p'\<rparr>, m'), w')))"

section \<open>Forgetting the metrics\<close>

lemma metered_record_forget:
  "metered_record M B out now (s, m) = (service_record B out now s, ext_increment M (verification_metric out) 1 m)"
  by (simp add: metered_record_def service_record_def Let_def)

lemma metered_verify_jwt_forget:
  "metered_verify_jwt M E B os token over (s, m) =
     (case service_verify_jwt E B os token over s of (out, s') \<Rightarrow>
        (out, s', ext_increment M (verification_metric out) 1 m))"
  by (simp add: metered_verify_jwt_def service_verify_jwt_def metered_record_forget Let_def)

lemma metered_verify_credential_json_forget:
  "metered_verify_credential_json M E B os json over (s, m) =
     (case service_verify_credential_json E B os json over s of
        (Err e, s') \<Rightarrow> (Err e, s', m)
      | (Ok out, s') \<Rightarrow> (Ok out, s', ext_increment M (verification_metric out) 1 m))"
  by (simp add: metered_verify_credential_json_def service_verify_credential_json_def metered_record_forget
      Let_def split: sum.splits)

lemma fetch_once_error: "fst (fetch_once E N url w) \<noteq> Err InfraCircuitOpen"
  by (auto simp: fetch_once_def map_err_def split: prod.splits sum.splits)

lemma fetch_attempt_error:
  "timeout_transparent N \<Longrightarrow> fst (fetch_attempt E N p w) \<noteq> Err InfraCircuitOpen"
  using fetch_once_error [of E N "cp_url p"]
  by (auto simp: fetch_attempt_def with_timeout_def ok_or_def dest: timeout_transparentD
      split: prod.splits sum.splits option.splits)

lemma refresh_fetch_error:
  "timeout_transparent N \<Longrightarrow> refresh_fetch E N p w \<noteq> (Some (Err InfraCircuitOpen), w')"
  using retry_from_op [of "cp_retry_policy p" "fetch_attempt E N p" "ext_sleep N" w]
    fetch_attempt_error [of N E p]
  by (auto simp: refresh_fetch_def) metis

text \<open>What a refresh counts, given what it returned: nothing where the open circuit refused it.\<close>

definition count_refresh ::
  "('m, 'q) metrics_env_scheme \<Rightarrow> (unit, infra_error) result option \<Rightarrow> 'm \<Rightarrow> 'm" where
  "count_refresh M r m =
     (case r of
        None \<Rightarrow> m
      | Some (Ok _) \<Rightarrow> ext_increment M (refresh_metric ''ok'') 1 m
      | Some (Err e) \<Rightarrow> if e = InfraCircuitOpen then m else ext_increment M (refresh_metric ''error'') 1 m)"

lemma metered_cached_refresh_forget:
  assumes "timeout_transparent N"
  shows "metered_cached_refresh M E N p w m =
    (case cached_refresh E N p w of (r, p', w') \<Rightarrow> (r, p', w', count_refresh M r m))"
proof (cases rule: refresh_begin_cases [of p N w])
  case (refused t)
  then show ?thesis by (simp add: metered_cached_refresh_def cached_refresh_def count_refresh_def)
next
  case (admitted b)
  obtain r w' where "refresh_fetch E N (p\<lparr>cp_breaker := b\<rparr>) w = (Some r, w')"
    using refresh_fetch_returns [of E N "p\<lparr>cp_breaker := b\<rparr>" w] by blast
  with admitted refresh_fetch_error [OF assms, of E "p\<lparr>cp_breaker := b\<rparr>" w w'] show ?thesis
    by (cases r) (auto simp: metered_cached_refresh_def cached_refresh_def count_refresh_def
        metered_refresh_end_def refresh_end_def)
qed

definition is_cached :: "jwks_provider \<Rightarrow> bool" where
  "is_cached p = (case p of Static_Provider _ \<Rightarrow> False | Cached_Provider _ \<Rightarrow> True)"

lemma metered_service_refresh_forget:
  assumes "timeout_transparent N"
  shows "metered_service_refresh M E N (s, m) w =
    (case service_refresh E N s w of (r, s', w') \<Rightarrow>
       (r, (s', if is_cached (sv_jwks s) then count_refresh M r m else m), w'))"
  by (cases "sv_jwks s") (auto simp: metered_service_refresh_def service_refresh_def is_cached_def
      metered_cached_refresh_forget [OF assms] split: prod.splits)

section \<open>A run of a metered node\<close>

datatype node_op = Request_Op "(nat, unit) result" request | Refresh_Op

fun metered_op ::
  "('m, 'q) metrics_env_scheme \<Rightarrow> ('vk, 'sk, 'y) vc_env_scheme \<Rightarrow> ('ch, 'z) broadcast_env_scheme \<Rightarrow>
     ('w, 'r, 'x) net_env_scheme \<Rightarrow> node_op \<Rightarrow> ('ch edge_verifier \<times> 'm) \<times> 'w \<Rightarrow>
     (unit, infra_error) result option list \<times> ('ch edge_verifier \<times> 'm) \<times> 'w" where
  "metered_op M E B N (Request_Op os (Token_Request over token)) (sm, w) =
     ([], snd (metered_verify_jwt M E B os token over sm), w)"
| "metered_op M E B N (Request_Op os (Credential_Request over json)) (sm, w) =
     ([], snd (metered_verify_credential_json M E B os json over sm), w)"
| "metered_op M E B N Refresh_Op (sm, w) =
     (case metered_service_refresh M E N sm w of (r, sm', w') \<Rightarrow> ([r], sm', w'))"

primrec metered_run ::
  "('m, 'q) metrics_env_scheme \<Rightarrow> ('vk, 'sk, 'y) vc_env_scheme \<Rightarrow> ('ch, 'z) broadcast_env_scheme \<Rightarrow>
     ('w, 'r, 'x) net_env_scheme \<Rightarrow> node_op list \<Rightarrow> ('ch edge_verifier \<times> 'm) \<times> 'w \<Rightarrow>
     (unit, infra_error) result option list \<times> ('ch edge_verifier \<times> 'm) \<times> 'w" where
  "metered_run M E B N [] c = ([], c)"
| "metered_run M E B N (x # xs) c =
     (case metered_op M E B N x c of (rs, c1) \<Rightarrow>
      case metered_run M E B N xs c1 of (rs', c2) \<Rightarrow> (rs @ rs', c2))"

fun stat_of :: "token_kind \<Rightarrow> bool \<Rightarrow> stats_snapshot \<Rightarrow> u64" where
  "stat_of Jwt_Kind True st = st_jwt_accepted st"
| "stat_of Jwt_Kind False st = st_jwt_rejected st"
| "stat_of Vc_Kind True st = st_vc_accepted st"
| "stat_of Vc_Kind False st = st_vc_rejected st"

definition verification_key :: "token_kind \<Rightarrow> bool \<Rightarrow> metric_key" where
  "verification_key kind valid = Metric_Key ''edgeauth_verifications_total''
     [(''kind'', token_kind_as_str kind), (''result'', if valid then ''accepted'' else ''rejected'')]"

lemma verification_metric_key: "verification_metric out = verification_key (out_kind out) (out_valid out)"
  by (simp add: verification_metric_def verification_key_def Let_def)

lemma verification_key_inject [simp]:
  "verification_key k v = verification_key k' v' \<longleftrightarrow> k = k' \<and> v = v'"
  "verification_key k v \<noteq> refresh_metric r" "refresh_metric r \<noteq> verification_key k v"
  "refresh_metric r = refresh_metric r' \<longleftrightarrow> r = r'"
  by (cases k; cases k'; simp add: verification_key_def refresh_metric_def)+

lemma ext_counter_increment:
  "metrics_documented M \<Longrightarrow>
     ext_counter M (ext_increment M k n m) k' = (if k' = k then ext_counter M m k + n else ext_counter M m k')"
  by (simp add: metrics_documented_def)

lemma stat_of_record:
  "stat_of k v (service_stats (service_record B out now s)) =
     stat_of k v (service_stats s) + (if out_kind out = k \<and> out_valid out = v then 1 else 0)"
  by (cases k; cases v; cases "out_kind out"; cases "out_valid out")
    (simp_all add: service_stats_def service_record_def count_outcome_def)

text \<open>How far a metric is ahead of its statistic; every operation leaves it as it is.\<close>

definition metric_lead ::
  "('m, 'q) metrics_env_scheme \<Rightarrow> token_kind \<Rightarrow> bool \<Rightarrow> 'ch edge_verifier \<times> 'm \<Rightarrow> u64" where
  "metric_lead M k v sm = ext_counter M (snd sm) (verification_key k v) - stat_of k v (service_stats (fst sm))"

lemma metered_record_lead:
  "metrics_documented M \<Longrightarrow> metric_lead M k v (metered_record M B out now sm) = metric_lead M k v sm"
  by (cases sm) (auto simp: metric_lead_def metered_record_forget ext_counter_increment stat_of_record
      verification_metric_key)

lemma metered_record_refreshes:
  "metrics_documented M \<Longrightarrow> ext_counter M (snd (metered_record M B out now sm)) (refresh_metric r)
     = ext_counter M (snd sm) (refresh_metric r)"
  by (cases sm) (simp add: metered_record_forget ext_counter_increment verification_metric_key)

text \<open>The refreshes of a run that count as \<open>ok\<close> and as \<open>error\<close>.\<close>

fun counts_as :: "(unit, infra_error) result option \<Rightarrow> string \<Rightarrow> bool" where
  "counts_as None result = False"
| "counts_as (Some (Inr _)) result = (result = ''ok'')"
| "counts_as (Some (Inl e)) result = (result = ''error'' \<and> e \<noteq> InfraCircuitOpen)"

definition refreshes_counted :: "string \<Rightarrow> (unit, infra_error) result option list \<Rightarrow> nat" where
  "refreshes_counted result rs = length (filter (\<lambda>r. counts_as r result) rs)"

lemma count_refresh_counter:
  "metrics_documented M \<Longrightarrow> ext_counter M (count_refresh M r m) (refresh_metric result)
     = ext_counter M m (refresh_metric result) + (if counts_as r result then 1 else 0)"
  "metrics_documented M \<Longrightarrow> ext_counter M (count_refresh M r m) (verification_key k v)
     = ext_counter M m (verification_key k v)"
  by (cases r; cases "the r"; auto simp: count_refresh_def ext_counter_increment)+

text \<open>One operation of a node with a cached provider.\<close>

lemma metered_op_accounts:
  assumes "metrics_documented M" "timeout_transparent N" "is_cached (sv_jwks (fst sm))"
    and "metered_op M E B N x (sm, w) = (rs, sm', w')"
  shows "is_cached (sv_jwks (fst sm'))" "metric_lead M k v sm' = metric_lead M k v sm"
    "ext_counter M (snd sm') (refresh_metric result) =
       ext_counter M (snd sm) (refresh_metric result) + word_of_nat (refreshes_counted result rs)"
proof -
  have "is_cached (sv_jwks (fst sm')) \<and> metric_lead M k v sm' = metric_lead M k v sm
    \<and> ext_counter M (snd sm') (refresh_metric result) =
       ext_counter M (snd sm) (refresh_metric result) + word_of_nat (refreshes_counted result rs)"
  proof (cases x)
    case (Request_Op os r)
    have kept: "is_cached (sv_jwks (fst (metered_record M B out now sm)))" for out now
      using assms(3) by (cases sm) (simp add: metered_record_forget service_record_def)
    show ?thesis
      using assms(4) Request_Op kept assms(3)
      by (cases r) (auto simp: metered_verify_jwt_def metered_verify_credential_json_def Let_def
          metered_record_lead [OF assms(1)] metered_record_refreshes [OF assms(1)] refreshes_counted_def
          split: sum.splits)
  next
    case Refresh_Op
    obtain s m where sm: "sm = (s, m)" by (cases sm)
    obtain r s' w1 where r: "service_refresh E N s w = (r, s', w1)" by (cases "service_refresh E N s w")
    have "is_cached (sv_jwks s')" "service_stats s' = service_stats s"
      using r assms(3) sm by (auto simp: service_refresh_def is_cached_def service_stats_def
          split: prod.splits jwks_provider.splits)
    then show ?thesis
      using assms(3,4) r
      by (auto simp: Refresh_Op sm metered_service_refresh_forget [OF assms(2)] metric_lead_def
          count_refresh_counter [OF assms(1)] refreshes_counted_def)
  qed
  then show "is_cached (sv_jwks (fst sm'))" "metric_lead M k v sm' = metric_lead M k v sm"
    "ext_counter M (snd sm') (refresh_metric result) =
       ext_counter M (snd sm) (refresh_metric result) + word_of_nat (refreshes_counted result rs)"
    by blast+
qed

lemma metered_run_accounts:
  assumes "metrics_documented M" "timeout_transparent N"
  shows "is_cached (sv_jwks (fst sm)) \<Longrightarrow> metered_run M E B N xs (sm, w) = (rs, sm', w') \<Longrightarrow>
     metric_lead M k v sm' = metric_lead M k v sm
   \<and> ext_counter M (snd sm') (refresh_metric result) =
       ext_counter M (snd sm) (refresh_metric result) + word_of_nat (refreshes_counted result rs)"
proof (induction xs arbitrary: sm w rs)
  case (Cons x xs)
  obtain rs1 sm1 w1 where one: "metered_op M E B N x (sm, w) = (rs1, sm1, w1)"
    by (cases "metered_op M E B N x (sm, w)") auto
  obtain rs2 where rest: "metered_run M E B N xs (sm1, w1) = (rs2, sm', w')" "rs = rs1 @ rs2"
    using Cons.prems(2) by (auto simp: one split: prod.splits)
  note step = metered_op_accounts [OF assms Cons.prems(1) one]
  show ?case
    using Cons.IH [OF step(1) rest(1)] step(2,3) rest(2) by (simp add: refreshes_counted_def)
qed (simp add: refreshes_counted_def)

text \<open>
  C9: The exported metrics agree with the service. Over any run of requests and refreshes of a
  node with a cached provider, each of the four verification counters of \<open>/metrics\<close> moves in step
  with its field of \<open>stats\<close>, and the refresh counters grow by the refreshes that succeeded and that
  failed; a refresh the open circuit refused counts as neither (all modulo 2^64).
\<close>

theorem metrics_agree_with_stats:
  assumes "metrics_documented M" and "timeout_transparent N" and "sv_jwks s = Cached_Provider p"
    and "metered_run M E B N ops ((s, m), w) = (rs, (s', m'), w')"
  shows "(\<forall>k v. ext_counter M m' (verification_key k v) - ext_counter M m (verification_key k v)
            = stat_of k v (service_stats s') - stat_of k v (service_stats s))
    \<and> ext_counter M m' (refresh_metric ''ok'') = ext_counter M m (refresh_metric ''ok'')
        + word_of_nat (length (filter (\<lambda>r. r = Some (Ok ())) rs))
    \<and> ext_counter M m' (refresh_metric ''error'') = ext_counter M m (refresh_metric ''error'')
        + word_of_nat (length (filter (\<lambda>r. \<exists>e. r = Some (Err e) \<and> e \<noteq> InfraCircuitOpen) rs))"
proof -
  have c: "is_cached (sv_jwks (fst (s, m)))" using assms(3) by (simp add: is_cached_def)
  note run = metered_run_accounts [OF assms(1,2) c assms(4)]
  have ok: "counts_as r ''ok'' \<longleftrightarrow> r = Some (Ok ())" for r
    by (cases r; cases "the r") simp_all
  have error: "counts_as r ''error'' \<longleftrightarrow> (\<exists>e. r = Some (Err e) \<and> e \<noteq> InfraCircuitOpen)" for r
    by (cases r; cases "the r") auto
  have "ext_counter M m' (verification_key k v) - ext_counter M m (verification_key k v)
      = stat_of k v (service_stats s') - stat_of k v (service_stats s)" for k v
    using run [of k v] unfolding metric_lead_def by (simp add: algebra_simps)
  then show ?thesis
    using run [of Jwt_Kind True "''ok''"] run [of Jwt_Kind True "''error''"]
    by (simp add: refreshes_counted_def ok error)
qed

text \<open>A recorder that is a function from the keys to their counts.\<close>

definition counting_recorder :: "(metric_key \<Rightarrow> u64) metrics_env" where
  "counting_recorder = \<lparr> ext_increment = (\<lambda>k n m. m(k := m k + n)), ext_counter = (\<lambda>m. m) \<rparr>"

lemma counting_recorder_documented: "metrics_documented counting_recorder"
  by (simp add: metrics_documented_def counting_recorder_def)

theorem metrics_agree_with_stats_witness:
  "snd (fst (snd (metered_run counting_recorder sample_env list_channel dead_net
        [Request_Op (Err ()) (Token_Request None ''nonsense'')]
        ((service_new (Cached_Provider (sample_cached breaker_new)) (Fixed_Clock 1500) Noop_Sink permissive, \<lambda>_. 0), 0))))
      (verification_key Jwt_Kind False) = 1"
proof -
  let ?s = "service_new (Cached_Provider (sample_cached breaker_new)) (Fixed_Clock 1500) Noop_Sink permissive
    :: verification_event list edge_verifier"
  let ?run = "metered_run counting_recorder sample_env list_channel dead_net
        [Request_Op (Err ()) (Token_Request None ''nonsense'')] ((?s, \<lambda>_. 0), 0)"
  obtain rs s' m' w' where run: "?run = (rs, (s', m'), w')"
    by (metis prod.exhaust)
  have parse: "signed_jwt_parse sample_env ''nonsense''
      = Err (MalformedJwt ''expected exactly three dot-separated segments'')"
    by (simp add: signed_jwt_parse_def)
  have "timeout_transparent dead_net"
    by (simp add: timeout_transparent_def dead_net_def split: prod.splits)
  then have "m' (verification_key Jwt_Kind False) = stat_of Jwt_Kind False (service_stats s') - stat_of Jwt_Kind False (service_stats ?s)"
    using metrics_agree_with_stats [OF counting_recorder_documented _ _ run, of "sample_cached breaker_new"]
    by (simp add: service_new_def counting_recorder_def)
  moreover have "stat_of Jwt_Kind False (service_stats s') - stat_of Jwt_Kind False (service_stats ?s) = 1"
    using run parse
    by (auto simp: metered_verify_jwt_def verify_jwt_def metered_record_forget Let_def stat_of_record rejected_def
        simp del: stat_of.simps)
  ultimately show ?thesis using run by simp
qed

end
