(* ===== verification/Graphql_Stream.thy ===== *)
theory Graphql_Stream
  imports Graphql_Api
begin

text \<open>
  What a subscriber of \<open>verifications\<close> sees of the mutations that other clients run: the
  resolvers of \<open>schema.rs\<close>, the service's \<open>record\<close> and the shared broadcast channel together.
\<close>

section \<open>A run of mutations\<close>

datatype api_call =
    Call_Jwt string "string option" "string list option"
  | Call_Credential string
  | Call_Refresh

datatype api_answer = Answer_Outcome gql_outcome | Answer_Refreshed bool

text \<open>
  A call with the readings of the wall clock and of the limiter's clock, on the shared state and
  the world that a refresh asks for keys. The answer \<open>None\<close> would be a panic of the refresh.
\<close>

fun api_step ::
  "('vk, 'sk, 'y) vc_env_scheme \<Rightarrow> ('w, 'r, 'q) net_env_scheme \<Rightarrow> ('ch, 'x) broadcast_env_scheme \<Rightarrow>
     ('g, 'n, 'z) governor_scheme \<Rightarrow> (nat, unit) result \<times> instant \<times> api_call \<Rightarrow>
     ('ch, 'g) service_state \<times> 'w \<Rightarrow>
     (api_answer, gql_error) result option \<times> ('ch, 'g) service_state \<times> 'w" where
  "api_step E N B G (os, t, Call_Jwt token audience scopes) (s, w) =
     (case mutation_verify_jwt E B G os t token audience scopes s of
        (r, s') \<Rightarrow> (Some (try_bind r (\<lambda>out. Ok (Answer_Outcome out))), s', w))"
| "api_step E N B G (os, t, Call_Credential doc) (s, w) =
     (case mutation_verify_credential E B G os t doc s of
        (r, s') \<Rightarrow> (Some (try_bind r (\<lambda>out. Ok (Answer_Outcome out))), s', w))"
| "api_step E N B G (os, t, Call_Refresh) (s, w) =
     (case mutation_refresh_jwks E N G t s w of
        (r, s', w') \<Rightarrow> (map_option (\<lambda>r. try_bind r (\<lambda>b. Ok (Answer_Refreshed b))) r, s', w'))"

type_synonym timed_answer = "(api_answer, gql_error) result option \<times> i64"

primrec api_run ::
  "('vk, 'sk, 'y) vc_env_scheme \<Rightarrow> ('w, 'r, 'q) net_env_scheme \<Rightarrow> ('ch, 'x) broadcast_env_scheme \<Rightarrow>
     ('g, 'n, 'z) governor_scheme \<Rightarrow> ((nat, unit) result \<times> instant \<times> api_call) list \<Rightarrow>
     ('ch, 'g) service_state \<times> 'w \<Rightarrow> timed_answer list \<times> ('ch, 'g) service_state \<times> 'w" where
  "api_run E N B G [] sw = ([], sw)"
| "api_run E N B G (c # cs) sw =
     (case api_step E N B G c sw of (r, sw1) \<Rightarrow>
      case api_run E N B G cs sw1 of (rs, sw2) \<Rightarrow> ((r, service_now (fst c) (ss_verifier (fst sw))) # rs, sw2))"

text \<open>
  The event an answer stands for: none for a refused call, an unreadable document or a refresh,
  whatever it was answered with.
\<close>

definition answer_events :: "timed_answer \<Rightarrow> gql_event list" where
  "answer_events a =
     (case a of (Some (Ok (Answer_Outcome out)), now) \<Rightarrow>
          [\<lparr> ge_kind = go_kind out, ge_valid = go_valid out, ge_subject = go_subject out,
             ge_issuer = go_issuer out, ge_reason = go_reason out, ge_at = now \<rparr>]
      | _ \<Rightarrow> [])"

lemma answer_events_simps [simp]:
  "answer_events (None, now) = []"
  "answer_events (Some (Err e), now) = []"
  "answer_events (Some (Ok (Answer_Refreshed b)), now) = []"
  by (simp_all add: answer_events_def)

section \<open>The stream mirrors the answers\<close>

lemma gql_event_of_outcome:
  "answer_events (Some (Ok (Answer_Outcome (gql_outcome_of out))), now) = [gql_event_of (event_from_outcome out now)]"
  by (simp add: answer_events_def gql_outcome_of_def gql_event_of_def event_from_outcome_def)

lemma rate_limit_cases:
  obtains (refused) x where "rate_limit G t s = (Err x, s\<lparr>ss_rate_limiter := snd (ext_check G (ss_rate_limiter s) t)\<rparr>)"
  | (admitted) "rate_limit G t s = (Ok (), s\<lparr>ss_rate_limiter := snd (ext_check G (ss_rate_limiter s) t)\<rparr>)"
proof (cases "fst (ext_check G (ss_rate_limiter s) t)")
  case (Inl x)
  then show ?thesis
    by (intro refused) (cases "ext_check G (ss_rate_limiter s) t", simp add: rate_limit_def rate_limiter_try_acquire_def)
next
  case (Inr u)
  then show ?thesis
    by (intro admitted) (cases "ext_check G (ss_rate_limiter s) t", simp add: rate_limit_def rate_limiter_try_acquire_def)
qed

text \<open>A refresh touches neither the audit channel nor the clock of the service.\<close>

lemma refresh_keeps_channel:
  assumes "mutation_refresh_jwks E N G t s w = (r, s', w')"
  shows "sv_audit (ss_verifier s') = sv_audit (ss_verifier s) \<and> sv_clock (ss_verifier s') = sv_clock (ss_verifier s)"
proof (cases rule: rate_limit_cases [of G t s])
  case (refused x)
  with assms show ?thesis by (auto simp: mutation_refresh_jwks_def)
next
  case admitted
  with assms show ?thesis
    by (auto simp: mutation_refresh_jwks_def service_refresh_def split: prod.splits jwks_provider.splits)
qed

lemma jwt_call_events:
  assumes "mutation_verify_jwt E B G os t token audience scopes s = (r, s')"
    and "sv_audit (ss_verifier s) = Broadcast_Sink ch"
  obtains es where "sv_audit (ss_verifier s') = Broadcast_Sink (foldl (ext_send_event B) ch es)"
    "map gql_event_of es = answer_events (Some (try_bind r (\<lambda>out. Ok (Answer_Outcome out))), service_now os (ss_verifier s))"
    "length es \<le> 1" "sv_clock (ss_verifier s') = sv_clock (ss_verifier s)"
proof (cases rule: rate_limit_cases [of G t s])
  case (refused x)
  then show ?thesis
    using assms by (intro that [of "[]"]) (auto simp: mutation_verify_jwt_def)
next
  case admitted
  then show ?thesis
    using assms
    by (intro that [of "[event_from_outcome (fst (service_verify_jwt E B os token
          (build_override audience scopes) (ss_verifier s))) (service_now os (ss_verifier s))]"])
      (auto simp: mutation_verify_jwt_def service_verify_jwt_def Let_def gql_event_of_outcome
        service_now_def service_record_def)
qed

lemma credential_call_events:
  assumes "mutation_verify_credential E B G os t doc s = (r, s')"
    and "sv_audit (ss_verifier s) = Broadcast_Sink ch"
  obtains es where "sv_audit (ss_verifier s') = Broadcast_Sink (foldl (ext_send_event B) ch es)"
    "map gql_event_of es = answer_events (Some (try_bind r (\<lambda>out. Ok (Answer_Outcome out))), service_now os (ss_verifier s))"
    "length es \<le> 1" "sv_clock (ss_verifier s') = sv_clock (ss_verifier s)"
proof (cases rule: rate_limit_cases [of G t s])
  case (refused x)
  then show ?thesis
    using assms by (intro that [of "[]"]) (auto simp: mutation_verify_credential_def)
next
  case admitted
  show ?thesis
  proof (cases "verify_credential_json E doc (sv_policy (ss_verifier s)) (service_now os (ss_verifier s))")
    case (Inl e)
    then show ?thesis
      using assms admitted
      by (intro that [of "[]"])
        (auto simp: mutation_verify_credential_def service_verify_credential_json_def Let_def
          service_now_def effective_policy_def)
  next
    case (Inr out)
    then show ?thesis
      using assms admitted
      by (intro that [of "[event_from_outcome out (service_now os (ss_verifier s))]"])
        (auto simp: mutation_verify_credential_def service_verify_credential_json_def Let_def
          gql_event_of_outcome service_now_def effective_policy_def service_record_def)
  qed
qed

lemma api_step_events:
  assumes "api_step E N B G c (s, w) = (r, s', w')" "sv_audit (ss_verifier s) = Broadcast_Sink ch"
  obtains es where "sv_audit (ss_verifier s') = Broadcast_Sink (foldl (ext_send_event B) ch es)"
    "map gql_event_of es = answer_events (r, service_now (fst c) (ss_verifier s))"
    "length es \<le> 1" "sv_clock (ss_verifier s') = sv_clock (ss_verifier s)"
proof -
  obtain os t call where c: "c = (os, t, call)" by (cases c)
  show ?thesis
  proof (cases call)
    case (Call_Jwt token audience scopes)
    then obtain r0 where "mutation_verify_jwt E B G os t token audience scopes s = (r0, s')"
      "r = Some (try_bind r0 (\<lambda>out. Ok (Answer_Outcome out)))"
      using assms(1) c by (auto split: prod.splits)
    then show ?thesis
      using assms(2) c that by (elim jwt_call_events) auto
  next
    case (Call_Credential doc)
    then obtain r0 where "mutation_verify_credential E B G os t doc s = (r0, s')"
      "r = Some (try_bind r0 (\<lambda>out. Ok (Answer_Outcome out)))"
      using assms(1) c by (auto split: prod.splits)
    then show ?thesis
      using assms(2) c that by (elim credential_call_events) auto
  next
    case Call_Refresh
    then obtain r0 where r0: "mutation_refresh_jwks E N G t s w = (r0, s', w')"
      "r = map_option (\<lambda>r. try_bind r (\<lambda>b. Ok (Answer_Refreshed b))) r0"
      using assms(1) c by (auto split: prod.splits)
    have "answer_events (r, now) = []" for now
      unfolding r0(2) by (cases r0; cases "the r0") auto
    then show ?thesis
      using refresh_keeps_channel [OF r0(1)] assms(2) by (intro that [of "[]"]) simp_all
  qed
qed

lemma api_run_events:
  assumes "api_run E N B G cs (s, w) = (rs, s', w')" "sv_audit (ss_verifier s) = Broadcast_Sink ch"
  obtains es where "sv_audit (ss_verifier s') = Broadcast_Sink (foldl (ext_send_event B) ch es)"
    "map gql_event_of es = concat (map answer_events rs)" "length es \<le> length cs"
  using assms
proof (induction cs arbitrary: s w ch rs thesis)
  case Nil
  then show ?case by (intro Nil(1) [of "[]"]) auto
next
  case (Cons c cs)
  obtain r s1 w1 where one: "api_step E N B G c (s, w) = (r, s1, w1)" by (cases "api_step E N B G c (s, w)")
  obtain rs1 where rest: "api_run E N B G cs (s1, w1) = (rs1, s', w')" "rs = (r, service_now (fst c) (ss_verifier s)) # rs1"
    using Cons.prems(2) one by (auto split: prod.splits)
  obtain es where es: "sv_audit (ss_verifier s1) = Broadcast_Sink (foldl (ext_send_event B) ch es)"
    "map gql_event_of es = answer_events (r, service_now (fst c) (ss_verifier s))" "length es \<le> 1"
    using one Cons.prems(3) by (rule api_step_events)
  obtain es1 where "sv_audit (ss_verifier s') = Broadcast_Sink (foldl (ext_send_event B) (foldl (ext_send_event B) ch es) es1)"
    "map gql_event_of es1 = concat (map answer_events rs1)" "length es1 \<le> length cs"
    using Cons.IH [OF _ rest(1) es(1)] by blast
  then show ?case
    using es rest(2) by (intro Cons.prems(1) [of "es @ es1"]) simp_all
qed

lemma verification_stream_Ok: "verification_stream (map Ok es) = map gql_event_of es"
  by (induction es) (simp_all add: verification_stream_def)

text \<open>
  C26: The subscription mirrors the answers. A client that subscribes sees, for any later run of at
  most as many mutations of the schema, by anyone, as the channel has capacity, exactly the
  decisions these were answered with: one event per answered verification, in order, with its
  kind, result, identity, reason and time, and none for a call that was refused, whose document
  was unreadable, or that refreshed the key set.
\<close>

theorem subscription_mirrors_answers:
  assumes "broadcast_delivers B K"
    and "sv_audit (ss_verifier s) = Broadcast_Sink ch" "length cs \<le> K ch"
    and "subscription_verifications B s = (Some rx, s1)" "api_run E N B G cs (s1, w) = (rs, s2, w2)"
    and "sv_audit (ss_verifier s2) = Broadcast_Sink ch2"
  shows "verification_stream (ext_received B ch2 rx) = concat (map answer_events rs)"
proof -
  obtain ch1 where sub: "ext_subscribe B ch = (ch1, rx)" "sv_audit (ss_verifier s1) = Broadcast_Sink ch1"
    using assms(2,4) by (auto simp: subscription_verifications_def split: prod.splits)
  obtain es where es: "sv_audit (ss_verifier s2) = Broadcast_Sink (foldl (ext_send_event B) ch1 es)"
    "map gql_event_of es = concat (map answer_events rs)" "length es \<le> length cs"
    using assms(5) sub(2) by (rule api_run_events)
  have "length es \<le> K ch" "foldl (ext_send_event B) ch1 es = ch2"
    using assms(3,6) es(1,3) by simp_all
  then have "ext_received B ch2 rx = map Ok es"
    using assms(1) [unfolded broadcast_delivers_def, rule_format, OF sub(1)] by blast
  then show ?thesis
    using es(2) by (simp add: verification_stream_Ok)
qed

theorem subscription_mirrors_answers_witness:
  "\<exists>s2 ch2. fst (snd (api_run sample_env dead_net list_channel counting_governor
       [(Err (), 0, Call_Refresh), (Err (), 0, Call_Jwt sample_minted None None)]
       (service_state_new (sample_service sample_policy) 2, 7))) = s2
     \<and> sv_audit (ss_verifier s2) = Broadcast_Sink ch2
     \<and> map ge_valid (verification_stream (ext_received list_channel ch2 0)) = [True]"
proof -
  let ?s = "service_state_new (sample_service sample_policy) 2"
  let ?cs = "[(Err (), 0, Call_Refresh), (Err (), 0, Call_Jwt sample_minted None None)]"
  let ?out = "verify_jwt sample_env sample_minted (sample_jwks sample_env 5) sample_policy 1500"
  have static: "sv_jwks (sample_service sample_policy) = Static_Provider (sample_jwks sample_env 5)"
    by (simp add: sample_service_def service_new_def static_new_def)
  then have same: "(sample_service sample_policy)\<lparr>sv_jwks := Static_Provider (sample_jwks sample_env 5)\<rparr>
      = sample_service sample_policy"
    by (cases "sample_service sample_policy :: verification_event list edge_verifier") simp
  have sub: "subscription_verifications list_channel ?s = (Some 0, ?s)"
    by (simp add: subscription_verifications_def list_channel_def service_state_new_def sample_service_def service_new_def)
  obtain s2 where run: "api_run sample_env dead_net list_channel counting_governor ?cs (?s, 7)
      = ([(Some (Ok (Answer_Refreshed True)), 1500), (Some (Ok (Answer_Outcome (gql_outcome_of ?out))), 1500)], s2, 7)"
    "sv_audit (ss_verifier s2) = Broadcast_Sink [event_from_outcome ?out 1500]"
    by (simp add: mutation_verify_jwt_def mutation_refresh_jwks_def service_refresh_def rate_limit_def
        rate_limiter_try_acquire_def counting_governor_def service_state_new_def build_override_None
        service_verify_jwt_def service_now_def service_record_def static same Let_def)
  have "verification_stream (ext_received list_channel [event_from_outcome ?out 1500] 0)
      = concat (map answer_events [(Some (Ok (Answer_Refreshed True)), 1500),
          (Some (Ok (Answer_Outcome (gql_outcome_of ?out))), 1500)])"
    by (rule subscription_mirrors_answers [where K = "\<lambda>_. 1024" and B = list_channel and s = ?s and ch = "[]"
          and cs = ?cs, OF list_channel_delivers _ _ sub run])
      (simp_all add: service_state_new_def)
  moreover have "out_valid ?out"
    by (rule sample_decision)
  ultimately show ?thesis
    using run by (simp add: gql_event_of_outcome gql_event_of_def event_from_outcome_def)
qed

end
