(* ===== verification/Resilience_Tests.thy ===== *)
theory Resilience_Tests
  imports Breaker Retry Rate_Limit
begin

text \<open>
  The unit tests of \<open>edgeauth-resilience\<close> (\<open>breaker.rs\<close>, \<open>clock.rs\<close>, \<open>retry.rs\<close>, \<open>rate_limit.rs\<close>),
  translated: the calls of a test in order, threading the state of the breaker, the limiter or
  the counter, and the conjunction of its assertions. The readings of the system clock, the last
  instant of the platform and the bodies of tokio's functions are parameters; a test that panics
  fails.
\<close>

section \<open>Breaker\<close>

definition test_config :: "u32 \<Rightarrow> breaker_config" where
  "test_config threshold = \<lparr> cfg_failure_threshold = threshold, cfg_open_duration = from_secs 10 \<rparr>"

definition trips_after_threshold_failures :: "instant \<Rightarrow> bool" where
  "trips_after_threshold_failures now =
     (let cfg = test_config 3;
          cb0 = breaker_new;
          cb1 = breaker_record_failure cfg now cb0;
          cb2 = breaker_record_failure cfg now cb1;
          cb3 = breaker_record_failure cfg now cb2
      in breaker_state cb0 = Closed \<and> breaker_state cb2 = Closed \<and> breaker_state cb3 = Open
         \<and> \<not> is_ok (fst (breaker_acquire cfg now cb3)))"

definition half_opens_after_cooldown_then_closes_on_success :: "instant \<Rightarrow> instant \<Rightarrow> bool" where
  "half_opens_after_cooldown_then_closes_on_success limit start =
     (let cfg = test_config 1; clock = manual_clock_new start;
          cb1 = breaker_record_failure cfg (mono_now start clock) breaker_new;
          (early, cb2) = breaker_acquire cfg (mono_now start clock) cb1
      in is_some_and (\<lambda>clock.
           let (late, cb3) = breaker_acquire cfg (mono_now start clock) cb2
           in \<not> is_ok early \<and> is_ok late \<and> breaker_state cb3 = HalfOpen
              \<and> breaker_state (breaker_record_success cb3) = Closed)
         (manual_clock_advance limit (from_secs 11) clock))"

definition half_open_failure_reopens :: "instant \<Rightarrow> instant \<Rightarrow> bool" where
  "half_open_failure_reopens limit start =
     (let cfg = test_config 1; clock = manual_clock_new start;
          cb1 = breaker_record_failure cfg (mono_now start clock) breaker_new
      in is_some_and (\<lambda>clock.
           let (r, cb2) = breaker_acquire cfg (mono_now start clock) cb1
           in is_ok r \<and> breaker_state (breaker_record_failure cfg (mono_now start clock) cb2) = Open)
         (manual_clock_advance limit (from_secs 11) clock))"

lemma saturating_small:
  "saturating_add_u32 0 1 = 1" "saturating_add_u32 1 1 = 2" "saturating_add_u32 2 1 = 3"
  by (simp_all add: saturating_add_u32_def)

lemma one_below_three: "\<not> (3 :: u32) \<le> 1"
  by (simp add: word_le_nat_alt)

theorem breaker_tests_pass:
  assumes "now + from_secs 11 \<le> limit"
  shows "trips_after_threshold_failures now \<and> half_opens_after_cooldown_then_closes_on_success limit now
   \<and> half_open_failure_reopens limit now"
  using assms
  by (simp add: add_duration_def trips_after_threshold_failures_def half_opens_after_cooldown_then_closes_on_success_def
      half_open_failure_reopens_def test_config_def breaker_new_def breaker_record_failure_def
      breaker_record_success_def breaker_acquire_def breaker_state_def saturating_small one_below_three is_ok_def
      duration_since_def from_secs_def manual_clock_new_def Let_def)

section \<open>Clocks\<close>

definition manual_clock_advances :: "instant \<Rightarrow> instant \<Rightarrow> bool" where
  "manual_clock_advances limit os =
     (let clock = manual_clock_new os; t0 = mono_now os clock
      in is_some_and (\<lambda>clock. from_secs 5 \<le> mono_now os clock - t0)
           (manual_clock_advance limit (from_secs 5) clock))"

definition system_clock_is_monotonic :: "instant \<Rightarrow> instant \<Rightarrow> bool" where
  \<comment> \<open>the two readings of the timer, which never goes back\<close>
  "system_clock_is_monotonic os os' =
     (let clock = System_Clock; a = mono_now os clock; b = mono_now os' clock in a \<le> b)"

theorem clock_tests_pass:
  assumes "os \<le> os'" "os + from_secs 5 \<le> limit"
  shows "manual_clock_advances limit os \<and> system_clock_is_monotonic os os'"
  using assms by (simp add: manual_clock_advances_def add_duration_def system_clock_is_monotonic_def manual_clock_new_def Let_def)

section \<open>Retries and timeouts\<close>

definition capped_policy :: retry_policy where
  "capped_policy = \<lparr> rp_max_attempts = 10, rp_initial_backoff = from_millis 100,
     rp_multiplier = 2, rp_max_backoff = from_millis 500 \<rparr>"

definition backoff_grows_and_caps :: bool where
  "backoff_grows_and_caps \<longleftrightarrow>
     backoff_for capped_policy 0 = from_millis 100 \<and> backoff_for capped_policy 1 = from_millis 200
   \<and> backoff_for capped_policy 2 = from_millis 400 \<and> backoff_for capped_policy 3 = from_millis 500"

definition retry_succeeds_after_transient_failures :: "(duration \<Rightarrow> 'w \<Rightarrow> 'w) \<Rightarrow> 'w \<Rightarrow> bool" where
  \<comment> \<open>the state is the counter of calls and what \<open>sleep\<close> acts on\<close>
  "retry_succeeds_after_transient_failures sleep w =
     (let op = (\<lambda>(n :: u32, w). (if n < 2 then Err ''transient'' else Ok n, (n + 1, w)));
          (out, calls, w') = retry (default_retry_policy\<lparr>rp_max_attempts := 3\<rparr>) op
             (\<lambda>d (n, w). (n, sleep d w)) (0, w)
      in out = Some (Ok 2) \<and> calls = 3)"

definition retry_gives_up_after_max_attempts :: "(duration \<Rightarrow> 'w \<Rightarrow> 'w) \<Rightarrow> 'w \<Rightarrow> bool" where
  "retry_gives_up_after_max_attempts sleep w \<longleftrightarrow>
     fst (retry (default_retry_policy\<lparr>rp_max_attempts := 2\<rparr>)
        (\<lambda>w. (Err ''always'' :: (unit, string) result, w)) sleep w) = Some (Err ''always'')"

definition timeout_fires ::
  "(duration \<Rightarrow> ('s \<Rightarrow> unit \<times> 's) \<Rightarrow> 's \<Rightarrow> unit option \<times> 's) \<Rightarrow> ('s \<Rightarrow> unit \<times> 's) \<Rightarrow> 's \<Rightarrow> bool" where
  "timeout_fires timeout pending s \<longleftrightarrow> \<not> is_ok (fst (with_timeout timeout (from_millis 10) pending s))"

definition timeout_passes_through_fast_future ::
  "(duration \<Rightarrow> ('s \<Rightarrow> nat \<times> 's) \<Rightarrow> 's \<Rightarrow> nat option \<times> 's) \<Rightarrow> 's \<Rightarrow> bool" where
  "timeout_passes_through_fast_future timeout s \<longleftrightarrow>
     fst (with_timeout timeout (from_secs 1) (\<lambda>s. (7, s)) s) = Ok 7"

lemma backoff_pow: "saturating_pow_u32 2 0 = 1" "saturating_pow_u32 2 1 = 2"
  "saturating_pow_u32 2 2 = 4" "saturating_pow_u32 2 3 = 8"
  by (simp_all add: saturating_pow_u32_def)

theorem retry_tests_pass:
  "backoff_grows_and_caps \<and> retry_succeeds_after_transient_failures sleep w
   \<and> retry_gives_up_after_max_attempts sleep' w'"
proof (intro conjI)
  show "backoff_grows_and_caps"
    by (simp add: backoff_grows_and_caps_def backoff_for_def capped_policy_def backoff_pow saturating_mul_u128_def
        as_millis_def from_millis_def)
  show "retry_succeeds_after_transient_failures sleep w"
    by (simp add: retry_succeeds_after_transient_failures_def retry_def retry_loop.simps default_retry_policy_def Let_def)
  show "retry_gives_up_after_max_attempts sleep' w'"
    by (simp add: retry_gives_up_after_max_attempts_def retry_def retry_loop.simps default_retry_policy_def)
qed

text \<open>With tokio's timeout as documented on a future that never completes and on one that is ready.\<close>

theorem timeout_tests_pass:
  assumes "fst (timeout (from_millis 10) pending s) = None"
    and "fst (timeout' (from_secs 1) (\<lambda>s. (7, s)) s') = Some 7"
  shows "timeout_fires timeout pending s \<and> timeout_passes_through_fast_future timeout' s'"
  using assms
  by (auto simp: timeout_fires_def timeout_passes_through_fast_future_def with_timeout_def ok_or_def is_ok_def
      split: prod.splits)

section \<open>Rate limiter\<close>

definition allows_up_to_burst_then_rejects :: "('g, 'n, 'z) governor_scheme \<Rightarrow> instant \<Rightarrow> bool" where
  "allows_up_to_burst_then_rejects G now =
     (case rate_limiter_per_second G 3 of
        None \<Rightarrow> False
      | Some rl \<Rightarrow>
          (let (r1, rl) = rate_limiter_try_acquire G now rl;
               (r2, rl) = rate_limiter_try_acquire G now rl;
               (r3, rl) = rate_limiter_try_acquire G now rl;
               (r4, rl) = rate_limiter_try_acquire G now rl
           in is_ok r1 \<and> is_ok r2 \<and> is_ok r3 \<and> \<not> is_ok r4))"

theorem rate_limit_test_passes:
  assumes "burst_equals_rate G 3"
  shows "allows_up_to_burst_then_rejects G now"
proof -
  obtain g where g: "rate_limiter_per_second G 3 = Some g"
    "acquire_results G now 4 g = map (\<lambda>i. if i < unat (3 :: u32) then Ok () else Err RateLimited) [0..<4]"
    using limiter_burst [OF assms, of now 4] by auto
  then have "acquire_results G now 4 g = [Ok (), Ok (), Ok (), Err RateLimited]"
    by (simp add: upt_rec)
  then show ?thesis
    using g(1) by (auto simp: allows_up_to_burst_then_rejects_def eval_nat_numeral is_ok_def split: prod.splits)
qed

end
