(* ===== verification/Types_Tests.thy ===== *)
theory Types_Tests
  imports Credential
begin

text \<open>
  The unit tests of \<open>edgeauth-types/src/did.rs\<close>, \<open>jwt.rs\<close> and \<open>credential.rs\<close>, translated: a test is
  the conjunction of its assertions, with every \<open>unwrap\<close> a failure of the test. They are proved
  for every implementation of the primitives that behaves as documented; where a test rests on
  unforgeability, it passes or a forgery is exhibited.
\<close>

definition signing_key :: "('vk, 'sk, 'z) primitives_scheme \<Rightarrow> byte \<Rightarrow> 'sk" where
  "signing_key E seed = ext_sk_from_bytes E (replicate 32 seed)"

abbreviation test_vk :: "('vk, 'sk, 'z) primitives_scheme \<Rightarrow> byte \<Rightarrow> 'vk" where
  "test_vk E seed \<equiv> ext_sk_verifying_key E (signing_key E seed)"

definition unwrapped :: "('a, 'e) result \<Rightarrow> ('a \<Rightarrow> bool) \<Rightarrow> bool" where
  \<comment> \<open>the rest of a test after \<open>unwrap\<close>\<close>
  "unwrapped r rest = (case r of Err e \<Rightarrow> False | Ok a \<Rightarrow> rest a)"

lemma unwrapped_simps [simp]: "\<not> unwrapped (Err e) rest" "unwrapped (Ok a) rest = rest a"
  by (simp_all add: unwrapped_def)

section \<open>Identifiers\<close>

definition did_round_trips_through_string :: "('vk, 'sk, 'z) primitives_scheme \<Rightarrow> bool" where
  "did_round_trips_through_string E =
     (let did = did_from_verifying_key E (test_vk E 7) in
      strip_prefix ''did:key:z'' (did_as_str did) \<noteq> None
      \<and> unwrapped (did_verifying_key E did) (\<lambda>k. ext_vk_as_bytes E k = ext_vk_as_bytes E (test_vk E 7)))"

definition parse_accepts_valid_and_rejects_garbage :: "('vk, 'sk, 'z) primitives_scheme \<Rightarrow> bool" where
  "parse_accepts_valid_and_rejects_garbage E =
     (let did = did_from_verifying_key E (test_vk E 11) in
      is_ok (did_parse E (did_as_str did))
      \<and> \<not> is_ok (did_parse E ''did:web:example.com'')
      \<and> \<not> is_ok (did_parse E ''did:key:xNOTBASE58'')
      \<and> \<not> is_ok (did_parse E ''did:key:zbadbase58!!''))"

definition sign_and_verify_payload_round_trip :: "('vk, 'sk, 'z) primitives_scheme \<Rightarrow> bool" where
  "sign_and_verify_payload_round_trip E =
     (let payload = as_bytes ''verifiable-credential-bytes'';
          sig = sign_payload E (signing_key E 3) payload
      in is_ok (verify_payload E (test_vk E 3) payload sig)
         \<and> \<not> is_ok (verify_payload E (test_vk E 3) (as_bytes ''tampered'') sig))"

text \<open>
  The identifier tests pass for every backend with the documented round trips that finds no
  base58 text in a word with exclamation marks and does not accept a signature for another text.
\<close>

theorem did_tests_pass:
  assumes "base58_roundtrip E" "key_roundtrip E" "signatures_verify E"
    and "\<not> is_ok (ext_b58_decode E ''badbase58!!'')"
  shows "did_round_trips_through_string E \<and> parse_accepts_valid_and_rejects_garbage E
    \<and> (sign_and_verify_payload_round_trip E
       \<or> ext_vk_verify E (test_vk E 3) (as_bytes ''tampered'')
           (ext_sk_sign E (signing_key E 3) (as_bytes ''verifiable-credential-bytes'')))"
proof -
  have good: "did_parse E (did_as_str (did_from_verifying_key E k)) = Ok (did_from_verifying_key E k)" for k
    using did_verifying_key_from_key [OF assms(1,2), of k]
    by (simp add: did_parse_def did_from_verifying_key_def Let_def)
  have "\<not> is_ok (did_parse E ''did:key:zbadbase58!!'')"
    using assms(4) did_with_prefix [of E "''badbase58!!''"]
    by (cases "ext_b58_decode E ''badbase58!!''")
      (simp_all add: did_parse_def is_ok_def DID_KEY_PREFIX_def BASE58BTC_def)
  moreover have "\<not> is_ok (did_parse E ''did:web:example.com'')" "\<not> is_ok (did_parse E ''did:key:xNOTBASE58'')"
    by (simp_all add: did_parse_def did_without_prefix is_ok_def DID_KEY_PREFIX_def BASE58BTC_def)
  ultimately have "parse_accepts_valid_and_rejects_garbage E"
    by (simp add: parse_accepts_valid_and_rejects_garbage_def good is_ok_def Let_def del: did_key_collect)
  moreover have "did_round_trips_through_string E"
    using assms(1,2) by (simp add: did_round_trips_through_string_def DID_KEY_PREFIX_def BASE58BTC_def Let_def)
  moreover have "sign_and_verify_payload_round_trip E
       \<or> ext_vk_verify E (test_vk E 3) (as_bytes ''tampered'')
           (ext_sk_sign E (signing_key E 3) (as_bytes ''verifiable-credential-bytes''))"
    using signatures_verifyD(2) [OF assms(3), of "signing_key E 3" "as_bytes ''verifiable-credential-bytes''"]
    by (auto simp: sign_and_verify_payload_round_trip_def sign_payload_def verify_payload_def is_ok_def Let_def)
  ultimately show ?thesis by blast
qed

section \<open>Tokens\<close>

definition user_claims :: jwt_claims where
  "user_claims = \<lparr> claim_iss = Some ''https://issuer.example'', claim_sub = Some ''user-42'',
     claim_aud = Some (Single ''edge-api''), claim_exp = Some 2000, claim_nbf = Some 1000,
     claim_iat = Some 1000, claim_jti = Some ''tok-1'', claim_scope = Some ''openid documents:read'',
     claim_roles = [''editor''] \<rparr>"

definition test_header :: "string \<Rightarrow> string option \<Rightarrow> jwt_header" where
  "test_header alg typ = \<lparr> hdr_alg = alg, hdr_typ = typ, hdr_kid = Some ''key-1'' \<rparr>"

definition test_jwks :: "('vk, 'sk, 'z) primitives_scheme \<Rightarrow> byte \<Rightarrow> jwks" where
  "test_jwks E seed = jwks_from_keys [jwk_from_verifying_key E (test_vk E seed) ''key-1'']"

definition encode_then_parse_and_verify_round_trip :: "('vk, 'sk, 'z) jwt_env_scheme \<Rightarrow> bool" where
  "encode_then_parse_and_verify_round_trip E =
     unwrapped (encode_jwt E (test_header JWT_ALG (Some ''JWT'')) user_claims (signing_key E 5)) (\<lambda>token.
     unwrapped (signed_jwt_parse E token) (\<lambda>parsed.
       claim_sub (sj_claims parsed) = Some ''user-42'' \<and> is_ok (signed_jwt_verify_with E parsed (test_jwks E 5))))"

definition tampered_payload_fails_verification :: "('vk, 'sk, 'z) jwt_env_scheme \<Rightarrow> bool" where
  "tampered_payload_fails_verification E =
     unwrapped (encode_jwt E (test_header JWT_ALG None) user_claims (signing_key E 5)) (\<lambda>token.
     case split_char CHR ''.'' token of
       h # p # rest \<Rightarrow>
         (let bad = join_char CHR ''.'' (h # (p @ ''x'') # rest) in
          (case signed_jwt_parse E bad of
             Ok j \<Rightarrow> \<not> is_ok (signed_jwt_verify_with E j (test_jwks E 5))
           | Err e \<Rightarrow> True))
     | _ \<Rightarrow> False)"

definition wrong_key_is_rejected :: "('vk, 'sk, 'z) jwt_env_scheme \<Rightarrow> bool" where
  "wrong_key_is_rejected E =
     unwrapped (encode_jwt E (test_header JWT_ALG None) user_claims (signing_key E 5)) (\<lambda>token.
     unwrapped (signed_jwt_parse E token) (\<lambda>parsed.
       signed_jwt_verify_with E parsed (test_jwks E 6) = Err SignatureInvalid))"

definition non_eddsa_algorithm_is_rejected :: "('vk, 'sk, 'z) jwt_env_scheme \<Rightarrow> bool" where
  "non_eddsa_algorithm_is_rejected E =
     unwrapped (encode_jwt E (test_header ''HS256'' None) user_claims (signing_key E 5)) (\<lambda>token.
     unwrapped (signed_jwt_parse E token) (\<lambda>parsed.
       case signed_jwt_verify_with E parsed (test_jwks E 5) of
         Err (UnsupportedAlgorithm alg) \<Rightarrow> True | _ \<Rightarrow> False))"

definition malformed_token_shapes_are_rejected :: "('vk, 'sk, 'z) jwt_env_scheme \<Rightarrow> bool" where
  "malformed_token_shapes_are_rejected E \<longleftrightarrow>
     \<not> is_ok (signed_jwt_parse E ''only.two'') \<and> \<not> is_ok (signed_jwt_parse E ''a.b.c.d'')
   \<and> \<not> is_ok (signed_jwt_parse E ''!!!.@@@.###'')"

definition audience_matching_handles_single_and_multiple :: bool where
  "audience_matching_handles_single_and_multiple =
     (let single = Single ''a''; multi = Multiple [''a'', ''b''] in
      audience_contains single ''a'' \<and> \<not> audience_contains single ''b''
      \<and> audience_contains multi ''b'' \<and> audience_primary multi = Some ''a'')"

definition scopes_parse_from_space_delimited_claim :: bool where
  "scopes_parse_from_space_delimited_claim =
     (let scopes = claims_scopes user_claims in
      ''openid'' |\<in>| scopes \<and> ''documents:read'' |\<in>| scopes \<and> fcard scopes = 2)"

definition parsing_backend :: "('vk, 'sk, 'z) jwt_env_scheme \<Rightarrow> jwt_header \<Rightarrow> bool" where
  "parsing_backend E header \<longleftrightarrow> base64_roundtrip E \<and> base64_dotfree E \<and> key_roundtrip E \<and> signatures_verify E
     \<and> json_header E header \<and> json_claims E user_claims"

lemma encoded_parses:
  assumes "parsing_backend E header"
  obtains token j where "encode_jwt E header user_claims (signing_key E 5) = Ok token"
    "signed_jwt_parse E token = Ok j" "sj_header j = header" "sj_claims j = user_claims"
    "sj_signature j = ext_sk_sign E (signing_key E 5) (as_bytes (sj_signing_input j))"
  by (rule encode_then_parse [of E header user_claims "signing_key E 5"])
    (use assms in \<open>simp_all add: parsing_backend_def\<close>)

lemma test_key_found:
  assumes "parsing_backend E header" "hdr_kid (sj_header j) = Some ''key-1''" "hdr_alg (sj_header j) = JWT_ALG"
  shows "signed_jwt_verify_with E j (test_jwks E seed) =
    (if ext_vk_verify E (test_vk E seed) (as_bytes (sj_signing_input j)) (sj_signature j) then Ok () else Err SignatureInvalid)"
  using assms by (simp add: signed_jwt_verify_with_def test_jwks_def parsing_backend_def)

lemma scopes_of_claim: "split_whitespace ''openid documents:read'' = [''openid'', ''documents:read'']"
  by code_simp

text \<open>The token tests that rest on no unforgeability.\<close>

theorem jwt_tests_pass:
  assumes "parsing_backend E (test_header JWT_ALG (Some ''JWT''))" "parsing_backend E (test_header ''HS256'' None)"
    and "\<not> is_ok (ext_b64_decode E (as_bytes ''!!!''))"
  shows "encode_then_parse_and_verify_round_trip E \<and> non_eddsa_algorithm_is_rejected E
    \<and> malformed_token_shapes_are_rejected E \<and> audience_matching_handles_single_and_multiple
    \<and> scopes_parse_from_space_delimited_claim"
proof (intro conjI)
  show "encode_then_parse_and_verify_round_trip E"
  proof (rule encoded_parses [OF assms(1)])
    fix token j
    assume *: "encode_jwt E (test_header JWT_ALG (Some ''JWT'')) user_claims (signing_key E 5) = Ok token"
      "signed_jwt_parse E token = Ok j" "sj_header j = test_header JWT_ALG (Some ''JWT'')" "sj_claims j = user_claims"
      "sj_signature j = ext_sk_sign E (signing_key E 5) (as_bytes (sj_signing_input j))"
    have "signed_jwt_verify_with E j (test_jwks E 5) = Ok ()"
      using assms(1) *(3,5)
      by (subst test_key_found [OF assms(1)]) (simp_all add: test_header_def parsing_backend_def ext_laws)
    then show ?thesis
      using * by (simp add: encode_then_parse_and_verify_round_trip_def user_claims_def is_ok_def)
  qed
  show "non_eddsa_algorithm_is_rejected E"
    by (rule encoded_parses [OF assms(2)])
      (simp add: non_eddsa_algorithm_is_rejected_def signed_jwt_verify_with_def test_header_def JWT_ALG_def)
  have "is_ok (signed_jwt_parse E ''!!!.@@@.###'') \<Longrightarrow> is_ok (ext_b64_decode E (as_bytes ''!!!''))"
    by (auto simp: is_ok_iff signed_jwt_parse_Ok_iff b64url_decode_def)
  then show "malformed_token_shapes_are_rejected E"
    using assms(3) by (auto simp: malformed_token_shapes_are_rejected_def signed_jwt_parse_def is_ok_def)
  show "audience_matching_handles_single_and_multiple"
    by (simp add: audience_matching_handles_single_and_multiple_def)
  show "scopes_parse_from_space_delimited_claim"
    by (simp add: scopes_parse_from_space_delimited_claim_def claims_scopes_def user_claims_def scopes_of_claim
        fcard_finsert_if)
qed

text \<open>The others pass, or a key accepts a signature that was made for another text or by another key.\<close>

theorem jwt_tamper_tests_pass_or_forgery:
  assumes "parsing_backend E (test_header JWT_ALG None)"
  shows "(wrong_key_is_rejected E
      \<or> (\<exists>m. ext_vk_verify E (test_vk E 6) m (ext_sk_sign E (signing_key E 5) m)))
    \<and> (tampered_payload_fails_verification E
      \<or> (\<exists>m m'. m' \<noteq> m \<and> ext_vk_verify E (test_vk E 5) m' (ext_sk_sign E (signing_key E 5) m)))"
proof (rule encoded_parses [OF assms])
  fix token j
  assume *: "encode_jwt E (test_header JWT_ALG None) user_claims (signing_key E 5) = Ok token"
    "signed_jwt_parse E token = Ok j" "sj_header j = test_header JWT_ALG None" "sj_claims j = user_claims"
    "sj_signature j = ext_sk_sign E (signing_key E 5) (as_bytes (sj_signing_input j))"
  have kid: "hdr_kid (test_header JWT_ALG None) = Some ''key-1''" "hdr_alg (test_header JWT_ALG None) = JWT_ALG"
    by (simp_all add: test_header_def)
  have wrong: "wrong_key_is_rejected E
      \<or> (\<exists>m. ext_vk_verify E (test_vk E 6) m (ext_sk_sign E (signing_key E 5) m))"
    using test_key_found [OF assms, of j 6] kid * by (auto simp: wrong_key_is_rejected_def)
  obtain h p s where pieces: "split_char CHR ''.'' token = [h, p, s]" "b64url_decode E s = Ok (sj_signature j)"
    "sj_signing_input j = h @ ''.'' @ p"
    using *(2) by (auto simp: signed_jwt_parse_Ok_iff)
  let ?bad = "h @ ''.'' @ (p @ ''x'') @ ''.'' @ s"
  have bad: "split_char CHR ''.'' ?bad = [h, p @ ''x'', s]"
    using pieces(1) by (simp add: split_char_three_iff)
  have same: "sj_signing_input j' = h @ ''.'' @ p @ ''x'' \<and> sj_signature j' = sj_signature j
      \<and> ext_vk_verify E (test_vk E 5) (as_bytes (sj_signing_input j')) (sj_signature j')"
    if "signed_jwt_parse E ?bad = Ok j'" "is_ok (signed_jwt_verify_with E j' (test_jwks E 5))" for j'
  proof -
    have "sj_signing_input j' = h @ ''.'' @ p @ ''x''" "sj_signature j' = sj_signature j"
      using that(1) bad pieces(2) by (auto simp: signed_jwt_parse_Ok_iff)
    moreover have "ext_vk_verify E (test_vk E 5) (as_bytes (sj_signing_input j')) (sj_signature j')"
      using that(2) assms
      by (auto simp: is_ok_iff signed_jwt_verify_with_Ok_iff test_jwks_def jwks_from_keys_def jwks_find_def
          parsing_backend_def split: option.splits if_splits)
    ultimately show ?thesis by blast
  qed
  have "tampered_payload_fails_verification E
      \<or> (\<exists>m m'. m' \<noteq> m \<and> ext_vk_verify E (test_vk E 5) m' (ext_sk_sign E (signing_key E 5) m))"
  proof (cases "\<exists>j'. signed_jwt_parse E ?bad = Ok j' \<and> is_ok (signed_jwt_verify_with E j' (test_jwks E 5))")
    case True
    then obtain j' where "signed_jwt_parse E ?bad = Ok j'" "is_ok (signed_jwt_verify_with E j' (test_jwks E 5))" by blast
    from same [OF this] have "ext_vk_verify E (test_vk E 5) (as_bytes (h @ ''.'' @ p @ ''x''))
        (ext_sk_sign E (signing_key E 5) (as_bytes (h @ ''.'' @ p)))"
      using *(5) pieces(3) by metis
    moreover have "as_bytes (h @ ''.'' @ p @ ''x'') \<noteq> as_bytes (h @ ''.'' @ p)" by simp
    ultimately show ?thesis by blast
  next
    case False
    then have "tampered_payload_fails_verification E"
      by (cases "signed_jwt_parse E ?bad") (simp_all add: tampered_payload_fails_verification_def *(1) pieces(1))
    then show ?thesis ..
  qed
  with wrong show ?thesis by blast
qed

section \<open>Credentials\<close>

definition test_credential :: "('vk, 'sk, 'z) primitives_scheme \<Rightarrow> verifiable_credential" where
  "test_credential E =
     \<lparr> vc_id = ''cred-001'', vc_credential_type = ''KycVerified'',
       vc_issuer = did_from_verifying_key E (test_vk E 1),
       vc_subject = \<lparr> subj_id = did_from_verifying_key E (test_vk E 2),
         subj_claims = fmupd ''kyc'' ''verified'' fmempty \<rparr>,
       vc_issued_at = 1000, vc_expires_at = Some 2000, vc_proof = None \<rparr>"

definition sign_then_verify_succeeds :: "('vk, 'sk, 'z) vc_env_scheme \<Rightarrow> bool" where
  "sign_then_verify_succeeds E =
     unwrapped (sign_with E (test_credential E) (signing_key E 1) 1000) (\<lambda>vc. is_ok (verify_signature E vc))"

definition forge_claim :: "verifiable_credential \<Rightarrow> verifiable_credential" where
  \<comment> \<open>\<open>vc.subject.claims.insert\<close> in the tests of tampering\<close>
  "forge_claim vc = vc\<lparr>vc_subject := (vc_subject vc)\<lparr>subj_claims := fmupd ''kyc'' ''forged'' (subj_claims (vc_subject vc))\<rparr>\<rparr>"

definition tampered_claims_break_verification :: "('vk, 'sk, 'z) vc_env_scheme \<Rightarrow> bool" where
  "tampered_claims_break_verification E =
     unwrapped (sign_with E (test_credential E) (signing_key E 1) 1000) (\<lambda>vc.
       verify_signature E (forge_claim vc) = Err SignatureInvalid)"

definition issuer_mismatch_is_rejected :: "('vk, 'sk, 'z) vc_env_scheme \<Rightarrow> bool" where
  "issuer_mismatch_is_rejected E =
     unwrapped (sign_with E (test_credential E) (signing_key E 1) 1000) (\<lambda>vc.
       verify_signature E (vc\<lparr>vc_issuer := did_from_verifying_key E (test_vk E 9)\<rparr>) = Err IssuerMismatch)"

definition validity_window_respects_leeway :: "('vk, 'sk, 'z) primitives_scheme \<Rightarrow> bool" where
  "validity_window_respects_leeway E \<longleftrightarrow>
     validity_at (test_credential E) 995 10 = (True, True)
   \<and> validity_at (test_credential E) 900 10 = (False, True)
   \<and> validity_at (test_credential E) 2100 10 = (True, False)"

lemma test_credential_signed:
  assumes "base58_roundtrip E" "key_roundtrip E" "hex_roundtrip E" "signatures_verify E"
    and "view_serializes E (unsigned_view_of (test_credential E))"
  obtains vc pr where "sign_with E (test_credential E) (signing_key E 1) 1000 = Ok vc" "verify_signature E vc = Ok ()"
    "vc = (test_credential E)\<lparr>vc_proof := Some pr\<rparr>" "proof_verification_method pr = vc_issuer (test_credential E)"
proof -
  have issuer: "vc_issuer (test_credential E) = did_from_verifying_key E (test_vk E 1)"
    by (simp add: test_credential_def)
  obtain vc where vc: "sign_with E (test_credential E) (signing_key E 1) 1000 = Ok vc" "verify_signature E vc = Ok ()"
    using assms(1-4) issuer assms(5) by (rule signed_verifies)
  from vc(1) obtain pr where "vc = (test_credential E)\<lparr>vc_proof := Some pr\<rparr>"
    "proof_verification_method pr = vc_issuer (test_credential E)"
    by (auto simp: sign_with_def Let_def)
  with vc show ?thesis by (rule that)
qed

text \<open>
  The credential tests pass for every backend with the documented round trips that serialises
  the test's credentials and has different keys for the seeds 1 and 9; tampering is detected
  unless the backend accepts the signature for the other payload.
\<close>

theorem credential_unit_tests_pass:
  assumes "base58_roundtrip E" "key_roundtrip E" "hex_roundtrip E" "signatures_verify E"
    and "view_serializes E (unsigned_view_of (test_credential E))" "test_vk E 9 \<noteq> test_vk E 1"
    and "ext_view_to_vec E (unsigned_view_of (forge_claim (test_credential E))) = Ok forged"
  shows "sign_then_verify_succeeds E \<and> issuer_mismatch_is_rejected E \<and> validity_window_respects_leeway E
    \<and> (tampered_claims_break_verification E \<or> (\<exists>sig. ext_vk_verify E (test_vk E 1) forged sig))"
proof -
  obtain vc pr where vc: "sign_with E (test_credential E) (signing_key E 1) 1000 = Ok vc" "verify_signature E vc = Ok ()"
    "vc = (test_credential E)\<lparr>vc_proof := Some pr\<rparr>" "proof_verification_method pr = vc_issuer (test_credential E)"
    using assms(1-5) by (rule test_credential_signed)
  have "did_from_verifying_key E (test_vk E 9) \<noteq> did_from_verifying_key E (test_vk E 1)"
    using assms(1,2,6) by (metis did_verifying_key_from_key sum.inject(2))
  then have "issuer_mismatch_is_rejected E"
    using vc(1,3,4) by (simp add: issuer_mismatch_is_rejected_def verify_signature_def test_credential_def)
  moreover have "sign_then_verify_succeeds E" using vc by (simp add: sign_then_verify_succeeds_def is_ok_def)
  moreover have "validity_window_respects_leeway E"
    by (simp add: validity_window_respects_leeway_def validity_at_def test_credential_def)
  moreover have "tampered_claims_break_verification E \<or> (\<exists>sig. ext_vk_verify E (test_vk E 1) forged sig)"
  proof -
    obtain sig where sig: "proof_signature_bytes E pr = Ok sig"
      using vc(2,3) by (auto simp: verify_signature_Ok_iff proof_signature_bytes_def)
    have view: "unsigned_view_of (forge_claim vc) = unsigned_view_of (forge_claim (test_credential E))"
      by (simp add: vc(3) forge_claim_def unsigned_view_of_def)
    have "signing_payload E (forge_claim vc) = Ok forged"
      unfolding signing_payload_def view assms(7) by simp
    moreover have "vc_proof (forge_claim vc) = Some pr" "vc_issuer (forge_claim vc) = did_from_verifying_key E (test_vk E 1)"
      "proof_verification_method pr = did_from_verifying_key E (test_vk E 1)"
      using vc(4) by (simp_all add: vc(3) forge_claim_def test_credential_def)
    ultimately have "verify_signature E (forge_claim vc) = verify_payload E (test_vk E 1) forged sig"
      using assms(1,2) sig by (simp add: verify_signature_def)
    then show ?thesis
      by (cases "ext_vk_verify E (test_vk E 1) forged sig")
        (auto simp: tampered_claims_break_verification_def vc(1) verify_payload_def)
  qed
  ultimately show ?thesis by blast
qed

end
