(* ===== verification/Verifier_Tests.thy ===== *)
theory Verifier_Tests
  imports Verifier Types_Tests "HOL-Library.Sublist"
begin

text \<open>
  The unit tests of \<open>edgeauth-verifier/src/lib.rs\<close>, translated: a test is the conjunction of its
  assertions, with every \<open>unwrap\<close> a failure of the test. The source runs them on one fixed key
  and the crates it links; here they are proved for every implementation of the primitives that
  behaves as documented. The two tests of tampering and garbage rest on unforgeability, which is
  not assumed: they pass or exhibit a forgery.
\<close>

section \<open>Fixtures\<close>

definition jwks_for :: "('vk, 'sk, 'z) primitives_scheme \<Rightarrow> 'sk \<Rightarrow> string \<Rightarrow> jwks" where
  "jwks_for E sk kid = jwks_from_keys [jwk_from_verifying_key E (ext_sk_verifying_key E sk) kid]"

definition base_claims :: jwt_claims where
  "base_claims = \<lparr> claim_iss = Some ''https://issuer.example'', claim_sub = Some ''user-1'',
     claim_aud = Some (Single ''edge-api''), claim_exp = Some 2000, claim_nbf = Some 1000,
     claim_iat = Some 1000, claim_jti = Some ''tok-1'', claim_scope = Some ''openid documents:read'',
     claim_roles = [''editor''] \<rparr>"

definition mint_header :: "string \<Rightarrow> jwt_header" where
  "mint_header kid = \<lparr> hdr_alg = JWT_ALG, hdr_typ = Some ''JWT'', hdr_kid = Some kid \<rparr>"

definition mint :: "('vk, 'sk, 'z) jwt_env_scheme \<Rightarrow> 'sk \<Rightarrow> string \<Rightarrow> jwt_claims \<Rightarrow> string option" where
  \<comment> \<open>\<open>None\<close> where \<open>unwrap\<close> panics\<close>
  "mint E sk kid claims = (case encode_jwt E (mint_header kid) claims sk of Err e \<Rightarrow> None | Ok t \<Rightarrow> Some t)"

definition unsigned_credential :: "('vk, 'sk, 'z) primitives_scheme \<Rightarrow> byte \<Rightarrow> byte \<Rightarrow> verifiable_credential" where
  "unsigned_credential E issuer_seed subject_seed =
     \<lparr> vc_id = ''cred-1'', vc_credential_type = ''KycVerified'',
       vc_issuer = did_from_verifying_key E (ext_sk_verifying_key E (signing_key E issuer_seed)),
       vc_subject = \<lparr> subj_id = did_from_verifying_key E (ext_sk_verifying_key E (signing_key E subject_seed)),
         subj_claims = fmupd ''kyc'' ''verified'' fmempty \<rparr>,
       vc_issued_at = 1000, vc_expires_at = Some 2000, vc_proof = None \<rparr>"

definition signed_credential ::
  "('vk, 'sk, 'z) vc_env_scheme \<Rightarrow> byte \<Rightarrow> byte \<Rightarrow> verifiable_credential option" where
  "signed_credential E issuer_seed subject_seed =
     (case sign_with E (unsigned_credential E issuer_seed subject_seed) (signing_key E issuer_seed) 1000 of
        Err e \<Rightarrow> None | Ok vc \<Rightarrow> Some vc)"

section \<open>Tokens\<close>

text \<open>One minted token judged under a policy at a time, against the key set of its signer.\<close>

definition judged :: "('vk, 'sk, 'z) jwt_env_scheme \<Rightarrow> string \<Rightarrow> trust_policy \<Rightarrow> i64 \<Rightarrow>
    (verification_outcome \<Rightarrow> bool) \<Rightarrow> bool" where
  "judged E kid policy now asserts =
     (let sk = signing_key E 1 in
      is_some_and (\<lambda>token. asserts (verify_jwt E token (jwks_for E sk kid) policy now)) (mint E sk ''k1'' base_claims))"

definition valid_jwt_passes_all_checks :: "('vk, 'sk, 'z) jwt_env_scheme \<Rightarrow> bool" where
  "valid_jwt_passes_all_checks E =
     judged E ''k1'' (with_leeway (requiring_scope (with_audience
         (with_trusted_issuer permissive ''https://issuer.example'') ''edge-api'') ''openid'') 30) 1500
       (\<lambda>out. out_valid out \<and> out_subject out = Some ''user-1''
          \<and> out_issuer out = Some ''https://issuer.example'' \<and> ''openid'' \<in> set (out_scopes out)
          \<and> checks_all (out_checks out) \<and> out_reason out = None)"

definition expired_jwt_is_rejected_with_reason :: "('vk, 'sk, 'z) jwt_env_scheme \<Rightarrow> bool" where
  "expired_jwt_is_rejected_with_reason E =
     judged E ''k1'' permissive 5000
       (\<lambda>out. \<not> out_valid out \<and> chk_signature (out_checks out) \<and> \<not> chk_not_expired (out_checks out)
          \<and> out_reason out = Some ''artifact has expired (exp)'')"

definition not_yet_valid_jwt_is_rejected :: "('vk, 'sk, 'z) jwt_env_scheme \<Rightarrow> bool" where
  "not_yet_valid_jwt_is_rejected E =
     judged E ''k1'' permissive 500 (\<lambda>out. \<not> out_valid out \<and> \<not> chk_not_before (out_checks out))"

definition leeway_admits_small_clock_skew :: "('vk, 'sk, 'z) jwt_env_scheme \<Rightarrow> bool" where
  "leeway_admits_small_clock_skew E = judged E ''k1'' (with_leeway permissive 60) 960 out_valid"

definition untrusted_issuer_is_rejected :: "('vk, 'sk, 'z) jwt_env_scheme \<Rightarrow> bool" where
  "untrusted_issuer_is_rejected E =
     judged E ''k1'' (with_trusted_issuer permissive ''https://other.example'') 1500
       (\<lambda>out. \<not> out_valid out \<and> \<not> chk_issuer_trusted (out_checks out))"

definition audience_mismatch_is_rejected :: "('vk, 'sk, 'z) jwt_env_scheme \<Rightarrow> bool" where
  "audience_mismatch_is_rejected E =
     judged E ''k1'' (with_audience permissive ''different-api'') 1500
       (\<lambda>out. \<not> out_valid out \<and> \<not> chk_audience (out_checks out))"

definition missing_required_scope_is_rejected :: "('vk, 'sk, 'z) jwt_env_scheme \<Rightarrow> bool" where
  "missing_required_scope_is_rejected E =
     judged E ''k1'' (requiring_scope permissive ''admin:write'') 1500
       (\<lambda>out. \<not> out_valid out \<and> \<not> chk_scopes (out_checks out))"

definition revoked_jti_is_rejected :: "('vk, 'sk, 'z) jwt_env_scheme \<Rightarrow> bool" where
  "revoked_jti_is_rejected E =
     judged E ''k1'' (revoking permissive ''tok-1'') 1500
       (\<lambda>out. \<not> out_valid out \<and> \<not> chk_not_revoked (out_checks out))"

definition unknown_kid_is_a_hard_failure :: "('vk, 'sk, 'z) jwt_env_scheme \<Rightarrow> bool" where
  "unknown_kid_is_a_hard_failure E =
     judged E ''different-kid'' permissive 1500
       (\<lambda>out. \<not> out_valid out \<and> \<not> chk_signature (out_checks out)
          \<and> is_some_and (sublist ''unknown key id'') (out_reason out))"

definition garbage_never_verifies_and_never_panics :: "('vk, 'sk, 'z) jwt_env_scheme \<Rightarrow> string \<Rightarrow> bool" where
  "garbage_never_verifies_and_never_panics E s \<longleftrightarrow>
     \<not> out_valid (verify_jwt E s (jwks_for E (signing_key E 1) ''k1'') permissive 1500)"

section \<open>Credentials\<close>

definition valid_credential_passes :: "('vk, 'sk, 'z) vc_env_scheme \<Rightarrow> bool" where
  "valid_credential_passes E = is_some_and (\<lambda>vc.
     let out = verify_credential E vc (with_trusted_issuer permissive (did_as_str (vc_issuer vc))) 1500
     in out_valid out \<and> out_kind out = Vc_Kind \<and> out_subject out = Some (did_as_str (subj_id (vc_subject vc))))
     (signed_credential E 1 2)"

definition untrusted_credential_issuer_is_rejected :: "('vk, 'sk, 'z) vc_env_scheme \<Rightarrow> bool" where
  "untrusted_credential_issuer_is_rejected E = is_some_and (\<lambda>vc.
     let out = verify_credential E vc (with_trusted_issuer permissive ''did:key:zSomeOtherIssuer'') 1500
     in \<not> out_valid out \<and> chk_signature (out_checks out) \<and> \<not> chk_issuer_trusted (out_checks out))
     (signed_credential E 1 2)"

definition expired_credential_is_rejected :: "('vk, 'sk, 'z) vc_env_scheme \<Rightarrow> bool" where
  "expired_credential_is_rejected E = is_some_and (\<lambda>vc.
     let out = verify_credential E vc permissive 9000
     in \<not> out_valid out \<and> \<not> chk_not_expired (out_checks out)) (signed_credential E 1 2)"

definition revoked_credential_is_rejected :: "('vk, 'sk, 'z) vc_env_scheme \<Rightarrow> bool" where
  "revoked_credential_is_rejected E = is_some_and (\<lambda>vc.
     let out = verify_credential E vc (revoking permissive ''cred-1'') 1500
     in \<not> out_valid out \<and> \<not> chk_not_revoked (out_checks out)) (signed_credential E 1 2)"

definition tampered_credential_is_a_hard_failure :: "('vk, 'sk, 'z) vc_env_scheme \<Rightarrow> bool" where
  "tampered_credential_is_a_hard_failure E = is_some_and (\<lambda>vc.
     let out = verify_credential E (forge_claim vc) permissive 1500
     in \<not> out_valid out \<and> \<not> chk_signature (out_checks out)) (signed_credential E 1 2)"

definition verify_credential_json_round_trips :: "('vk, 'sk, 'z) vc_env_scheme \<Rightarrow> bool" where
  "verify_credential_json_round_trips E = is_some_and (\<lambda>vc.
     case ext_vc_to_string E vc of
       Err e \<Rightarrow> False
     | Ok json \<Rightarrow>
         (case verify_credential_json E json permissive 1500 of Err e \<Rightarrow> False | Ok out \<Rightarrow> out_valid out)
         \<and> \<not> is_ok (verify_credential_json E ''not json'' permissive 1500))
     (signed_credential E 1 2)"

section \<open>The tests pass\<close>

definition token_backend :: "('vk, 'sk, 'z) jwt_env_scheme \<Rightarrow> bool" where
  "token_backend E \<longleftrightarrow> base64_roundtrip E \<and> base64_dotfree E \<and> key_roundtrip E \<and> signatures_verify E
     \<and> json_header E (mint_header ''k1'') \<and> json_claims E base_claims"

definition credential_backend :: "('vk, 'sk, 'z) vc_env_scheme \<Rightarrow> bool" where
  "credential_backend E \<longleftrightarrow> base58_roundtrip E \<and> key_roundtrip E \<and> hex_roundtrip E \<and> signatures_verify E
     \<and> view_serializes E (unsigned_view_of (unsigned_credential E 1 2))"

definition granted :: "jwt_claims \<Rightarrow> trust_policy \<Rightarrow> i64 \<Rightarrow> verification_outcome" where
  \<comment> \<open>the outcome of an authenticated token\<close>
  "granted c p now =
     \<lparr> out_valid = checks_all (jwt_checks c p now), out_kind = Jwt_Kind, out_subject = claim_sub c,
       out_issuer = claim_iss c, out_scopes = iter_set (claims_scopes c), out_roles = claim_roles c,
       out_checks = jwt_checks c p now, out_reason = first_failure (jwt_checks c p now) \<rparr>"

lemma minted_granted:
  assumes "base64_roundtrip E" "base64_dotfree E" "key_roundtrip E" "signatures_verify E"
    and "json_header E (mint_header kid)" "json_claims E claims"
  obtains token where "mint E sk kid claims = Some token"
    "\<And>p now. verify_jwt E token (jwks_for E sk kid) p now = granted claims p now"
proof -
  obtain token j where *: "encode_jwt E (mint_header kid) claims sk = Ok token"
    "signed_jwt_parse E token = Ok j" "sj_claims j = claims"
    "signed_jwt_verify_with E j (jwks_for E sk kid) = Ok ()"
  proof (rule minted_verifies [of E "mint_header kid" claims "jwks_for E sk kid" sk kid])
    show "jwks_find (jwks_for E sk kid) (hdr_kid (mint_header kid))
        = Some (jwk_from_verifying_key E (ext_sk_verifying_key E sk) kid)"
      by (simp add: mint_header_def jwks_for_def)
  qed (use assms in \<open>simp_all\<close>, simp add: mint_header_def)
  show ?thesis
    using verify_jwt_Ok [OF *(2,4)] *(1,3) by (intro that [of token]) (simp_all add: mint_def granted_def)
qed

lemma judged_known:
  assumes "token_backend E"
  shows "judged E ''k1'' p now Q \<longleftrightarrow> Q (granted base_claims p now)"
proof -
  obtain token where "mint E (signing_key E 1) ''k1'' base_claims = Some token"
    "\<And>p now. verify_jwt E token (jwks_for E (signing_key E 1) ''k1'') p now = granted base_claims p now"
    by (rule minted_granted [of E "''k1''" base_claims "signing_key E 1"])
      (use assms in \<open>simp_all add: token_backend_def\<close>)
  then show ?thesis by (simp add: judged_def)
qed

lemma judged_unknown:
  assumes "token_backend E"
  shows "judged E ''different-kid'' p now Q \<longleftrightarrow> Q (rejected Jwt_Kind (''unknown key id: k1''))"
proof -
  let ?sk = "signing_key E 1"
  obtain token j where *: "encode_jwt E (mint_header ''k1'') base_claims ?sk = Ok token"
    "signed_jwt_parse E token = Ok j" "sj_header j = mint_header ''k1''"
    by (rule encode_then_parse [of E "mint_header ''k1''" base_claims ?sk])
      (use assms in \<open>simp_all add: token_backend_def\<close>)
  have "jwks_find (jwks_for E ?sk ''different-kid'') (Some ''k1'') = None"
    by (simp add: jwks_find_kid_None jwks_for_def jwks_from_keys_def jwk_from_verifying_key_def)
  then have "signed_jwt_verify_with E j (jwks_for E ?sk ''different-kid'') = Err (UnknownKeyId ''k1'')"
    by (simp add: signed_jwt_verify_with_def *(3) mint_header_def unwrap_or_empty_def)
  then show ?thesis
    using *(1,2) by (simp add: judged_def mint_def verify_jwt_def)
qed

lemmas token_tests =
  valid_jwt_passes_all_checks_def expired_jwt_is_rejected_with_reason_def not_yet_valid_jwt_is_rejected_def
  leeway_admits_small_clock_skew_def untrusted_issuer_is_rejected_def audience_mismatch_is_rejected_def
  missing_required_scope_is_rejected_def revoked_jti_is_rejected_def unknown_kid_is_a_hard_failure_def

text \<open>
  The token tests. For every backend that behaves as documented on the test's header and claims,
  the nine tests of token verification pass: acceptance, expiry, not-before, leeway, issuer,
  audience, scopes, revocation and unknown key.
\<close>

theorem token_tests_pass:
  assumes "token_backend E"
  shows "valid_jwt_passes_all_checks E \<and> expired_jwt_is_rejected_with_reason E
    \<and> not_yet_valid_jwt_is_rejected E \<and> leeway_admits_small_clock_skew E
    \<and> untrusted_issuer_is_rejected E \<and> audience_mismatch_is_rejected E
    \<and> missing_required_scope_is_rejected E \<and> revoked_jti_is_rejected E \<and> unknown_kid_is_a_hard_failure E"
proof -
  have scopes: "split_whitespace ''openid documents:read'' = [''openid'', ''documents:read'']"
    by (rule sample_scopes)
  have unknown: "sublist ''unknown key id'' ''unknown key id: k1''"
    by (rule prefix_imp_sublist) simp
  show ?thesis
    unfolding token_tests judged_known [OF assms] judged_unknown [OF assms]
    using unknown
    by (simp add: granted_def base_claims_def jwt_checks_def checks_all_def first_failure_def policy_defs
        issuer_trusted_def claims_scopes_def scopes Let_def)
qed

lemma signed_credential_known:
  assumes "credential_backend E"
  obtains vc where "signed_credential E 1 2 = Some vc" "verify_signature E vc = Ok ()"
    "unsigned_view_of vc = unsigned_view_of (unsigned_credential E 1 2)" "vc_proof vc \<noteq> None"
proof -
  have laws: "base58_roundtrip E" "key_roundtrip E" "hex_roundtrip E" "signatures_verify E"
    "view_serializes E (unsigned_view_of (unsigned_credential E 1 2))"
    using assms by (simp_all add: credential_backend_def)
  have issuer: "vc_issuer (unsigned_credential E 1 2)
      = did_from_verifying_key E (ext_sk_verifying_key E (signing_key E 1))"
    by (simp add: unsigned_credential_def)
  obtain vc where "sign_with E (unsigned_credential E 1 2) (signing_key E 1) 1000 = Ok vc"
    "verify_signature E vc = Ok ()" "unsigned_view_of vc = unsigned_view_of (unsigned_credential E 1 2)"
    "vc_proof vc \<noteq> None"
    using laws(1-4) issuer laws(5) by (rule signed_verifies)
  then show ?thesis by (intro that) (simp_all add: signed_credential_def)
qed

lemma issuer_not_in_alphabet:
  assumes "base58_roundtrip E" "\<not> is_ok (ext_b58_decode E ''SomeOtherIssuer'')"
  shows "did_as_str (did_from_verifying_key E k) \<noteq> ''did:key:zSomeOtherIssuer''"
proof
  assume "did_as_str (did_from_verifying_key E k) = ''did:key:zSomeOtherIssuer''"
  then have "ext_b58_encode E (ED25519_MULTICODEC @ ext_vk_as_bytes E k) = ''SomeOtherIssuer''"
    by (simp add: DID_KEY_PREFIX_def BASE58BTC_def)
  then have "ext_b58_decode E ''SomeOtherIssuer'' = Ok (ED25519_MULTICODEC @ ext_vk_as_bytes E k)"
    using base58_roundtripD [OF assms(1), of "ED25519_MULTICODEC @ ext_vk_as_bytes E k"] by simp
  with assms(2) show False by (simp add: is_ok_def)
qed

text \<open>
  The credential tests. For every backend that behaves as documented on the test's credential,
  that finds no base58 text in a word with letters outside its alphabet and no credential in
  a text that is not JSON, the five tests that need no unforgeability pass.
\<close>

theorem credential_tests_pass:
  assumes "credential_backend E" "\<not> is_ok (ext_b58_decode E ''SomeOtherIssuer'')"
    and "\<And>vc. signed_credential E 1 2 = Some vc \<Longrightarrow> json_credential E vc"
    and "\<not> is_ok (ext_vc_from_str E ''not json'')"
  shows "valid_credential_passes E \<and> untrusted_credential_issuer_is_rejected E
    \<and> expired_credential_is_rejected E \<and> revoked_credential_is_rejected E
    \<and> verify_credential_json_round_trips E"
proof -
  obtain vc where vc: "signed_credential E 1 2 = Some vc" "verify_signature E vc = Ok ()"
    "unsigned_view_of vc = unsigned_view_of (unsigned_credential E 1 2)"
    using assms(1) by (rule signed_credential_known)
  have fields: "vc_id vc = ''cred-1''" "vc_issued_at vc = 1000" "vc_expires_at vc = Some 2000"
    "did_as_str (vc_issuer vc) \<noteq> ''did:key:zSomeOtherIssuer''"
    using vc(3) issuer_not_in_alphabet [OF _ assms(2)] assms(1)
    by (simp_all add: unsigned_view_of_def unsigned_credential_def credential_backend_def del: did_key_collect)
  note out = verify_credential_Ok [OF vc(2)] credential_checks_def validity_at_def
  obtain doc where doc: "ext_vc_to_string E vc = Ok doc" "ext_vc_from_str E doc = Ok vc"
    using assms(3) [OF vc(1)] by (auto simp: json_credential_def)
  have valid: "out_valid (verify_credential E vc permissive 1500)"
    by (simp add: out fields checks_all_def policy_defs issuer_trusted_def Let_def)
  have bad: "\<not> is_ok (verify_credential_json E ''not json'' permissive 1500)"
    using assms(4) by (cases "ext_vc_from_str E ''not json''") (simp_all add: verify_credential_json_def is_ok_def)
  have "valid_credential_passes E"
    by (simp add: valid_credential_passes_def vc(1) out fields checks_all_def policy_defs issuer_trusted_def Let_def)
  moreover have "untrusted_credential_issuer_is_rejected E"
    by (simp add: untrusted_credential_issuer_is_rejected_def vc(1) out fields checks_all_def policy_defs
        issuer_trusted_def Let_def)
  moreover have "expired_credential_is_rejected E"
    by (simp add: expired_credential_is_rejected_def vc(1) out fields checks_all_def policy_defs Let_def)
  moreover have "revoked_credential_is_rejected E"
    by (simp add: revoked_credential_is_rejected_def vc(1) out fields checks_all_def policy_defs Let_def)
  moreover have "verify_credential_json_round_trips E"
    using valid bad by (simp add: verify_credential_json_round_trips_def vc(1) doc verify_credential_json_def)
  ultimately show ?thesis by blast
qed

lemma forge_claim_view:
  assumes "unsigned_view_of vc = unsigned_view_of (unsigned_credential E 1 2)"
  shows "unsigned_view_of (forge_claim vc) \<noteq> unsigned_view_of vc"
proof
  assume "unsigned_view_of (forge_claim vc) = unsigned_view_of vc"
  then have "fmlookup (subj_claims (vc_subject (forge_claim vc))) ''kyc'' = fmlookup (subj_claims (vc_subject vc)) ''kyc''"
    by (simp add: unsigned_view_of_def)
  moreover have "fmlookup (subj_claims (vc_subject vc)) ''kyc'' = Some ''verified''"
    using assms by (simp add: unsigned_view_of_def unsigned_credential_def)
  ultimately show False by (simp add: forge_claim_def)
qed

text \<open>
  The two tests that rest on unforgeability. The tampered credential is rejected, or the issuer's
  key accepts the signature of the proof for two different credentials; garbage is rejected, or
  it parses as a token with a signature that the trusted key accepts.
\<close>

theorem tamper_test_passes_or_forgery:
  assumes "credential_backend E"
  shows "tampered_credential_is_a_hard_failure E
    \<or> (\<exists>vc key sig p p'. signed_credential E 1 2 = Some vc \<and> did_verifying_key E (vc_issuer vc) = Ok key
         \<and> unsigned_view_of (forge_claim vc) \<noteq> unsigned_view_of vc
         \<and> ext_view_to_vec E (unsigned_view_of vc) = Ok p \<and> ext_vk_verify E key p sig
         \<and> ext_view_to_vec E (unsigned_view_of (forge_claim vc)) = Ok p' \<and> ext_vk_verify E key p' sig)"
proof -
  obtain vc where vc: "signed_credential E 1 2 = Some vc" "verify_signature E vc = Ok ()"
    "unsigned_view_of vc = unsigned_view_of (unsigned_credential E 1 2)"
    using assms by (rule signed_credential_known)
  show ?thesis
  proof (cases rule: verify_credential_cases [of E "forge_claim vc" permissive 1500])
    case (rejected e)
    then show ?thesis by (simp add: tampered_credential_is_a_hard_failure_def vc(1))
  next
    case authenticated
    have "vc_issuer (forge_claim vc) = vc_issuer vc" "vc_proof (forge_claim vc) = vc_proof vc"
      by (simp_all add: forge_claim_def)
    with authenticated(1) vc(1,2) forge_claim_view [OF vc(3)] show ?thesis
      by (auto simp: verify_signature_Ok_iff)
  qed
qed

theorem garbage_test_passes_or_authenticated:
  "garbage_never_verifies_and_never_panics E s
   \<or> (\<exists>j. signed_jwt_parse E s = Ok j \<and> signed_jwt_verify_with E j (jwks_for E (signing_key E 1) ''k1'') = Ok ())"
  unfolding garbage_never_verifies_and_never_panics_def verify_jwt_valid_iff by blast

section \<open>The backends exist\<close>

lemma sample_token_backend: "token_backend (sample_jwt_env [mint_header ''k1''] [base_claims] [] ())"
  by (simp add: token_backend_def sample_json_header sample_json_claims)

definition test_view :: unsigned_view where
  "test_view = unsigned_view_of (unsigned_credential (sample_primitives ()) 1 2)"

lemma sample_credential_backend: "credential_backend (sample_vc_env [test_view] [] [] [] [] ())"
proof -
  have "unsigned_credential (sample_vc_env [test_view] [] [] [] [] ()) 1 2 = unsigned_credential (sample_primitives ()) 1 2"
    by (simp add: unsigned_credential_def signing_key_def did_from_verifying_key_def sample_vc_env_def
        sample_jwt_env_def sample_primitives_def)
  then show ?thesis
    by (simp add: credential_backend_def view_serializes_def test_view_def table_to_vec_def)
qed

theorem token_tests_pass_witness:
  "valid_jwt_passes_all_checks (sample_jwt_env [mint_header ''k1''] [base_claims] [] ())"
  using token_tests_pass [OF sample_token_backend] by simp

end
