(* ===== verification/Infra_Tests.thy ===== *)
theory Infra_Tests
  imports Verifier_Tests Service
begin

text \<open>
  The unit tests of \<open>edgeauth-infra\<close> (\<open>audit.rs\<close>, \<open>clock.rs\<close>, \<open>jwks.rs\<close>, \<open>service.rs\<close>), translated: the
  calls of a test in order and the conjunction of its assertions. What tokio and the network do
  is a hypothesis where a test depends on it.
\<close>

section \<open>Audit\<close>

definition test_event :: "bool \<Rightarrow> verification_event" where
  "test_event valid = \<lparr> ev_kind = Jwt_Kind, ev_valid = valid, ev_subject = Some ''user-1'',
     ev_issuer = Some ''iss'', ev_reason = None, ev_at = 1000 \<rparr>"

fun received_first :: "('ch, 'z) broadcast_env_scheme \<Rightarrow> 'ch audit_sink \<Rightarrow> nat option \<Rightarrow> verification_event option" where
  \<comment> \<open>the first \<open>rx.recv().await.unwrap()\<close>\<close>
  "received_first B (Broadcast_Sink ch) (Some rx) =
     (case ext_received B ch rx of Ok e # _ \<Rightarrow> Some e | _ \<Rightarrow> None)"
| "received_first B _ _ = None"

definition broadcast_delivers_to_subscribers :: "('ch, 'z) broadcast_env_scheme \<Rightarrow> bool" where
  "broadcast_delivers_to_subscribers B =
     (let sink = broadcast_sink_new B 8; (sink, rx) = sink_subscribe B sink in
      sink_subscriber_count B sink = 1
      \<and> is_some_and (\<lambda>received. ev_valid received \<and> ev_subject received = Some ''user-1'')
          (received_first B (audit_record B (test_event True) sink) rx))"

definition recording_without_subscribers_is_ok :: "('ch, 'z) broadcast_env_scheme \<Rightarrow> bool" where
  "recording_without_subscribers_is_ok B \<longleftrightarrow>
     sink_subscriber_count B (audit_record B (test_event False) (broadcast_sink_new B 8)) = 0"

definition noop_sink_discards :: "('ch, 'z) broadcast_env_scheme \<Rightarrow> bool" where
  "noop_sink_discards B \<longleftrightarrow> audit_record B (test_event True) Noop_Sink = Noop_Sink"

definition counts_receivers :: "('ch, 'z) broadcast_env_scheme \<Rightarrow> bool" where
  \<comment> \<open>documented: a new channel has no receiver, \<open>subscribe\<close> adds one, \<open>send\<close> none\<close>
  "counts_receivers B \<longleftrightarrow> (\<forall>n. ext_receiver_count B (ext_channel B n) = 0)
     \<and> (\<forall>ch. ext_receiver_count B (fst (ext_subscribe B ch)) = Suc (ext_receiver_count B ch))
     \<and> (\<forall>ch e. ext_receiver_count B (ext_send_event B ch e) = ext_receiver_count B ch)"

theorem audit_tests_pass:
  assumes "counts_receivers B" "broadcast_delivers B K" "\<And>ch. 1 \<le> K ch"
  shows "broadcast_delivers_to_subscribers B \<and> recording_without_subscribers_is_ok B \<and> noop_sink_discards B"
proof -
  obtain ch rx where sub: "ext_subscribe B (ext_channel B 8) = (ch, rx)"
    by (cases "ext_subscribe B (ext_channel B 8)")
  then have one: "ext_receiver_count B ch = 1"
    using assms(1) unfolding counts_receivers_def by (metis One_nat_def fst_conv)
  have "ext_received B (foldl (ext_send_event B) ch [test_event True]) rx = map Ok [test_event True]"
    using assms(2) assms(3) [of "ext_channel B 8"] sub unfolding broadcast_delivers_def by (metis One_nat_def length_Cons list.size(3))
  then have "broadcast_delivers_to_subscribers B"
    by (simp add: broadcast_delivers_to_subscribers_def broadcast_sink_new_def sub one test_event_def del: One_nat_def)
  moreover have "recording_without_subscribers_is_ok B"
    using assms(1) by (simp add: recording_without_subscribers_is_ok_def broadcast_sink_new_def counts_receivers_def)
  ultimately show ?thesis by (simp add: noop_sink_discards_def)
qed

section \<open>Clock\<close>

definition fixed_clock_returns_its_value :: "(nat, unit) result \<Rightarrow> bool" where
  "fixed_clock_returns_its_value os \<longleftrightarrow> now_unix os (Fixed_Clock 42) = 42"

definition system_clock_is_after_2020 :: "(nat, unit) result \<Rightarrow> bool" where
  "system_clock_is_after_2020 os \<longleftrightarrow> 1577836800 <s now_unix os System_Wall_Clock"

theorem wall_clock_tests_pass:
  assumes "1577836800 < secs" "secs < 2 ^ 63"
  shows "fixed_clock_returns_its_value os \<and> system_clock_is_after_2020 (Ok secs)"
  using now_unix_exact [OF assms(2)] assms(1)
  by (simp add: fixed_clock_returns_its_value_def system_clock_is_after_2020_def word_sless_alt)

section \<open>Key providers\<close>

definition test_keys :: "('vk, 'sk, 'z) primitives_scheme \<Rightarrow> byte \<Rightarrow> string \<Rightarrow> jwks" where
  "test_keys E seed kid = jwks_for E (signing_key E seed) kid"

definition first_kid :: "jwks \<Rightarrow> string option" where
  "first_kid ks = (case jwks_keys ks of [] \<Rightarrow> None | k # _ \<Rightarrow> jwk_kid k)"

lemma first_kid_test_keys [simp]: "first_kid (test_keys E seed kid) = Some kid"
  by (simp add: first_kid_def test_keys_def jwks_for_def jwks_from_keys_def jwk_from_verifying_key_def)

definition static_provider_returns_its_keys_and_refresh_is_noop ::
  "('vk, 'sk, 'y) jwt_env_scheme \<Rightarrow> ('w, 'r, 'z) net_env_scheme \<Rightarrow> 'w \<Rightarrow> bool" where
  "static_provider_returns_its_keys_and_refresh_is_noop E N w =
     (let provider = static_new (test_keys E 1 ''k1''); (r, provider', w') = provider_refresh E N provider w in
      length (jwks_keys (provider_current provider)) = 1 \<and> r = Some (Ok ())
      \<and> first_kid (provider_current provider') = Some ''k1'')"

definition cached_provider_serves_seed_before_refresh ::
  "('vk, 'sk, 'y) jwt_env_scheme \<Rightarrow> ('w, 'r, 'z) net_env_scheme \<Rightarrow> 'w \<Rightarrow> bool" where
  "cached_provider_serves_seed_before_refresh E N w =
     (case cached_new N ''http://127.0.0.1:1/jwks.json'' (test_keys E 2 ''seed'') of
        Err e \<Rightarrow> False
      | Ok p \<Rightarrow>
          (let provider = Cached_Provider (cached_with_retry (cached_with_timeout p (from_millis 50))
                 (default_retry_policy\<lparr>rp_max_attempts := 1\<rparr>));
               (r, provider', w') = provider_refresh E N provider w
           in first_kid (provider_current provider) = Some ''seed''
              \<and> (case r of Some (Err e) \<Rightarrow> True | _ \<Rightarrow> False)
              \<and> first_kid (provider_current provider') = Some ''seed''))"

text \<open>The providers' tests, for an endpoint that no request reaches.\<close>

theorem provider_tests_pass:
  assumes "ext_client_build N USER_AGENT = Ok ()" "timeout_transparent N"
    and "\<And>v. \<not> is_ok (fst (ext_http_get N ''http://127.0.0.1:1/jwks.json'' v))"
  shows "static_provider_returns_its_keys_and_refresh_is_noop E N w
    \<and> cached_provider_serves_seed_before_refresh E N w"
proof -
  obtain p where p: "cached_new N ''http://127.0.0.1:1/jwks.json'' (test_keys E 2 ''seed'') = Ok p"
    "cp_url p = ''http://127.0.0.1:1/jwks.json''" "cp_cache p = test_keys E 2 ''seed''"
    using assms(1) by (simp add: cached_new_def)
  let ?q = "cached_with_retry (cached_with_timeout p (from_millis 50)) (default_retry_policy\<lparr>rp_max_attempts := 1\<rparr>)"
  have q: "cp_url ?q = ''http://127.0.0.1:1/jwks.json''" "cp_cache ?q = test_keys E 2 ''seed''"
    using p(2,3) by (simp_all add: cached_with_retry_def cached_with_timeout_def)
  obtain r p' w' where run: "cached_refresh E N ?q w = (r, p', w')" by (cases "cached_refresh E N ?q w")
  have "r \<noteq> Some (Ok ())"
  proof
    assume "r = Some (Ok ())"
    with run obtain v resp v' where "ext_http_get N ''http://127.0.0.1:1/jwks.json'' v = (Ok resp, v')"
      using refreshed_keys_from_url [OF _ assms(2), of E ?q w p' w'] q(1) by auto
    with assms(3) [of v] show False by (simp add: is_ok_def)
  qed
  moreover have "r \<noteq> None"
    using provider.no_panic [of E N "Cached_Provider ?q" w] run by simp
  ultimately obtain e where r: "r = Some (Err e)" by (cases r rule: option.exhaust; cases "the r") auto
  then have "provider_current (Cached_Provider p') = test_keys E 2 ''seed''"
    using provider.failed_keeps [of E N "Cached_Provider ?q" w e "Cached_Provider p'" w'] run q(2) by simp
  then have "cached_provider_serves_seed_before_refresh E N w"
    by (simp add: cached_provider_serves_seed_before_refresh_def p(1) run r q(2) Let_def)
  moreover have "static_provider_returns_its_keys_and_refresh_is_noop E N w"
    by (simp add: static_provider_returns_its_keys_and_refresh_is_noop_def static_new_def)
      (simp add: test_keys_def jwks_for_def jwks_from_keys_def)
  ultimately show ?thesis by blast
qed

section \<open>The service\<close>

definition service_claims :: jwt_claims where
  "service_claims = \<lparr> claim_iss = Some ''https://issuer.example'', claim_sub = Some ''user-1'',
     claim_aud = Some (Single ''edge-api''), claim_exp = Some 2000, claim_nbf = Some 1000,
     claim_iat = Some 1000, claim_jti = Some ''tok-1'', claim_scope = Some ''openid'',
     claim_roles = [''viewer''] \<rparr>"

definition build :: "('vk, 'sk, 'y) jwt_env_scheme \<Rightarrow> ('ch, 'z) broadcast_env_scheme \<Rightarrow> i64 \<Rightarrow> trust_policy \<Rightarrow>
    'ch edge_verifier" where
  "build E B now policy = service_new (static_new (jwks_for E (signing_key E 1) ''k1'')) (Fixed_Clock now)
     (broadcast_sink_new B 16) policy"

definition verified :: "('vk, 'sk, 'y) jwt_env_scheme \<Rightarrow> ('ch, 'z) broadcast_env_scheme \<Rightarrow> trust_policy \<Rightarrow>
    policy_override option \<Rightarrow> (verification_outcome \<Rightarrow> stats_snapshot \<Rightarrow> bool) \<Rightarrow> bool" where
  \<comment> \<open>build a service at 1500, verify the minted token, assert on the outcome and the statistics\<close>
  "verified E B policy over asserts =
     is_some_and (\<lambda>token.
       let (out, service) = service_verify_jwt E B (Err ()) token over (build E B 1500 policy)
       in asserts out (service_stats service)) (mint E (signing_key E 1) ''k1'' service_claims)"

definition verify_jwt_accepts_and_counts ::
  "('vk, 'sk, 'y) jwt_env_scheme \<Rightarrow> ('ch, 'z) broadcast_env_scheme \<Rightarrow> bool" where
  "verify_jwt_accepts_and_counts E B =
     verified E B (with_trusted_issuer permissive ''https://issuer.example'') None
       (\<lambda>out stats. out_valid out \<and> st_jwt_accepted stats = 1 \<and> st_jwt_rejected stats = 0)"

definition override_can_tighten_audience ::
  "('vk, 'sk, 'y) jwt_env_scheme \<Rightarrow> ('ch, 'z) broadcast_env_scheme \<Rightarrow> bool" where
  "override_can_tighten_audience E B =
     verified E B permissive (Some \<lparr> ovr_audience = Some ''different-api'', ovr_required_scopes = {||} \<rparr>)
       (\<lambda>out stats. \<not> out_valid out \<and> \<not> chk_audience (out_checks out) \<and> st_jwt_rejected stats = 1)"

definition override_can_require_extra_scope ::
  "('vk, 'sk, 'y) jwt_env_scheme \<Rightarrow> ('ch, 'z) broadcast_env_scheme \<Rightarrow> bool" where
  "override_can_require_extra_scope E B =
     verified E B permissive (Some \<lparr> ovr_audience = None, ovr_required_scopes = {|''admin:write''|} \<rparr>)
       (\<lambda>out stats. \<not> out_valid out \<and> \<not> chk_scopes (out_checks out))"

definition refresh_on_static_provider_is_ok ::
  "('vk, 'sk, 'y) jwt_env_scheme \<Rightarrow> ('ch, 'z) broadcast_env_scheme \<Rightarrow> ('w, 'r, 'x) net_env_scheme \<Rightarrow> 'w \<Rightarrow> bool" where
  "refresh_on_static_provider_is_ok E B N w \<longleftrightarrow>
     fst (service_refresh E N (build E B 1500 permissive) w) = Some (Ok ())"

theorem service_tests_pass:
  assumes "base64_roundtrip E" "base64_dotfree E" "key_roundtrip E" "signatures_verify E"
    and "json_header E (mint_header ''k1'')" "json_claims E service_claims"
  shows "verify_jwt_accepts_and_counts E B \<and> override_can_tighten_audience E B
    \<and> override_can_require_extra_scope E B \<and> refresh_on_static_provider_is_ok E B N w"
proof -
  obtain token where token: "mint E (signing_key E 1) ''k1'' service_claims = Some token"
    "\<And>p now. verify_jwt E token (jwks_for E (signing_key E 1) ''k1'') p now = granted service_claims p now"
    by (rule minted_granted [OF assms, of "signing_key E 1"]) (rule that)
  have run: "verified E B policy over Q \<longleftrightarrow>
      (let out = granted service_claims (effective_policy (build E B 1500 policy) over) 1500
       in Q out (service_stats (service_record B out 1500 (build E B 1500 policy))))" for policy over Q
    by (simp add: verified_def token service_verify_jwt_def Let_def)
      (simp add: build_def service_new_def static_new_def token(2))
  have policy: "sv_policy (build E B 1500 policy) = policy" for policy
    by (simp add: build_def service_new_def)
  have stats: "service_stats (service_record B out 1500 (build E B 1500 policy)) =
      (let c = count_outcome out counters_default in
       \<lparr> st_jwt_accepted = jwt_accepted c, st_jwt_rejected = jwt_rejected c,
         st_vc_accepted = vc_accepted c, st_vc_rejected = vc_rejected c \<rparr>)" for out policy
    by (simp add: service_stats_def service_record_def build_def service_new_def Let_def)
  have scopes: "split_whitespace ''openid'' = [''openid'']" by code_simp
  note unfold = granted_def service_claims_def jwt_checks_def checks_all_def policy_defs policy stats
    issuer_trusted_def claims_scopes_def scopes count_outcome_def counters_default_def Let_def
  have "verify_jwt_accepts_and_counts E B"
    by (simp add: verify_jwt_accepts_and_counts_def run unfold)
  moreover have "override_can_tighten_audience E B"
    by (simp add: override_can_tighten_audience_def run effective_policy_def override_is_empty_def unfold)
  moreover have "override_can_require_extra_scope E B"
    by (simp add: override_can_require_extra_scope_def run effective_policy_def override_is_empty_def unfold)
  moreover have "refresh_on_static_provider_is_ok E B N w"
    by (simp add: refresh_on_static_provider_is_ok_def service_refresh_def build_def service_new_def static_new_def)
  ultimately show ?thesis by blast
qed

end
