(* ===== verification/Edge_Tests.thy ===== *)
theory Edge_Tests
  imports Edge_Wasm Verifier_Tests
begin

text \<open>
  The unit tests of \<open>edgeauth-wasm/src/lib.rs\<close>, translated. They write a key set as JSON and read
  outcomes back, so these two functions of \<open>serde_json\<close> are parameters here: \<open>write_jwks\<close> and
  \<open>read_outcome\<close>, with what the tests rely on as hypotheses.
\<close>

definition edge_claims :: jwt_claims where
  "edge_claims = \<lparr> claim_iss = Some ''https://issuer.example'', claim_sub = Some ''user-1'',
     claim_aud = Some (Single ''edge-api''), claim_exp = Some 4000000000, claim_nbf = Some 1000,
     claim_iat = Some 1000, claim_jti = Some ''tok-1'', claim_scope = Some ''openid'', claim_roles = [] \<rparr>"

definition edge_time :: f64 where
  "edge_time = F64_Finite 2000000000"

definition quoted_audience_policy :: string where
  "quoted_audience_policy = ''{'' @ [CHR 0x22] @ ''expected_audience'' @ [CHR 0x22] @ '':'' @ [CHR 0x22]
     @ ''different'' @ [CHR 0x22] @ ''}''"

text \<open>
  \<open>token_and_jwks\<close>, the call, and the assertions on the outcome read back. The key set handed over
  is \<open>jwks_text\<close> or, where that is \<open>None\<close>, the one minted with the token.
\<close>

definition edge_judged ::
  "('vk, 'sk, 'z) wasm_env_scheme \<Rightarrow> (jwks \<Rightarrow> (string, string) result) \<Rightarrow>
     (string \<Rightarrow> (verification_outcome, string) result) \<Rightarrow> string option \<Rightarrow> string \<Rightarrow>
     (verification_outcome \<Rightarrow> bool) \<Rightarrow> bool" where
  "edge_judged E write_jwks read_outcome jwks_text policy asserts =
     is_some_and (\<lambda>token.
       unwrapped (write_jwks (jwks_for E (signing_key E 1) ''k1'')) (\<lambda>jwks.
       unwrapped (read_outcome (wasm_verify_jwt E token
           (case jwks_text of None \<Rightarrow> jwks | Some s \<Rightarrow> s) policy edge_time)) asserts))
     (mint E (signing_key E 1) ''k1'' edge_claims)"

definition verify_jwt_returns_valid_outcome_json ::
  "('vk, 'sk, 'z) wasm_env_scheme \<Rightarrow> (jwks \<Rightarrow> (string, string) result) \<Rightarrow>
     (string \<Rightarrow> (verification_outcome, string) result) \<Rightarrow> bool" where
  "verify_jwt_returns_valid_outcome_json E write_jwks read_outcome =
     edge_judged E write_jwks read_outcome None '''' (\<lambda>out. out_valid out \<and> out_subject out = Some ''user-1'')"

definition verify_jwt_with_policy_enforces_audience ::
  "('vk, 'sk, 'z) wasm_env_scheme \<Rightarrow> (jwks \<Rightarrow> (string, string) result) \<Rightarrow>
     (string \<Rightarrow> (verification_outcome, string) result) \<Rightarrow> bool" where
  "verify_jwt_with_policy_enforces_audience E write_jwks read_outcome =
     edge_judged E write_jwks read_outcome None quoted_audience_policy
       (\<lambda>out. \<not> out_valid out \<and> \<not> chk_audience (out_checks out))"

definition invalid_jwks_json_yields_rejection_not_panic ::
  "('vk, 'sk, 'z) wasm_env_scheme \<Rightarrow> (jwks \<Rightarrow> (string, string) result) \<Rightarrow>
     (string \<Rightarrow> (verification_outcome, string) result) \<Rightarrow> bool" where
  "invalid_jwks_json_yields_rejection_not_panic E write_jwks read_outcome =
     edge_judged E write_jwks read_outcome (Some ''{not-json'') ''''
       (\<lambda>out. \<not> out_valid out \<and> is_some_and (sublist ''invalid JWKS'') (out_reason out))"

definition invalid_policy_json_yields_rejection ::
  "('vk, 'sk, 'z) wasm_env_scheme \<Rightarrow> (jwks \<Rightarrow> (string, string) result) \<Rightarrow>
     (string \<Rightarrow> (verification_outcome, string) result) \<Rightarrow> bool" where
  "invalid_policy_json_yields_rejection E write_jwks read_outcome =
     edge_judged E write_jwks read_outcome None ''{bad''
       (\<lambda>out. \<not> out_valid out \<and> is_some_and (sublist ''invalid trust policy'') (out_reason out))"

definition version_is_reported :: bool where
  \<comment> \<open>\<open>CARGO_PKG_VERSION\<close> as in \<open>query_api_version\<close> of the server\<close>
  "version_is_reported \<longleftrightarrow> wasm_version = ''0.1.0''"

lemma version_test_passes: "version_is_reported"
  by (simp add: version_is_reported_def wasm_version_def)

text \<open>
  The tests pass for every backend with the documented round trips for which the two broken
  documents are unreadable and the policy document reads as the audience it names.
\<close>

theorem edge_tests_pass:
  assumes "base64_roundtrip E" "base64_dotfree E" "key_roundtrip E" "signatures_verify E"
    and "json_header E (mint_header ''k1'')" "json_claims E edge_claims"
    and read: "\<And>out. read_outcome (wasm_to_json E out) = Ok out"
    and written: "write_jwks (jwks_for E (signing_key E 1) ''k1'') = Ok doc"
      "ext_jwks_from_str E doc = Ok (jwks_for E (signing_key E 1) ''k1'')"
    and broken: "ext_jwks_from_str E ''{not-json'' = Err e1" "ext_policy_from_str E ''{bad'' = Err e2"
    and policy: "ext_policy_from_str E quoted_audience_policy = Ok (with_audience permissive ''different'')"
  shows "verify_jwt_returns_valid_outcome_json E write_jwks read_outcome
    \<and> verify_jwt_with_policy_enforces_audience E write_jwks read_outcome
    \<and> invalid_jwks_json_yields_rejection_not_panic E write_jwks read_outcome
    \<and> invalid_policy_json_yields_rejection E write_jwks read_outcome"
proof -
  obtain token where token: "mint E (signing_key E 1) ''k1'' edge_claims = Some token"
    "\<And>p now. verify_jwt E token (jwks_for E (signing_key E 1) ''k1'') p now = granted edge_claims p now"
    by (rule minted_granted [OF assms(1-6), of "signing_key E 1"]) (rule that)
  have time: "f64_as_i64 edge_time = 2000000000"
    by (simp add: edge_time_def truncate_rat_def)
  have blank: "is_blank ''''" "\<not> is_blank quoted_audience_policy" "\<not> is_blank ''{bad''" by code_simp+
  have parsed: "parse_policy E '''' = Ok permissive"
    "parse_policy E quoted_audience_policy = Ok (with_audience permissive ''different'')"
    "parse_policy E ''{bad'' = Err (''invalid trust policy JSON: '' @ e2)"
    "jwks_from_json E doc = Ok (jwks_for E (signing_key E 1) ''k1'')"
    "jwks_from_json E ''{not-json'' = Err (Json e1)"
    by (simp_all only: parse_policy_def blank policy broken written jwks_from_json_def map_err_simps if_True if_False)
  have contains: "sublist x (x @ y)" for x y :: string by (rule prefix_imp_sublist) simp
  have "sublist ''invalid JWKS'' (''invalid JWKS'' @ '' JSON: '' @ verify_error_display (Json e1))"
    "sublist ''invalid trust policy'' (''invalid trust policy'' @ '' JSON: '' @ e2)" by (rule contains)+
  then have reasons: "sublist ''invalid JWKS'' (''invalid JWKS JSON: '' @ verify_error_display (Json e1))"
    "sublist ''invalid trust policy'' (''invalid trust policy JSON: '' @ e2)" by simp_all
  show ?thesis
    unfolding verify_jwt_returns_valid_outcome_json_def verify_jwt_with_policy_enforces_audience_def
      invalid_jwks_json_yields_rejection_not_panic_def invalid_policy_json_yields_rejection_def
    using reasons
    by (simp add: edge_judged_def token written(1) wasm_verify_jwt_def parsed read time)
      (simp add: granted_def edge_claims_def jwt_checks_def checks_all_def policy_defs issuer_trusted_def Let_def)
qed

end
