(* ===== verification/Node_Tests.thy ===== *)
theory Node_Tests
  imports Node_Startup Http_Router Verifier_Tests
begin

text \<open>
  The integration tests of \<open>edgeauth-node/tests/graphql_flow.rs\<close>, translated: a state built from a
  configuration, a token minted relative to the current time, operations executed against the
  schema, assertions on the returned data. Executing a document calls the resolver of each field
  it selects, so \<open>data_of\<close> is applied to what the resolver returns. The clock is read by the test
  (\<open>os\<close>) and again by the service (\<open>os'\<close>).
\<close>

section \<open>Fixtures\<close>

definition SEED :: byte where "SEED = 7"

definition ISSUER :: string where "ISSUER = ''https://issuer.local''"

definition AUDIENCE :: string where "AUDIENCE = ''edge-api''"

definition flow_common :: common_args where
  "flow_common = \<lparr> ca_signer_seed = SEED, ca_issuer = ISSUER, ca_trusted_issuers = [],
     ca_audience = Some AUDIENCE, ca_leeway_secs = 60, ca_jwks_url = None, ca_jwks_refresh_secs = 300 \<rparr>"

definition flow_now :: "(nat, unit) result \<Rightarrow> i64" where
  "flow_now os = (case os of Ok secs \<Rightarrow> word_of_nat secs | Err _ \<Rightarrow> 0)"

definition flow_claims :: "string \<Rightarrow> string \<Rightarrow> i64 \<Rightarrow> i64 \<Rightarrow> jwt_claims" where
  "flow_claims issuer aud nbf exp' =
     \<lparr> claim_iss = Some issuer, claim_sub = Some ''user-1'', claim_aud = Some (Single aud),
       claim_exp = Some exp', claim_nbf = Some nbf, claim_iat = Some nbf, claim_jti = Some ''jti-1'',
       claim_scope = Some ''openid'', claim_roles = [''reader''] \<rparr>"

definition flow_mint ::
  "('vk, 'sk, 'y) jwt_env_scheme \<Rightarrow> string \<Rightarrow> string \<Rightarrow> i64 \<Rightarrow> i64 \<Rightarrow> string option" where
  \<comment> \<open>\<open>None\<close> where \<open>expect\<close> panics\<close>
  "flow_mint E issuer aud nbf exp' =
     (case encode_jwt E \<lparr> hdr_alg = JWT_ALG, hdr_typ = Some ''JWT'', hdr_kid = Some LOCAL_KID \<rparr>
        (flow_claims issuer aud nbf exp') (local_signer E SEED) of
        Err e \<Rightarrow> None | Ok token \<Rightarrow> Some token)"

definition data_of :: "('a, gql_error) result \<times> 's \<Rightarrow> ('a \<Rightarrow> 's \<Rightarrow> bool) \<Rightarrow> bool" where
  "data_of r asserts = (case r of (Err e, s) \<Rightarrow> False | (Ok v, s) \<Rightarrow> asserts v s)"

definition with_schema ::
  "(('ch, 'g) service_state, node_error) result option \<Rightarrow> (('ch, 'g) service_state edge_schema \<Rightarrow> bool) \<Rightarrow> bool" where
  "with_schema built run = (case built of Some (Ok state) \<Rightarrow> run (build_schema state) | _ \<Rightarrow> False)"

section \<open>Tests\<close>

definition verifies_a_valid_jwt_and_updates_stats ::
  "('vk, 'sk, 'y) jwt_env_scheme \<Rightarrow> ('w, 'r, 'x) net_env_scheme \<Rightarrow> ('ch, 'z) broadcast_env_scheme \<Rightarrow>
     ('g, 'n, 'u) governor_scheme \<Rightarrow> (nat, unit) result \<Rightarrow> (nat, unit) result \<Rightarrow> instant \<Rightarrow> bool" where
  "verifies_a_valid_jwt_and_updates_stats E N B G os os' t =
     with_schema (build_state E N B G flow_common 1000) (\<lambda>schema.
       let n = flow_now os in
       is_some_and (\<lambda>token.
         data_of (mutation_verify_jwt E B G os' t token None None (schema_data schema)) (\<lambda>v state.
           go_valid v \<and> go_kind v = Gql_Jwt \<and> go_subject v = Some ''user-1'' \<and> go_issuer v = Some ISSUER
           \<and> gc_signature (go_checks v) \<and> gc_not_expired (go_checks v) \<and> gc_issuer_trusted (go_checks v)
           \<and> gc_audience (go_checks v)
           \<and> gs_jwt_accepted (query_stats state) = 1 \<and> gs_jwt_rejected (query_stats state) = 0))
         (flow_mint E ISSUER AUDIENCE (n - 60) (n + 3600)))"

definition rejects_an_expired_jwt_with_a_reason ::
  "('vk, 'sk, 'y) jwt_env_scheme \<Rightarrow> ('w, 'r, 'x) net_env_scheme \<Rightarrow> ('ch, 'z) broadcast_env_scheme \<Rightarrow>
     ('g, 'n, 'u) governor_scheme \<Rightarrow> (nat, unit) result \<Rightarrow> (nat, unit) result \<Rightarrow> instant \<Rightarrow> bool" where
  "rejects_an_expired_jwt_with_a_reason E N B G os os' t =
     with_schema (build_state E N B G flow_common 1000) (\<lambda>schema.
       let n = flow_now os in
       is_some_and (\<lambda>token.
         data_of (mutation_verify_jwt E B G os' t token None None (schema_data schema)) (\<lambda>v state.
           \<not> go_valid v \<and> \<not> gc_not_expired (go_checks v)
           \<and> sublist ''exp'' (case go_reason v of None \<Rightarrow> [] | Some reason \<Rightarrow> reason)))
         (flow_mint E ISSUER AUDIENCE (n - 7200) (n - 3600)))"

definition rejects_an_untrusted_issuer ::
  "('vk, 'sk, 'y) jwt_env_scheme \<Rightarrow> ('w, 'r, 'x) net_env_scheme \<Rightarrow> ('ch, 'z) broadcast_env_scheme \<Rightarrow>
     ('g, 'n, 'u) governor_scheme \<Rightarrow> (nat, unit) result \<Rightarrow> (nat, unit) result \<Rightarrow> instant \<Rightarrow> bool" where
  "rejects_an_untrusted_issuer E N B G os os' t =
     with_schema (build_state E N B G flow_common 1000) (\<lambda>schema.
       let n = flow_now os in
       is_some_and (\<lambda>token.
         data_of (mutation_verify_jwt E B G os' t token None None (schema_data schema)) (\<lambda>v state.
           \<not> go_valid v \<and> gc_signature (go_checks v) \<and> \<not> gc_issuer_trusted (go_checks v)))
         (flow_mint E ''https://evil.example'' AUDIENCE (n - 60) (n + 3600)))"

definition health_and_version_queries_resolve ::
  "('vk, 'sk, 'y) jwt_env_scheme \<Rightarrow> ('w, 'r, 'x) net_env_scheme \<Rightarrow> ('ch, 'z) broadcast_env_scheme \<Rightarrow>
     ('g, 'n, 'u) governor_scheme \<Rightarrow> bool" where
  "health_and_version_queries_resolve E N B G =
     with_schema (build_state E N B G flow_common 1000) (\<lambda>schema.
       let policy = query_trust_policy (schema_data schema); keys = query_jwks (schema_data schema) in
       query_health \<and> query_api_version = ''0.1.0''
       \<and> gp_expected_audience policy = Some AUDIENCE \<and> gp_leeway_secs policy = 60
       \<and> gp_trusted_issuers policy = [ISSUER]
       \<and> (case gk_keys keys of [] \<Rightarrow> False
          | k # _ \<Rightarrow> gk_kty k = ''OKP'' \<and> gk_crv k = ''Ed25519'' \<and> gk_kid k = Some LOCAL_KID))"

section \<open>The tests pass\<close>

lemma local_jwks_for: "local_jwks E seed = jwks_for E (local_signer E seed) LOCAL_KID"
  by (simp add: local_jwks_def jwks_for_def)

lemma flow_mint: "flow_mint E issuer aud nbf exp' = mint E (local_signer E SEED) LOCAL_KID (flow_claims issuer aud nbf exp')"
  by (simp add: flow_mint_def mint_def mint_header_def)

lemma flow_claims_simps [simp]:
  "claim_iss (flow_claims issuer aud nbf exp') = Some issuer"
  "claim_sub (flow_claims issuer aud nbf exp') = Some ''user-1''"
  by (simp_all add: flow_claims_def)

text \<open>The answer to a token mutation at a node just built, and the statistics after it.\<close>

lemma flow_answer:
  assumes "base64_roundtrip E" "base64_dotfree E" "key_roundtrip E" "signatures_verify E"
    and "json_header E (mint_header LOCAL_KID)" "json_claims E (flow_claims issuer aud nbf exp')"
    and "burst_equals_rate G 1000"
  obtains state token s' where "build_state E N B G flow_common 1000 = Some (Ok state)"
    "flow_mint E issuer aud nbf exp' = Some token"
    "mutation_verify_jwt E B G os' t token None None state =
       (Ok (gql_outcome_of (granted (flow_claims issuer aud nbf exp') (build_policy flow_common)
          (now_unix os' System_Wall_Clock))), s')"
    "sv_counters (ss_verifier s') = count_outcome (granted (flow_claims issuer aud nbf exp')
       (build_policy flow_common) (now_unix os' System_Wall_Clock)) counters_default"
proof -
  let ?sk = "local_signer E SEED"
  obtain state where state: "build_state E N B G flow_common 1000 = Some (Ok state)"
    using build_state_static [of flow_common E N B G 1000] by (auto simp: flow_common_def)
  note ports = build_state_Ok [OF state]
  obtain token where token: "mint E ?sk LOCAL_KID (flow_claims issuer aud nbf exp') = Some token"
    "\<And>p now. verify_jwt E token (jwks_for E ?sk LOCAL_KID) p now = granted (flow_claims issuer aud nbf exp') p now"
    by (rule minted_granted [OF assms(1-6), of ?sk]) (rule that)
  have keys: "provider_current (sv_jwks (ss_verifier state)) = jwks_for E ?sk LOCAL_KID"
    using ports(1) by (simp add: service_jwks_def local_jwks_for flow_common_def)
  have "ss_rate_limiter state = ext_direct_per_second G 1000"
    using ports(5) by (auto simp: rate_limiter_per_second_def max_def word_le_nat_alt split: if_splits)
  then have "checks_at G t 1 (ss_rate_limiter state) = [True]"
    using assms(7) [unfolded burst_equals_rate_def, rule_format, of t 1] by (simp del: checks_at.simps)
  then obtain g where "ext_check G (ss_rate_limiter state) t = (Ok (), g)"
    by (auto simp: is_ok_def split: prod.splits sum.splits)
  then have lim: "rate_limit G t state = (Ok (), state\<lparr>ss_rate_limiter := g\<rparr>)"
    by (simp add: rate_limit_def rate_limiter_try_acquire_def)
  let ?out = "granted (flow_claims issuer aud nbf exp') (build_policy flow_common) (now_unix os' System_Wall_Clock)"
  let ?v = "service_record B ?out (now_unix os' System_Wall_Clock) (ss_verifier state)"
  have "mutation_verify_jwt E B G os' t token None None state =
      (Ok (gql_outcome_of ?out), \<lparr> ss_verifier = ?v, ss_rate_limiter = g \<rparr>)"
    by (cases state) (use lim ports(2,3) keys in \<open>simp add: mutation_verify_jwt_def build_override_None
        service_verify_jwt_def token(2) Let_def\<close>)
  moreover have "sv_counters ?v = count_outcome ?out counters_default"
    using ports(4) by (simp add: service_record_def)
  ultimately show ?thesis
    using that [OF state, of token "\<lparr> ss_verifier = ?v, ss_rate_limiter = g \<rparr>"] token(1) by (simp add: flow_mint)
qed

definition flow_backend :: "('vk, 'sk, 'y) jwt_env_scheme \<Rightarrow> i64 \<Rightarrow> bool" where
  \<comment> \<open>what the tests need of the backend when they run at \<open>n\<close>\<close>
  "flow_backend E n \<longleftrightarrow> base64_roundtrip E \<and> base64_dotfree E \<and> key_roundtrip E \<and> signatures_verify E
     \<and> json_header E (mint_header LOCAL_KID)
     \<and> json_claims E (flow_claims ISSUER AUDIENCE (n - 60) (n + 3600))
     \<and> json_claims E (flow_claims ISSUER AUDIENCE (n - 7200) (n - 3600))
     \<and> json_claims E (flow_claims ''https://evil.example'' AUDIENCE (n - 60) (n + 3600))"

lemma flow_checks:
  assumes "secs \<le> secs'" "secs' < secs + 3600" "secs' < 2 ^ 62"
  shows "jwt_checks (flow_claims issuer AUDIENCE (word_of_nat secs - 60) (word_of_nat secs + 3600))
      (build_policy flow_common) (now_unix (Ok secs') System_Wall_Clock)
        = all_passing\<lparr>chk_issuer_trusted := (issuer = ISSUER)\<rparr>"
    and "\<not> chk_not_expired (jwt_checks (flow_claims issuer AUDIENCE (word_of_nat secs - 7200) (word_of_nat secs - 3600))
      (build_policy flow_common) (now_unix (Ok secs') System_Wall_Clock))"
    and "first_failure (jwt_checks (flow_claims ISSUER AUDIENCE (word_of_nat secs - 7200) (word_of_nat secs - 3600))
      (build_policy flow_common) (now_unix (Ok secs') System_Wall_Clock)) = Some ''artifact has expired (exp)''"
proof -
  let ?n = "word_of_nat secs :: i64" and ?n' = "word_of_nat secs' :: i64"
  have n: "sint ?n = int secs" "sint ?n' = int secs'"
    using now_unix_exact [of secs] now_unix_exact [of secs'] assms by simp_all
  have "int secs' < 2 ^ 62"
    using assms(3) by (metis of_nat_less_iff of_nat_numeral of_nat_power)
  then have fits: "i64_fits (int secs + k)" "i64_fits (int secs' + k)" if "- 100000 \<le> k" "k \<le> 100000" for k
    using assms(1) that by (simp_all add: i64_fits_def)
  have sint: "sint (?n - 60) = int secs - 60" "sint (?n + 3600) = int secs + 3600"
    "sint (?n - 7200) = int secs - 7200" "sint (?n - 3600) = int secs - 3600"
    "sint (?n' - 60) = int secs' - 60" "sint (?n' + 60) = int secs' + 60"
    using fits(1) [of "-60"] fits(1) [of 3600] fits(1) [of "-7200"] fits(1) [of "-3600"] fits(2) [of "-60"] fits(2) [of 60]
    by (simp_all add: sint_sub_fits sint_add_fits sub_fits_def add_fits_def n)
  have order: "?n' - 60 <s ?n + 3600" "?n - 60 <=s ?n' + 60" "\<not> ?n' - 60 <s ?n - 3600" "?n - 7200 <=s ?n' + 60"
    using assms(1,2) by (simp_all add: word_sless_alt word_sle_eq sint)
  have trusted: "issuer_trusted (build_policy flow_common) (Some i) \<longleftrightarrow> i = ISSUER" for i
    by (simp add: build_policy_trusts flow_common_def)
  note facts = jwt_checks_def flow_claims_def flow_common_def order trusted [unfolded flow_common_def] all_passing_def Let_def
  show "jwt_checks (flow_claims issuer AUDIENCE (?n - 60) (?n + 3600))
      (build_policy flow_common) (now_unix (Ok secs') System_Wall_Clock)
        = all_passing\<lparr>chk_issuer_trusted := (issuer = ISSUER)\<rparr>"
    "\<not> chk_not_expired (jwt_checks (flow_claims issuer AUDIENCE (?n - 7200) (?n - 3600))
      (build_policy flow_common) (now_unix (Ok secs') System_Wall_Clock))"
    "first_failure (jwt_checks (flow_claims ISSUER AUDIENCE (?n - 7200) (?n - 3600))
      (build_policy flow_common) (now_unix (Ok secs') System_Wall_Clock)) = Some ''artifact has expired (exp)''"
    by (simp_all add: facts first_failure_def)
qed

text \<open>
  The integration tests pass with every documented backend, when the service reads its clock less
  than an hour after the test did.
\<close>

theorem flow_tests_pass:
  assumes "flow_backend E (flow_now (Ok secs))" "burst_equals_rate G 1000"
    and "secs \<le> secs'" "secs' < secs + 3600" "secs' < 2 ^ 62"
  shows "verifies_a_valid_jwt_and_updates_stats E N B G (Ok secs) (Ok secs') t
    \<and> rejects_an_expired_jwt_with_a_reason E N B G (Ok secs) (Ok secs') t
    \<and> rejects_an_untrusted_issuer E N B G (Ok secs) (Ok secs') t
    \<and> health_and_version_queries_resolve E N B G"
proof (intro conjI)
  let ?n = "word_of_nat secs :: i64"
  have backend: "base64_roundtrip E" "base64_dotfree E" "key_roundtrip E" "signatures_verify E"
    "json_header E (mint_header LOCAL_KID)"
    and claims: "json_claims E (flow_claims ISSUER AUDIENCE (?n - 60) (?n + 3600))"
     "json_claims E (flow_claims ISSUER AUDIENCE (?n - 7200) (?n - 3600))"
     "json_claims E (flow_claims ''https://evil.example'' AUDIENCE (?n - 60) (?n + 3600))"
    using assms(1) by (simp_all add: flow_backend_def flow_now_def)
  note checks = flow_checks [OF assms(3-5)]
  note unfold = with_schema_def data_of_def build_schema_def flow_now_def gql_outcome_of_def gql_checks_of_def
    granted_def checks all_passing_def checks_all_def
  have "ISSUER \<noteq> ''https://evil.example''" by (simp add: ISSUER_def)
  note evil = this [symmetric]
  have shown: "sublist ''exp'' ''artifact has expired (exp)''" by code_simp
  show "verifies_a_valid_jwt_and_updates_stats E N B G (Ok secs) (Ok secs') t"
    by (rule flow_answer [OF backend claims(1) assms(2), of N B "Ok secs'" t])
      (simp add: verifies_a_valid_jwt_and_updates_stats_def unfold query_stats_def service_stats_def
        count_outcome_def counters_default_def Let_def del: now_unix.simps)
  show "rejects_an_expired_jwt_with_a_reason E N B G (Ok secs) (Ok secs') t"
    by (rule flow_answer [OF backend claims(2) assms(2), of N B "Ok secs'" t])
      (simp add: rejects_an_expired_jwt_with_a_reason_def unfold shown Let_def del: now_unix.simps)
  show "rejects_an_untrusted_issuer E N B G (Ok secs) (Ok secs') t"
    by (rule flow_answer [OF backend claims(3) assms(2), of N B "Ok secs'" t])
      (simp add: rejects_an_untrusted_issuer_def unfold evil Let_def del: now_unix.simps)
  obtain state where state: "build_state E N B G flow_common 1000 = Some (Ok state)"
    using build_state_static [of flow_common E N B G 1000] by (auto simp: flow_common_def)
  show "health_and_version_queries_resolve E N B G"
    using build_state_Ok(1,2) [OF state]
    by (simp add: health_and_version_queries_resolve_def with_schema_def state build_schema_def query_health_def
        query_api_version_def query_trust_policy_def service_policy_def query_jwks_def gql_policy_of_def gql_jwks_of_def Let_def)
      (simp add: flow_common_def iter_set_def sorted_list_of_fset.rep_eq local_jwks_def jwks_from_keys_def jwk_from_verifying_key_def
        JWK_KTY_def JWK_CRV_def)
qed

definition sample_flow_env :: "(byte, byte) jwt_env" where
  "sample_flow_env = (let n = word_of_nat 1700000000 in
     sample_jwt_env [mint_header LOCAL_KID]
       [flow_claims ISSUER AUDIENCE (n - 60) (n + 3600), flow_claims ISSUER AUDIENCE (n - 7200) (n - 3600),
        flow_claims ''https://evil.example'' AUDIENCE (n - 60) (n + 3600)] [] ())"

theorem flow_tests_pass_witness:
  "rejects_an_expired_jwt_with_a_reason sample_flow_env dead_net list_channel counting_governor
     (Ok 1700000000) (Ok 1700000001) 0"
proof -
  have "flow_backend sample_flow_env (flow_now (Ok 1700000000))"
    by (simp add: flow_backend_def flow_now_def sample_flow_env_def Let_def sample_json_header sample_json_claims
        del: of_nat_numeral)
  from flow_tests_pass [OF this counting_burst, of 1700000001 dead_net list_channel 0] show ?thesis by simp
qed

end
