(* ===== verification/Key_Rotation.thy ===== *)
theory Key_Rotation
  imports Verifier
begin

text \<open>
  How decisions depend on the key set, as an operator sees it who rotates keys: only the key that
  \<open>Jwks::find\<close> selects for the token matters, so what a change of the set does to a token is decided
  by its key id.
\<close>

lemma verify_jwt_same_key:
  assumes "signed_jwt_parse E token = Ok j"
    and "jwks_find ks (hdr_kid (sj_header j)) = jwks_find ks' (hdr_kid (sj_header j))"
  shows "verify_jwt E token ks p now = verify_jwt E token ks' p now"
  by (simp add: verify_jwt_def signed_jwt_verify_with_def assms)

lemma find_append: "List.find P (xs @ ys) = (case List.find P xs of None \<Rightarrow> List.find P ys | Some x \<Rightarrow> Some x)"
  by (induction xs) simp_all

lemma jwks_find_append:
  "jwks_find (jwks_from_keys (ks @ added)) (Some kid) =
     (case jwks_find (jwks_from_keys ks) (Some kid) of
        None \<Rightarrow> jwks_find (jwks_from_keys added) (Some kid) | Some k \<Rightarrow> Some k)"
  by (simp add: jwks_find_def jwks_from_keys_def find_append split: option.split)

text \<open>
  C27: rotating keys. For a token that names a key id: keys appended to a set that knows the id, and
  keys prepended that carry other ids, change nothing; but of two keys with its id the first one
  alone decides, so a key prepended under the same id replaces the old one at once. For a token
  without key id, any set but a single key rejects, so the second key of a rotation locks it out.
\<close>

theorem key_rotation:
  assumes "signed_jwt_parse E token = Ok j" and "hdr_alg (sj_header j) = JWT_ALG"
  shows "case hdr_kid (sj_header j) of
      Some kid \<Rightarrow>
        ((\<exists>k \<in> set ks. jwk_kid k = Some kid) \<longrightarrow>
           verify_jwt E token (jwks_from_keys (ks @ added)) p now = verify_jwt E token (jwks_from_keys ks) p now)
      \<and> ((\<forall>k \<in> set others. jwk_kid k \<noteq> Some kid) \<longrightarrow>
           verify_jwt E token (jwks_from_keys (others @ ks)) p now = verify_jwt E token (jwks_from_keys ks) p now)
      \<and> (jwk_kid first = Some kid \<longrightarrow>
           verify_jwt E token (jwks_from_keys (first # ks)) p now = verify_jwt E token (jwks_from_keys [first]) p now)
    | None \<Rightarrow> length ks \<noteq> 1 \<longrightarrow>
        verify_jwt E token (jwks_from_keys ks) p now = rejected Jwt_Kind ''unknown key id: ''"
proof (cases "hdr_kid (sj_header j)")
  case None
  then show ?thesis
    using assms by (simp add: verify_jwt_def signed_jwt_verify_with_def jwks_find_def jwks_from_keys_def
        unwrap_or_empty_def)
next
  case (Some kid)
  have same: "jwks_find A (Some kid) = jwks_find B (Some kid) \<Longrightarrow>
      verify_jwt E token A p now = verify_jwt E token B p now" for A B
    by (rule verify_jwt_same_key [OF assms(1)]) (simp add: Some)
  have none: "jwks_find (jwks_from_keys ks) (Some kid) = None \<longleftrightarrow> (\<forall>k \<in> set ks. jwk_kid k \<noteq> Some kid)" for ks
    by (simp add: jwks_find_kid_None jwks_from_keys_def list_all_iff)
  have "(\<exists>k \<in> set ks. jwk_kid k = Some kid) \<longrightarrow>
      jwks_find (jwks_from_keys (ks @ added)) (Some kid) = jwks_find (jwks_from_keys ks) (Some kid)"
    using none [of ks] by (auto simp: jwks_find_append split: option.split)
  moreover have "(\<forall>k \<in> set others. jwk_kid k \<noteq> Some kid) \<longrightarrow>
      jwks_find (jwks_from_keys (others @ ks)) (Some kid) = jwks_find (jwks_from_keys ks) (Some kid)"
    using none [of others] by (auto simp: jwks_find_append)
  moreover have "jwk_kid first = Some kid \<longrightarrow>
      jwks_find (jwks_from_keys (first # ks)) (Some kid) = jwks_find (jwks_from_keys [first]) (Some kid)"
    by (simp add: jwks_find_def jwks_from_keys_def)
  ultimately show ?thesis
    unfolding Some option.case by (intro conjI impI same) blast+
qed

theorem key_rotation_witness:
  "let old = jwk_from_verifying_key sample_env 5 ''k1''; new = jwk_from_verifying_key sample_env 6 ''k2'' in
   out_valid (verify_jwt sample_env sample_minted (jwks_from_keys ([old] @ [new])) sample_policy 1500)"
proof -
  obtain j where j: "signed_jwt_parse sample_env sample_minted = Ok j" "sj_header j = sample_header"
    by (rule sample_minted_parses) (rule that)
  have alg: "hdr_alg (sj_header j) = JWT_ALG" and kid: "hdr_kid (sj_header j) = Some ''k1''"
    by (simp_all add: j(2) sample_header_def JWT_ALG_def)
  have "verify_jwt sample_env sample_minted (jwks_from_keys ([jwk_from_verifying_key sample_env 5 ''k1'']
      @ [jwk_from_verifying_key sample_env 6 ''k2''])) sample_policy 1500
     = verify_jwt sample_env sample_minted (sample_jwks sample_env 5) sample_policy 1500"
    using key_rotation [OF j(1) alg, of "[jwk_from_verifying_key sample_env 5 ''k1'']" sample_policy 1500
        "[jwk_from_verifying_key sample_env 6 ''k2'']"] kid
    by (simp add: jwk_from_verifying_key_def)
  then show ?thesis
    using sample_accepted_at [of 1500] by (simp add: Let_def)
qed

end
