(* ===== verification/Verify_Bench.thy ===== *)
theory Verify_Bench
  imports Key_Rotation Verifier_Tests
begin

text \<open>
  \<open>edgeauth-verifier/benches/verify.rs\<close>: what each benchmark verifies. Its \<open>debug_assert\<close>s claim
  that every verification it measures accepts; the definitions compute that claim. Writing the key
  set as JSON is a parameter.
\<close>

section \<open>Benchmarks\<close>

definition bench_claims :: jwt_claims where
  "bench_claims = \<lparr> claim_iss = Some ''https://issuer.example'', claim_sub = Some ''user-1'',
     claim_aud = Some (Single ''edge-api''), claim_exp = Some 4000000000, claim_nbf = Some 1000,
     claim_iat = Some 1000, claim_jti = Some ''tok-1'', claim_scope = Some ''openid documents:read'',
     claim_roles = [''editor''] \<rparr>"

definition sample_token :: "('vk, 'sk, 'z) jwt_env_scheme \<Rightarrow> 'sk \<Rightarrow> string \<Rightarrow> string option" where
  "sample_token E sk kid =
     (case encode_jwt E \<lparr> hdr_alg = JWT_ALG, hdr_typ = Some ''JWT'', hdr_kid = Some kid \<rparr> bench_claims sk of
        Err e \<Rightarrow> None | Ok token \<Rightarrow> Some token)"

definition bench_unsigned :: "('vk, 'sk, 'z) primitives_scheme \<Rightarrow> verifiable_credential" where
  "bench_unsigned E =
     \<lparr> vc_id = ''cred-1'', vc_credential_type = ''KycVerified'',
       vc_issuer = did_from_verifying_key E (ext_sk_verifying_key E (signing_key E 1)),
       vc_subject = \<lparr> subj_id = did_from_verifying_key E (ext_sk_verifying_key E (signing_key E 2)),
         subj_claims = fmupd ''kyc'' ''verified'' fmempty \<rparr>,
       vc_issued_at = 1000, vc_expires_at = Some 4000000000, vc_proof = None \<rparr>"

definition sample_credential :: "('vk, 'sk, 'z) vc_env_scheme \<Rightarrow> verifiable_credential option" where
  "sample_credential E =
     (case sign_with E (bench_unsigned E) (signing_key E 1) 1000 of Err e \<Rightarrow> None | Ok vc \<Rightarrow> Some vc)"

definition bench_policy :: trust_policy where
  "bench_policy = with_leeway (requiring_scope (with_audience
     (with_trusted_issuer permissive ''https://issuer.example'') ''edge-api'') ''openid'') 30"

definition bench_now :: i64 where
  "bench_now = 2000000000"

definition jwt_verify_hot :: "('vk, 'sk, 'z) jwt_env_scheme \<Rightarrow> bool" where
  "jwt_verify_hot E = is_some_and (\<lambda>token.
     out_valid (verify_jwt E token (jwks_for E (signing_key E 1) ''k1'') bench_policy bench_now))
     (sample_token E (signing_key E 1) ''k1'')"

definition jwt_verify_cold ::
  "('vk, 'sk, 'z) jwt_env_scheme \<Rightarrow> (jwks \<Rightarrow> (string, string) result) \<Rightarrow> bool" where
  "jwt_verify_cold E write_jwks = is_some_and (\<lambda>token.
     case write_jwks (jwks_for E (signing_key E 1) ''k1'') of
       Err e \<Rightarrow> False
     | Ok jwks_json \<Rightarrow>
         (case jwks_from_json E jwks_json of
            Err e \<Rightarrow> False
          | Ok ks \<Rightarrow> out_valid (verify_jwt E token ks bench_policy bench_now)))
     (sample_token E (signing_key E 1) ''k1'')"

definition credential_verify :: "('vk, 'sk, 'z) vc_env_scheme \<Rightarrow> bool" where
  "credential_verify E = is_some_and (\<lambda>vc.
     out_valid (verify_credential E vc (with_trusted_issuer permissive (did_as_str (vc_issuer vc))) bench_now))
     (sample_credential E)"

definition bench_keys :: "('vk, 'sk, 'z) primitives_scheme \<Rightarrow> nat \<Rightarrow> jwk list" where
  "bench_keys E size' =
     map (\<lambda>i. jwk_from_verifying_key E
            (ext_sk_verifying_key E (signing_key E (word_of_nat i + 10))) (''k'' @ show_nat i)) [0..<size']
     @ [jwk_from_verifying_key E (ext_sk_verifying_key E (signing_key E 1)) ''k1'']"

definition jwt_verify_by_jwks_size :: "('vk, 'sk, 'z) jwt_env_scheme \<Rightarrow> nat \<Rightarrow> bool" where
  "jwt_verify_by_jwks_size E size' = is_some_and (\<lambda>token.
     out_valid (verify_jwt E token (jwks_from_keys (bench_keys E size')) bench_policy bench_now))
     (sample_token E (signing_key E 1) ''k1'')"

section \<open>What they measure\<close>

lemma bench_granted: "out_valid (granted bench_claims bench_policy bench_now)"
proof -
  have "split_whitespace ''openid documents:read'' = [''openid'', ''documents:read'']"
    by (rule sample_scopes)
  then show ?thesis
    by (simp add: granted_def bench_claims_def bench_policy_def bench_now_def jwt_checks_def checks_all_def
        policy_defs issuer_trusted_def claims_scopes_def Let_def)
qed

lemma sample_token_mint: "sample_token E sk kid = mint E sk kid bench_claims"
  by (simp add: sample_token_def mint_def mint_header_def)

text \<open>The first key named \<open>k1\<close> of a set with at least two generated keys is the second generated one.\<close>

lemma bench_keys_k1:
  assumes "2 \<le> size'"
  shows "jwks_find (jwks_from_keys (bench_keys E size')) (Some ''k1'')
    = jwks_find (jwks_for E (signing_key E 11) ''k1'') (Some ''k1'')"
proof -
  have digits: "show_nat 0 = ''0''" "show_nat 1 = ''1''"
    by code_simp+
  obtain n where "size' = Suc (Suc n)"
    using assms by (metis Suc_le_D numeral_2_eq_2 Suc_le_mono)
  then have "[0..<size'] = 0 # 1 # [2..<size']"
    by (simp add: upt_conv_Cons numeral_2_eq_2 del: upt_Suc)
  then show ?thesis
    by (simp add: bench_keys_def digits jwks_find_def jwks_for_def jwks_from_keys_def jwk_from_verifying_key_def
        del: One_nat_def)
qed

definition bench_backend :: "('vk, 'sk, 'z) vc_env_scheme \<Rightarrow> bool" where
  "bench_backend E \<longleftrightarrow> base64_roundtrip E \<and> base64_dotfree E \<and> base58_roundtrip E \<and> hex_roundtrip E
     \<and> key_roundtrip E \<and> signatures_verify E
     \<and> json_header E (mint_header ''k1'') \<and> json_claims E bench_claims
     \<and> view_serializes E (unsigned_view_of (bench_unsigned E))"

lemma bench_token:
  assumes "base64_roundtrip E" "base64_dotfree E" "signatures_verify E" "json_header E (mint_header ''k1'')"
    "json_claims E bench_claims"
  obtains token j where "sample_token E sk ''k1'' = Some token" "signed_jwt_parse E token = Ok j"
    "sj_header j = mint_header ''k1''" "sj_signature j = ext_sk_sign E sk (as_bytes (sj_signing_input j))"
  by (rule encode_then_parse [OF assms, of sk]) (rule that, simp_all add: sample_token_mint mint_def)

lemma bench_credential:
  assumes "bench_backend E"
  shows "credential_verify E"
proof -
  have laws: "base58_roundtrip E" "key_roundtrip E" "hex_roundtrip E" "signatures_verify E"
    "view_serializes E (unsigned_view_of (bench_unsigned E))"
    using assms by (simp_all add: bench_backend_def)
  have issuer: "vc_issuer (bench_unsigned E) = did_from_verifying_key E (ext_sk_verifying_key E (signing_key E 1))"
    by (simp add: bench_unsigned_def)
  obtain vc where vc: "sign_with E (bench_unsigned E) (signing_key E 1) 1000 = Ok vc"
    "verify_signature E vc = Ok ()" "unsigned_view_of vc = unsigned_view_of (bench_unsigned E)"
    by (rule signed_verifies [OF laws(1-4) issuer laws(5), of 1000]) (rule that)
  then have "vc_issued_at vc = 1000" "vc_expires_at vc = Some 4000000000" "vc_issuer vc = vc_issuer (bench_unsigned E)"
    by (simp_all add: unsigned_view_of_def bench_unsigned_def)
  then have "out_valid (verify_credential E vc (with_trusted_issuer permissive (did_as_str (vc_issuer vc))) bench_now)"
    by (simp add: verify_credential_Ok [OF vc(2)] credential_checks_def validity_at_def checks_all_def policy_defs
        issuer_trusted_def bench_now_def Let_def del: did_key_collect)
  then show ?thesis
    by (simp add: credential_verify_def sample_credential_def vc(1))
qed

text \<open>
  The benchmarks measure accepting verifications, as their assertions say, with one exception: in
  the series over the size of the key set, every set of two or more generated keys contains
  another key named \<open>k1\<close> before the signer's, so these runs measure a failing signature check,
  unless that key accepts a signature of the signer's.
\<close>

theorem benchmark_verdicts:
  assumes "bench_backend E"
    and "write_jwks (jwks_for E (signing_key E 1) ''k1'') = Ok doc"
    and "ext_jwks_from_str E doc = Ok (jwks_for E (signing_key E 1) ''k1'')"
  shows "jwt_verify_hot E \<and> jwt_verify_cold E write_jwks \<and> credential_verify E
    \<and> jwt_verify_by_jwks_size E 1
    \<and> (\<forall>size' \<ge> 2. jwt_verify_by_jwks_size E size' \<longrightarrow>
         (\<exists>m. ext_vk_verify E (ext_sk_verifying_key E (signing_key E 11)) m (ext_sk_sign E (signing_key E 1) m)))"
proof -
  have laws: "base64_roundtrip E" "base64_dotfree E" "key_roundtrip E" "signatures_verify E"
    "json_header E (mint_header ''k1'')" "json_claims E bench_claims"
    using assms(1) by (simp_all add: bench_backend_def)
  obtain token j where token: "sample_token E (signing_key E 1) ''k1'' = Some token"
    "signed_jwt_parse E token = Ok j" "sj_header j = mint_header ''k1''"
    "sj_signature j = ext_sk_sign E (signing_key E 1) (as_bytes (sj_signing_input j))"
    by (rule bench_token [OF laws(1,2,4-6), of "signing_key E 1"]) (rule that)
  have kid: "hdr_kid (sj_header j) = Some ''k1''" by (simp add: token(3) mint_header_def)
  have valid: "out_valid (verify_jwt E token (jwks_for E (signing_key E 1) ''k1'') bench_policy bench_now)"
    by (rule minted_granted [OF laws, of "signing_key E 1"])
      (use token(1) bench_granted in \<open>simp add: sample_token_mint\<close>)
  have parsed: "jwks_from_json E doc = Ok (jwks_for E (signing_key E 1) ''k1'')"
    by (simp add: jwks_from_json_def assms(3))
  have zero: "show_nat 0 = ''0''" by code_simp
  have "jwks_find (jwks_from_keys (bench_keys E 1)) (Some ''k1'') = jwks_find (jwks_for E (signing_key E 1) ''k1'') (Some ''k1'')"
    by (simp add: bench_keys_def zero jwks_find_def jwks_for_def jwks_from_keys_def jwk_from_verifying_key_def)
  from verify_jwt_same_key [OF token(2), unfolded kid, OF this] valid
  have one: "jwt_verify_by_jwks_size E 1"
    unfolding jwt_verify_by_jwks_size_def token(1) by simp
  have "\<exists>m. ext_vk_verify E (ext_sk_verifying_key E (signing_key E 11)) m (ext_sk_sign E (signing_key E 1) m)"
    if "2 \<le> size'" "jwt_verify_by_jwks_size E size'" for size'
  proof -
    have "out_valid (verify_jwt E token (jwks_for E (signing_key E 11) ''k1'') bench_policy bench_now)"
      using that(2) verify_jwt_same_key [OF token(2), unfolded kid, OF bench_keys_k1 [OF that(1)], of E bench_policy bench_now]
      unfolding jwt_verify_by_jwks_size_def token(1) by simp
    then have "signed_jwt_verify_with E j (jwks_for E (signing_key E 11) ''k1'') = Ok ()"
      using token(2) by (auto simp: verify_jwt_valid_iff)
    then show ?thesis
      using kid laws(1,3) token(4)
      by (auto simp: signed_jwt_verify_with_def jwks_for_def split: if_splits)
  qed
  then show ?thesis
    using valid one bench_credential [OF assms(1)]
    by (simp add: jwt_verify_hot_def jwt_verify_cold_def token(1) assms(2) parsed)
qed

definition bench_env :: "(byte, byte) vc_env" where
  "bench_env = sample_vc_env [unsigned_view_of (bench_unsigned (sample_primitives ()))] []
     [mint_header ''k1''] [bench_claims] [sample_jwks (sample_primitives ()) 1] ()"

lemma sample_signing_key: "signing_key (sample_primitives z) k = k"
proof -
  have "replicate 32 k = k # replicate 31 k" by (simp add: numeral_eq_Suc)
  then show ?thesis by (simp add: signing_key_def sample_primitives_def)
qed

lemma bench_env_keys [simp]:
  "signing_key bench_env k = k" "ext_sk_verifying_key bench_env = id" "ext_sk_sign bench_env = sample_sign"
  "ext_vk_verify bench_env = (\<lambda>k m s. s = sample_sign k m)"
  "jwk_from_verifying_key bench_env = jwk_from_verifying_key (sample_primitives ())"
  "did_from_verifying_key bench_env = did_from_verifying_key (sample_primitives ())"
  by (rule ext | simp add: bench_env_def sample_vc_env_def sample_jwt_env_def sample_signing_key
      jwk_from_verifying_key_def did_from_verifying_key_def b64url_encode_def)+

theorem benchmark_verdicts_witness:
  "jwt_verify_hot bench_env \<and> jwt_verify_by_jwks_size bench_env 1 \<and> \<not> jwt_verify_by_jwks_size bench_env 64"
proof -
  let ?keys = "jwks_for bench_env (signing_key bench_env 1) ''k1''"
  have keys: "?keys = sample_jwks (sample_primitives ()) 1"
    by (simp add: jwks_for_def)
  have view: "bench_unsigned bench_env = bench_unsigned (sample_primitives ())"
    by (simp add: bench_unsigned_def sample_signing_key)
  have "view_serializes bench_env (unsigned_view_of (bench_unsigned (sample_primitives ())))"
    by (simp add: view_serializes_def bench_env_def table_to_vec_def)
  then have backend: "bench_backend bench_env"
    unfolding bench_backend_def view
    by (simp add: bench_env_def sample_vc_env_def sample_json_header sample_json_claims)
  obtain doc where "table_from_str [?keys] doc = Ok ?keys"
    using table_string_roundtrip [of ?keys "[?keys]"] by auto
  then have "ext_jwks_from_str bench_env doc = Ok ?keys"
    unfolding keys by (simp add: bench_env_def sample_vc_env_def sample_jwt_env_def sample_primitives_def)
  note verdicts = benchmark_verdicts [of bench_env "\<lambda>_. Ok doc" doc, OF backend refl this]
  have "\<not> ext_vk_verify bench_env (ext_sk_verifying_key bench_env (signing_key bench_env 11)) m
      (ext_sk_sign bench_env (signing_key bench_env 1) m)" for m
    by (simp add: sample_sign_def)
  then show ?thesis
    using verdicts by auto
qed

end
