(* ===== verification/Spec2Isabelle.thy ===== *)
theory Spec2Isabelle
  imports Server_Safety Wire_Env Debug_Build Refresher_Recovery Service_Metrics Graphql_Stream
    Resilience_Tests Infra_Tests Edge_Tests Node_Tests Verify_Bench
begin

text \<open>
  A verification library for EdgeAuth, a stateless identity verifier in Rust: it decides EdDSA
  JSON web tokens and \<open>did:key\<close> verifiable credentials against a trust policy, as a library, a
  WebAssembly module, a GraphQL service and a command-line node. All paths are relative to
  \<open>src/crates/\<close>.

  \<^bold>\<open>The program and the theories.\<close> A pure core is wrapped by stateful adapters:

  \<^item> \<open>edgeauth-types\<close>: \<open>Verify_Error\<close> (\<open>error.rs\<close>), \<open>Did_Key\<close> (\<open>did.rs\<close>), \<open>Jwt\<close> (\<open>jwt.rs\<close>),
    \<open>Credential\<close> (\<open>credential.rs\<close>), \<open>Trust_Policy\<close> (\<open>policy.rs\<close>) and \<open>Outcome\<close> (\<open>outcome.rs\<close>). Every
    struct is a record, every enum a datatype, every function a definition of the same name up
    to a prefix for the type (\<open>Jwks::find\<close> is \<open>jwks_find\<close>). \<open>Wire_Format\<close> has the JSON shapes that the
    \<open>serde\<close> attributes of these types ask for, and \<open>Wire_Env\<close> what they mean for the JSON functions
    the other theories take as parameters.
  \<^item> \<open>edgeauth-verifier\<close>: \<open>Verifier\<close> has \<open>verify_jwt\<close>, \<open>verify_credential\<close> and
    \<open>verify_credential_json\<close>, with \<open>jwt_checks\<close> and \<open>credential_checks\<close> for the checks they make;
    \<open>Key_Rotation\<close> has what a change of the key set does to a decision, and \<open>Debug_Build\<close> the same
    operations in a build with overflow checks.
  \<^item> \<open>edgeauth-resilience\<close>: \<open>Mono_Clock\<close>, \<open>Breaker\<close>, \<open>Retry\<close> and \<open>Rate_Limit\<close>. The breaker's state is
    what its mutex guards; each method holds the lock throughout and is one atomic step.
  \<^item> \<open>edgeauth-infra\<close>: \<open>Infra_Error\<close> (errors and wall clock), \<open>Jwks_Provider\<close> (the key providers:
    cache, breaker and retries around one HTTP request), \<open>Key_Source\<close> (where a provider's keys can
    come from), \<open>Concurrent_Refresh\<close> (several refreshes
    in flight, as a step relation between the await points), \<open>Audit_Log\<close> (events and sinks),
    \<open>Service\<close> (the application service: ports, counters, overrides), \<open>Service_Metrics\<close> (the same
    operations with the exported metrics) and \<open>Concurrent_Service\<close> (any number of requests in
    flight, as a step relation between the accesses to shared state).
  \<^item> \<open>edgeauth-api\<close>: \<open>Graphql_Api\<close> (types, projections, resolvers, state), \<open>Graphql_Stream\<close> (what
    a subscriber sees of other clients' mutations) and \<open>Http_Router\<close> (\<open>lib.rs\<close> and \<open>build_router\<close>:
    which request reaches which handler, behind which layers).
  \<^item> \<open>edgeauth-wasm\<close>: \<open>Edge_Wasm\<close>, the exported functions with the conversion of the \<open>f64\<close> time.
  \<^item> \<open>edgeauth-node\<close>: \<open>Node_Startup\<close> (configuration, composition root, background refresher),
    \<open>Refresher_Recovery\<close> (the refresher with everything under it), \<open>Telemetry\<close> (\<open>telemetry.rs\<close>),
    \<open>Node_Console\<close> (printing; the \<open>verify\<close> command), \<open>Node_Mint\<close>, \<open>Node_Demo\<close> and \<open>Node_Main\<close> (the
    \<open>serve\<close> command and the dispatch of \<open>main\<close>).
  \<^item> The running server puts the layers together: \<open>Server_Run\<close> interleaves the rate limiter, the
    requests of \<open>Concurrent_Service\<close> and the refreshes of \<open>Concurrent_Refresh\<close>, \<open>Server_Handlers\<close> shows
    that the resolvers as written are such executions, and \<open>Server_Safety\<close> what holds of every
    execution of a server that \<open>serve\<close> has started.
  \<^item> The unit tests inside the source files are translated in \<open>Types_Tests\<close>, \<open>Verifier_Tests\<close>,
    \<open>Resilience_Tests\<close>, \<open>Infra_Tests\<close> and \<open>Edge_Tests\<close>: a test is a truth value computed by the model, and
    it is proved for every backend that behaves as documented, so the model agrees with what the
    authors expect of the code. Tests of tampering rest on unforgeability: they pass, or a forgery
    is exhibited. \<open>Node_Tests\<close> has the integration tests of \<open>edgeauth-node\<close>, a GraphQL document being
    the resolver calls of the fields it selects, and \<open>Verify_Bench\<close> what the benchmarks of
    \<open>edgeauth-verifier\<close> verify.
  \<^item> Support: \<open>Rust_Prelude\<close> (results, options, strings, \<open>split\<close>, \<open>split_whitespace\<close>, checked reading
    of \<open>i64\<close> arithmetic, ordered iteration of sets), \<open>Transition\<close> (executions of labelled steps and
    the invariant rule), \<open>Crypto_Interface\<close> and \<open>Sample_Primitives\<close>.

  \<^bold>\<open>What is a parameter.\<close> Code that is not in the repository is an argument of the definitions that
  use it, grouped in extensible records: \<open>primitives\<close> (ed25519-dalek, base64, bs58, hex),
  \<open>jwt_env\<close>, \<open>vc_env\<close>, \<open>node_env\<close> and \<open>wasm_env\<close> (the derived serde_json functions), \<open>net_env\<close>
  (reqwest, tokio's sleep and timeout, the monotonic timer), \<open>broadcast_env\<close> (tokio's channel),
  \<open>governor\<close> (the token bucket), \<open>metrics_env\<close> (the recorder's counters), \<open>axum_env\<close> (the router's
  builder), \<open>tracing_env\<close> (the subscriber) and \<open>server_env\<close> (installing the recorder, socket,
  Ctrl-C, HTTP server). What a theorem needs of them is a named hypothesis of documented behaviour: \<open>base64_roundtrip\<close>,
  \<open>base64_dotfree\<close>, \<open>base58_roundtrip\<close>, \<open>hex_roundtrip\<close>, \<open>key_roundtrip\<close>, \<open>signatures_verify\<close>,
  \<open>json_header\<close>, \<open>json_claims\<close>, \<open>json_credential\<close>, \<open>timeout_transparent\<close>, \<open>burst_equals_rate\<close>,
  \<open>broadcast_delivers\<close>, \<open>metrics_documented\<close>, \<open>axum_documented\<close>, \<open>slot_documented\<close>,
  \<open>time_forward\<close>, \<open>ticks_by\<close>, \<open>issuer_answers\<close>, \<open>serde_documented\<close>, \<open>serde_edge_documented\<close> and
  \<open>text_reads_back\<close>. The laws of single JSON functions among them follow from the last three
  (\<open>serde_header\<close>, \<open>serde_claims\<close>, \<open>serde_credential\<close>, \<open>serde_view\<close>, \<open>serde_views_distinct\<close>).
  Unforgeability is never assumed: what would need it is stated as the exhibition of a forgery, also
  in the demonstration (\<open>demo_forgery\<close>). \<open>Sample_Primitives\<close> and its extensions are concrete instances, on
  which the witnesses apply every theorem that has hypotheses.

  \<^bold>\<open>Effects.\<close> A handler returns its response with the next state of what it mutates; errors are
  values of \<open>('a, 'e) result\<close>; a possible panic is \<open>None\<close>, and within a command, where it ends what
  an early return would end too, a value of \<open>stop\<close>; the standard output is an argument that says
  which lines can be written, as \<open>println!\<close> panics when one cannot; clock readings are arguments, one for each
  reading the code makes. Machine integers have their width (\<open>i64\<close>, \<open>u32\<close>, \<open>u64\<close> are words), so
  \<open>now + leeway\<close> wraps as in a release build (\<open>Debug_Build\<close> has the panics of the other builds);
  instants and durations are nanoseconds as natural numbers, and advancing the manual clock past
  the platform's last instant panics. Strings are lists of bytes. The only loop, \<open>retry\<close>, recurses on the attempts that are left
  and terminates; no definition uses fuel. \<open>Concurrent_Refresh\<close>, \<open>Concurrent_Service\<close> and \<open>Server_Run\<close> put no
  bound on what is in flight or on the length of executions.

  \<^bold>\<open>What is proved.\<close>

  \<^item> Decisions: acceptance of tokens and credentials is characterised exactly, on integers, with the
    precise range in which the machine arithmetic agrees (\<open>time_fits\<close>: the time plus and minus the
    leeway stays within \<open>i64\<close>; \<open>jwt_accepted_iff\<close>, \<open>credential_accepted_iff\<close>) and what happens outside it, in either build (\<open>leeway_overflow_rejects\<close>,
    \<open>debug_build_agrees\<close>); an outcome
    is well formed, and names an identity only if a trusted key signed it; the algorithm is pinned;
    tampering with a signed credential exhibits a forgery; acceptance is an interval of time.
  \<^item> Round trips: keys through \<open>did:key\<close>, tokens through \<open>encode_jwt\<close> and the verifier, credentials
    through \<open>sign_with\<close>, JSON and the verifier, the fixtures of \<open>mint\<close> through a started node (which
    configurations accept them), and every type through its JSON shape; what the shapes let through (\<open>misspelt_policy_is_permissive\<close>)
    and refuse (\<open>inexact_dates_rejected\<close>).
  \<^item> Resilience: the breaker's invariant over all executions, its trip point, its cooldown and its
    half-open state; \<open>retry\<close> equals its reference and is bounded in calls and time; backoff delays.
  \<^item> Adapters: keys survive failed refreshes and come from the configured URL otherwise; a refresh
    after the cooldown recovers, and the node catches up with its issuer within three ticks;
    overlapping refreshes keep cache, reports and breaker consistent,
    and the sequential \<open>refresh\<close> is one of these executions; counters and audit events account for
    every decision, in sequence and in every interleaving of requests; decisions use one key set
    that was served and do not depend on history; what a concurrent \<open>stats\<close> reads; overrides;
    the exported metrics agree with the statistics and with the results of the refreshes; what
    rotating keys does to tokens.
  \<^item> Surfaces: the edge module and the server agree; the edge fails closed; rate limiting admits
    exactly the configured burst; a subscription mirrors the mutations' answers, refreshes included;
    the router answers the documented table, and a started server serves from the configured state;
    the node starts, prints and ends as described, and a command panics only at a line that the
    standard output does not take (\<open>panics_only_when_printing\<close>).
  \<^item> The whole: in every execution of a started server an accepted token is signed by a key of the
    built-in set or of one the configured URL has served, and passes the configured policy, on exact
    integers where \<open>time_fits\<close> holds (\<open>accepted_tokens_are_signed\<close>), and an accepted credential by the \<open>did:key\<close> of its configured
    issuer (\<open>accepted_credentials_are_signed\<close>); a burst causes no more work than the limiter admits
    (\<open>burst_work_bounded\<close>); the handlers are executions (\<open>mutations_are_executions\<close>).

  The interfaces are locales, each interpreted on the model's own definitions: \<open>decision_procedure\<close>
  (both verifiers), \<open>step_invariant\<close> and \<open>call_guard\<close> (the breaker; a refresh is such a guarded call),
  \<open>key_provider\<close> and its extension \<open>sourced_provider\<close> (the providers, and again the service built on
  them), and \<open>wire_type\<close> (a type and its JSON shape).

  \<^bold>\<open>Not modelled.\<close> Log lines, which nothing reads back; parsing of the command line (clap) and of
  GraphQL documents (async-graphql); what axum and the two layers do with a request once it is
  routed; the panic hook of the WebAssembly module; the timing of the benchmarks; reorderings of the
  relaxed loads and increments (each is one step, and steps take effect in the order they are made).
\<close>

section \<open>Properties that span components\<close>

text \<open>
  C17: the edge and the server agree. When the texts the host passes to the edge module are the
  server's policy and key set, and the server's clock reads the whole seconds of the host's
  time, the edge module returns the JSON of exactly the server's decision on every token and
  every credential document it can read.
\<close>

theorem edge_agrees_with_server:
  assumes "parse_policy E policy_json = Ok (sv_policy s)" "jwks_from_json E jwks_json = Ok (service_jwks s)"
    and "0 \<le> q" "q < 2 ^ 63" "sint (service_now os s) = \<lfloor>q\<rfloor>"
  shows "wasm_verify_jwt E token jwks_json policy_json (F64_Finite q)
       = wasm_to_json E (fst (service_verify_jwt E B os token None s))
     \<and> (case fst (service_verify_credential_json E B os doc None s) of
          Ok out \<Rightarrow> wasm_verify_credential E doc policy_json (F64_Finite q) = wasm_to_json E out
        | Err e \<Rightarrow> wasm_verify_credential E doc policy_json (F64_Finite q)
            = wasm_to_json E (rejected Vc_Kind (verify_error_display e)))"
proof -
  have "sint (f64_as_i64 (F64_Finite q)) = \<lfloor>q\<rfloor>"
    using assms(3,4) by (rule f64_whole_seconds)
  then have now: "f64_as_i64 (F64_Finite q) = service_now os s"
    using assms(5) by (metis signed_word_eqI)
  show ?thesis
    using assms(1,2)
    by (cases "ext_vc_from_str E doc")
      (simp_all add: wasm_verify_jwt_def wasm_verify_credential_def service_verify_jwt_def
        service_verify_credential_json_def verify_credential_json_def service_jwks_def now Let_def
        service_now_def [symmetric] del: f64_as_i64.simps)
qed


definition sample_edge_env :: "jwks list \<Rightarrow> (byte, byte) wasm_env" where
  "sample_edge_env js = sample_vc_env [] [] [] [] js
     (wasm_env_ext (\<lambda>_. Err ''unreadable'')
        (\<lambda>out. Ok (if out_valid out then ''valid'' else ''invalid'')) ())"

theorem edge_agrees_with_server_witness:
  "\<exists>doc. wasm_verify_jwt (sample_edge_env [sample_jwks sample_env 5]) ''token'' doc [] (F64_Finite (3001 / 2))
     = wasm_to_json (sample_edge_env [sample_jwks sample_env 5])
         (fst (service_verify_jwt (sample_edge_env [sample_jwks sample_env 5]) list_channel (Err ())
            ''token'' None (sample_service permissive)))"
proof -
  let ?keys = "sample_jwks sample_env 5"
  let ?E = "sample_edge_env [?keys]"
  obtain doc where "table_from_str [?keys] doc = Ok ?keys"
    using table_string_roundtrip [of ?keys "[?keys]"] by auto
  then have "jwks_from_json ?E doc = Ok (service_jwks (sample_service permissive))"
    by (simp add: jwks_from_json_def sample_edge_env_def sample_vc_env_def sample_jwt_env_def
        sample_primitives_def service_jwks_def)
  moreover have "parse_policy ?E [] = Ok (sv_policy (sample_service permissive))"
    by (simp add: parse_policy_def is_blank_def split_whitespace_def emit_word_def)
  moreover have "\<lfloor>3001 / 2 :: rat\<rfloor> = 1500" by (rule floor_unique) simp_all
  then have "sint (service_now (Err ()) (sample_service permissive)) = \<lfloor>3001 / 2 :: rat\<rfloor>"
    by (simp add: service_now_def)
  ultimately have "wasm_verify_jwt ?E ''token'' doc [] (F64_Finite (3001 / 2))
     = wasm_to_json ?E (fst (service_verify_jwt ?E list_channel (Err ()) ''token'' None (sample_service permissive)))"
    by (intro conjunct1 [OF edge_agrees_with_server]) simp_all
  then show ?thesis by (rule exI [of _ doc])
qed

end
